(* ===== verification/Prelude.thy ===== *)
theory Prelude
  imports Main "HOL-Library.Sublist" "HOL-Library.AList"
begin

text \<open>
  Shared ground of the irodsfsd development: Go error values, the collections of facts the
  component theories fill, and the generic lemmas on lists, options and association lists
  they use.

  A Go \<open>error\<close> is a \<open>gerror\<close>: the sentinel at the root of its wrap chain, which is what
  \<open>errors.Is\<close> looks for, and its text. The text is a list of fragments; a \<open>Quoted\<close> fragment
  stands for a value printed with the verb \<open>%q\<close>. A \<open>nil\<close> error is \<open>None\<close>, a function that
  returns a value or an error returns a sum with the error on the left.
\<close>

section \<open>Error values\<close>

datatype frag = Lit string | Quoted string

type_synonym message = "frag list"

datatype cause =
    Plain
  | ErrMountNotFound
  | ErrMountIDConflict
  | ErrMountPathConflict
  | ErrMountLimitReached
  | ErrDAVFSLazyUnmount
  | ContextCanceled
  | ContextDeadlineExceeded
  | BadgerKeyNotFound
  | BadgerConflict
  | ExitError int
  | NotExist

record gerror =
  cause :: cause
  errtext :: message

type_synonym 'a result = "gerror + 'a"

definition errors_New :: "string \<Rightarrow> gerror" where
  "errors_New s = \<lparr>cause = Plain, errtext = [Lit s]\<rparr>"

definition errors_Errorf :: "message \<Rightarrow> gerror" where
  "errors_Errorf m = \<lparr>cause = Plain, errtext = m\<rparr>"

definition errors_sentinel :: "cause \<Rightarrow> string \<Rightarrow> gerror" where
  "errors_sentinel c s = \<lparr>cause = c, errtext = [Lit s]\<rparr>"

definition errors_Wrapf :: "gerror \<Rightarrow> message \<Rightarrow> gerror" where
  "errors_Wrapf e m = e\<lparr>errtext := m @ [Lit '': ''] @ errtext e\<rparr>"

definition errors_Wrap :: "gerror \<Rightarrow> string \<Rightarrow> gerror" where
  "errors_Wrap e s = errors_Wrapf e [Lit s]"

definition errors_Is :: "gerror option \<Rightarrow> cause \<Rightarrow> bool" where
  "errors_Is e c = (case e of None \<Rightarrow> False | Some g \<Rightarrow> cause g = c)"

lemma cause_errors [simp]:
  "cause (errors_New s) = Plain"
  "cause (errors_Errorf m) = Plain"
  "cause (errors_sentinel c s) = c"
  "cause (errors_Wrapf e m) = cause e"
  "cause (errors_Wrap e s) = cause e"
  by (simp_all add: errors_New_def errors_Errorf_def errors_sentinel_def errors_Wrapf_def
      errors_Wrap_def)

lemma errors_Is_simps [simp]:
  "errors_Is None c = False"
  "errors_Is (Some g) c = (cause g = c)"
  by (simp_all add: errors_Is_def)

section \<open>Fact collections\<close>

named_theorems handler_defs "definitions of the mount manager's handlers"
named_theorems keeps "what the operations of a component leave unchanged"
named_theorems inv_intros "introduction rules of the component invariants"

section \<open>Options and sums\<close>

definition GetString :: "string option \<Rightarrow> string" where
  "GetString s = (case s of None \<Rightarrow> [] | Some v \<Rightarrow> v)"

lemma GetString_simps [simp]: "GetString None = []" "GetString (Some v) = v"
  by (simp_all add: GetString_def)

lemma case_sum_Inr_iff:
  "(case x of Inl e \<Rightarrow> Inl e | Inr v \<Rightarrow> f v) = Inr y \<longleftrightarrow> (\<exists>v. x = Inr v \<and> f v = Inr y)"
  by (cases x) auto

lemma case_option_None_iff:
  "(case x of Some e \<Rightarrow> Some e | None \<Rightarrow> y) = None \<longleftrightarrow> x = None \<and> y = None"
  by (cases x) auto

section \<open>Lists\<close>

lemma list_all2_set1:
  assumes "list_all2 P xs ys" and "x \<in> set xs"
  obtains y where "y \<in> set ys" and "P x y"
  using assms by (induction rule: list_all2_induct) auto

lemma list_all2_set2:
  assumes "list_all2 P xs ys" and "y \<in> set ys"
  obtains x where "x \<in> set xs" and "P x y"
  using assms by (induction rule: list_all2_induct) auto

lemma nth_update_if: "xs[a := v] ! b = (if a = b \<and> a < length xs then v else xs ! b)"
  by (metis list_update_beyond not_le_imp_less nth_list_update_eq nth_list_update_neq)

lemma map_update_same: "f v = f (xs ! a) \<Longrightarrow> map f (xs[a := v]) = map f xs"
  by (metis list_update_id map_update)

section \<open>Association lists used as Go maps\<close>

text \<open>
  A Go map whose keys are ranged over is an association list with distinct keys, so that
  its length and its iteration are executable.
\<close>

abbreviation wf_alist :: "('k \<times> 'v) list \<Rightarrow> bool" where
  "wf_alist xs \<equiv> distinct (map fst xs)"

lemma map_of_update [simp]: "map_of (AList.update k v xs) = (map_of xs)(k \<mapsto> v)"
  by (rule AList.update_conv')

lemma map_of_delete [simp]: "map_of (AList.delete k xs) = (map_of xs)(k := None)"
  by (rule AList.delete_conv')

lemma wf_alist_update [simp]: "wf_alist xs \<Longrightarrow> wf_alist (AList.update k v xs)"
  by (rule AList.distinct_update)

lemma wf_alist_delete [simp]: "wf_alist xs \<Longrightarrow> wf_alist (AList.delete k xs)"
  by (rule AList.distinct_delete)

lemma length_update_fresh:
  "map_of xs k = None \<Longrightarrow> length (AList.update k v xs) = Suc (length xs)"
  by (induction xs) auto

lemma length_update_present:
  "map_of xs k \<noteq> None \<Longrightarrow> length (AList.update k v xs) = length xs"
  by (induction xs) auto

lemma length_delete_le: "length (AList.delete k xs) \<le> length xs"
  by (simp add: AList.delete_eq)

lemma map_of_in_set: "map_of xs k = Some v \<Longrightarrow> (k, v) \<in> set xs"
  by (rule map_of_SomeD)

lemma in_set_map_of: "wf_alist xs \<Longrightarrow> (k, v) \<in> set xs \<Longrightarrow> map_of xs k = Some v"
  by (rule map_of_is_SomeI)

end
