(* ===== verification/GoStrings.thy ===== *)
theory GoStrings
  imports Prelude
begin

text \<open>
  What the program uses of Go's \<open>strings\<close>, \<open>bytes\<close> and \<open>strconv\<close> packages. A Go string is
  a sequence of bytes, here a list of 8-bit characters. \<open>split_on\<close> is \<open>strings.Split\<close> with a
  one-byte separator, \<open>join_with\<close> is \<open>strings.Join\<close> with one, \<open>ReplaceAll\<close> is
  \<open>strings.ReplaceAll\<close> for a non-empty pattern, \<open>TrimSpace\<close> trims the ASCII white space.
\<close>

section \<open>Splitting and joining\<close>

fun split_on :: "char \<Rightarrow> string \<Rightarrow> string list" where
  "split_on c [] = [[]]"
| "split_on c (x # xs) =
     (if x = c then [] # split_on c xs
      else (case split_on c xs of [] \<Rightarrow> [[x]] | y # ys \<Rightarrow> (x # y) # ys))"

fun join_with :: "char \<Rightarrow> string list \<Rightarrow> string" where
  "join_with c [] = []"
| "join_with c [x] = x"
| "join_with c (x # y # ys) = x @ c # join_with c (y # ys)"

lemma split_on_not_Nil [simp]: "split_on c s \<noteq> []"
  by (induction s) (auto split: list.splits)

lemma split_on_no_sep: "p \<in> set (split_on c s) \<Longrightarrow> c \<notin> set p"
proof (induction s arbitrary: p)
  case Nil
  then show ?case by simp
next
  case (Cons x xs)
  obtain y ys where "split_on c xs = y # ys" by (cases "split_on c xs") auto
  with Cons show ?case by (auto split: if_splits)
qed

lemma split_on_free: "c \<notin> set s \<Longrightarrow> split_on c s = [s]"
  by (induction s) auto

lemma split_on_append: "c \<notin> set p \<Longrightarrow> split_on c (p @ c # s) = p # split_on c s"
  by (induction p) auto

lemma join_split: "join_with c (split_on c s) = s"
proof (induction s)
  case (Cons x xs)
  obtain y ys where ys: "split_on c xs = y # ys" by (cases "split_on c xs") auto
  with Cons show ?case by (cases ys) auto
qed simp

lemma split_join:
  "cs \<noteq> [] \<Longrightarrow> (\<And>p. p \<in> set cs \<Longrightarrow> c \<notin> set p) \<Longrightarrow> split_on c (join_with c cs) = cs"
proof (induction c cs rule: join_with.induct)
  case (3 c x y ys)
  then show ?case by (simp add: split_on_append)
qed (auto simp: split_on_free)

lemma join_with_Cons: "cs \<noteq> [] \<Longrightarrow> join_with c (x # cs) = x @ c # join_with c cs"
  by (cases cs) auto

lemma join_with_append:
  "xs \<noteq> [] \<Longrightarrow> ys \<noteq> [] \<Longrightarrow> join_with c (xs @ ys) = join_with c xs @ c # join_with c ys"
  by (induction xs rule: join_with.induct) (auto simp: join_with_Cons)

lemma join_with_Nil_iff: "[] \<notin> set cs \<Longrightarrow> join_with c cs = [] \<longleftrightarrow> cs = []"
  by (cases "(c, cs)" rule: join_with.cases) auto

lemma hd_join_with: "cs \<noteq> [] \<Longrightarrow> hd cs \<noteq> [] \<Longrightarrow> hd (join_with c cs) = hd (hd cs)"
  by (cases "(c, cs)" rule: join_with.cases) auto

lemma split_on_concat:
  "split_on c (a @ c # b) = split_on c a @ split_on c b"
proof (induction a)
  case (Cons x xs)
  obtain y ys where "split_on c xs = y # ys" by (cases "split_on c xs") auto
  with Cons show ?case by auto
qed simp

section \<open>Prefixes, white space, replacing\<close>

abbreviation HasPrefix :: "string \<Rightarrow> string \<Rightarrow> bool" where
  "HasPrefix s p \<equiv> prefix p s"

definition TrimPrefix :: "string \<Rightarrow> string \<Rightarrow> string" where
  "TrimPrefix s p = (if HasPrefix s p then drop (length p) s else s)"

definition is_space :: "char \<Rightarrow> bool" where
  "is_space c = (c \<in> {CHR '' '', CHR 0x09, CHR 0x0A, CHR 0x0B, CHR 0x0C, CHR 0x0D})"

definition TrimSpace :: "string \<Rightarrow> string" where
  "TrimSpace s = rev (dropWhile is_space (rev (dropWhile is_space s)))"

definition TrimRight :: "string \<Rightarrow> char \<Rightarrow> string" where
  "TrimRight s c = rev (dropWhile (\<lambda>x. x = c) (rev s))"

definition ContainsAny :: "string \<Rightarrow> string \<Rightarrow> bool" where
  "ContainsAny s cs = list_ex (\<lambda>c. c \<in> set cs) s"

definition IndexByte :: "string \<Rightarrow> char \<Rightarrow> nat option" where
  "IndexByte s c = (if c \<in> set s then Some (length (takeWhile (\<lambda>x. x \<noteq> c) s)) else None)"

text \<open>
  \<open>strings.ReplaceAll\<close> scans from the left and copies the replacement for each
  non-overlapping occurrence of a non-empty pattern.
\<close>

function ReplaceAll :: "string \<Rightarrow> string \<Rightarrow> string \<Rightarrow> string" where
  "ReplaceAll s old new =
     (if old = [] then s
      else (case s of
              [] \<Rightarrow> []
            | c # cs \<Rightarrow>
                (if prefix old s then new @ ReplaceAll (drop (length old) s) old new
                 else c # ReplaceAll cs old new)))"
  by pat_completeness auto
termination
  by (relation "measure (\<lambda>(s, old, new). length s)") auto

declare ReplaceAll.simps [simp del]

definition Contains :: "string \<Rightarrow> string \<Rightarrow> bool" where
  "Contains s p = sublist p s"

lemma ReplaceAll_Nil [simp]: "ReplaceAll [] old new = []"
  by (simp add: ReplaceAll.simps)

lemma ReplaceAll_match:
  "old \<noteq> [] \<Longrightarrow> ReplaceAll (old @ s) old new = new @ ReplaceAll s old new"
proof (cases old)
  case (Cons a as)
  then show ?thesis by (simp add: ReplaceAll.simps [of "a # as @ s" "a # as" new])
qed simp

lemma ReplaceAll_skip:
  "old \<noteq> [] \<Longrightarrow> \<not> prefix old (c # cs) \<Longrightarrow> ReplaceAll (c # cs) old new = c # ReplaceAll cs old new"
  by (simp add: ReplaceAll.simps [of "c # cs" old new])

lemma dropWhile_id: "(\<And>c. c \<in> set s \<Longrightarrow> \<not> P c) \<Longrightarrow> dropWhile P s = s"
  by (cases s) simp_all

lemma TrimSpace_pad:
  assumes "list_all is_space u" "list_all is_space v" and "\<And>c. c \<in> set s \<Longrightarrow> \<not> is_space c"
  shows "TrimSpace (u @ s @ v) = s"
proof (cases "s = []")
  case True
  then show ?thesis using assms(1,2) by (auto simp: TrimSpace_def list_all_iff dropWhile_eq_Nil_conv dest: set_dropWhileD)
next
  case False
  have "dropWhile is_space (u @ s @ v) = s @ v"
    using assms False by (cases s) (simp_all add: dropWhile_append2 list_all_iff)
  moreover have "dropWhile is_space (rev v @ rev s) = rev s"
  proof -
    have "dropWhile is_space (rev v @ rev s) = dropWhile is_space (rev s)"
      using assms(2) by (intro dropWhile_append2) (simp add: list_all_iff)
    also have "\<dots> = rev s" using assms(3) by (intro dropWhile_id) simp
    finally show ?thesis .
  qed
  ultimately show ?thesis by (simp add: TrimSpace_def)
qed

section \<open>Decimal numbers\<close>

definition digit_char :: "nat \<Rightarrow> char" where
  "digit_char d = char_of (48 + d)"

fun show_nat :: "nat \<Rightarrow> string" where
  "show_nat n = (if n < 10 then [digit_char n] else show_nat (n div 10) @ [digit_char (n mod 10)])"

declare show_nat.simps [simp del]

definition show_int :: "int \<Rightarrow> string" where
  "show_int i = (if i < 0 then CHR ''-'' # show_nat (nat (- i)) else show_nat (nat i))"

text \<open>The value of a string of decimal digits.\<close>

fun decimal :: "nat \<Rightarrow> string \<Rightarrow> nat option" where
  "decimal acc [] = Some acc"
| "decimal acc (c # cs) =
     (let n = of_char c :: nat
      in if 48 \<le> n \<and> n \<le> 57 then decimal (acc * 10 + (n - 48)) cs else None)"

text \<open>\<open>strconv.ParseInt\<close> in base 10 with a number of bits; \<open>Atoi\<close> is the 64-bit one.\<close>

definition ParseInt :: "nat \<Rightarrow> string \<Rightarrow> int option" where
  "ParseInt bits s =
     (let neg = (s \<noteq> [] \<and> hd s = CHR ''-'');
          digits = (if s \<noteq> [] \<and> hd s \<in> {CHR ''-'', CHR ''+''} then tl s else s)
      in if digits = [] then None
         else case decimal 0 digits of
                None \<Rightarrow> None
              | Some n \<Rightarrow>
                  (let i = (if neg then - int n else int n)
                   in if - (2 ^ (bits - 1)) \<le> i \<and> i < 2 ^ (bits - 1) then Some i else None))"

abbreviation Atoi :: "string \<Rightarrow> int option" where "Atoi \<equiv> ParseInt 64"

section \<open>Printing and reading a number\<close>

lemma of_char_digit: "d < 10 \<Longrightarrow> (of_char (digit_char d) :: nat) = 48 + d"
  by (simp add: digit_char_def)

lemma decimal_digit: "d < 10 \<Longrightarrow> decimal acc (digit_char d # s) = decimal (acc * 10 + d) s"
  by (simp add: of_char_digit)

lemma decimal_append: "decimal acc (s @ t) = (case decimal acc s of None \<Rightarrow> None | Some n \<Rightarrow> decimal n t)"
  by (induction s arbitrary: acc) (simp_all add: Let_def)

lemma decimal_show_nat: "decimal 0 (show_nat n) = Some n"
proof (induction n rule: less_induct)
  case (less n)
  show ?case
  proof (cases "n < 10")
    case True
    then show ?thesis by (simp add: show_nat.simps [of n] decimal_digit del: decimal.simps(2))
  next
    case False
    then have "show_nat n = show_nat (n div 10) @ [digit_char (n mod 10)]" by (simp add: show_nat.simps [of n])
    moreover have "decimal 0 (show_nat (n div 10)) = Some (n div 10)" using False by (intro less) simp
    ultimately show ?thesis by (simp add: decimal_append decimal_digit del: decimal.simps(2))
  qed
qed

lemma show_nat_digits: "c \<in> set (show_nat n) \<Longrightarrow> 48 \<le> (of_char c :: nat) \<and> (of_char c :: nat) \<le> 57"
proof (induction n rule: less_induct)
  case (less n)
  show ?case
  proof (cases "n < 10")
    case True
    then have "c = digit_char n" using less.prems by (simp add: show_nat.simps [of n])
    then show ?thesis using True by (simp add: of_char_digit)
  next
    case False
    then have "c \<in> set (show_nat (n div 10)) \<or> c = digit_char (n mod 10)"
      using less.prems by (simp add: show_nat.simps [of n] disj_commute)
    then show ?thesis
    proof
      assume "c \<in> set (show_nat (n div 10))"
      then show ?thesis using False by (intro less.IH [of "n div 10"]) simp_all
    next
      assume "c = digit_char (n mod 10)"
      then show ?thesis by (simp add: of_char_digit)
    qed
  qed
qed

lemma show_nat_not_Nil [simp]: "show_nat n \<noteq> []"
  by (subst show_nat.simps) simp

lemma ParseInt_show_nat:
  assumes "int n < 2 ^ (bits - 1)"
  shows "ParseInt bits (show_nat n) = Some (int n)"
proof -
  have h: "hd (show_nat n) \<notin> {CHR ''-'', CHR ''+''}"
    using show_nat_digits [of "hd (show_nat n)" n] by auto
  have "- (2 ^ (bits - 1)) \<le> int n" by (rule order_trans [of _ 0]) simp_all
  with h assms show ?thesis by (simp add: ParseInt_def Let_def decimal_show_nat)
qed

lemma show_nat_no_space: "c \<in> set (show_nat n) \<Longrightarrow> \<not> is_space c"
  using show_nat_digits [of c n] by (auto simp: is_space_def)

end
