(* ===== verification/GoPath.thy ===== *)
theory GoPath
  imports GoStrings
begin

text \<open>
  Go's \<open>path/filepath\<close> on Unix, as the program uses it: \<open>Clean\<close>, \<open>IsAbs\<close>, \<open>Join\<close>, \<open>Dir\<close>,
  \<open>Base\<close> and \<open>Rel\<close>. A path is read as a list of components; \<open>Clean\<close> drops empty components
  and dots and resolves each double dot against the component before it, which is the lexical
  rule the package documents. The central fact is \<open>within_iff_prefix\<close> (theory
  \<open>MountPolicy\<close>): on absolute paths the program's containment test is the prefix order on
  cleaned component lists. Here are the normal form of cleaned paths, that \<open>Clean\<close> is
  idempotent, and what \<open>Dir\<close>, \<open>Join\<close> and \<open>Rel\<close> do to the component list.
\<close>

section \<open>Definitions\<close>

abbreviation sep :: char where "sep \<equiv> CHR ''/''"

definition IsAbs :: "string \<Rightarrow> bool" where
  "IsAbs p = prefix ''/'' p"

definition clean_step :: "bool \<Rightarrow> string list \<Rightarrow> string \<Rightarrow> string list" where
  "clean_step rooted st c =
     (if c = [] \<or> c = ''.'' then st
      else if c = ''..'' then
        (if st \<noteq> [] \<and> last st \<noteq> ''..'' then butlast st
         else if rooted then st
         else st @ [''..''])
      else st @ [c])"

definition comps :: "string \<Rightarrow> string list" where
  "comps p = foldl (clean_step (IsAbs p)) [] (split_on sep p)"

definition render :: "bool \<Rightarrow> string list \<Rightarrow> string" where
  "render rooted cs =
     (if rooted then sep # join_with sep cs
      else if cs = [] then ''.''
      else join_with sep cs)"

definition Clean :: "string \<Rightarrow> string" where
  "Clean p = render (IsAbs p) (comps p)"

fun PathJoin :: "string list \<Rightarrow> string" where
  "PathJoin [] = []"
| "PathJoin (e # es) = (if e = [] then PathJoin es else Clean (join_with sep (e # es)))"

definition Dir :: "string \<Rightarrow> string" where
  "Dir p = Clean (rev (dropWhile (\<lambda>c. c \<noteq> sep) (rev p)))"

definition Base :: "string \<Rightarrow> string" where
  "Base p =
     (if p = [] then ''.''
      else let q = rev (dropWhile (\<lambda>c. c = sep) (rev p))
           in if q = [] then ''/'' else rev (takeWhile (\<lambda>c. c \<noteq> sep) (rev q)))"

fun strip_common :: "string list \<Rightarrow> string list \<Rightarrow> string list \<times> string list" where
  "strip_common (b # bs) (t # ts) = (if b = t then strip_common bs ts else (b # bs, t # ts))"
| "strip_common bs ts = (bs, ts)"

definition Rel :: "string \<Rightarrow> string \<Rightarrow> string result" where
  "Rel basepath targpath =
     (if Clean targpath = Clean basepath then Inr ''.''
      else if IsAbs basepath \<noteq> IsAbs targpath then
        Inl (errors_New ''Rel: can't make targpath relative to basepath'')
      else
        (case strip_common (comps basepath) (comps targpath) of
           (bs, ts) \<Rightarrow>
             (if bs \<noteq> [] \<and> hd bs = ''..'' then
                Inl (errors_New ''Rel: can't make targpath relative to basepath'')
              else Inr (join_with sep (replicate (length bs) ''..'' @ ts)))))"

section \<open>The normal form of component lists\<close>

definition plain_comp :: "string \<Rightarrow> bool" where
  "plain_comp c = (c \<noteq> [] \<and> c \<noteq> ''.'' \<and> sep \<notin> set c)"

text \<open>
  In a relative path the double dots come first: a double dot has only double dots before it.
\<close>

definition dotdots_first :: "string list \<Rightarrow> bool" where
  "dotdots_first cs = sorted_wrt (\<lambda>a b. b = ''..'' \<longrightarrow> a = ''..'') cs"

definition normal :: "bool \<Rightarrow> string list \<Rightarrow> bool" where
  "normal rooted cs =
     ((\<forall>c \<in> set cs. plain_comp c) \<and>
      (if rooted then ''..'' \<notin> set cs else dotdots_first cs))"

lemma plain_dotdot [simp]: "plain_comp ''..''"
  by (simp add: plain_comp_def)

lemma plain_compD: "plain_comp c \<Longrightarrow> c \<noteq> [] \<and> c \<noteq> ''.'' \<and> sep \<notin> set c"
  by (simp add: plain_comp_def)

lemma dotdots_first_Nil [simp]: "dotdots_first []"
  by (simp add: dotdots_first_def)

lemma dotdots_first_snoc:
  "dotdots_first (cs @ [c]) \<longleftrightarrow> dotdots_first cs \<and> (c = ''..'' \<longrightarrow> (\<forall>a \<in> set cs. a = ''..''))"
  by (auto simp: dotdots_first_def sorted_wrt_append)

lemma dotdots_first_last:
  "dotdots_first cs \<Longrightarrow> cs \<noteq> [] \<Longrightarrow> last cs = ''..'' \<Longrightarrow> a \<in> set cs \<Longrightarrow> a = ''..''"
  by (cases cs rule: rev_cases) (auto simp: dotdots_first_snoc)

lemma normal_Nil [simp]: "normal r []"
  by (simp add: normal_def)

lemma normal_plain: "normal r cs \<Longrightarrow> c \<in> set cs \<Longrightarrow> plain_comp c"
  by (simp add: normal_def)

lemma normal_rooted_no_dotdot: "normal True cs \<Longrightarrow> ''..'' \<notin> set cs"
  by (simp add: normal_def)

lemma normal_butlast: "normal r cs \<Longrightarrow> normal r (butlast cs)"
  by (cases cs rule: rev_cases) (auto simp: normal_def dotdots_first_snoc)

lemma normal_snoc: "normal r cs \<Longrightarrow> plain_comp c \<Longrightarrow> c \<noteq> ''..'' \<Longrightarrow> normal r (cs @ [c])"
  by (simp add: normal_def dotdots_first_snoc)

lemma normal_snoc_dotdot:
  assumes "normal False cs" and "cs = [] \<or> last cs = ''..''"
  shows "normal False (cs @ [''..''])"
  using assms by (auto simp: normal_def dotdots_first_snoc dest: dotdots_first_last)

lemma normal_clean_step:
  assumes "normal r st" and "sep \<notin> set c"
  shows "normal r (clean_step r st c)"
proof -
  consider "c = [] \<or> c = ''.''" | "c = ''..''" | "plain_comp c" "c \<noteq> ''..''"
    using assms(2) by (auto simp: plain_comp_def)
  then show ?thesis
  proof cases
    case 2
    show ?thesis
      using assms(1) 2 normal_snoc_dotdot [of st]
      by (cases r) (simp_all add: clean_step_def normal_butlast)
  next
    case 3
    then show ?thesis
      using assms(1) by (simp add: clean_step_def normal_snoc plain_comp_def)
  qed (use assms(1) in \<open>auto simp: clean_step_def\<close>)
qed

lemma normal_foldl:
  "normal r st \<Longrightarrow> (\<And>c. c \<in> set cs \<Longrightarrow> sep \<notin> set c) \<Longrightarrow> normal r (foldl (clean_step r) st cs)"
  by (induction cs arbitrary: st) (auto simp: normal_clean_step)

lemma normal_comps [simp]: "normal (IsAbs p) (comps p)"
  unfolding comps_def by (rule normal_foldl) (auto dest: split_on_no_sep)

section \<open>Cleaning is idempotent\<close>

lemma foldl_clean_normal: "normal r cs \<Longrightarrow> foldl (clean_step r) [] cs = cs"
proof (induction cs rule: rev_induct)
  case (snoc c cs)
  then have IH: "foldl (clean_step r) [] cs = cs" and c: "plain_comp c"
    using normal_butlast [of r "cs @ [c]"] by (auto simp: normal_def)
  show ?case
  proof (cases "c = ''..''")
    case True
    with snoc.prems have "\<not> r" "\<forall>a \<in> set cs. a = ''..''"
      by (auto simp: normal_def dotdots_first_snoc split: if_splits)
    then have "\<not> (cs \<noteq> [] \<and> last cs \<noteq> ''..'')" by (metis last_in_set)
    with IH True \<open>\<not> r\<close> show ?thesis by (auto simp: clean_step_def [of _ cs])
  next
    case False
    with IH c show ?thesis by (simp add: clean_step_def [of _ cs] plain_comp_def)
  qed
qed simp

lemma split_on_normal: "normal r cs \<Longrightarrow> cs \<noteq> [] \<Longrightarrow> split_on sep (join_with sep cs) = cs"
  by (rule split_join) (auto dest!: normal_plain simp: plain_comp_def)

lemma IsAbs_Nil [simp]: "\<not> IsAbs []"
  by (simp add: IsAbs_def)

lemma IsAbs_Cons [simp]: "IsAbs (c # cs) \<longleftrightarrow> c = sep"
  by (auto simp: IsAbs_def)

lemma IsAbs_iff_hd: "IsAbs p \<longleftrightarrow> p \<noteq> [] \<and> hd p = sep"
  by (cases p) auto

lemma IsAbs_join_normal: "normal r cs \<Longrightarrow> \<not> IsAbs (join_with sep cs)"
proof (cases cs)
  case (Cons c cs')
  moreover assume "normal r cs"
  ultimately have "plain_comp c" by (simp add: normal_def)
  with Cons show ?thesis
    using hd_join_with [of cs sep] by (metis IsAbs_iff_hd hd_in_set list.sel(1) list.simps(3) plain_comp_def)
qed simp

lemma IsAbs_render [simp]: "normal r cs \<Longrightarrow> IsAbs (render r cs) = r"
  using IsAbs_join_normal [of r cs] by (auto simp: render_def)

lemma comps_render [simp]:
  assumes "normal r cs"
  shows "comps (render r cs) = cs"
proof (cases "cs = []")
  case True
  then show ?thesis by (simp add: comps_def render_def clean_step_def)
next
  case False
  have eq: "foldl (clean_step r) [] (split_on sep (join_with sep cs)) = cs"
    using assms False by (simp add: split_on_normal foldl_clean_normal)
  show ?thesis
  proof (cases r)
    case True
    have "clean_step True [] [] = []" by (simp add: clean_step_def)
    with eq True show ?thesis by (simp add: comps_def render_def)
  next
    case False
    with eq \<open>cs \<noteq> []\<close> assms show ?thesis
      using IsAbs_join_normal [of r cs] by (simp add: comps_def render_def)
  qed
qed

lemma IsAbs_Clean [simp]: "IsAbs (Clean p) = IsAbs p"
  by (simp add: Clean_def)

lemma comps_Clean [simp]: "comps (Clean p) = comps p"
  by (simp add: Clean_def)

lemma Clean_Clean [simp]: "Clean (Clean p) = Clean p"
  unfolding Clean_def [of "Clean p"] by (simp add: Clean_def [of p])

lemma Clean_eq_iff: "Clean p = Clean q \<longleftrightarrow> IsAbs p = IsAbs q \<and> comps p = comps q"
proof
  assume "Clean p = Clean q"
  then have "IsAbs (Clean p) = IsAbs (Clean q)" "comps (Clean p) = comps (Clean q)" by simp_all
  then show "IsAbs p = IsAbs q \<and> comps p = comps q" by simp
qed (simp add: Clean_def)

lemma Clean_not_Nil [simp]: "Clean p \<noteq> []"
proof -
  have "join_with sep (comps p) \<noteq> []" if "comps p \<noteq> []"
    using that normal_plain [OF normal_comps, of _ p] join_with_Nil_iff [of "comps p" sep]
    by (auto simp: plain_comp_def)
  then show ?thesis by (simp add: Clean_def render_def)
qed

lemma Clean_root_iff: "IsAbs p \<Longrightarrow> Clean p = ''/'' \<longleftrightarrow> comps p = []"
proof -
  assume "IsAbs p"
  then have "Clean p = Clean ''/'' \<longleftrightarrow> comps p = comps ''/''" by (simp add: Clean_eq_iff)
  moreover have "comps ''/'' = []" "Clean ''/'' = ''/''"
    by (simp_all add: Clean_def comps_def clean_step_def render_def)
  ultimately show ?thesis by simp
qed

lemma comps_abs_no_dotdot: "IsAbs p \<Longrightarrow> ''..'' \<notin> set (comps p)"
  using normal_comps [of p] by (simp add: normal_def)

section \<open>Dir, Join and Rel on component lists\<close>

lemma comps_append_sep:
  "a \<noteq> [] \<Longrightarrow> comps (a @ sep # b) = foldl (clean_step (IsAbs a)) (comps a) (split_on sep b)"
  by (cases a) (simp_all add: comps_def split_on_concat [of sep "_ # _", simplified])

lemma comps_snoc_sep: "a \<noteq> [] \<Longrightarrow> comps (a @ [sep]) = comps a"
  using comps_append_sep [of a "[]"] by (simp add: clean_step_def)

lemma comps_join_plain:
  assumes "a \<noteq> []" and "plain_comp c" and "c \<noteq> ''..''"
  shows "comps (PathJoin [a, c]) = comps a @ [c]" and "IsAbs (PathJoin [a, c]) = IsAbs a"
proof -
  have "split_on sep c = [c]" using assms(2) by (simp add: split_on_free plain_comp_def)
  then show "comps (PathJoin [a, c]) = comps a @ [c]"
    using assms by (simp add: comps_append_sep clean_step_def plain_comp_def)
  show "IsAbs (PathJoin [a, c]) = IsAbs a"
    using assms(1) by (cases a) simp_all
qed

lemma upto_last_sep:
  "sep \<notin> set c \<Longrightarrow> rev (dropWhile (\<lambda>x. x \<noteq> sep) (rev (a @ sep # c))) = a @ [sep]"
  "sep \<notin> set c \<Longrightarrow> rev (dropWhile (\<lambda>x. x \<noteq> sep) (rev c)) = []"
  by (auto simp: dropWhile_append dropWhile_eq_Nil_conv)

lemma after_last_sep:
  "sep \<notin> set c \<Longrightarrow> rev (takeWhile (\<lambda>x. x \<noteq> sep) (rev (a @ sep # c))) = c"
  "sep \<notin> set c \<Longrightarrow> rev (takeWhile (\<lambda>x. x \<noteq> sep) (rev c)) = c"
proof -
  assume "sep \<notin> set c"
  then have all: "takeWhile (\<lambda>x. x \<noteq> sep) (rev c) = rev c" by (subst takeWhile_eq_all_conv) auto
  then show "rev (takeWhile (\<lambda>x. x \<noteq> sep) (rev c)) = c" by (metis rev_rev_ident)
  show "rev (takeWhile (\<lambda>x. x \<noteq> sep) (rev (a @ sep # c))) = c"
    using all \<open>sep \<notin> set c\<close> by (auto simp: takeWhile_append)
qed

lemma comps_base [simp]: "comps ''/'' = []" "comps [] = []"
  by (simp_all add: comps_def clean_step_def)

text \<open>A cleaned path with a last component is a prefix, a separator and that component.\<close>

lemma render_snoc:
  assumes "normal r (cs @ [c])"
  shows "render r (cs @ [c]) = (if cs = [] then (if r then sep # c else c) else render r cs @ sep # c)"
  by (simp add: render_def join_with_append)

lemma comps_Dir_render:
  assumes "normal r cs"
  shows "comps (Dir (render r cs)) = butlast cs" and "IsAbs (Dir (render r cs)) = r"
proof -
  have "comps (Dir (render r cs)) = butlast cs \<and> IsAbs (Dir (render r cs)) = r"
  proof (cases cs rule: rev_cases)
    case Nil
    then show ?thesis by (cases r) (simp_all add: Dir_def render_def)
  next
    case (snoc ds c)
    have c: "sep \<notin> set c" and ds: "normal r ds"
      using assms normal_butlast [OF assms] snoc by (auto simp: normal_def plain_comp_def)
    show ?thesis
    proof (cases "ds = []")
      case True
      then have "render r cs = (if r then [] @ sep # c else c)"
        using snoc render_snoc [of r ds c] assms by simp
      then have "rev (dropWhile (\<lambda>x. x \<noteq> sep) (rev (render r cs))) = (if r then ''/'' else [])"
        using upto_last_sep(1) [OF c, of "[]"] upto_last_sep(2) [OF c] by (cases r) (simp_all only: if_True if_False append_Nil)
      then show ?thesis using snoc True by (simp add: Dir_def)
    next
      case False
      have ne: "render r ds \<noteq> []"
        using ds False comps_render [OF ds] by (auto simp: comps_def clean_step_def)
      have "render r cs = render r ds @ sep # c"
        using snoc render_snoc [of r ds c] assms False by simp
      then have "Dir (render r cs) = Clean (render r ds @ [sep])"
        using upto_last_sep(1) [OF c] by (simp add: Dir_def)
      moreover have "IsAbs (render r ds @ [sep]) = r"
        using ne IsAbs_render [OF ds] by (cases "render r ds") simp_all
      ultimately show ?thesis using ds snoc by (simp add: comps_snoc_sep [OF ne])
    qed
  qed
  then show "comps (Dir (render r cs)) = butlast cs" and "IsAbs (Dir (render r cs)) = r" by simp_all
qed

lemma comps_Dir_Clean: "comps (Dir (Clean p)) = butlast (comps p)" "IsAbs (Dir (Clean p)) = IsAbs p"
  using comps_Dir_render [OF normal_comps, of p] by (simp_all add: Clean_def)

lemma Clean_Dir [simp]: "Clean (Dir p) = Dir p"
  by (simp add: Dir_def)

lemma Dir_Clean_eq_iff: "Dir (Clean p) = Clean p \<longleftrightarrow> comps p = []"
proof -
  have "butlast xs = xs \<longleftrightarrow> xs = []" for xs :: "string list" by (cases xs rule: rev_cases) auto
  then show ?thesis using Clean_eq_iff [of "Dir (Clean p)" "Clean p"] by (simp add: comps_Dir_Clean)
qed

lemma Base_last:
  assumes "sep \<notin> set c" and "c \<noteq> []"
  shows "Base (a @ sep # c) = c" and "Base c = c"
proof -
  have keep: "rev (dropWhile (\<lambda>y. y = sep) (rev (b @ c))) = b @ c" for b
    using assms by (cases c rule: rev_cases) auto
  have 1: "rev (dropWhile (\<lambda>y. y = sep) (rev (a @ sep # c))) = a @ sep # c"
    using keep [of "a @ [sep]"] by simp
  show "Base (a @ sep # c) = c"
    unfolding Base_def Let_def 1 after_last_sep(1) [OF assms(1)] by simp
  have 2: "rev (dropWhile (\<lambda>y. y = sep) (rev c)) = c" using keep [of "[]"] by simp
  show "Base c = c"
    unfolding Base_def Let_def 2 after_last_sep(2) [OF assms(1)] using assms(2) by simp
qed

lemma Base_Clean:
  assumes "comps p \<noteq> []"
  shows "Base (Clean p) = last (comps p)"
proof -
  obtain ds c where snoc: "comps p = ds @ [c]" using assms by (cases "comps p" rule: rev_cases) auto
  have n: "normal (IsAbs p) (ds @ [c])" using normal_comps [of p] by (simp add: snoc)
  then have c: "sep \<notin> set c" "c \<noteq> []" by (auto simp: normal_def plain_comp_def)
  have "Clean p = (if ds = [] \<and> \<not> IsAbs p then c else (if ds = [] then [] else render (IsAbs p) ds) @ sep # c)"
    using render_snoc [OF n] by (simp add: Clean_def snoc)
  then show ?thesis using Base_last [OF c] by (simp add: snoc)
qed

lemma strip_common_split:
  "strip_common bs ts = (b, t) \<Longrightarrow>
     \<exists>p. bs = p @ b \<and> ts = p @ t \<and> (b = [] \<or> t = [] \<or> hd b \<noteq> hd t)"
proof (induction bs ts arbitrary: b t rule: strip_common.induct)
  case (1 x xs y ys)
  show ?case
  proof (cases "x = y")
    case True
    with 1 obtain p where "xs = p @ b" "ys = p @ t" "b = [] \<or> t = [] \<or> hd b \<noteq> hd t"
      by auto
    with True show ?thesis by (intro exI [of _ "x # p"]) simp
  next
    case False
    with 1 show ?thesis by (intro exI [of _ "[]"]) auto
  qed
qed auto

lemma strip_common_prefix_iff: "fst (strip_common bs ts) = [] \<longleftrightarrow> prefix bs ts"
  by (induction bs ts rule: strip_common.induct) auto

end
