(* ===== verification/Config.thy ===== *)
theory Config
  imports Complex_Main GoPath ApiTypes
begin

text \<open>
  The daemon configuration (\<open>commons/config.go\<close>, \<open>commons/constant.go\<close>): its record, its
  defaults and the path getters the mount manager uses. Durations are nanoseconds; a
  \<open>float64\<close> is a real number, and theory \<open>RetryPolicy\<close> says how its arithmetic rounds.
\<close>

section \<open>Constants\<close>

abbreviation (input) second :: duration where "second \<equiv> 1000000000"
abbreviation (input) minute :: duration where "minute \<equiv> 60000000000"

definition IRODSFSExecutablePathDefault :: string where
  "IRODSFSExecutablePathDefault = ''/usr/local/bin/irodsfs''"
definition MountExecutablePathDefault :: string where
  "MountExecutablePathDefault = ''/usr/bin/mount''"
definition UnmountExecutablePathDefault :: string where
  "UnmountExecutablePathDefault = ''/usr/bin/umount''"
definition DataRootPathDefault :: string where
  "DataRootPathDefault = ''/var/lib/irodsfsd''"
definition PIDFilePathDefault :: string where
  "PIDFilePathDefault = ''/run/irodsfsd/irodsfsd.pid''"
definition AllowedMountRootPathDefault :: string where
  "AllowedMountRootPathDefault = ''/mnt/irods''"
definition KubeletMountRootPathDefault :: string where
  "KubeletMountRootPathDefault = ''/var/lib/kubelet''"
definition MountRootPathDefault :: string where
  "MountRootPathDefault = ''mounts''"
definition MountDatabasePathDefault :: string where
  "MountDatabasePathDefault = ''db''"
definition RetryMaxAttemptsDefault :: int where
  "RetryMaxAttemptsDefault = 5"
definition RetryInitialDelayDefault :: duration where
  "RetryInitialDelayDefault = second"
definition RetryMaxDelayDefault :: duration where
  "RetryMaxDelayDefault = 30 * second"
definition RetryMultiplierDefault :: real where
  "RetryMultiplierDefault = 2"
definition RetryJitterDefault :: real where
  "RetryJitterDefault = 1 / 5"
definition MountTimeoutDefault :: duration where
  "MountTimeoutDefault = 30 * second"
definition UnmountTimeoutDefault :: duration where
  "UnmountTimeoutDefault = 15 * second"
definition DAVFSUnmountTimeoutDefault :: duration where
  "DAVFSUnmountTimeoutDefault = 3 * minute"
definition ReconcileIntervalDefault :: duration where
  "ReconcileIntervalDefault = 10 * second"
definition MaxConcurrentMountsDefault :: int where
  "MaxConcurrentMountsDefault = 40"
definition RecoveryEncryptionKeySizeDefault :: nat where
  "RecoveryEncryptionKeySizeDefault = 32"
definition ManagementServiceEndpointDefault :: string where
  "ManagementServiceEndpointDefault = ''http://0.0.0.0:13021''"
definition IRODSFSExecutablePathFallbacks :: "string list" where
  "IRODSFSExecutablePathFallbacks = [''/usr/bin/irodsfs'']"

section \<open>The configuration record\<close>

record RetryConfig =
  MaxAttempts :: int
  InitialDelay :: duration
  MaxDelay :: duration
  Multiplier :: real
  Jitter :: real

record Config =
  ServiceEndpoint :: string
  IRODSFSExecutablePath :: string
  MountExecutablePath :: string
  UnmountExecutablePath :: string
  DataRootPath :: string
  PIDFile :: string
  RecoveryEncryptionKey :: string
  AllowedMountRootPaths :: "string list"
  AllowFuseAllowOther :: bool
  AutoRemount :: bool
  RestoreMountsOnRestart :: bool
  Retry :: RetryConfig
  MountTimeout :: duration
  UnmountTimeout :: duration
  DAVFSUnmountTimeout :: duration
  ReconcileInterval :: duration
  MaxConcurrentMounts :: int
  ManagementServiceEndpoint :: string
  Debug :: bool
  LogRootPath :: string
  MountRootPath :: string

definition NewDefaultConfig :: Config where
  "NewDefaultConfig =
     \<lparr>ServiceEndpoint = [],
      IRODSFSExecutablePath = IRODSFSExecutablePathDefault,
      MountExecutablePath = MountExecutablePathDefault,
      UnmountExecutablePath = UnmountExecutablePathDefault,
      DataRootPath = DataRootPathDefault,
      PIDFile = PIDFilePathDefault,
      RecoveryEncryptionKey = [],
      AllowedMountRootPaths = [AllowedMountRootPathDefault, KubeletMountRootPathDefault],
      AllowFuseAllowOther = False,
      AutoRemount = False,
      RestoreMountsOnRestart = False,
      Retry =
        \<lparr>MaxAttempts = RetryMaxAttemptsDefault,
         InitialDelay = RetryInitialDelayDefault,
         MaxDelay = RetryMaxDelayDefault,
         Multiplier = RetryMultiplierDefault,
         Jitter = RetryJitterDefault\<rparr>,
      MountTimeout = MountTimeoutDefault,
      UnmountTimeout = UnmountTimeoutDefault,
      DAVFSUnmountTimeout = DAVFSUnmountTimeoutDefault,
      ReconcileInterval = ReconcileIntervalDefault,
      MaxConcurrentMounts = MaxConcurrentMountsDefault,
      ManagementServiceEndpoint = ManagementServiceEndpointDefault,
      Debug = False,
      LogRootPath = [],
      MountRootPath = PathJoin [DataRootPathDefault, MountRootPathDefault]\<rparr>"

section \<open>Path getters\<close>

definition GetDataRootPath :: "Config \<Rightarrow> string" where
  "GetDataRootPath config = DataRootPath config"

definition GetMountRootPath :: "Config \<Rightarrow> string" where
  "GetMountRootPath config =
     (if length (MountRootPath config) > 0 then MountRootPath config
      else PathJoin [DataRootPath config, MountRootPathDefault])"

definition GetMountDatabasePath :: "Config \<Rightarrow> string" where
  "GetMountDatabasePath config = PathJoin [GetDataRootPath config, MountDatabasePathDefault]"

definition GetLogRootPath :: "Config \<Rightarrow> string" where
  "GetLogRootPath config =
     (if length (LogRootPath config) > 0 then LogRootPath config else DataRootPath config)"

definition GetLogFilePath :: "Config \<Rightarrow> string" where
  "GetLogFilePath config = PathJoin [GetLogRootPath config, ''irodsfsd.log'']"

definition GetMountLogPath :: "Config \<Rightarrow> string \<Rightarrow> string" where
  "GetMountLogPath config mountID =
     PathJoin [GetLogRootPath config, ''mounts'', mountID, ''irodsfs.log'']"

definition GetServiceEndpoint :: "Config \<Rightarrow> string" where
  "GetServiceEndpoint config =
     (if length (ServiceEndpoint config) > 0 then ServiceEndpoint config
      else ''unix://'' @ DataRootPath config @ ''/comm.sock'')"

text \<open>The data directory of one mount: \<open>filepath.Join(config.GetMountRootPath(), mountID)\<close>.\<close>

definition mountDataRoot :: "Config \<Rightarrow> string \<Rightarrow> string" where
  "mountDataRoot config mountID = PathJoin [GetMountRootPath config, mountID]"

end
