(* ===== verification/Endpoint.thy ===== *)
theory Endpoint
  imports GoPath
begin

text \<open>
  Parsing of the service and management endpoints (\<open>commons/endpoint.go\<close>). \<open>url.ParseRequestURI\<close>
  is the parameter \<open>parse\<close>, which yields the parts of the URL the code looks at;
  \<open>net.SplitHostPort\<close> and \<open>strconv.ParseUint\<close> are written out.
\<close>

record URL =
  urlScheme :: string
  urlHost :: string
  urlPath :: string
  urlHasUser :: bool
  urlRawQuery :: string
  urlFragment :: string

definition ToLower_char :: "char \<Rightarrow> char" where
  "ToLower_char c =
     (let n = of_char c :: nat in if 65 \<le> n \<and> n \<le> 90 then char_of (n + 32) else c)"

definition ToLower :: "string \<Rightarrow> string" where
  "ToLower s = map ToLower_char s"

text \<open>The third component is the path; wrapping a nil error yields nil, that is, no error.\<close>

definition parseRawURL :: "(string \<Rightarrow> URL result) \<Rightarrow> string \<Rightarrow> (string \<times> string \<times> string) result" where
  "parseRawURL parse rawurl =
     (if length (TrimSpace rawurl) = 0 then Inl (errors_New ''empty raw url'')
      else
        (let first = parse rawurl;
             retry = (\<lambda>err. case parse (''tcp://'' @ rawurl) of
                        Inr u \<Rightarrow> Inr (''tcp'', urlHost u, [])
                      | Inl _ \<Rightarrow>
                          (case err of
                             None \<Rightarrow> Inr ([], [], [])
                           | Some e \<Rightarrow> Inl (errors_Wrapf e [Lit ''could not parse raw url '', Quoted rawurl])))
         in case first of
              Inl err \<Rightarrow> retry (Some err)
            | Inr u \<Rightarrow>
                (if urlHost u = [] \<and> urlPath u = [] then retry None
                 else if ToLower (urlScheme u) = ''unix'' then Inr (''unix'', [], urlPath u)
                 else if ToLower (urlScheme u) = ''tcp'' then Inr (''tcp'', urlHost u, [])
                 else Inr (urlScheme u, urlHost u, urlPath u))))"

definition ParseServiceEndpoint :: "(string \<Rightarrow> URL result) \<Rightarrow> string \<Rightarrow> (string \<times> string) result" where
  "ParseServiceEndpoint parse endpoint =
     (case parseRawURL parse endpoint of
        Inl err \<Rightarrow> Inl err
      | Inr (scheme, host, p) \<Rightarrow>
          (let scheme = ToLower scheme
           in if scheme = ''tcp'' then Inr (''tcp'', host)
              else if scheme = ''unix'' then Inr (''unix'', PathJoin [''/'', TrimPrefix p ''/''])
              else if scheme = [] then
                (if length host > 0 then Inr (''tcp'', host)
                 else Inl (errors_Errorf [Lit ''unknown host '', Quoted host]))
              else Inl (errors_Errorf [Lit ''unsupported protocol '', Quoted scheme])))"

text \<open>\<open>net.SplitHostPort\<close>\<close>

definition LastIndexByte :: "string \<Rightarrow> char \<Rightarrow> nat option" where
  "LastIndexByte s c =
     map_option (\<lambda>k. length s - 1 - k) (IndexByte (rev s) c)"

definition SplitHostPort :: "string \<Rightarrow> (string \<times> string) result" where
  "SplitHostPort hostport =
     (case LastIndexByte hostport CHR '':'' of
        None \<Rightarrow> Inl (errors_New ''missing port in address'')
      | Some i \<Rightarrow>
          (let r = (if hd hostport = CHR ''['' then
                      (case IndexByte hostport CHR '']'' of
                         None \<Rightarrow> Inl (errors_New ''missing ']' in address'')
                       | Some e \<Rightarrow>
                           (if e + 1 = length hostport then Inl (errors_New ''missing port in address'')
                            else if e + 1 = i then Inr (take (e - 1) (drop 1 hostport), 1, e + 1)
                            else if hostport ! (e + 1) = CHR '':''
                            then Inl (errors_New ''too many colons in address'')
                            else Inl (errors_New ''missing port in address'')))
                    else if IndexByte (take i hostport) CHR '':'' \<noteq> None
                    then Inl (errors_New ''too many colons in address'')
                    else Inr (take i hostport, 0, 0))
           in case r of
                Inl err \<Rightarrow> Inl err
              | Inr (host, j, k) \<Rightarrow>
                  (if IndexByte (drop j hostport) CHR ''['' \<noteq> None
                   then Inl (errors_New ''unexpected '[' in address'')
                   else if IndexByte (drop k hostport) CHR '']'' \<noteq> None
                   then Inl (errors_New ''unexpected ']' in address'')
                   else Inr (host, drop (i + 1) hostport))))"

text \<open>\<open>strconv.ParseUint(s, 10, 16)\<close>\<close>

definition ParseUint16 :: "string \<Rightarrow> nat result" where
  "ParseUint16 s =
     (if s = [] then Inl (errors_New ''invalid syntax'')
      else case decimal 0 s of
             None \<Rightarrow> Inl (errors_New ''invalid syntax'')
           | Some n \<Rightarrow> (if n > 65535 then Inl (errors_New ''value out of range'') else Inr n))"

definition ParseManagementServiceEndpoint :: "(string \<Rightarrow> URL result) \<Rightarrow> string \<Rightarrow> string result" where
  "ParseManagementServiceEndpoint parse endpoint =
     (let endpoint = TrimSpace endpoint
      in if endpoint = [] then Inr []
         else
           (let endpoint = (if \<not> Contains endpoint ''://'' then ''http://'' @ endpoint else endpoint)
            in case parse endpoint of
                 Inl err \<Rightarrow>
                   Inl (errors_Wrapf err [Lit ''could not parse management service endpoint '', Quoted endpoint])
               | Inr u \<Rightarrow>
                   (if ToLower (urlScheme u) \<noteq> ''http''
                    then Inl (errors_Errorf [Lit ''management service endpoint '', Quoted endpoint, Lit '' must use http''])
                    else if urlHost u = [] \<or> urlHasUser u \<or> urlPath u \<noteq> [] \<or> urlRawQuery u \<noteq> [] \<or> urlFragment u \<noteq> []
                    then Inl (errors_Errorf [Lit ''management service endpoint '', Quoted endpoint,
                           Lit '' must be an http host and port without a path, query, fragment, or credentials''])
                    else
                      (case SplitHostPort (urlHost u) of
                         Inl err \<Rightarrow> Inl (errors_Wrapf err [Lit ''management service endpoint '', Quoted endpoint,
                                            Lit '' must include a valid host and port''])
                       | Inr (_, port) \<Rightarrow>
                           (case ParseUint16 port of
                              Inr portNumber \<Rightarrow>
                                (if portNumber = 0
                                 then Inl (errors_Errorf [Lit ''management service endpoint '', Quoted endpoint,
                                        Lit '' must include a port from 1 through 65535''])
                                 else Inr (urlHost u))
                            | Inl _ \<Rightarrow> Inl (errors_Errorf [Lit ''management service endpoint '', Quoted endpoint,
                                        Lit '' must include a port from 1 through 65535'']))))))"

section \<open>What the parsers return\<close>

lemma unix_endpoint_absolute:
  assumes "ParseServiceEndpoint parse endpoint = Inr (scheme, path)" and "scheme = ''unix''"
  shows "IsAbs path \<and> Clean path = path"
proof -
  from assms obtain p where "path = PathJoin [''/'', p]"
    by (auto simp: ParseServiceEndpoint_def Let_def split: sum.splits if_splits)
  then show ?thesis by simp
qed

lemma ParseUint16_bounds: "ParseUint16 s = Inr n \<Longrightarrow> n \<le> 65535"
  by (auto simp: ParseUint16_def split: if_splits option.splits)

text \<open>
  The address a management endpoint yields is one the HTTP server can bind: an accepted
  non-empty endpoint is the host part of an \<open>http\<close> URL that carries no credentials, path, query
  or fragment, and that host splits into a host and a decimal port between 1 and 65535; without
  a scheme the endpoint is read as \<open>http\<close>.
\<close>

theorem management_endpoint_port:
  assumes "ParseManagementServiceEndpoint parse endpoint = Inr addr" and "addr \<noteq> []"
  shows "\<exists>u host port n. parse (if Contains (TrimSpace endpoint) ''://'' then TrimSpace endpoint
                                  else ''http://'' @ TrimSpace endpoint) = Inr u \<and>
           ToLower (urlScheme u) = ''http'' \<and> urlHost u = addr \<and> \<not> urlHasUser u \<and> urlPath u = [] \<and>
           urlRawQuery u = [] \<and> urlFragment u = [] \<and>
           SplitHostPort addr = Inr (host, port) \<and> ParseUint16 port = Inr n \<and> 1 \<le> n \<and> n \<le> 65535"
proof -
  let ?e = "if Contains (TrimSpace endpoint) ''://'' then TrimSpace endpoint else ''http://'' @ TrimSpace endpoint"
  from assms obtain u where u: "parse ?e = Inr u"
    by (auto simp: ParseManagementServiceEndpoint_def Let_def split: if_splits sum.splits)
  with assms obtain host port where hp: "ToLower (urlScheme u) = ''http''" "\<not> urlHasUser u" "urlPath u = []"
      "urlRawQuery u = []" "urlFragment u = []" "SplitHostPort (urlHost u) = Inr (host, port)"
    by (auto simp: ParseManagementServiceEndpoint_def Let_def split: if_splits sum.splits)
  with assms u obtain n where "ParseUint16 port = Inr n" "n \<noteq> 0" "addr = urlHost u"
    by (auto simp: ParseManagementServiceEndpoint_def Let_def split: if_splits sum.splits)
  with u hp ParseUint16_bounds [of port n] show ?thesis by auto
qed

section \<open>Sample endpoints\<close>

definition sample_parse :: "string \<Rightarrow> URL result" where
  "sample_parse s =
     (if prefix ''unix://'' s
      then Inr \<lparr>urlScheme = ''unix'', urlHost = [], urlPath = drop 7 s, urlHasUser = False, urlRawQuery = [],
                urlFragment = []\<rparr>
      else if prefix ''http://'' s
      then Inr \<lparr>urlScheme = ''http'', urlHost = drop 7 s, urlPath = [], urlHasUser = False, urlRawQuery = [],
                urlFragment = []\<rparr>
      else Inl (errors_New ''unknown scheme''))"

lemma sample_service_endpoint:
  "ParseServiceEndpoint sample_parse ''unix:///var/lib/irodsfsd/comm.sock'' =
     Inr (''unix'', ''/var/lib/irodsfsd/comm.sock'')"
  by code_simp

lemma sample_management_endpoint:
  "ParseManagementServiceEndpoint sample_parse ''http://0.0.0.0:13021'' = Inr ''0.0.0.0:13021''"
proof -
  have "Contains ''http://0.0.0.0:13021'' ''://''" "TrimSpace ''http://0.0.0.0:13021'' = ''http://0.0.0.0:13021''"
    "SplitHostPort ''0.0.0.0:13021'' = Inr (''0.0.0.0'', ''13021'')" "ToLower ''http'' = ''http''"
    "sample_parse ''http://0.0.0.0:13021'' =
       Inr \<lparr>urlScheme = ''http'', urlHost = ''0.0.0.0:13021'', urlPath = [], urlHasUser = False,
            urlRawQuery = [], urlFragment = []\<rparr>"
    by code_simp+
  moreover have "ParseUint16 ''13021'' = Inr 13021" by (simp add: ParseUint16_def Let_def)
  ultimately show ?thesis by (simp add: ParseManagementServiceEndpoint_def)
qed

theorem management_endpoint_port_witness:
  "\<exists>host port n. SplitHostPort ''0.0.0.0:13021'' = Inr (host, port) \<and> ParseUint16 port = Inr n \<and> n \<le> 65535"
  using management_endpoint_port [OF sample_management_endpoint] by auto

end
