(* ===== verification/Redaction.thy ===== *)
theory Redaction
  imports ApiTypes
begin

text \<open>
  Redaction of secrets before a \<open>MountInfo\<close> leaves the daemon (\<open>redactMountInfo\<close> of
  \<open>service/mount_manager.go\<close>) and the collection of the same secrets for the log filter
  (\<open>collectMountSecrets\<close> of \<open>service/mount_command.go\<close>). The updates of nested message
  pointers are \<open>on_irodsfs\<close>, \<open>on_account\<close>, \<open>on_redis\<close> and \<open>on_davfs\<close>: each changes the message
  at the end of a chain of pointers and does nothing where a pointer is nil.
\<close>

definition redactedValue :: string where
  "redactedValue = ''[REDACTED]''"

definition redactOptional :: "string option \<Rightarrow> string option" where
  "redactOptional value =
     (case value of
        None \<Rightarrow> None
      | Some v \<Rightarrow> Some (if v \<noteq> [] then redactedValue else []))"

definition on_config :: "(MountConfig \<Rightarrow> MountConfig) \<Rightarrow> MountInfo \<Rightarrow> MountInfo" where
  "on_config f info = info\<lparr>InfoConfig := map_option f (InfoConfig info)\<rparr>"

fun on_irodsfs :: "(IRODSFSConfig \<Rightarrow> IRODSFSConfig) \<Rightarrow> client_config \<Rightarrow> client_config" where
  "on_irodsfs f (MountConfig_Irodsfs i) = MountConfig_Irodsfs (f i)"
| "on_irodsfs f c = c"

fun on_davfs :: "(DAVFSConfig \<Rightarrow> DAVFSConfig) \<Rightarrow> client_config \<Rightarrow> client_config" where
  "on_davfs f (MountConfig_Davfs d) = MountConfig_Davfs (f d)"
| "on_davfs f c = c"

definition on_client :: "(client_config \<Rightarrow> client_config) \<Rightarrow> MountConfig \<Rightarrow> MountConfig" where
  "on_client f m = m\<lparr>ClientConfig := map_option f (ClientConfig m)\<rparr>"

definition on_account :: "(Account \<Rightarrow> Account) \<Rightarrow> IRODSFSConfig \<Rightarrow> IRODSFSConfig" where
  "on_account f i = i\<lparr>IrodsAccount := map_option f (IrodsAccount i)\<rparr>"

definition on_redis :: "(RedisBackendConfig \<Rightarrow> RedisBackendConfig) \<Rightarrow> IRODSFSConfig \<Rightarrow> IRODSFSConfig" where
  "on_redis f i =
     i\<lparr>IrodsCache := map_option (\<lambda>c. c\<lparr>CacheBackend :=
         map_option (\<lambda>b. b\<lparr>BackendRedis := map_option f (BackendRedis b)\<rparr>) (CacheBackend c)\<rparr>)
       (IrodsCache i)\<rparr>"

text \<open>The three secrets of an account, the Redis password, the DAVFS password.\<close>

definition on_account_secrets :: "(string option \<Rightarrow> string option) \<Rightarrow> Account \<Rightarrow> Account" where
  "on_account_secrets g a =
     a\<lparr>IrodsUserPassword := g (IrodsUserPassword a),
       IrodsTicket := g (IrodsTicket a),
       IrodsPamToken := g (IrodsPamToken a)\<rparr>"

definition on_redis_secret ::
    "(string option \<Rightarrow> string option) \<Rightarrow> RedisBackendConfig \<Rightarrow> RedisBackendConfig" where
  "on_redis_secret g r = r\<lparr>RedisPassword := g (RedisPassword r)\<rparr>"

definition on_davfs_secret :: "(string option \<Rightarrow> string option) \<Rightarrow> DAVFSConfig \<Rightarrow> DAVFSConfig" where
  "on_davfs_secret g d = d\<lparr>DavfsPassword := g (DavfsPassword d)\<rparr>"

definition redactMountInfo :: "MountInfo \<Rightarrow> MountInfo" where
  "redactMountInfo info =
     (let copy1 = on_config (on_client (on_irodsfs (on_account (on_account_secrets redactOptional)))) info;
          copy2 = on_config (on_client (on_irodsfs (on_redis (on_redis_secret redactOptional)))) copy1
      in on_config (on_client (on_davfs (on_davfs_secret redactOptional))) copy2)"

definition collectMountSecrets :: "MountConfig option \<Rightarrow> string list" where
  "collectMountSecrets config =
     (case GetAccount (GetIrodsfs config) of
        None \<Rightarrow> []
      | Some a \<Rightarrow> [GetString (IrodsUserPassword a), GetString (IrodsTicket a), GetString (IrodsPamToken a)]) @
     (case GetRedis (GetIrodsfs config) of None \<Rightarrow> [] | Some r \<Rightarrow> [GetString (RedisPassword r)]) @
     (case GetDavfs config of None \<Rightarrow> [] | Some d \<Rightarrow> [GetString (DavfsPassword d)])"

definition accountClientUser :: "Account option \<Rightarrow> string" where
  "accountClientUser account =
     (case account of
        None \<Rightarrow> []
      | Some a \<Rightarrow> (case IrodsClientUserName a of Some u \<Rightarrow> u | None \<Rightarrow> IrodsUserName a))"

section \<open>What redaction hides and what it keeps\<close>

text \<open>\<open>on_secrets g\<close> applies \<open>g\<close> to every secret of a message and touches nothing else.\<close>

definition on_config_secrets :: "(string option \<Rightarrow> string option) \<Rightarrow> MountConfig \<Rightarrow> MountConfig" where
  "on_config_secrets g =
     on_client (on_davfs (on_davfs_secret g) \<circ> on_irodsfs (on_redis (on_redis_secret g)) \<circ>
                on_irodsfs (on_account (on_account_secrets g)))"

definition on_secrets :: "(string option \<Rightarrow> string option) \<Rightarrow> MountInfo \<Rightarrow> MountInfo" where
  "on_secrets g = on_config (on_config_secrets g)"

lemmas secret_defs =
  on_secrets_def on_config_secrets_def on_config_def on_client_def on_account_def on_redis_def
  on_account_secrets_def on_redis_secret_def on_davfs_secret_def

text \<open>The updates compose: two updates of the same message are one.\<close>

lemma on_comp:
  "on_config f (on_config g info) = on_config (f \<circ> g) info"
  "on_client h \<circ> on_client k = on_client (h \<circ> k)"
  "on_account u (on_account v i) = on_account (u \<circ> v) i"
  "on_redis p (on_redis q i) = on_redis (p \<circ> q) i"
  by (simp_all add: on_config_def on_client_def on_account_def on_redis_def option.map_comp comp_def
      fun_eq_iff)

lemma on_secret_comp:
  "on_account_secrets f \<circ> on_account_secrets g = on_account_secrets (f \<circ> g)"
  "on_redis_secret f \<circ> on_redis_secret g = on_redis_secret (f \<circ> g)"
  "on_davfs_secret f \<circ> on_davfs_secret g = on_davfs_secret (f \<circ> g)"
  by (simp_all add: fun_eq_iff on_account_secrets_def on_redis_secret_def on_davfs_secret_def)

lemma redactMountInfo_on_secrets: "redactMountInfo info = on_secrets redactOptional info"
  by (simp add: redactMountInfo_def on_secrets_def on_config_secrets_def on_comp comp_assoc)

lemma on_account_redis_commute: "on_account f (on_redis g i) = on_redis g (on_account f i)"
  by (simp add: on_account_def on_redis_def)

lemma on_client_secrets_comp:
  "(on_davfs (on_davfs_secret f) \<circ> on_irodsfs (on_redis (on_redis_secret f)) \<circ>
      on_irodsfs (on_account (on_account_secrets f))) \<circ>
     (on_davfs (on_davfs_secret g) \<circ> on_irodsfs (on_redis (on_redis_secret g)) \<circ>
      on_irodsfs (on_account (on_account_secrets g))) =
   on_davfs (on_davfs_secret (f \<circ> g)) \<circ> on_irodsfs (on_redis (on_redis_secret (f \<circ> g))) \<circ>
      on_irodsfs (on_account (on_account_secrets (f \<circ> g)))"
  (is "?lhs = ?rhs")
proof
  fix c
  show "?lhs c = ?rhs c"
    by (cases c)
      (simp_all add: on_account_redis_commute on_comp on_secret_comp fun_cong [OF on_secret_comp(3), simplified])
qed

lemma on_secrets_comp: "on_secrets f (on_secrets g info) = on_secrets (f \<circ> g) info"
  by (simp add: on_secrets_def on_config_secrets_def on_comp on_client_secrets_comp)

lemma redactOptional_idem [simp]: "redactOptional \<circ> redactOptional = redactOptional"
  by (rule ext) (simp add: redactOptional_def redactedValue_def split: option.split)

lemma on_secrets_fields [simp]:
  "MountId (on_secrets g info) = MountId info"
  "State (on_secrets g info) = State info"
  "Attempt (on_secrets g info) = Attempt info"
  "GetMountPath (InfoConfig (on_secrets g info)) = GetMountPath (InfoConfig info)"
  by (simp_all add: on_secrets_def on_config_secrets_def on_config_def on_client_def GetMountPath_def
      split: option.splits)

lemma redact_fields [simp]:
  "MountId (redactMountInfo info) = MountId info"
  "State (redactMountInfo info) = State info"
  "Attempt (redactMountInfo info) = Attempt info"
  "GetMountPath (InfoConfig (redactMountInfo info)) = GetMountPath (InfoConfig info)"
  by (simp_all add: redactMountInfo_on_secrets)

lemma redact_blank:
  "(\<And>s. (g s = []) = (s = [])) \<Longrightarrow> redactOptional \<circ> map_option g = redactOptional"
  by (rule ext) (simp add: redactOptional_def split: option.split)

lemma GetIrodsfs_secrets:
  "GetIrodsfs (map_option (on_config_secrets g) c) =
     map_option (on_redis (on_redis_secret g) \<circ> on_account (on_account_secrets g)) (GetIrodsfs c)"
  by (auto simp: GetIrodsfs_def on_config_secrets_def on_client_def
      split: option.splits client_config.splits elim!: on_davfs.elims on_irodsfs.elims)

lemma GetDavfs_secrets:
  "GetDavfs (map_option (on_config_secrets g) c) = map_option (on_davfs_secret g) (GetDavfs c)"
  by (auto simp: GetDavfs_def on_config_secrets_def on_client_def
      split: option.splits client_config.splits elim!: on_davfs.elims on_irodsfs.elims)

lemma GetAccount_on:
  "GetAccount (map_option (on_redis r \<circ> on_account a) i) = map_option a (GetAccount i)"
  by (cases i) (simp_all add: GetAccount_def on_redis_def on_account_def)

lemma GetRedis_on:
  "GetRedis (map_option (on_redis r \<circ> on_account a) i) = map_option r (GetRedis i)"
proof (cases i)
  case (Some x)
  then show ?thesis
    by (cases "IrodsCache x"; cases "Option.bind (IrodsCache x) CacheBackend")
      (auto simp: GetRedis_def on_redis_def on_account_def)
qed (simp add: GetRedis_def)

lemma collect_on_secrets:
  "set (collectMountSecrets (map_option (on_config_secrets g) c)) \<subseteq> GetString ` range g"
  by (auto simp: collectMountSecrets_def GetIrodsfs_secrets GetDavfs_secrets GetAccount_on GetRedis_on
      on_account_secrets_def on_redis_secret_def on_davfs_secret_def split: option.splits)

lemma range_redactOptional: "GetString ` range redactOptional \<subseteq> {[], redactedValue}"
  by (auto simp: redactOptional_def split: option.splits)

end
