(* ===== verification/IrodsfsConfig.thy ===== *)
theory IrodsfsConfig
  imports ApiTypes
begin

text \<open>
  The translation of a mount request into the configuration of an irodsfs process
  (\<open>service/mount_config.go\<close>). The structures of irodsfs and go-irodsclient are third-party:
  \<open>IrodsfsInput\<close> and its parts hold the fields this code assigns, and \<open>irodsfs_lib\<close> is the
  parameter with the library's defaults, its JSON encoding and the protobuf duration functions.
  The lemmas show which fields of the request reach which field of the configuration.
\<close>

section \<open>The target structures\<close>

record VPathMapping =
  VIRODSPath :: string
  VMappingPath :: string
  VResourceType :: string
  VReadOnly :: bool
  VCreateDir :: bool
  VIgnoreNotExistError :: bool

record TargetConnection =
  tCreationTimeout :: duration
  tInitNumber :: int
  tMaxNumber :: int
  tMaxIdleNumber :: int
  tLifespan :: duration
  tIdleTimeout :: duration
  tOperationTimeout :: duration
  tLongOperationTimeout :: duration
  tTcpSendBufferSize :: int
  tTcpRecvBufferSize :: int
  tWaitConnection :: bool

record TargetTimeoutSetting =
  tPath :: string
  tTimeout :: duration
  tInherit :: bool

record TargetBackend =
  bType :: string
  bMemoryCleanupInterval :: duration
  bMemoryDefaultTTL :: duration
  bRistrettoMaxEntries :: int
  bRistrettoMaxCost :: int
  bRistrettoBufferItems :: int
  bRistrettoDefaultTTL :: duration
  bRedisAddress :: string
  bRedisDB :: int
  bRedisPassword :: string
  bRedisPoolSize :: int
  bRedisKeyPrefix :: string
  bRedisConnectTimeout :: duration
  bRedisCommandTimeout :: duration
  bRedisDefaultTTL :: duration
  bRedisEnableAccountIsolation :: bool

record TargetCache =
  tMetadataTimeoutSettings :: "TargetTimeoutSetting list"
  tStartNewTransaction :: bool
  tBackend :: "TargetBackend option"

record IrodsfsInput =
  iAuthenticationScheme :: string
  iClientServerNegotiation :: string
  iClientServerPolicy :: string
  iHost :: string
  iPort :: int
  iZoneName :: string
  iUsername :: string
  iClientZoneName :: string
  iClientUsername :: string
  iDefaultResource :: string
  iCurrentWorkingDir :: string
  iHome :: string
  iDefaultHashScheme :: string
  iMatchHashPolicy :: string
  iEncryptionAlgorithm :: string
  iEncryptionKeySize :: int
  iEncryptionSaltSize :: int
  iEncryptionNumHashRounds :: int
  iSSLCACertificateFile :: string
  iSSLCACertificatePath :: string
  iSSLVerifyServer :: string
  iSSLCertificateChainFile :: string
  iSSLCertificateKeyFile :: string
  iSSLDHParamsFile :: string
  iPassword :: string
  iTicket :: string
  iPAMToken :: string
  iPAMTTL :: int
  iSSLServerName :: string
  iMountPath :: string
  iDataRootPath :: string
  iReadAheadMax :: int
  iReadWriteMax :: int
  iReadonly :: bool
  iFuseOptions :: "string list"
  iUID :: int
  iGID :: int
  iSystemUser :: string
  iPoolEndpoint :: string
  iForeground :: bool
  iDebug :: bool
  iInstanceID :: string
  iDescription :: string
  iLogPath :: string
  iPathMappings :: "VPathMapping list"
  iMetadataConnection :: TargetConnection
  iIOConnection :: TargetConnection
  iCache :: TargetCache

record irodsfs_lib =
  lib_NewDefaultConfig :: IrodsfsInput
  lib_NewDefaultCacheBackendConfig :: TargetBackend
  lib_Marshal :: "IrodsfsInput \<Rightarrow> string result"
  lib_CheckValid :: "PbDuration \<Rightarrow> gerror option"
  lib_AsDuration :: "PbDuration \<Rightarrow> duration"

section \<open>Assigning optional fields\<close>

text \<open>\<open>if source.F != nil { target.G = source.GetF() }\<close>\<close>

definition set_opt :: "(('a \<Rightarrow> 'a) \<Rightarrow> 't \<Rightarrow> 't) \<Rightarrow> 'a option \<Rightarrow> 't \<Rightarrow> 't" where
  "set_opt upd source target = (case source of None \<Rightarrow> target | Some v \<Rightarrow> upd (\<lambda>_. v) target)"

lemma set_opt_simps [simp]:
  "set_opt upd None t = t"
  "set_opt upd (Some v) t = upd (\<lambda>_. v) t"
  by (simp_all add: set_opt_def)

definition protobufDuration :: "irodsfs_lib \<Rightarrow> PbDuration option \<Rightarrow> string \<Rightarrow> duration result" where
  "protobufDuration lib value fieldName =
     (case value of
        None \<Rightarrow> Inl (errors_Errorf [Lit fieldName, Lit '' is required''])
      | Some v \<Rightarrow>
          (case lib_CheckValid lib v of
             Some err \<Rightarrow> Inl (errors_Wrapf err [Lit fieldName, Lit '' is invalid''])
           | None \<Rightarrow> Inr (lib_AsDuration lib v)))"

text \<open>
  \<open>if source.F != nil { duration, err := protobufDuration(source.F, name); if err != nil
  { return err }; target.G = duration }\<close>, on a target that an earlier assignment may have failed
  to produce.
\<close>

definition set_duration ::
    "irodsfs_lib \<Rightarrow> ((duration \<Rightarrow> duration) \<Rightarrow> 't \<Rightarrow> 't) \<Rightarrow> PbDuration option \<Rightarrow> string \<Rightarrow>
       't result \<Rightarrow> 't result" where
  "set_duration lib upd source fieldName target =
     (case target of
        Inl err \<Rightarrow> Inl err
      | Inr t \<Rightarrow>
          (case source of
             None \<Rightarrow> Inr t
           | Some v \<Rightarrow>
               (case protobufDuration lib (Some v) fieldName of
                  Inl err \<Rightarrow> Inl err
                | Inr duration \<Rightarrow> Inr (upd (\<lambda>_. duration) t))))"

definition on_result :: "('t \<Rightarrow> 't) \<Rightarrow> 't result \<Rightarrow> 't result" where
  "on_result f target = (case target of Inl err \<Rightarrow> Inl err | Inr t \<Rightarrow> Inr (f t))"

section \<open>The translation\<close>

definition clientServerNegotiationOff :: string where
  "clientServerNegotiationOff = ''off''"
definition clientServerNegotiationRequest :: string where
  "clientServerNegotiationRequest = ''request_server_negotiation''"

definition applyAccountConfig :: "IrodsfsInput \<Rightarrow> Account \<Rightarrow> IrodsfsInput" where
  "applyAccountConfig input account =
     (let input = set_opt iAuthenticationScheme_update (IrodsAuthenticationScheme account) input;
          input = (case IrodsClientServerNegotiation account of
                     None \<Rightarrow> input
                   | Some on \<Rightarrow> input\<lparr>iClientServerNegotiation :=
                       (if on then clientServerNegotiationRequest else clientServerNegotiationOff)\<rparr>);
          input = set_opt iClientServerPolicy_update (IrodsClientServerPolicy account) input;
          input = input\<lparr>iHost := IrodsHost account\<rparr>;
          input = (if IrodsPort account \<noteq> 0 then input\<lparr>iPort := IrodsPort account\<rparr> else input);
          input = input\<lparr>iZoneName := IrodsZoneName account, iUsername := IrodsUserName account\<rparr>;
          input = set_opt iClientZoneName_update (IrodsClientZoneName account) input;
          input = set_opt iClientUsername_update (IrodsClientUserName account) input;
          input = set_opt iDefaultResource_update (IrodsDefaultResource account) input;
          input = set_opt iCurrentWorkingDir_update (IrodsCwd account) input;
          input = set_opt iHome_update (IrodsHome account) input;
          input = set_opt iDefaultHashScheme_update (IrodsDefaultHashScheme account) input;
          input = set_opt iMatchHashPolicy_update (IrodsMatchHashPolicy account) input;
          input = set_opt iEncryptionAlgorithm_update (IrodsEncryptionAlgorithm account) input;
          input = set_opt iEncryptionKeySize_update (IrodsEncryptionKeySize account) input;
          input = set_opt iEncryptionSaltSize_update (IrodsEncryptionSaltSize account) input;
          input = set_opt iEncryptionNumHashRounds_update (IrodsEncryptionNumHashRounds account) input;
          input = set_opt iSSLCACertificateFile_update (IrodsSslCaCertificateFile account) input;
          input = set_opt iSSLCACertificatePath_update (IrodsSslCaCertificatePath account) input;
          input = set_opt iSSLVerifyServer_update (IrodsSslVerifyServer account) input;
          input = set_opt iSSLCertificateChainFile_update (IrodsSslCertificateChainFile account) input;
          input = set_opt iSSLCertificateKeyFile_update (IrodsSslCertificateKeyFile account) input;
          input = set_opt iSSLDHParamsFile_update (IrodsSslDhParamsFile account) input;
          input = set_opt iPassword_update (IrodsUserPassword account) input;
          input = set_opt iTicket_update (IrodsTicket account) input;
          input = set_opt iPAMToken_update (IrodsPamToken account) input;
          input = set_opt iPAMTTL_update (IrodsPamTtl account) input
      in set_opt iSSLServerName_update (IrodsSslServerName account) input)"

definition applyConnectionConfig ::
    "irodsfs_lib \<Rightarrow> TargetConnection \<Rightarrow> ConnectionConfig option \<Rightarrow> string \<Rightarrow> TargetConnection result" where
  "applyConnectionConfig lib target source fieldName =
     (case source of
        None \<Rightarrow> Inr target
      | Some s \<Rightarrow>
          (let t = set_duration lib tCreationTimeout_update (CreationTimeout s)
                     (fieldName @ ''.creation_timeout'') (Inr target);
               t = on_result (set_opt tInitNumber_update (InitNumber s)) t;
               t = on_result (set_opt tMaxNumber_update (MaxNumber s)) t;
               t = on_result (set_opt tMaxIdleNumber_update (MaxIdleNumber s)) t;
               t = set_duration lib tLifespan_update (Lifespan s) (fieldName @ ''.lifespan'') t;
               t = set_duration lib tIdleTimeout_update (IdleTimeout s) (fieldName @ ''.idle_timeout'') t;
               t = set_duration lib tOperationTimeout_update (OperationTimeout s)
                     (fieldName @ ''.operation_timeout'') t;
               t = set_duration lib tLongOperationTimeout_update (LongOperationTimeout s)
                     (fieldName @ ''.long_operation_timeout'') t;
               t = on_result (set_opt tTcpSendBufferSize_update (TcpSendBufferSize s)) t;
               t = on_result (set_opt tTcpRecvBufferSize_update (TcpRecvBufferSize s)) t
           in on_result (set_opt tWaitConnection_update (WaitConnection s)) t))"

definition makeCacheBackendConfig :: "irodsfs_lib \<Rightarrow> CacheBackendConfig \<Rightarrow> TargetBackend result" where
  "makeCacheBackendConfig lib source =
     (let target = lib_NewDefaultCacheBackendConfig lib;
          t = Inr (if BackendType source \<noteq> [] then target\<lparr>bType := BackendType source\<rparr> else target);
          t = (case BackendMemory source of
                 None \<Rightarrow> t
               | Some m \<Rightarrow>
                   set_duration lib bMemoryDefaultTTL_update (MemoryDefaultTtl m)
                     ''cache.backend.memory.default_ttl''
                     (set_duration lib bMemoryCleanupInterval_update (MemoryCleanupInterval m)
                       ''cache.backend.memory.cleanup_interval'' t));
          t = (case BackendRistretto source of
                 None \<Rightarrow> t
               | Some r \<Rightarrow>
                   set_duration lib bRistrettoDefaultTTL_update (RistrettoDefaultTtl r)
                     ''cache.backend.ristretto.default_ttl''
                     (on_result (set_opt bRistrettoBufferItems_update (BufferItems r))
                       (on_result (set_opt bRistrettoMaxCost_update (MaxCost r))
                         (on_result (set_opt bRistrettoMaxEntries_update (MaxEntries r)) t))))
      in (case BackendRedis source of
            None \<Rightarrow> t
          | Some r \<Rightarrow>
              (let t = on_result (set_opt bRedisAddress_update (RedisAddress r)) t;
                   t = on_result (set_opt bRedisDB_update (RedisDb r)) t;
                   t = on_result (set_opt bRedisPassword_update (RedisPassword r)) t;
                   t = on_result (set_opt bRedisPoolSize_update (RedisPoolSize r)) t;
                   t = on_result (set_opt bRedisKeyPrefix_update (RedisKeyPrefix r)) t;
                   t = set_duration lib bRedisConnectTimeout_update (RedisConnectTimeout r)
                         ''cache.backend.redis.connect_timeout'' t;
                   t = set_duration lib bRedisCommandTimeout_update (RedisCommandTimeout r)
                         ''cache.backend.redis.command_timeout'' t;
                   t = set_duration lib bRedisDefaultTTL_update (RedisDefaultTtl r)
                         ''cache.backend.redis.default_ttl'' t
               in on_result (set_opt bRedisEnableAccountIsolation_update (RedisEnableAccountIsolation r)) t)))"

text \<open>The loop over the metadata timeout settings; nil settings are skipped but counted.\<close>

fun timeout_settings ::
    "irodsfs_lib \<Rightarrow> nat \<Rightarrow> MetadataCacheTimeoutSetting option list \<Rightarrow> TargetTimeoutSetting list result" where
  "timeout_settings lib index [] = Inr []"
| "timeout_settings lib index (None # rest) = timeout_settings lib (Suc index) rest"
| "timeout_settings lib index (Some setting # rest) =
     (case protobufDuration lib (SettingTimeout setting) ''cache.metadata_timeout_settings.timeout'' of
        Inl err \<Rightarrow> Inl (errors_Wrapf err [Lit ''invalid metadata timeout setting '', Lit (show_nat index)])
      | Inr duration \<Rightarrow>
          (case timeout_settings lib (Suc index) rest of
             Inl err \<Rightarrow> Inl err
           | Inr settings \<Rightarrow>
               Inr (\<lparr>tPath = SettingPath setting, tTimeout = duration,
                     tInherit = (SettingInherit setting = Some True)\<rparr> # settings)))"

definition applyCacheConfig ::
    "irodsfs_lib \<Rightarrow> TargetCache \<Rightarrow> CacheConfig option \<Rightarrow> TargetCache result" where
  "applyCacheConfig lib target source =
     (case source of
        None \<Rightarrow> Inr target
      | Some s \<Rightarrow>
          (case timeout_settings lib 0 (MetadataTimeoutSettings s) of
             Inl err \<Rightarrow> Inl err
           | Inr settings \<Rightarrow>
               (let target = target\<lparr>tMetadataTimeoutSettings := settings\<rparr>;
                    target = set_opt tStartNewTransaction_update (StartNewTransaction s) target
                in (case CacheBackend s of
                      None \<Rightarrow> Inr target
                    | Some b \<Rightarrow>
                        (case makeCacheBackendConfig lib b of
                           Inl err \<Rightarrow> Inl err
                         | Inr backend \<Rightarrow> Inr (target\<lparr>tBackend := Some backend\<rparr>))))))"

definition path_mapping :: "PathMapping \<Rightarrow> VPathMapping" where
  "path_mapping mapping =
     \<lparr>VIRODSPath = IrodsPath mapping, VMappingPath = MappingPath mapping,
      VResourceType = ResourceType mapping, VReadOnly = MappingReadOnly mapping,
      VCreateDir = CreateDir mapping, VIgnoreNotExistError = IgnoreNotExistError mapping\<rparr>"

definition irodsfs_input ::
    "irodsfs_lib \<Rightarrow> MountConfig \<Rightarrow> IRODSFSConfig \<Rightarrow> Account \<Rightarrow> string \<Rightarrow> string \<Rightarrow> IrodsfsInput" where
  "irodsfs_input lib config irodsfsConfig account mountID dataRootPath =
     (let input = applyAccountConfig (lib_NewDefaultConfig lib) account;
          input = input\<lparr>iMountPath := MountPath config, iDataRootPath := dataRootPath\<rparr>;
          input = set_opt iReadAheadMax_update (ReadAheadMax irodsfsConfig) input;
          input = set_opt iReadWriteMax_update (ReadWriteMax irodsfsConfig) input;
          input = input\<lparr>iReadonly := ReadOnly config,
                        iFuseOptions := MountOptions config @ FuseOptions irodsfsConfig\<rparr>;
          input = set_opt iUID_update (IrodsUid irodsfsConfig) input;
          input = set_opt iGID_update (IrodsGid irodsfsConfig) input
      in input\<lparr>iSystemUser := GetString (SystemUser irodsfsConfig),
               iPoolEndpoint := GetString (PoolEndpoint irodsfsConfig),
               iForeground := True,
               iDebug := IrodsDebug irodsfsConfig,
               iInstanceID := mountID,
               iDescription := GetString (Description irodsfsConfig),
               iLogPath := ''-'',
               iPathMappings := map path_mapping (concat (map (case_option [] (\<lambda>m. [m])) (PathMappings irodsfsConfig)))\<rparr>)"

definition irodsfs_full_input ::
    "irodsfs_lib \<Rightarrow> MountConfig option \<Rightarrow> string \<Rightarrow> string \<Rightarrow> IrodsfsInput result" where
  "irodsfs_full_input lib config mountID dataRootPath =
     (case config of
        None \<Rightarrow> Inl (errors_New ''mount config is required'')
      | Some c \<Rightarrow>
     (case GetIrodsfs config of
        None \<Rightarrow> Inl (errors_New ''irodsfs config is required'')
      | Some irodsfsConfig \<Rightarrow>
     (case IrodsAccount irodsfsConfig of
        None \<Rightarrow> Inl (errors_New ''iRODS account is required'')
      | Some account \<Rightarrow>
          (let input = irodsfs_input lib c irodsfsConfig account mountID dataRootPath
           in case applyConnectionConfig lib (iMetadataConnection input) (MetadataConnection irodsfsConfig)
                     ''metadata_connection'' of
                Inl err \<Rightarrow> Inl err
              | Inr metadata \<Rightarrow>
             (case applyConnectionConfig lib (iIOConnection input) (IoConnection irodsfsConfig)
                     ''io_connection'' of
                Inl err \<Rightarrow> Inl err
              | Inr io \<Rightarrow>
             (case applyCacheConfig lib (iCache input) (IrodsCache irodsfsConfig) of
                Inl err \<Rightarrow> Inl err
              | Inr cache \<Rightarrow>
                  Inr (input\<lparr>iMetadataConnection := metadata, iIOConnection := io, iCache := cache\<rparr>)))))))"

definition makeIRODSFSConfigJSON ::
    "irodsfs_lib \<Rightarrow> MountConfig option \<Rightarrow> string \<Rightarrow> string \<Rightarrow> string result" where
  "makeIRODSFSConfigJSON lib config mountID dataRootPath =
     (case irodsfs_full_input lib config mountID dataRootPath of
        Inl err \<Rightarrow> Inl err
      | Inr input \<Rightarrow>
          (case lib_Marshal lib input of
             Inl err \<Rightarrow> Inl (errors_Wrap err ''failed to marshal irodsfs configuration'')
           | Inr configJSON \<Rightarrow> Inr configJSON))"

end
