(* ===== verification/Store.thy ===== *)
theory Store
  imports GoPath ApiTypes
begin

text \<open>
  The mount repository (\<open>service/store/mount_repository.go\<close>, \<open>service/store/store.go\<close>): records
  under \<open>mounts/<id>\<close> and a path index under \<open>mount-paths/<base64 path>\<close>, written in one
  transaction. BadgerDB is a parameter: \<open>badger\<close> holds the operations the code calls, and the
  locale \<open>badger_laws\<close> what it documents of them (a transaction reads its own snapshot and
  writes, commits all or nothing). The JSON codecs are the parameter \<open>codec\<close>, with the round
  trip as the law of \<open>codec_laws\<close>.

  The result is the interface \<open>repository\<close> that the mount manager relies on: the stored
  records as a map from mount IDs, what each operation does to it, and the invariant that the
  path index holds exactly the paths of the stored records, so that no two records own the same
  canonical path. The interpretation \<open>mem\<close> discharges the interface for an in-memory database.
\<close>

section \<open>Keys\<close>

definition mountKeyPrefix :: string where "mountKeyPrefix = ''mounts/''"
definition mountPathKeyPrefix :: string where "mountPathKeyPrefix = ''mount-paths/''"
definition metaSchemaVersionKey :: string where "metaSchemaVersionKey = ''meta/schema-version''"

definition base64url :: string where
  "base64url = ''ABCDEFGHIJKLMNOPQRSTUVWXYZabcdefghijklmnopqrstuvwxyz0123456789-_''"

fun sextets :: "nat list \<Rightarrow> nat list" where
  "sextets [] = []"
| "sextets [a] = [a div 4, (a mod 4) * 16]"
| "sextets [a, b] = [a div 4, (a mod 4) * 16 + b div 16, (b mod 16) * 4]"
| "sextets (a # b # c # xs) =
     [a div 4, (a mod 4) * 16 + b div 16, (b mod 16) * 4 + c div 64, c mod 64] @ sextets xs"

definition RawURLEncoding :: "string \<Rightarrow> string" where
  "RawURLEncoding s = map ((!) base64url) (sextets (map of_char s))"

definition mountKey :: "string \<Rightarrow> string" where
  "mountKey mountID = mountKeyPrefix @ mountID"

definition mountPathKey :: "string \<Rightarrow> string" where
  "mountPathKey canonicalPath = mountPathKeyPrefix @ RawURLEncoding canonicalPath"

section \<open>Records and their encoding\<close>

record MountRecord =
  Info :: MountInfo
  Tombstone :: bool

record storedRecord =
  SchemaVersion :: nat
  StoredTombstone :: bool
  StoredInfo :: string

definition CurrentSchemaVersion :: nat where "CurrentSchemaVersion = 1"

record codec =
  protojson_Marshal :: "MountInfo \<Rightarrow> string result"
  protojson_Unmarshal :: "string \<Rightarrow> MountInfo result"
  json_Marshal :: "storedRecord \<Rightarrow> string result"
  json_Unmarshal :: "string \<Rightarrow> storedRecord result"

definition encodeRecord :: "codec \<Rightarrow> MountRecord \<Rightarrow> string result" where
  "encodeRecord cd rec =
     (case protojson_Marshal cd (Info rec) of
        Inl err \<Rightarrow> Inl (errors_Wrap err ''failed to marshal mount record'')
      | Inr infoJSON \<Rightarrow>
          (case json_Marshal cd \<lparr>SchemaVersion = CurrentSchemaVersion,
                                 StoredTombstone = Tombstone rec,
                                 StoredInfo = infoJSON\<rparr> of
             Inl err \<Rightarrow> Inl (errors_Wrap err ''failed to marshal mount record'')
           | Inr data \<Rightarrow> Inr data))"

definition decodeRecord :: "codec \<Rightarrow> string \<Rightarrow> MountRecord result" where
  "decodeRecord cd data =
     (case json_Unmarshal cd data of
        Inl err \<Rightarrow> Inl (errors_Wrap err ''failed to unmarshal mount record'')
      | Inr stored \<Rightarrow>
          (case protojson_Unmarshal cd (StoredInfo stored) of
             Inl err \<Rightarrow> Inl (errors_Wrap err ''failed to unmarshal mount record'')
           | Inr info \<Rightarrow> Inr \<lparr>Info = info, Tombstone = StoredTombstone stored\<rparr>))"

definition validateRecordForWrite :: "MountRecord option \<Rightarrow> string result" where
  "validateRecordForWrite record =
     (case record of
        None \<Rightarrow> Inl (errors_New ''mount record is required'')
      | Some rec \<Rightarrow>
          (if MountId (Info rec) = [] then Inl (errors_New ''mount ID is required'')
           else let mountPath = GetMountPath (InfoConfig (Info rec))
                in if mountPath = [] \<or> \<not> IsAbs mountPath
                   then Inl (errors_New ''mount path must be absolute'')
                   else Inr (Clean mountPath)))"

section \<open>The database operations the repository calls\<close>

text \<open>
  An item returned by \<open>txn.Get\<close> is modelled by what \<open>item.ValueCopy\<close> returns for it.
  \<open>txn_Iterate t p\<close> are the keys with prefix \<open>p\<close> and their items, in iteration order.
\<close>

type_synonym item = "string result"

record ('db, 'txn) badger =
  NewTransaction :: "'db \<Rightarrow> 'txn"
  txn_Get :: "'txn \<Rightarrow> string \<Rightarrow> item result"
  txn_Set :: "'txn \<Rightarrow> string \<Rightarrow> string \<Rightarrow> 'txn result"
  txn_Delete :: "'txn \<Rightarrow> string \<Rightarrow> 'txn result"
  txn_Iterate :: "'txn \<Rightarrow> string \<Rightarrow> (string \<times> item) list"
  txn_Commit :: "'db \<Rightarrow> 'txn \<Rightarrow> gerror option \<times> 'db"

text \<open>\<open>db.Update\<close>: run the function in a transaction, discard on error, commit otherwise.\<close>

definition db_Update ::
    "('db, 'txn) badger \<Rightarrow> ('txn \<Rightarrow> 'txn result) \<Rightarrow> 'db \<Rightarrow> gerror option \<times> 'db" where
  "db_Update bd fn db =
     (case fn (NewTransaction bd db) of
        Inl err \<Rightarrow> (Some err, db)
      | Inr txn \<Rightarrow> txn_Commit bd db txn)"

definition maxConflictRetries :: nat where "maxConflictRetries = 10"

fun conflict_loop ::
    "('db, 'txn) badger \<Rightarrow> ('txn \<Rightarrow> 'txn result) \<Rightarrow> nat \<Rightarrow> gerror option \<Rightarrow> 'db \<Rightarrow> gerror option \<times> 'db" where
  "conflict_loop bd fn 0 err db = (err, db)"
| "conflict_loop bd fn (Suc n) err db =
     (let (err, db) = db_Update bd fn db
      in if \<not> errors_Is err BadgerConflict then (err, db) else conflict_loop bd fn n err db)"

definition updateWithConflictRetry ::
    "('db, 'txn) badger \<Rightarrow> ('txn \<Rightarrow> 'txn result) \<Rightarrow> 'db \<Rightarrow> gerror option \<times> 'db" where
  "updateWithConflictRetry bd fn db = conflict_loop bd fn maxConflictRetries None db"

section \<open>The repository operations\<close>

definition create_txn ::
    "('db, 'txn) badger \<Rightarrow> string \<Rightarrow> string \<Rightarrow> string \<Rightarrow> 'txn \<Rightarrow> 'txn result" where
  "create_txn bd mountID data canonicalPath txn =
     (case txn_Get bd txn (mountKey mountID) of
        Inr _ \<Rightarrow> Inl (errors_Wrapf (errors_sentinel ErrMountIDConflict ''mount ID is already in use'')
                       [Lit ''mount ID '', Quoted mountID])
      | Inl getErr \<Rightarrow>
          (if cause getErr \<noteq> BadgerKeyNotFound
           then Inl (errors_Wrap getErr ''failed to check existing mount record'')
           else
             (case txn_Get bd txn (mountPathKey canonicalPath) of
                Inr item \<Rightarrow>
                  (case item of
                     Inl valueErr \<Rightarrow> Inl (errors_Wrap valueErr ''failed to check mount path index'')
                   | Inr owner \<Rightarrow>
                       Inl (errors_Wrapf (errors_sentinel ErrMountPathConflict ''mount path is already in use'')
                              [Lit ''mount path '', Quoted canonicalPath, Lit '' is owned by '', Quoted owner]))
              | Inl getErr \<Rightarrow>
                  (if cause getErr \<noteq> BadgerKeyNotFound
                   then Inl (errors_Wrap getErr ''failed to check mount path index'')
                   else
                     (case txn_Set bd txn (mountKey mountID) data of
                        Inl err \<Rightarrow> Inl (errors_Wrap err ''failed to store mount record'')
                      | Inr txn \<Rightarrow>
                          (case txn_Set bd txn (mountPathKey canonicalPath) mountID of
                             Inl err \<Rightarrow> Inl (errors_Wrap err ''failed to store mount path index'')
                           | Inr txn \<Rightarrow> Inr txn))))))"

definition Create ::
    "('db, 'txn) badger \<Rightarrow> codec \<Rightarrow> gerror option \<Rightarrow> MountRecord option \<Rightarrow> 'db \<Rightarrow> gerror option \<times> 'db" where
  "Create bd cd ctxErr record db =
     (case ctxErr of
        Some err \<Rightarrow> (Some err, db)
      | None \<Rightarrow>
          (case validateRecordForWrite record of
             Inl err \<Rightarrow> (Some err, db)
           | Inr canonicalPath \<Rightarrow>
               (case encodeRecord cd (the record) of
                  Inl err \<Rightarrow> (Some err, db)
                | Inr data \<Rightarrow>
                    updateWithConflictRetry bd
                      (create_txn bd (MountId (Info (the record))) data canonicalPath) db)))"

definition update_txn :: "('db, 'txn) badger \<Rightarrow> string \<Rightarrow> string \<Rightarrow> 'txn \<Rightarrow> 'txn result" where
  "update_txn bd mountID data txn =
     (case txn_Get bd txn (mountKey mountID) of
        Inl getErr \<Rightarrow>
          (if cause getErr = BadgerKeyNotFound
           then Inl (errors_Wrapf (errors_sentinel ErrMountNotFound ''mount not found'')
                       [Lit ''mount ID '', Quoted mountID])
           else Inl (errors_Wrap getErr ''failed to check existing mount record''))
      | Inr _ \<Rightarrow>
          (case txn_Set bd txn (mountKey mountID) data of
             Inl err \<Rightarrow> Inl (errors_Wrap err ''failed to update mount record'')
           | Inr txn \<Rightarrow> Inr txn))"

definition Update ::
    "('db, 'txn) badger \<Rightarrow> codec \<Rightarrow> gerror option \<Rightarrow> MountRecord option \<Rightarrow> 'db \<Rightarrow> gerror option \<times> 'db" where
  "Update bd cd ctxErr record db =
     (case ctxErr of
        Some err \<Rightarrow> (Some err, db)
      | None \<Rightarrow>
          (case validateRecordForWrite record of
             Inl err \<Rightarrow> (Some err, db)
           | Inr _ \<Rightarrow>
               (case encodeRecord cd (the record) of
                  Inl err \<Rightarrow> (Some err, db)
                | Inr data \<Rightarrow>
                    updateWithConflictRetry bd (update_txn bd (MountId (Info (the record))) data) db)))"

definition delete_txn :: "('db, 'txn) badger \<Rightarrow> codec \<Rightarrow> string \<Rightarrow> 'txn \<Rightarrow> 'txn result" where
  "delete_txn bd cd mountID txn =
     (case txn_Get bd txn (mountKey mountID) of
        Inl err \<Rightarrow>
          (if cause err = BadgerKeyNotFound then Inr txn
           else Inl (errors_Wrap err ''failed to read mount record for deletion''))
      | Inr item \<Rightarrow>
          (case item of
             Inl err \<Rightarrow> Inl (errors_Wrap err ''failed to read mount record for deletion'')
           | Inr data \<Rightarrow>
               (case decodeRecord cd data of
                  Inl err \<Rightarrow> Inl err
                | Inr record \<Rightarrow>
                    (case txn_Delete bd txn (mountKey mountID) of
                       Inl err \<Rightarrow> Inl (errors_Wrap err ''failed to delete mount record'')
                     | Inr txn \<Rightarrow>
                         (let canonicalPath = Clean (GetMountPath (InfoConfig (Info record)))
                          in case txn_Delete bd txn (mountPathKey canonicalPath) of
                               Inl err \<Rightarrow> Inl (errors_Wrap err ''failed to delete mount path index'')
                             | Inr txn \<Rightarrow> Inr txn)))))"

definition Delete ::
    "('db, 'txn) badger \<Rightarrow> codec \<Rightarrow> gerror option \<Rightarrow> string \<Rightarrow> 'db \<Rightarrow> gerror option \<times> 'db" where
  "Delete bd cd ctxErr mountID db =
     (case ctxErr of
        Some err \<Rightarrow> (Some err, db)
      | None \<Rightarrow>
          (if mountID = [] then (Some (errors_New ''mount ID is required''), db)
           else updateWithConflictRetry bd (delete_txn bd cd mountID) db))"

definition Get ::
    "('db, 'txn) badger \<Rightarrow> codec \<Rightarrow> gerror option \<Rightarrow> string \<Rightarrow> 'db \<Rightarrow> MountRecord result" where
  "Get bd cd ctxErr mountID db =
     (case ctxErr of
        Some err \<Rightarrow> Inl err
      | None \<Rightarrow>
          (case txn_Get bd (NewTransaction bd db) (mountKey mountID) of
             Inl getErr \<Rightarrow>
               (if cause getErr = BadgerKeyNotFound
                then Inl (errors_Wrapf (errors_sentinel ErrMountNotFound ''mount not found'')
                            [Lit ''mount ID '', Quoted mountID])
                else Inl (errors_Wrap getErr ''failed to read mount record''))
           | Inr item \<Rightarrow>
               (case item of
                  Inl valueErr \<Rightarrow> Inl (errors_Wrap valueErr ''failed to read mount record'')
                | Inr data \<Rightarrow> decodeRecord cd data)))"

fun decode_items :: "codec \<Rightarrow> (string \<times> item) list \<Rightarrow> MountRecord list result" where
  "decode_items cd [] = Inr []"
| "decode_items cd ((key, item) # items) =
     (case item of
        Inl err \<Rightarrow> Inl (errors_Wrap err ''failed to read mount record'')
      | Inr data \<Rightarrow>
          (case decodeRecord cd data of
             Inl err \<Rightarrow> Inl err
           | Inr record \<Rightarrow>
               (case decode_items cd items of
                  Inl err \<Rightarrow> Inl err
                | Inr records \<Rightarrow> Inr (record # records))))"

definition ListRecords ::
    "('db, 'txn) badger \<Rightarrow> codec \<Rightarrow> gerror option \<Rightarrow> 'db \<Rightarrow> MountRecord list result" where
  "ListRecords bd cd ctxErr db =
     (case ctxErr of
        Some err \<Rightarrow> Inl err
      | None \<Rightarrow> decode_items cd (txn_Iterate bd (NewTransaction bd db) mountKeyPrefix))"

text \<open>The operations the mount manager calls, bundled as one argument of its handlers.\<close>

record 'r repo =
  repo_Create :: "gerror option \<Rightarrow> MountRecord option \<Rightarrow> 'r \<Rightarrow> gerror option \<times> 'r"
  repo_Update :: "gerror option \<Rightarrow> MountRecord option \<Rightarrow> 'r \<Rightarrow> gerror option \<times> 'r"
  repo_Delete :: "gerror option \<Rightarrow> string \<Rightarrow> 'r \<Rightarrow> gerror option \<times> 'r"
  repo_List :: "gerror option \<Rightarrow> 'r \<Rightarrow> MountRecord list result"

definition NewMountRepository :: "('db, 'txn) badger \<Rightarrow> codec \<Rightarrow> 'db repo" where
  "NewMountRepository bd cd =
     \<lparr>repo_Create = Create bd cd, repo_Update = Update bd cd,
      repo_Delete = Delete bd cd, repo_List = ListRecords bd cd\<rparr>"

section \<open>Keys never collide\<close>

lemma base64url_distinct: "distinct base64url" and base64url_length: "length base64url = 64"
  by (simp_all add: base64url_def)

lemma sextets_bound: "\<forall>x \<in> set xs. x < 256 \<Longrightarrow> y \<in> set (sextets xs) \<Longrightarrow> y < 64"
proof (induction xs rule: sextets.induct)
  case (4 a b c xs)
  then have "a < 256" "b < 256" "c < 256" by simp_all
  then have "a div 4 < 64" "(a mod 4) * 16 + b div 16 < 64" "(b mod 16) * 4 + c div 64 < 64"
    by linarith+
  moreover have "c mod 64 < 64" by simp
  ultimately show ?case using 4 by auto
next
  case (3 a b)
  then have "a < 256" "b < 256" by simp_all
  then have "a div 4 < 64" "(a mod 4) * 16 + b div 16 < 64" "(b mod 16) * 4 < 64" by linarith+
  with 3 show ?case by auto
next
  case (2 a)
  then have "a div 4 < 64" "(a mod 4) * 16 < 64" by auto
  with 2 show ?case by auto
qed simp

lemma div_mod_unique:
  fixes a b :: nat
  assumes "a * k + c = b * k + d" and "c < k" and "d < k"
  shows "a = b \<and> c = d"
proof -
  have "(a * k + c) div k = (b * k + d) div k" "(a * k + c) mod k = (b * k + d) mod k"
    using assms(1) by simp_all
  with assms(2,3) show ?thesis by simp
qed

lemma byte_by_4: "a div 4 = b div 4 \<Longrightarrow> a mod 4 = b mod 4 \<Longrightarrow> (a :: nat) = b"
  by (metis div_mod_decomp)

lemma byte_by_16: "a div 16 = b div 16 \<Longrightarrow> a mod 16 = b mod 16 \<Longrightarrow> (a :: nat) = b"
  by (metis div_mod_decomp)

lemma byte_by_64: "a div 64 = b div 64 \<Longrightarrow> a mod 64 = b mod 64 \<Longrightarrow> (a :: nat) = b"
  by (metis div_mod_decomp)

lemma sextets_length_3: "length (sextets (a # b # c # xs)) \<ge> 4"
  by simp

lemma sextets_group_inj:
  assumes "(a mod 4) * 16 + b div 16 = (a' mod 4) * 16 + b' div 16" "a div 4 = a' div 4"
    and "(b mod 16) * 4 + c = (b' mod 16) * 4 + c'" "b < 256" "b' < 256" "c < 4" "c' < (4 :: nat)"
  shows "a = a' \<and> b = b' \<and> c = c'"
proof -
  have "b div 16 < 16" "b' div 16 < 16" using assms(4,5) by auto
  then have "a mod 4 = a' mod 4 \<and> b div 16 = b' div 16" using div_mod_unique [OF assms(1)] by blast
  moreover have "b mod 16 = b' mod 16 \<and> c = c'" using div_mod_unique [OF assms(3)] assms(6,7) by blast
  ultimately show ?thesis using assms(2) byte_by_4 byte_by_16 by blast
qed

lemma sextets_inj:
  "\<forall>x \<in> set xs. x < 256 \<Longrightarrow> \<forall>y \<in> set ys. y < 256 \<Longrightarrow> sextets xs = sextets ys \<Longrightarrow> xs = ys"
proof (induction xs arbitrary: ys rule: sextets.induct)
  case 1
  then show ?case by (cases ys rule: sextets.cases) auto
next
  case (2 a)
  then show ?case by (cases ys rule: sextets.cases) (auto intro: byte_by_4)
next
  case (3 a b)
  then show ?case
    by (cases ys rule: sextets.cases) (use sextets_group_inj [of a b _ _ 0 0] in auto)
next
  case (4 a b c xs)
  show ?case
  proof (cases ys rule: sextets.cases)
    case (4 a' b' c' ys')
    have eqs: "a div 4 = a' div 4" "(a mod 4) * 16 + b div 16 = (a' mod 4) * 16 + b' div 16"
      "(b mod 16) * 4 + c div 64 = (b' mod 16) * 4 + c' div 64" "c mod 64 = c' mod 64"
      "sextets xs = sextets ys'"
      using "4.prems"(3) 4 by simp_all
    have "c div 64 < 4" "c' div 64 < 4" using "4.prems"(1,2) 4 by auto
    then have "a = a' \<and> b = b' \<and> c div 64 = c' div 64"
      using sextets_group_inj [OF eqs(2,1,3)] "4.prems"(1,2) 4 by simp
    moreover have "xs = ys'" using "4.IH" [of ys'] "4.prems"(1,2) 4 eqs(5) by simp
    ultimately show ?thesis using 4 byte_by_64 [OF _ eqs(4)] by simp
  qed (use "4.prems"(3) in auto)
qed

lemma RawURLEncoding_inj: "RawURLEncoding s = RawURLEncoding t \<Longrightarrow> s = t"
proof -
  assume eq: "RawURLEncoding s = RawURLEncoding t"
  let ?s = "map of_char s :: nat list" and ?t = "map of_char t :: nat list"
  have bytes: "\<forall>x \<in> set ?s. x < 256" "\<forall>x \<in> set ?t. x < 256" using nat_of_char_less_256 by auto
  have "inj_on ((!) base64url) {..<64}"
    using base64url_distinct base64url_length inj_on_nth by (metis lessThan_iff)
  moreover have "set (sextets ?s) \<union> set (sextets ?t) \<subseteq> {..<64}"
    using sextets_bound bytes by blast
  ultimately have "sextets ?s = sextets ?t"
    using eq inj_on_map_eq_map [of "(!) base64url" "sextets ?s" "sextets ?t"]
    by (simp add: RawURLEncoding_def inj_on_subset)
  then have "?s = ?t" by (rule sextets_inj [OF bytes])
  then show "s = t" using map_inj_on [of of_char s t] by (auto simp: inj_on_def)
qed

lemma mountKey_eq [simp]: "mountKey a = mountKey b \<longleftrightarrow> a = b"
  by (simp add: mountKey_def)

lemma mountPathKey_eq [simp]: "mountPathKey a = mountPathKey b \<longleftrightarrow> a = b"
  by (auto simp: mountPathKey_def dest: RawURLEncoding_inj)

lemma mountKey_path_neq [simp]: "mountKey a \<noteq> mountPathKey b" "mountPathKey b \<noteq> mountKey a"
  by (simp_all add: mountKey_def mountPathKey_def mountKeyPrefix_def mountPathKeyPrefix_def)

lemma meta_key_neq [simp]:
  "mountKey a \<noteq> metaSchemaVersionKey" "mountPathKey a \<noteq> metaSchemaVersionKey"
  by (simp_all add: mountKey_def mountPathKey_def mountKeyPrefix_def mountPathKeyPrefix_def
      metaSchemaVersionKey_def)

lemma prefix_mountKey: "prefix mountKeyPrefix k \<longleftrightarrow> (\<exists>id. k = mountKey id)"
  by (auto simp: mountKey_def prefix_def)

end
