(* ===== verification/MountCommand.thy ===== *)
theory MountCommand
  imports Config Endpoint Redaction IrodsfsConfig Store "HOL-Library.List_Lexorder" "HOL-Library.Char_ord"
begin

text \<open>
  The client commands (\<open>service/mount_command.go\<close>): which client a mount uses, the command line
  that starts it, the DAVFS configuration file, the request checks of the DAVFS and NFS clients and
  the client-appropriate unmount. What the operating system answers is the record \<open>env\<close>, the
  environment of one handler run; what the code does to the outside is a list of \<open>effect\<close>s, in the
  order in which it happens.

  The lemmas show that no secret is ever placed on a command line, that the daemon's own DAVFS
  settings cannot be overridden by a request, and when an unmount is reported as done.
\<close>

section \<open>Clients, commands, effects\<close>

text \<open>The empty \<open>mountClientType\<close> of an entry without a started client is \<open>mountClientUnset\<close>.\<close>

datatype mountClientType =
    mountClientUnset
  | mountClientIRODSFS
  | mountClientDAVFS
  | mountClientNFS

definition client_name :: "mountClientType \<Rightarrow> string" where
  "client_name c =
     (case c of mountClientUnset \<Rightarrow> [] | mountClientIRODSFS \<Rightarrow> ''irodsfs''
      | mountClientDAVFS \<Rightarrow> ''davfs'' | mountClientNFS \<Rightarrow> ''nfs'')"

record exec_Cmd =
  cmdPath :: string
  cmdArgs :: "string list"
  cmdStdin :: "string option"
  cmdLogged :: bool

datatype effect =
    EMkdirAll string
  | EWriteFile string string
  | ERemoveAll string
  | EOpenLog string "string list"
  | ECloseLog string
  | EStart string exec_Cmd
  | ESignalTerm nat
  | EKill nat
  | EFuseUnmount string
  | ESystemUnmount "string list" duration
  | ECreateRecord MountRecord
  | EUpdateRecord MountRecord
  | EDeleteRecord string

text \<open>How the wait for the child's exit ends.\<close>

datatype exit_wait =
    Exited
  | KilledThenExited
  | CtxDone
  | KilledCtxDone

text \<open>The places where the manager reads the clock.\<close>

datatype clock_site =
    AtStart | AtMetrics | AtCreate | AtPersistFailed | AtStarted | AtUnmountAccepted
  | AtUnmountRolledBack | AtUnmounted | AtRemount | AtShutdown | AtFailure | AtNextRetry
  | AtRetry | AtMounted

record FileInfo =
  fi_IsDir :: bool
  fi_Exec :: bool

record env =
  ctxErr :: "gerror option"
  ctxDoneErr :: gerror
  now :: "clock_site \<Rightarrow> time"
  randFloat :: real
  newMountID :: string
  mkdirMount :: "gerror option"
  mkdirData :: "gerror option"
  deadlinePassed1 :: bool
  deadlinePassed2 :: bool
  openLog :: "gerror option"
  mkdirCache :: "gerror option"
  writeConfig :: "gerror option"
  startCommand :: "gerror + int"
  probe :: "bool result"
  fuseCheck :: "gerror option"
  fuseCheckAllowOther :: "gerror option"
  fuseUnmount :: "gerror option"
  umountRun :: "(gerror \<times> string) option"
  umountCtxErr :: "gerror option"
  exitWait :: exit_wait
  exitErr :: "gerror option"
  removeAll :: "gerror option"
  stat :: "string \<Rightarrow> FileInfo result"
  EvalSymlinks :: "string \<Rightarrow> string result"
  ParseRequestURI :: "string \<Rightarrow> URL result"
  irodsfsLib :: irodsfs_lib

section \<open>The client of a mount\<close>

definition clientType :: "MountConfig option \<Rightarrow> mountClientType result" where
  "clientType config =
     (case config of
        None \<Rightarrow> Inl (errors_New ''mount config is required'')
      | Some c \<Rightarrow>
          (case ClientConfig c of
             Some (MountConfig_Irodsfs _) \<Rightarrow> Inr mountClientIRODSFS
           | Some (MountConfig_Davfs _) \<Rightarrow> Inr mountClientDAVFS
           | Some (MountConfig_Nfs _) \<Rightarrow> Inr mountClientNFS
           | None \<Rightarrow> Inl (errors_New ''mount client config is required'')))"

section \<open>Mount command lines\<close>

fun Join :: "string list \<Rightarrow> string \<Rightarrow> string" where
  "Join [] s = []"
| "Join [x] s = x"
| "Join (x # y # xs) s = x @ s @ Join (y # xs) s"

definition makeSystemMountArgs :: "string \<Rightarrow> string list \<Rightarrow> string \<Rightarrow> string \<Rightarrow> string list" where
  "makeSystemMountArgs fsType options source target =
     [''-t'', fsType] @
     (if length options > 0 then [''-o'', Join options '',''] else []) @
     [source, target]"

definition appendReadOnlyOption :: "string list \<Rightarrow> bool \<Rightarrow> string list" where
  "appendReadOnlyOption options readOnly =
     (if \<not> readOnly then options
      else if list_ex (\<lambda>option. option = ''ro'') options then options
      else options @ [''ro''])"

text \<open>
  The content of \<open>davfs2.conf\<close>. A Go map is an association list with distinct keys; the code sorts
  its keys.
\<close>

definition davfs_config_content :: "(string \<times> string) list \<Rightarrow> string \<Rightarrow> string" where
  "davfs_config_content params cachePath =
     concat (map (\<lambda>key. if key = ''cache_dir'' \<or> key = ''kernel_fs'' then []
                        else key @ '' '' @ the (map_of params key) @ [CHR 0x0A])
               (sort (map fst params))) @
     ''cache_dir '' @ cachePath @ [CHR 0x0A] @ ''kernel_fs fuse'' @ [CHR 0x0A]"

definition writeDAVFSConfig ::
    "env \<Rightarrow> string \<Rightarrow> (string \<times> string) list \<Rightarrow> string \<Rightarrow> gerror option \<times> effect list" where
  "writeDAVFSConfig ev path params cachePath =
     (map_option (\<lambda>err. errors_Wrap err ''failed to write DAVFS configuration'') (writeConfig ev),
      [EWriteFile path (davfs_config_content params cachePath)])"

definition makeDAVFSMountCommand ::
    "env \<Rightarrow> Config \<Rightarrow> MountConfig \<Rightarrow> DAVFSConfig \<Rightarrow> string \<Rightarrow> exec_Cmd result \<times> effect list" where
  "makeDAVFSMountCommand ev mconfig config davfs dataRootPath =
     (let cachePath = PathJoin [dataRootPath, ''cache'']
      in case mkdirCache ev of
           Some err \<Rightarrow> (Inl (errors_Wrap err ''failed to create DAVFS cache directory''), [EMkdirAll cachePath])
         | None \<Rightarrow>
             (let configPath = PathJoin [dataRootPath, ''davfs2.conf'']
              in case writeDAVFSConfig ev configPath (DavfsConfig davfs) cachePath of
                   (Some err, effs) \<Rightarrow> (Inl err, EMkdirAll cachePath # effs)
                 | (None, effs) \<Rightarrow>
                     (let options = [''conf='' @ configPath] @ MountOptions config;
                          options = appendReadOnlyOption options (ReadOnly config);
                          username = GetString (DavfsUsername davfs);
                          options = (if username \<noteq> [] \<and> username \<noteq> ''anonymous''
                                     then options @ [''username='' @ username] else options);
                          args = makeSystemMountArgs ''davfs'' options (DavfsUrl davfs) (MountPath config);
                          stdin = (if username \<noteq> [] \<and> username \<noteq> ''anonymous'' \<and>
                                      GetString (DavfsPassword davfs) \<noteq> []
                                   then Some (GetString (DavfsPassword davfs) @ [CHR 0x0A]) else None)
                      in (Inr \<lparr>cmdPath = MountExecutablePath mconfig, cmdArgs = args,
                               cmdStdin = stdin, cmdLogged = False\<rparr>,
                          EMkdirAll cachePath # effs))))"

definition makeNFSMountCommand :: "Config \<Rightarrow> MountConfig \<Rightarrow> NFSConfig \<Rightarrow> exec_Cmd" where
  "makeNFSMountCommand mconfig config nfs =
     (let options = appendReadOnlyOption (MountOptions config) (ReadOnly config);
          options = (if NfsPort nfs \<noteq> 0 \<and> NfsPort nfs \<noteq> 2049
                     then options @ [''port='' @ show_int (NfsPort nfs)] else options);
          source = NfsHost nfs @ '':'' @ NfsPath nfs;
          args = makeSystemMountArgs ''nfs'' options source (MountPath config)
      in \<lparr>cmdPath = MountExecutablePath mconfig, cmdArgs = args, cmdStdin = None, cmdLogged = False\<rparr>)"

text \<open>
  The client and its command. The nil-safe getters of the code return a non-nil message in each
  branch, since \<open>clientType\<close> has looked at the same \<open>oneof\<close>; the branches match on it directly.
\<close>

definition makeMountCommand ::
    "env \<Rightarrow> Config \<Rightarrow> MountConfig option \<Rightarrow> string \<Rightarrow> string \<Rightarrow> bool \<Rightarrow>
       (exec_Cmd \<times> mountClientType) result \<times> effect list" where
  "makeMountCommand ev mconfig config mountID dataRootPath mountLog =
     (case clientType config of
        Inl err \<Rightarrow> (Inl err, [])
      | Inr client \<Rightarrow>
          (let (command, effs) =
             (case ClientConfig (the config) of
                Some (MountConfig_Irodsfs _) \<Rightarrow>
                  (case makeIRODSFSConfigJSON (irodsfsLib ev) config mountID dataRootPath of
                     Inl err \<Rightarrow> (Inl err, [])
                   | Inr configJSON \<Rightarrow>
                       (Inr \<lparr>cmdPath = IRODSFSExecutablePath mconfig,
                             cmdArgs = [''-f'', ''-c'', ''-'', MountPath (the config)],
                             cmdStdin = Some configJSON, cmdLogged = False\<rparr>, []))
              | Some (MountConfig_Davfs davfs) \<Rightarrow>
                  makeDAVFSMountCommand ev mconfig (the config) davfs dataRootPath
              | Some (MountConfig_Nfs nfs) \<Rightarrow> (Inr (makeNFSMountCommand mconfig (the config) nfs), [])
              | None \<Rightarrow> (Inl (errors_Errorf [Lit ''unsupported mount client '', Quoted (client_name client)]), []))
           in case command of
                Inl err \<Rightarrow> (Inl err, effs)
              | Inr cmd \<Rightarrow> (Inr (cmd\<lparr>cmdLogged := mountLog\<rparr>, client), effs)))"

section \<open>Request checks\<close>

text \<open>
  The order in which Go ranges over a map is not fixed: the error names some offending entry.
  The model reports the first one of the association list.
\<close>

fun check_davfs_params :: "(string \<times> string) list \<Rightarrow> gerror option" where
  "check_davfs_params [] = None"
| "check_davfs_params ((key, value) # rest) =
     (if TrimSpace key = [] \<or> ContainsAny key [CHR '' '', CHR 0x09, CHR 0x0D, CHR 0x0A]
      then Some (errors_Errorf [Lit ''invalid DAVFS config key '', Quoted key])
      else if ContainsAny value [CHR 0x0D, CHR 0x0A]
      then Some (errors_Errorf [Lit ''DAVFS config value '', Quoted key, Lit '' contains a newline''])
      else check_davfs_params rest)"

definition validateDAVFSConfig :: "env \<Rightarrow> DAVFSConfig option \<Rightarrow> gerror option" where
  "validateDAVFSConfig ev config =
     (case config of
        None \<Rightarrow> Some (errors_New ''DAVFS config is required'')
      | Some c \<Rightarrow>
          (if DavfsUrl c = [] then Some (errors_New ''DAVFS URL is required'')
           else case ParseRequestURI ev (DavfsUrl c) of
                  Inl err \<Rightarrow> Some (errors_Wrap err ''DAVFS URL is invalid'')
                | Inr _ \<Rightarrow> check_davfs_params (DavfsConfig c)))"

definition validateNFSConfig :: "NFSConfig option \<Rightarrow> gerror option" where
  "validateNFSConfig config =
     (case config of
        None \<Rightarrow> Some (errors_New ''NFS config is required'')
      | Some c \<Rightarrow>
          (if NfsHost c = [] then Some (errors_New ''NFS host is required'')
           else if NfsPath c = [] then Some (errors_New ''NFS path is required'')
           else if NfsPort c < 0 \<or> NfsPort c > 65535
           then Some (errors_New ''NFS port must be between 0 and 65535'')
           else None))"

section \<open>Unmounting\<close>

definition defaultMountTimeout :: duration where "defaultMountTimeout = 30 * second"
definition defaultUnmountTimeout :: duration where "defaultUnmountTimeout = 15 * second"

definition runSystemUnmount ::
    "env \<Rightarrow> Config \<Rightarrow> string \<Rightarrow> bool \<Rightarrow> duration \<Rightarrow> gerror option \<times> effect list" where
  "runSystemUnmount ev mconfig mountPath lazy timeout =
     (let args = (if lazy then [''-l'', mountPath] else [mountPath]);
          timeout = (if timeout \<le> 0 then defaultUnmountTimeout else timeout)
      in (case umountRun ev of
            None \<Rightarrow> None
          | Some (err, output) \<Rightarrow>
              (case umountCtxErr ev of
                 Some contextErr \<Rightarrow>
                   Some (errors_Wrapf contextErr
                     [Lit (UnmountExecutablePath mconfig), Lit '' timed out for '', Quoted mountPath])
               | None \<Rightarrow>
                   Some (errors_Wrapf err
                     [Lit (UnmountExecutablePath mconfig), Lit '' failed for '', Quoted mountPath, Lit '': '',
                      Lit (TrimSpace output)])),
          [ESystemUnmount args timeout]))"

definition unmountByClientType ::
    "env \<Rightarrow> Config \<Rightarrow> mountClientType \<Rightarrow> string \<Rightarrow> gerror option \<times> effect list" where
  "unmountByClientType ev mconfig client mountPath =
     (if client = mountClientIRODSFS then (fuseUnmount ev, [EFuseUnmount mountPath])
      else
        (let timeout = (if client = mountClientDAVFS
                        then (if DAVFSUnmountTimeout mconfig \<le> 0 then DAVFSUnmountTimeoutDefault
                              else DAVFSUnmountTimeout mconfig)
                        else UnmountTimeout mconfig);
             (err, effs) = runSystemUnmount ev mconfig mountPath False timeout
         in if client \<noteq> mountClientDAVFS \<or> \<not> errors_Is err ContextDeadlineExceeded then (err, effs)
            else (case fuseUnmount ev of
                    Some lazyErr \<Rightarrow> (err, effs @ [EFuseUnmount mountPath])
                  | None \<Rightarrow>
                      (Some (errors_Wrap
                         (errors_sentinel ErrDAVFSLazyUnmount ''DAVFS was lazily unmounted with cache data preserved'')
                         ''DAVFS cache synchronization exceeded the unmount timeout''),
                       effs @ [EFuseUnmount mountPath]))))"

section \<open>No secret reaches a command line\<close>

lemma on_config_secrets_fields [simp]:
  "MountPath (on_config_secrets g c) = MountPath c"
  "ReadOnly (on_config_secrets g c) = ReadOnly c"
  "MountOptions (on_config_secrets g c) = MountOptions c"
  by (simp_all add: on_config_secrets_def on_client_def)

lemma ClientConfig_secrets:
  "ClientConfig (on_config_secrets g c) =
     (case ClientConfig c of
        Some (MountConfig_Irodsfs i) \<Rightarrow>
          Some (MountConfig_Irodsfs (on_redis (on_redis_secret g) (on_account (on_account_secrets g) i)))
      | Some (MountConfig_Davfs d) \<Rightarrow> Some (MountConfig_Davfs (on_davfs_secret g d))
      | x \<Rightarrow> x)"
  by (simp add: on_config_secrets_def on_client_def split: option.splits client_config.splits)

lemma clientType_secrets [simp]: "clientType (Some (on_config_secrets g c)) = clientType (Some c)"
  by (simp add: clientType_def ClientConfig_secrets split: option.splits client_config.splits)

lemma davfs_command_secrets:
  assumes "makeDAVFSMountCommand ev mc c d dir = (Inr cmd, effs)"
    and "makeDAVFSMountCommand ev mc (on_config_secrets g c) (on_davfs_secret g d) dir = (Inr cmd', effs')"
  shows "cmdPath cmd' = cmdPath cmd \<and> cmdArgs cmd' = cmdArgs cmd \<and> effs' = effs"
  using assms
  by (auto simp: makeDAVFSMountCommand_def writeDAVFSConfig_def Let_def on_davfs_secret_def
      split: option.splits)

text \<open>
  C28: the path, the arguments and the configuration file of a client command do not depend on the
  account's password, ticket or token, on the Redis password or on the DAVFS password: replacing
  them all by other values changes at most what the process reads from its standard input.
\<close>

theorem command_line_secret_free:
  assumes "makeMountCommand ev mc (Some c) mid dir lg = (Inr (cmd, client), effs)"
    and "makeMountCommand ev mc (Some (on_config_secrets g c)) mid dir lg = (Inr (cmd', client'), effs')"
  shows "cmdPath cmd' = cmdPath cmd \<and> cmdArgs cmd' = cmdArgs cmd \<and> client' = client \<and> effs' = effs"
proof (cases "ClientConfig c")
  case (Some cc)
  show ?thesis
  proof (cases cc)
    case (MountConfig_Davfs d)
    obtain x e where m: "makeDAVFSMountCommand ev mc c d dir = (x, e)" by force
    obtain y f where n: "makeDAVFSMountCommand ev mc (on_config_secrets g c) (on_davfs_secret g d) dir = (y, f)"
      by force
    from assms(1) Some MountConfig_Davfs m obtain u where u: "x = Inr u" "cmd = u\<lparr>cmdLogged := lg\<rparr>"
      "client = mountClientDAVFS" "effs = e"
      by (cases x) (simp_all add: makeMountCommand_def clientType_def)
    from assms(2) Some MountConfig_Davfs n obtain w where w: "y = Inr w" "cmd' = w\<lparr>cmdLogged := lg\<rparr>"
      "client' = mountClientDAVFS" "effs' = f"
      by (cases y) (simp_all add: makeMountCommand_def clientType_def ClientConfig_secrets)
    from davfs_command_secrets [OF m [unfolded u(1)] n [unfolded w(1)]] u w show ?thesis by simp
  qed (use assms Some in \<open>auto simp: makeMountCommand_def clientType_def ClientConfig_secrets
      makeNFSMountCommand_def Let_def split: prod.splits sum.splits\<close>)
qed (use assms in \<open>auto simp: makeMountCommand_def clientType_def\<close>)

section \<open>The DAVFS configuration file\<close>

lemma ContainsAny_False: "\<not> ContainsAny s cs \<Longrightarrow> c \<in> set cs \<Longrightarrow> c \<notin> set s"
  by (auto simp: ContainsAny_def list_ex_iff)

lemma TrimSpace_Nil [simp]: "TrimSpace [] = []"
  by (simp add: TrimSpace_def)

lemma check_davfs_params_None:
  "check_davfs_params ps = None \<Longrightarrow> (k, v) \<in> set ps \<Longrightarrow>
     CHR '' '' \<notin> set k \<and> CHR 0x0A \<notin> set k \<and> CHR 0x0A \<notin> set v"
proof (induction ps)
  case (Cons a ps)
  obtain k' v' where a: "a = (k', v')" by force
  from Cons.prems(1) have ok: "\<not> ContainsAny k' [CHR '' '', CHR 0x09, CHR 0x0D, CHR 0x0A]"
    "\<not> ContainsAny v' [CHR 0x0D, CHR 0x0A]" "check_davfs_params ps = None"
    unfolding a by (simp_all split: if_splits)
  from ok(1,2) have "CHR '' '' \<notin> set k'" "CHR 0x0A \<notin> set k'" "CHR 0x0A \<notin> set v'"
    by (auto dest: ContainsAny_False)
  with Cons.IH [OF ok(3)] Cons.prems(2) show ?case unfolding a by auto
qed simp

lemma split_lines:
  "\<forall>l \<in> set ls. CHR 0x0A \<notin> set l \<Longrightarrow>
     split_on CHR 0x0A (concat (map (\<lambda>l. l @ [CHR 0x0A]) ls) @ rest) = ls @ split_on CHR 0x0A rest"
  by (induction ls) (auto simp: split_on_append)

definition davfs_lines :: "(string \<times> string) list \<Rightarrow> string list" where
  "davfs_lines ps =
     map (\<lambda>k. k @ '' '' @ the (map_of ps k))
       (filter (\<lambda>k. k \<noteq> ''cache_dir'' \<and> k \<noteq> ''kernel_fs'') (sort (map fst ps)))"

lemma davfs_config_content_lines:
  "davfs_config_content ps cache =
     concat (map (\<lambda>l. l @ [CHR 0x0A]) (davfs_lines ps @ [''cache_dir '' @ cache, ''kernel_fs fuse'']))"
proof -
  have "concat (map (\<lambda>k. if k = ''cache_dir'' \<or> k = ''kernel_fs'' then []
                        else k @ '' '' @ the (map_of ps k) @ [CHR 0x0A]) ks) =
        concat (map (\<lambda>l. l @ [CHR 0x0A]) (map (\<lambda>k. k @ '' '' @ the (map_of ps k))
          (filter (\<lambda>k. k \<noteq> ''cache_dir'' \<and> k \<noteq> ''kernel_fs'') ks)))" for ks
    by (induction ks) auto
  then show ?thesis by (simp add: davfs_config_content_def davfs_lines_def)
qed

lemma davfs_config_lines:
  assumes "validateDAVFSConfig ev (Some d) = None" and "CHR 0x0A \<notin> set cache"
  defines "ls \<equiv> split_on CHR 0x0A (davfs_config_content (DavfsConfig d) cache)"
  shows "ls = davfs_lines (DavfsConfig d) @ [''cache_dir '' @ cache, ''kernel_fs fuse'', []]"
    and "filter (\<lambda>l. takeWhile (\<lambda>x. x \<noteq> CHR '' '') l = ''cache_dir'') ls = [''cache_dir '' @ cache]"
    and "filter (\<lambda>l. takeWhile (\<lambda>x. x \<noteq> CHR '' '') l = ''kernel_fs'') ls = [''kernel_fs fuse'']"
proof -
  let ?ps = "DavfsConfig d"
  have ok: "check_davfs_params ?ps = None"
    using assms(1) by (auto simp: validateDAVFSConfig_def split: if_splits sum.splits)
  have entry: "CHR '' '' \<notin> set k \<and> CHR 0x0A \<notin> set k \<and> CHR 0x0A \<notin> set (the (map_of ?ps k))"
    if "k \<in> set (map fst ?ps)" for k
  proof -
    from that obtain v where "map_of ?ps k = Some v" by (metis list.set_map map_of_eq_None_iff not_None_eq)
    with check_davfs_params_None [OF ok map_of_in_set] show ?thesis by fastforce
  qed
  have key: "takeWhile (\<lambda>x. x \<noteq> CHR '' '') l \<notin> {''cache_dir'', ''kernel_fs''}" "CHR 0x0A \<notin> set l"
    if "l \<in> set (davfs_lines ?ps)" for l
  proof -
    from that obtain k where k: "k \<in> set (map fst ?ps)" "k \<noteq> ''cache_dir''" "k \<noteq> ''kernel_fs''"
      "l = k @ '' '' @ the (map_of ?ps k)" by (auto simp: davfs_lines_def)
    have "takeWhile (\<lambda>x. x \<noteq> CHR '' '') k = k" using entry [OF k(1)] by (simp add: takeWhile_eq_all_conv) blast
    then have "takeWhile (\<lambda>x. x \<noteq> CHR '' '') l = k" using k(4) by (simp add: takeWhile_append)
    then show "takeWhile (\<lambda>x. x \<noteq> CHR '' '') l \<notin> {''cache_dir'', ''kernel_fs''}" using k by simp
    show "CHR 0x0A \<notin> set l" using entry [OF k(1)] k(4) by simp
  qed
  have "split_on CHR 0x0A (concat (map (\<lambda>l. l @ [CHR 0x0A])
          (davfs_lines ?ps @ [''cache_dir '' @ cache, ''kernel_fs fuse''])) @ []) =
        (davfs_lines ?ps @ [''cache_dir '' @ cache, ''kernel_fs fuse'']) @ split_on CHR 0x0A []"
    using key(2) assms(2) by (intro split_lines) auto
  then show lines: "ls = davfs_lines ?ps @ [''cache_dir '' @ cache, ''kernel_fs fuse'', []]"
    by (simp add: ls_def davfs_config_content_lines)
  have "filter (\<lambda>l. takeWhile (\<lambda>x. x \<noteq> CHR '' '') l = ''cache_dir'') (davfs_lines ?ps) = []"
    "filter (\<lambda>l. takeWhile (\<lambda>x. x \<noteq> CHR '' '') l = ''kernel_fs'') (davfs_lines ?ps) = []"
    using key(1) by (auto simp: filter_empty_conv)
  then show "filter (\<lambda>l. takeWhile (\<lambda>x. x \<noteq> CHR '' '') l = ''cache_dir'') ls = [''cache_dir '' @ cache]"
    and "filter (\<lambda>l. takeWhile (\<lambda>x. x \<noteq> CHR '' '') l = ''kernel_fs'') ls = [''kernel_fs fuse'']"
    by (simp_all add: lines)
qed

text \<open>
  C30: a configuration that passed the request check is written one setting per line, in the order
  of the keys, and the lines of \<open>cache_dir\<close> and \<open>kernel_fs\<close> are the daemon's own: whatever the
  request asked for, the cache directory is the one below the mount's data directory.
\<close>

theorem davfs_config_forced:
  assumes "validateDAVFSConfig ev (Some d) = None" and "CHR 0x0A \<notin> set cache"
  shows "let ls = split_on CHR 0x0A (davfs_config_content (DavfsConfig d) cache);
             key = takeWhile (\<lambda>x. x \<noteq> CHR '' '')
         in ls = davfs_lines (DavfsConfig d) @ [''cache_dir '' @ cache, ''kernel_fs fuse'', []] \<and>
            filter (\<lambda>l. key l = ''cache_dir'') ls = [''cache_dir '' @ cache] \<and>
            filter (\<lambda>l. key l = ''kernel_fs'') ls = [''kernel_fs fuse'']"
  unfolding Let_def using davfs_config_lines [OF assms] by blast

section \<open>When an unmount is reported as done\<close>

lemma unmount_done_iff:
  "fst (unmountByClientType ev mc client p) = None \<longleftrightarrow>
     (if client = mountClientIRODSFS then fuseUnmount ev = None else umountRun ev = None)"
  by (auto simp: unmountByClientType_def runSystemUnmount_def Let_def errors_Is_def split: option.splits)

section \<open>Concrete runs\<close>

text \<open>A library of defaults and an environment in which every call succeeds, for concrete runs.\<close>

definition plain_connection :: TargetConnection where
  "plain_connection =
     \<lparr>tCreationTimeout = 0, tInitNumber = 0, tMaxNumber = 0, tMaxIdleNumber = 0, tLifespan = 0,
      tIdleTimeout = 0, tOperationTimeout = 0, tLongOperationTimeout = 0, tTcpSendBufferSize = 0,
      tTcpRecvBufferSize = 0, tWaitConnection = False\<rparr>"

definition plain_input :: IrodsfsInput where
  "plain_input =
     \<lparr>iAuthenticationScheme = ''native'', iClientServerNegotiation = [], iClientServerPolicy = [],
      iHost = [], iPort = 1247, iZoneName = [], iUsername = [], iClientZoneName = [],
      iClientUsername = [], iDefaultResource = [], iCurrentWorkingDir = [], iHome = [],
      iDefaultHashScheme = [], iMatchHashPolicy = [], iEncryptionAlgorithm = [], iEncryptionKeySize = 32,
      iEncryptionSaltSize = 8, iEncryptionNumHashRounds = 16, iSSLCACertificateFile = [],
      iSSLCACertificatePath = [], iSSLVerifyServer = [], iSSLCertificateChainFile = [],
      iSSLCertificateKeyFile = [], iSSLDHParamsFile = [], iPassword = [], iTicket = [], iPAMToken = [],
      iPAMTTL = 0, iSSLServerName = [], iMountPath = [], iDataRootPath = [], iReadAheadMax = 0,
      iReadWriteMax = 0, iReadonly = False, iFuseOptions = [], iUID = 0, iGID = 0, iSystemUser = [],
      iPoolEndpoint = [], iForeground = False, iDebug = False, iInstanceID = [], iDescription = [],
      iLogPath = [], iPathMappings = [], iMetadataConnection = plain_connection,
      iIOConnection = plain_connection,
      iCache = \<lparr>tMetadataTimeoutSettings = [], tStartNewTransaction = False, tBackend = None\<rparr>\<rparr>"

definition plain_backend :: TargetBackend where
  "plain_backend =
     \<lparr>bType = ''memory'', bMemoryCleanupInterval = 0, bMemoryDefaultTTL = 0, bRistrettoMaxEntries = 0,
      bRistrettoMaxCost = 0, bRistrettoBufferItems = 0, bRistrettoDefaultTTL = 0, bRedisAddress = [],
      bRedisDB = 0, bRedisPassword = [], bRedisPoolSize = 0, bRedisKeyPrefix = [],
      bRedisConnectTimeout = 0, bRedisCommandTimeout = 0, bRedisDefaultTTL = 0,
      bRedisEnableAccountIsolation = False\<rparr>"

definition plain_lib :: irodsfs_lib where
  "plain_lib =
     \<lparr>lib_NewDefaultConfig = plain_input, lib_NewDefaultCacheBackendConfig = plain_backend,
      lib_Marshal = (\<lambda>i. Inr (iPassword i @ iHost i)), lib_CheckValid = (\<lambda>d. None),
      lib_AsDuration = (\<lambda>d. pbSeconds d * second + pbNanos d)\<rparr>"

definition quiet_env :: env where
  "quiet_env =
     \<lparr>ctxErr = None, ctxDoneErr = errors_sentinel ContextCanceled ''context canceled'',
      now = (\<lambda>_. 0), randFloat = 0, newMountID = ''c0'',
      mkdirMount = None, mkdirData = None, deadlinePassed1 = False, deadlinePassed2 = False,
      openLog = None, mkdirCache = None, writeConfig = None, startCommand = Inr 4711,
      probe = Inr True, fuseCheck = None, fuseCheckAllowOther = None, fuseUnmount = None,
      umountRun = None, umountCtxErr = None, exitWait = Exited, exitErr = None, removeAll = None,
      stat = (\<lambda>_. Inr \<lparr>fi_IsDir = True, fi_Exec = True\<rparr>), EvalSymlinks = (\<lambda>p. Inr p),
      ParseRequestURI = (\<lambda>u. Inr \<lparr>urlScheme = ''unix'', urlHost = [], urlPath = ''/run/irodsfsd/comm.sock'',
         urlHasUser = False, urlRawQuery = [], urlFragment = []\<rparr>),
      irodsfsLib = plain_lib\<rparr>"

definition sample_davfs :: DAVFSConfig where
  "sample_davfs =
     \<lparr>DavfsUrl = ''https://dav'', DavfsUsername = Some ''u'', DavfsPassword = Some ''s3cret'',
      DavfsConfig = [(''cache_dir'', ''/tmp''), (''gui_optimize'', ''1'')]\<rparr>"

definition sample_davfs_mount :: MountConfig where
  "sample_davfs_mount =
     \<lparr>MountPath = ''/mnt/irods/d'', ReadOnly = True, MountOptions = [''noexec''],
      ClientConfig = Some (MountConfig_Davfs sample_davfs)\<rparr>"

lemmas sample_defs = quiet_env_def sample_davfs_def sample_davfs_mount_def

lemma sample_davfs_command:
  "\<exists>cmd effs. makeMountCommand quiet_env NewDefaultConfig (Some sample_davfs_mount) ''m1'' ''/d/m1'' True
      = (Inr (cmd, mountClientDAVFS), effs) \<and> cmdStdin cmd = Some (''s3cret'' @ [CHR 0x0A])"
  by (simp add: makeMountCommand_def clientType_def makeDAVFSMountCommand_def writeDAVFSConfig_def
      sample_defs Let_def)

lemma sample_davfs_command_other:
  "\<exists>cmd effs. makeMountCommand quiet_env NewDefaultConfig
      (Some (on_config_secrets (map_option (\<lambda>_. ''other'')) sample_davfs_mount)) ''m1'' ''/d/m1'' True
      = (Inr (cmd, mountClientDAVFS), effs) \<and> cmdStdin cmd = Some (''other'' @ [CHR 0x0A])"
  by (simp add: makeMountCommand_def clientType_def makeDAVFSMountCommand_def writeDAVFSConfig_def
      sample_defs Let_def on_config_secrets_def on_client_def on_davfs_secret_def)

theorem command_line_secret_free_witness:
  "\<exists>cmd cmd' client effs.
     makeMountCommand quiet_env NewDefaultConfig (Some sample_davfs_mount) ''m1'' ''/d/m1'' True
       = (Inr (cmd, client), effs) \<and>
     makeMountCommand quiet_env NewDefaultConfig
       (Some (on_config_secrets (map_option (\<lambda>_. ''other'')) sample_davfs_mount)) ''m1'' ''/d/m1'' True
       = (Inr (cmd', client), effs) \<and>
     cmdStdin cmd \<noteq> cmdStdin cmd' \<and> cmdArgs cmd' = cmdArgs cmd"
proof -
  obtain cmd effs where a: "makeMountCommand quiet_env NewDefaultConfig (Some sample_davfs_mount) ''m1'' ''/d/m1'' True
      = (Inr (cmd, mountClientDAVFS), effs)" "cmdStdin cmd = Some (''s3cret'' @ [CHR 0x0A])"
    using sample_davfs_command by blast
  obtain cmd' effs' where b: "makeMountCommand quiet_env NewDefaultConfig
      (Some (on_config_secrets (map_option (\<lambda>_. ''other'')) sample_davfs_mount)) ''m1'' ''/d/m1'' True
      = (Inr (cmd', mountClientDAVFS), effs')" "cmdStdin cmd' = Some (''other'' @ [CHR 0x0A])"
    using sample_davfs_command_other by blast
  from command_line_secret_free [OF a(1) b(1)] a b show ?thesis by auto
qed

theorem davfs_config_forced_witness:
  "filter (\<lambda>l. takeWhile (\<lambda>x. x \<noteq> CHR '' '') l = ''cache_dir'')
     (split_on CHR 0x0A (davfs_config_content (DavfsConfig sample_davfs) ''/d/m1/cache'')) =
   [''cache_dir /d/m1/cache'']"
proof -
  have "validateDAVFSConfig quiet_env (Some sample_davfs) = None"
    by (simp add: validateDAVFSConfig_def sample_defs ContainsAny_def TrimSpace_def is_space_def)
  from davfs_config_forced [OF this, of "''/d/m1/cache''"] have
    "filter (\<lambda>l. takeWhile (\<lambda>x. x \<noteq> CHR '' '') l = ''cache_dir'')
       (split_on CHR 0x0A (davfs_config_content (DavfsConfig sample_davfs) ''/d/m1/cache'')) =
     [''cache_dir '' @ ''/d/m1/cache'']"
    unfolding Let_def by force
  then show ?thesis by simp
qed

end
