(* ===== verification/MountPolicy.thy ===== *)
theory MountPolicy
  imports MountCommand
begin

text \<open>
  The checks of a mount request (\<open>validateMountConfig\<close> and its helpers in
  \<open>service/mount_manager.go\<close>): allowed roots, reserved daemon paths, the \<open>allow_other\<close> policy and
  mount IDs. \<open>filepath.EvalSymlinks\<close>, \<open>os.Stat\<close> and \<open>url.ParseRequestURI\<close> are fields of the
  environment; what the code relies on is that resolving an absolute path gives an absolute path.
\<close>

section \<open>Paths\<close>

function canonicalizePath :: "(string \<Rightarrow> string result) \<Rightarrow> string \<Rightarrow> string result" where
  "canonicalizePath eval path =
     (let path = Clean path
      in case eval path of
           Inr resolved \<Rightarrow> Inr (Clean resolved)
         | Inl _ \<Rightarrow>
             (let parent = Dir path
              in if parent = path then Inl (errors_Errorf [Lit ''failed to resolve path '', Quoted path])
                 else case canonicalizePath eval parent of
                        Inl err \<Rightarrow> Inl err
                      | Inr resolvedParent \<Rightarrow> Inr (PathJoin [resolvedParent, Base path])))"
  by pat_completeness auto
termination
proof (relation "measure (\<lambda>(eval, p). length (comps p))", simp, goal_cases)
  case (1 eval path x err parent)
  then show ?case
    using Dir_Clean_eq_iff [of path] by (simp add: comps_Dir_Clean)
qed

declare canonicalizePath.simps [simp del]

definition withinRoot :: "string \<Rightarrow> string \<Rightarrow> bool" where
  "withinRoot target rt =
     (case Rel (Clean rt) (Clean target) of
        Inl _ \<Rightarrow> False
      | Inr relative \<Rightarrow> relative \<noteq> ''..'' \<and> \<not> HasPrefix relative ''../'')"

definition pathWithinAnyRoot :: "string \<Rightarrow> string list \<Rightarrow> bool" where
  "pathWithinAnyRoot target roots = list_ex (withinRoot target) roots"

definition pathsConflict :: "string \<Rightarrow> string \<Rightarrow> bool" where
  "pathsConflict a b = (pathWithinAnyRoot a [b] \<or> pathWithinAnyRoot b [a])"

definition reservedPaths :: "env \<Rightarrow> Config \<Rightarrow> string list" where
  "reservedPaths ev config =
     [GetDataRootPath config, GetLogRootPath config, GetMountRootPath config, GetMountDatabasePath config] @
     (let pidDir = Dir (PIDFile config) in if pidDir \<noteq> [] \<and> pidDir \<noteq> ''.'' then [pidDir] else []) @
     (case ParseServiceEndpoint (ParseRequestURI ev) (GetServiceEndpoint config) of
        Inr (scheme, endpoint) \<Rightarrow> (if scheme = ''unix'' then [Dir endpoint] else [])
      | Inl _ \<Rightarrow> [])"

definition canonicalReserved :: "env \<Rightarrow> string \<Rightarrow> string" where
  "canonicalReserved ev path =
     (case canonicalizePath (EvalSymlinks ev) path of Inl _ \<Rightarrow> Clean path | Inr c \<Rightarrow> c)"

fun first_conflict :: "env \<Rightarrow> string \<Rightarrow> string list \<Rightarrow> string" where
  "first_conflict ev target [] = []"
| "first_conflict ev target (path # rest) =
     (if path = [] then first_conflict ev target rest
      else if pathsConflict target (canonicalReserved ev path) then canonicalReserved ev path
      else first_conflict ev target rest)"

definition reservedPathConflict :: "env \<Rightarrow> Config \<Rightarrow> string \<Rightarrow> string" where
  "reservedPathConflict ev config target =
     (if Clean target = ''/'' then ''/''
      else first_conflict ev target (reservedPaths ev config))"

section \<open>Request policy\<close>

definition GetFuseOptions :: "IRODSFSConfig option \<Rightarrow> string list" where
  "GetFuseOptions c = (case c of None \<Rightarrow> [] | Some i \<Rightarrow> FuseOptions i)"

definition validateFuseAllowOtherPolicy :: "bool \<Rightarrow> mountClientType \<Rightarrow> MountConfig \<Rightarrow> gerror option" where
  "validateFuseAllowOtherPolicy allowPolicy client config =
     (let options = MountOptions config @
            (if client = mountClientIRODSFS then GetFuseOptions (GetIrodsfs (Some config)) else [])
      in if ''allow_other'' \<notin> set options then None
         else if client = mountClientNFS
         then Some (errors_New ''allow_other is not applicable to NFS mounts'')
         else if \<not> allowPolicy then Some (errors_New ''allow_other is not permitted by daemon policy'')
         else None)"

definition applyFuseAllowOtherPolicy :: "Config \<Rightarrow> MountConfig \<Rightarrow> MountConfig" where
  "applyFuseAllowOtherPolicy mconfig config =
     (if \<not> AllowFuseAllowOther mconfig then config
      else case clientType (Some config) of
             Inl _ \<Rightarrow> config
           | Inr client \<Rightarrow>
               (if client = mountClientNFS then config
                else if ''allow_other'' \<notin> set (MountOptions config)
                then config\<lparr>MountOptions := MountOptions config @ [''allow_other'']\<rparr>
                else config))"

definition checkClientConfig :: "env \<Rightarrow> MountConfig \<Rightarrow> mountClientType \<Rightarrow> gerror option" where
  "checkClientConfig ev config client =
     (case client of
        mountClientIRODSFS \<Rightarrow>
          (case GetAccount (GetIrodsfs (Some config)) of
             None \<Rightarrow> Some (errors_New ''iRODS account is required'')
           | Some account \<Rightarrow>
               (if IrodsHost account = [] then Some (errors_New ''iRODS host is required'')
                else if IrodsUserName account = [] \<or> IrodsZoneName account = []
                then Some (errors_New ''iRODS user and zone are required'')
                else None))
      | mountClientDAVFS \<Rightarrow> validateDAVFSConfig ev (GetDavfs (Some config))
      | mountClientNFS \<Rightarrow> validateNFSConfig (GetNfs (Some config))
      | mountClientUnset \<Rightarrow> None)"

definition canonicalRoots :: "env \<Rightarrow> string list \<Rightarrow> string list" where
  "canonicalRoots ev roots =
     concat (map (\<lambda>rt. case canonicalizePath (EvalSymlinks ev) rt of Inl _ \<Rightarrow> [] | Inr c \<Rightarrow> [c]) roots)"

definition checkMountTarget :: "env \<Rightarrow> string \<Rightarrow> gerror option" where
  "checkMountTarget ev path =
     (case stat ev path of
        Inl err \<Rightarrow>
          (if cause err = NotExist then None
           else Some (errors_Wrapf err [Lit ''invalid mount path '', Quoted path]))
      | Inr info \<Rightarrow>
          (if \<not> fi_IsDir info
           then Some (errors_Errorf [Lit ''mount path '', Quoted path, Lit '' is not a directory''])
           else None))"

definition validateMountConfig :: "env \<Rightarrow> Config \<Rightarrow> MountConfig option \<Rightarrow> gerror option" where
  "validateMountConfig ev mconfig config =
     (case config of
        None \<Rightarrow> Some (errors_New ''mount config is required'')
      | Some c \<Rightarrow>
     (case clientType config of
        Inl err \<Rightarrow> Some err
      | Inr client \<Rightarrow>
     (case checkClientConfig ev c client of
        Some err \<Rightarrow> Some err
      | None \<Rightarrow>
     (case validateFuseAllowOtherPolicy (AllowFuseAllowOther mconfig) client c of
        Some err \<Rightarrow> Some err
      | None \<Rightarrow>
     (if MountPath c = [] \<or> \<not> IsAbs (MountPath c) then Some (errors_New ''mount path must be absolute'')
      else
     (case canonicalizePath (EvalSymlinks ev) (MountPath c) of
        Inl err \<Rightarrow> Some (errors_Wrapf err [Lit ''failed to resolve mount path '', Quoted (MountPath c)])
      | Inr canonicalMountPath \<Rightarrow>
     (if length (AllowedMountRootPaths mconfig) > 0 \<and>
         \<not> pathWithinAnyRoot canonicalMountPath (canonicalRoots ev (AllowedMountRootPaths mconfig))
      then Some (errors_Errorf [Lit ''mount path '', Quoted (MountPath c), Lit '' is outside allowed mount roots''])
      else
     (let conflict = reservedPathConflict ev mconfig canonicalMountPath
      in if conflict \<noteq> []
         then Some (errors_Errorf [Lit ''mount path '', Quoted (MountPath c),
                      Lit '' conflicts with the daemon's own reserved path '', Quoted conflict])
         else checkMountTarget ev (MountPath c)))))))))"

section \<open>Mount IDs\<close>

definition mountID_char :: "char \<Rightarrow> bool" where
  "mountID_char c =
     (let n = of_char c :: nat
      in (97 \<le> n \<and> n \<le> 122) \<or> (65 \<le> n \<and> n \<le> 90) \<or> (48 \<le> n \<and> n \<le> 57) \<or> c = CHR ''-'' \<or> c = CHR ''_'')"

definition validateMountID :: "string \<Rightarrow> gerror option" where
  "validateMountID mountID =
     (if length mountID > 128 then Some (errors_New ''mount ID must not exceed 128 characters'')
      else if list_all mountID_char mountID then None
      else Some (errors_Errorf [Lit ''mount ID '', Quoted mountID, Lit '' contains an invalid character'']))"

section \<open>Containment is the prefix order on components\<close>

lemma join_no_dotdot:
  assumes "ts \<noteq> []" and "\<forall>c \<in> set ts. sep \<notin> set c" and "''..'' \<notin> set ts"
  shows "join_with sep ts \<noteq> ''..''" and "\<not> prefix ''../'' (join_with sep ts)"
proof -
  have split: "split_on sep (join_with sep ts) = ts" using assms(1,2) by (intro split_join) auto
  have dd: "split_on sep ''..'' = [''..'']" by simp
  show "join_with sep ts \<noteq> ''..''" using split dd assms(3) by (metis list.set_intros(1))
  show "\<not> prefix ''../'' (join_with sep ts)"
  proof
    assume "prefix ''../'' (join_with sep ts)"
    then obtain x where "join_with sep ts = ''..'' @ sep # x" by (auto simp: prefix_def)
    then have "split_on sep (join_with sep ts) = ''..'' # split_on sep x" by (simp add: split_on_append)
    with split assms(3) show False by (metis list.set_intros(1))
  qed
qed

lemma join_dotdots:
  "0 < n \<Longrightarrow> join_with sep (replicate n ''..'' @ ts) = ''..'' \<or>
     prefix ''../'' (join_with sep (replicate n ''..'' @ ts))"
proof (cases n)
  case (Suc m)
  show ?thesis by (cases "replicate m ''..'' @ ts") (simp_all add: Suc)
qed simp

lemma within_iff_prefix:
  assumes "IsAbs t" and "IsAbs r"
  shows "withinRoot t r \<longleftrightarrow> prefix (comps r) (comps t)"
proof (cases "Clean t = Clean r")
  case True
  then have "comps t = comps r" by (simp add: Clean_eq_iff)
  with True show ?thesis by (simp add: withinRoot_def Rel_def)
next
  case False
  obtain bs ts where sc: "strip_common (comps r) (comps t) = (bs, ts)" by force
  then obtain p where p: "comps r = p @ bs" "comps t = p @ ts" using strip_common_split by blast
  have "''..'' \<notin> set (comps r)" "''..'' \<notin> set (comps t)"
    using assms comps_abs_no_dotdot by blast+
  then have nd: "\<not> (bs \<noteq> [] \<and> hd bs = ''..'')" "''..'' \<notin> set ts"
    using p by (cases bs; force)+
  have plain: "\<forall>c \<in> set ts. sep \<notin> set c"
    using normal_plain [OF normal_comps, of _ t] p(2) by (auto simp: plain_comp_def)
  have rel: "Rel (Clean r) (Clean t) = Inr (join_with sep (replicate (length bs) ''..'' @ ts))"
    using False assms sc nd(1) by (auto simp: Rel_def)
  have pre: "bs = [] \<longleftrightarrow> prefix (comps r) (comps t)"
    using strip_common_prefix_iff [of "comps r" "comps t"] sc by simp
  show ?thesis
  proof (cases "bs = []")
    case True
    then have "ts \<noteq> []" using False p assms by (auto simp: Clean_eq_iff)
    with join_no_dotdot [OF this plain nd(2)] True rel pre show ?thesis by (simp add: withinRoot_def)
  next
    case False
    with join_dotdots [of "length bs" ts] rel pre show ?thesis by (auto simp: withinRoot_def)
  qed
qed

section \<open>Canonical paths\<close>

text \<open>The deepest ancestor that resolves, and the components below it unchanged.\<close>

definition resolves_at :: "(string \<Rightarrow> string result) \<Rightarrow> string list \<Rightarrow> nat \<Rightarrow> string \<Rightarrow> bool" where
  "resolves_at eval cs k r \<longleftrightarrow>
     k \<le> length cs \<and> eval (render True (take k cs)) = Inr r \<and>
     (\<forall>j \<in> {k<..length cs}. \<exists>e. eval (render True (take j cs)) = Inl e)"

lemma resolves_at_butlast:
  assumes "resolves_at eval (butlast cs) k r" and "eval (render True cs) = Inl e" and "cs \<noteq> []"
  shows "resolves_at eval cs k r" and "drop k (butlast cs) @ [last cs] = drop k cs"
proof -
  obtain ds d where cs: "cs = ds @ [d]" using assms(3) by (cases cs rule: rev_cases) auto
  then show "resolves_at eval cs k r" "drop k (butlast cs) @ [last cs] = drop k cs"
    using assms(1,2) by (auto simp: resolves_at_def le_Suc_eq greaterThanAtMost_iff)
qed

lemma canonicalizePath_ok:
  assumes abs: "\<And>p r. eval p = Inr r \<Longrightarrow> IsAbs p \<Longrightarrow> IsAbs r"
  shows "IsAbs p \<Longrightarrow> canonicalizePath eval p = Inr c \<Longrightarrow>
    IsAbs c \<and> Clean c = c \<and> (\<exists>k r. resolves_at eval (comps p) k r \<and> comps c = comps r @ drop k (comps p))"
proof (induction "length (comps p)" arbitrary: p c rule: less_induct)
  case less
  have cl: "Clean p = render True (comps p)" using less.prems(1) by (simp add: Clean_def)
  show ?case
  proof (cases "eval (Clean p)")
    case (Inr r)
    then have c: "c = Clean r" using less.prems(2) by (simp add: canonicalizePath.simps [of eval p])
    have "IsAbs r" using abs [OF Inr] less.prems(1) by simp
    moreover have "resolves_at eval (comps p) (length (comps p)) r"
      using Inr cl by (simp add: resolves_at_def)
    ultimately show ?thesis unfolding c
      by (intro conjI exI [of _ "length (comps p)"] exI [of _ r]) simp_all
  next
    case (Inl e)
    have ne: "comps p \<noteq> []" and par: "Dir (Clean p) \<noteq> Clean p"
      using less.prems(2) Inl Dir_Clean_eq_iff [of p]
      by (auto simp: canonicalizePath.simps [of eval p] Let_def split: if_splits)
    then obtain d where d: "canonicalizePath eval (Dir (Clean p)) = Inr d"
      "c = PathJoin [d, Base (Clean p)]"
      using less.prems(2) Inl
      by (auto simp: canonicalizePath.simps [of eval p] Let_def split: sum.splits)
    have "length (comps (Dir (Clean p))) < length (comps p)" using ne by (simp add: comps_Dir_Clean)
    from less.hyps [OF this _ d(1)] less.prems(1) obtain k r where
      IH: "IsAbs d" "Clean d = d" "resolves_at eval (butlast (comps p)) k r"
        "comps d = comps r @ drop k (butlast (comps p))"
      by (auto simp: comps_Dir_Clean)
    have "plain_comp (last (comps p))" "last (comps p) \<noteq> ''..''"
      using ne normal_plain [OF normal_comps] comps_abs_no_dotdot [OF less.prems(1)] last_in_set
      by metis+
    then have "comps c = comps d @ [last (comps p)]" "IsAbs c"
      using comps_join_plain [of d "last (comps p)"] IH(1) d(2) Base_Clean [OF ne] by auto
    moreover have "Clean c = c" using d(2) IH(1) by (cases d) simp_all
    moreover note resolves_at_butlast [OF IH(3) _ ne, of e]
    ultimately show ?thesis using IH(4) Inl cl by auto
  qed
qed

lemma canonicalizePath_total:
  assumes "IsAbs p" and "eval ''/'' = Inr r"
  shows "\<exists>c. canonicalizePath eval p = Inr c"
  using assms(1)
proof (induction "length (comps p)" arbitrary: p rule: less_induct)
  case less
  show ?case
  proof (cases "comps p = []")
    case True
    then have "Clean p = ''/''" using less.prems by (simp add: Clean_root_iff)
    with assms(2) show ?thesis by (simp add: canonicalizePath.simps [of eval p])
  next
    case False
    then have "length (comps (Dir (Clean p))) < length (comps p)" by (simp add: comps_Dir_Clean)
    with less.hyps [OF this] less.prems obtain c where "canonicalizePath eval (Dir (Clean p)) = Inr c"
      by (auto simp: comps_Dir_Clean)
    then show ?thesis
      using False Dir_Clean_eq_iff [of p]
      by (auto simp: canonicalizePath.simps [of eval p] Let_def split: sum.splits)
  qed
qed

text \<open>
  C29: resolving a mount path. For an absolute path the resolution ends; it fails only if not even
  the root directory resolves, and otherwise returns an absolute, clean path: the deepest ancestor
  that resolves, with its symbolic links followed, and below it the components that do not exist
  yet, unchanged.
\<close>

theorem canonicalizePath_spec:
  assumes "\<And>p r. eval p = Inr r \<Longrightarrow> IsAbs p \<Longrightarrow> IsAbs r" and "IsAbs p" and "eval ''/'' = Inr r0"
  shows "\<exists>c k r. canonicalizePath eval p = Inr c \<and> IsAbs c \<and> Clean c = c \<and>
    resolves_at eval (comps p) k r \<and> comps c = comps r @ drop k (comps p)"
  using canonicalizePath_total [of p eval r0] canonicalizePath_ok [of eval p] assms by blast

section \<open>What an accepted request guarantees\<close>

lemma canonicalizePath_not_Nil: "canonicalizePath eval p = Inr c \<Longrightarrow> c \<noteq> []"
proof (induction "length (comps p)" arbitrary: p c rule: less_induct)
  case less
  show ?case
  proof (cases "eval (Clean p)")
    case (Inl e)
    then have "comps p \<noteq> []"
      using less.prems Dir_Clean_eq_iff [of p] by (auto simp: canonicalizePath.simps [of eval p] Let_def)
    then have "length (comps (Dir (Clean p))) < length (comps p)" by (simp add: comps_Dir_Clean)
    note IH = less.hyps [OF this]
    from less.prems Inl obtain d where
      "canonicalizePath eval (Dir (Clean p)) = Inr d" "c = PathJoin [d, Base (Clean p)]"
      by (auto simp: canonicalizePath.simps [of eval p] Let_def split: sum.splits if_splits)
    with IH show ?thesis by auto
  qed (use less.prems in \<open>auto simp: canonicalizePath.simps [of eval p]\<close>)
qed

lemma canonicalReserved_not_Nil: "canonicalReserved ev q \<noteq> []"
  by (simp add: canonicalReserved_def canonicalizePath_not_Nil split: sum.split)

lemma first_conflict_Nil:
  "first_conflict ev t ps = [] \<Longrightarrow> q \<in> set ps \<Longrightarrow> q \<noteq> [] \<Longrightarrow> \<not> pathsConflict t (canonicalReserved ev q)"
  by (induction ps) (auto simp: canonicalReserved_not_Nil split: if_splits)

lemma canonicalReserved_abs:
  assumes "\<And>p r. EvalSymlinks ev p = Inr r \<Longrightarrow> IsAbs p \<Longrightarrow> IsAbs r" and "IsAbs q"
  shows "IsAbs (canonicalReserved ev q)"
  using canonicalizePath_ok [of "EvalSymlinks ev" q] assms
  by (auto simp: canonicalReserved_def split: sum.split)

lemma pathsConflict_iff:
  "IsAbs a \<Longrightarrow> IsAbs b \<Longrightarrow>
     pathsConflict a b \<longleftrightarrow> prefix (comps b) (comps a) \<or> prefix (comps a) (comps b)"
  by (simp add: pathsConflict_def pathWithinAnyRoot_def within_iff_prefix)

lemma validateMountConfig_None:
  assumes "validateMountConfig ev mc (Some c) = None"
  obtains client cp where "clientType (Some c) = Inr client" "checkClientConfig ev c client = None"
    "validateFuseAllowOtherPolicy (AllowFuseAllowOther mc) client c = None"
    "MountPath c \<noteq> []" "IsAbs (MountPath c)"
    "canonicalizePath (EvalSymlinks ev) (MountPath c) = Inr cp"
    "AllowedMountRootPaths mc = [] \<or> pathWithinAnyRoot cp (canonicalRoots ev (AllowedMountRootPaths mc))"
    "reservedPathConflict ev mc cp = []" "checkMountTarget ev (MountPath c) = None"
  using assms
  by (auto simp: validateMountConfig_def Let_def split: sum.splits option.splits if_splits)

lemma canonicalRoots_mem:
  "x \<in> set (canonicalRoots ev rs) \<longleftrightarrow> (\<exists>rt \<in> set rs. canonicalizePath (EvalSymlinks ev) rt = Inr x)"
  by (force simp: canonicalRoots_def split: sum.splits)

text \<open>
  C5: an accepted mount request is confined. The place its path really denotes is not the file
  system root, lies below one of the allowed roots when any is configured, and neither contains nor
  lies below a path the daemon reserves for itself (its data, log, mount and database directories,
  the directory of the PID file and of the socket).
\<close>

theorem mount_target_confined:
  assumes abs: "\<And>p r. EvalSymlinks ev p = Inr r \<Longrightarrow> IsAbs p \<Longrightarrow> IsAbs r"
    and roots: "list_all IsAbs (AllowedMountRootPaths mc)"
    and ok: "validateMountConfig ev mc (Some c) = None"
  shows "\<exists>cp. canonicalizePath (EvalSymlinks ev) (MountPath c) = Inr cp \<and> IsAbs cp \<and> comps cp \<noteq> [] \<and>
    (AllowedMountRootPaths mc = [] \<or>
     (\<exists>rt cr. rt \<in> set (AllowedMountRootPaths mc) \<and>
        canonicalizePath (EvalSymlinks ev) rt = Inr cr \<and> prefix (comps cr) (comps cp))) \<and>
    (\<forall>q \<in> set (reservedPaths ev mc). IsAbs q \<longrightarrow>
       \<not> prefix (comps (canonicalReserved ev q)) (comps cp) \<and>
       \<not> prefix (comps cp) (comps (canonicalReserved ev q)))"
proof -
  from ok obtain cp where cp: "canonicalizePath (EvalSymlinks ev) (MountPath c) = Inr cp"
    and mp: "IsAbs (MountPath c)"
    and allowed: "AllowedMountRootPaths mc = [] \<or> pathWithinAnyRoot cp (canonicalRoots ev (AllowedMountRootPaths mc))"
    and res: "reservedPathConflict ev mc cp = []"
    by (rule validateMountConfig_None)
  have can: "IsAbs x" if "canonicalizePath (EvalSymlinks ev) p = Inr x" "IsAbs p" for p x
    using canonicalizePath_ok [of "EvalSymlinks ev" p x] abs that by blast
  have cpabs: "IsAbs cp" by (rule can [OF cp mp])
  have conf: "Clean cp \<noteq> ''/''" "first_conflict ev cp (reservedPaths ev mc) = []"
    using res by (auto simp: reservedPathConflict_def split: if_splits)
  have "prefix (comps cr) (comps cp)"
    if "withinRoot cp cr" "canonicalizePath (EvalSymlinks ev) rt = Inr cr" "rt \<in> set (AllowedMountRootPaths mc)" for cr rt
  proof -
    have "IsAbs rt" using roots that(3) by (simp add: list_all_iff)
    then have "IsAbs cr" by (rule can [OF that(2)])
    with that(1) cpabs show ?thesis by (simp add: within_iff_prefix)
  qed
  then have "AllowedMountRootPaths mc = [] \<or> (\<exists>rt cr. rt \<in> set (AllowedMountRootPaths mc) \<and>
        canonicalizePath (EvalSymlinks ev) rt = Inr cr \<and> prefix (comps cr) (comps cp))"
    using allowed unfolding pathWithinAnyRoot_def list_ex_iff Bex_def canonicalRoots_mem by blast
  moreover have "\<not> prefix (comps (canonicalReserved ev q)) (comps cp) \<and>
       \<not> prefix (comps cp) (comps (canonicalReserved ev q))"
    if "q \<in> set (reservedPaths ev mc)" "IsAbs q" for q
    using first_conflict_Nil [OF conf(2) that(1)] that(2) cpabs canonicalReserved_abs [of ev q] abs
    by (cases "q = []") (auto simp: pathsConflict_iff)
  ultimately show ?thesis using cp cpabs conf(1) by (auto simp: Clean_root_iff)
qed

text \<open>
  the \<open>allow_other\<close> policy. In the configuration the daemon stores and mounts, the option is
  present exactly when the operator enabled it and the client is a FUSE client; a request cannot
  obtain it otherwise, through the mount options or through the irodsfs options.
\<close>

theorem allow_other_policy:
  assumes "validateMountConfig ev mc (Some c) = None"
  defines "c' \<equiv> applyFuseAllowOtherPolicy mc c"
  shows "''allow_other'' \<in> set (MountOptions c') \<union> set (GetFuseOptions (GetIrodsfs (Some c'))) \<longleftrightarrow>
    AllowFuseAllowOther mc \<and> clientType (Some c) \<noteq> Inr mountClientNFS"
proof -
  from assms(1) obtain client where cl: "clientType (Some c) = Inr client"
    and pol: "validateFuseAllowOtherPolicy (AllowFuseAllowOther mc) client c = None"
    by (rule validateMountConfig_None)
  have fuse: "GetFuseOptions (GetIrodsfs (Some (c\<lparr>MountOptions := ms\<rparr>))) = GetFuseOptions (GetIrodsfs (Some c))" for ms
    by (simp add: GetIrodsfs_def)
  have none: "GetFuseOptions (GetIrodsfs (Some c)) = []" if "client \<noteq> mountClientIRODSFS"
    using cl that by (auto simp: clientType_def GetIrodsfs_def GetFuseOptions_def split: option.splits client_config.splits)
  show ?thesis
    using pol cl none fuse unfolding c'_def
    by (cases "client = mountClientIRODSFS")
      (auto simp: applyFuseAllowOtherPolicy_def validateFuseAllowOtherPolicy_def Let_def split: if_splits)
qed

section \<open>Mount IDs are single path components\<close>

lemma mountID_plain: "validateMountID i = None \<Longrightarrow> i \<noteq> [] \<Longrightarrow> plain_comp i \<and> i \<noteq> ''..''"
  by (auto simp: validateMountID_def mountID_char_def plain_comp_def list_all_iff Let_def split: if_splits)

lemma GetMountRootPath_not_Nil: "GetMountRootPath mc \<noteq> []"
  by (simp add: GetMountRootPath_def MountRootPathDefault_def)

text \<open>
  an accepted mount ID names one directory directly below the mount root, so the data
  directories of different mounts are different and none of them contains another.
\<close>

theorem mount_data_directories:
  assumes "validateMountID i = None" and "i \<noteq> []"
  shows "comps (mountDataRoot mc i) = comps (GetMountRootPath mc) @ [i] \<and>
    IsAbs (mountDataRoot mc i) = IsAbs (GetMountRootPath mc)"
  using comps_join_plain [OF GetMountRootPath_not_Nil, of i mc] mountID_plain [OF assms]
  unfolding mountDataRoot_def by blast

section \<open>Concrete requests\<close>

lemma sample_davfs_accepted: "validateMountConfig quiet_env NewDefaultConfig (Some sample_davfs_mount) = None"
  by code_simp

theorem canonicalizePath_spec_witness:
  "\<exists>c k r. canonicalizePath (EvalSymlinks quiet_env) ''/mnt/irods/d'' = Inr c \<and>
     resolves_at (EvalSymlinks quiet_env) (comps ''/mnt/irods/d'') k r \<and>
     comps c = comps r @ drop k (comps ''/mnt/irods/d'')"
  using canonicalizePath_spec [of "EvalSymlinks quiet_env" "''/mnt/irods/d''" "''/''"]
  by (auto simp: quiet_env_def)

theorem mount_target_confined_witness:
  "\<exists>cp. canonicalizePath (EvalSymlinks quiet_env) (MountPath sample_davfs_mount) = Inr cp \<and>
     comps cp \<noteq> [] \<and> \<not> prefix (comps (canonicalReserved quiet_env (DataRootPath NewDefaultConfig))) (comps cp)"
proof -
  have "\<And>p r. EvalSymlinks quiet_env p = Inr r \<Longrightarrow> IsAbs p \<Longrightarrow> IsAbs r" by (simp add: quiet_env_def)
  moreover have "list_all IsAbs (AllowedMountRootPaths NewDefaultConfig)" by code_simp
  moreover have "DataRootPath NewDefaultConfig \<in> set (reservedPaths quiet_env NewDefaultConfig)"
    by (simp add: reservedPaths_def GetDataRootPath_def)
  moreover have "IsAbs (DataRootPath NewDefaultConfig)" by code_simp
  ultimately show ?thesis
    using mount_target_confined [of quiet_env NewDefaultConfig sample_davfs_mount] sample_davfs_accepted
    by blast
qed

theorem allow_other_policy_witness:
  "''allow_other'' \<notin> set (MountOptions (applyFuseAllowOtherPolicy NewDefaultConfig sample_davfs_mount))"
  using allow_other_policy [OF sample_davfs_accepted] by (auto simp: NewDefaultConfig_def)

theorem mount_data_directories_witness:
  "comps (mountDataRoot NewDefaultConfig ''m-1'') = comps (GetMountRootPath NewDefaultConfig) @ [''m-1'']"
  by (rule mount_data_directories [THEN conjunct1]) code_simp+

end
