(* ===== verification/EventBus.thy ===== *)
theory EventBus
  imports Redaction
begin

text \<open>
  Lifecycle events (\<open>SubscribeMountEvents\<close>, \<open>matches\<close> and \<open>publishMountEvent\<close> of
  \<open>service/mount_manager.go\<close>). A subscriber has a filter of mount IDs and a channel with a buffer of
  64 events, modelled by the queue of the events it has not received yet; a full queue drops the
  event. Registration itself sends the current mounts while the event lock is held, and a send to a
  full channel blocks: \<open>None\<close> is the registration that never returns.
\<close>

record mountEventSubscriber =
  sub_mountIDs :: "string list"
  sub_events :: "MountEvent list"

definition event_buffer :: nat where "event_buffer = 64"

record event_bus =
  eventSubscribers :: "(nat \<times> mountEventSubscriber) list"
  nextSubscriberID :: nat

definition empty_bus :: event_bus where
  "empty_bus = \<lparr>eventSubscribers = [], nextSubscriberID = 0\<rparr>"

definition matches :: "mountEventSubscriber \<Rightarrow> string \<Rightarrow> bool" where
  "matches subscriber mountID =
     (if length (sub_mountIDs subscriber) = 0 then True else mountID \<in> set (sub_mountIDs subscriber))"

definition deliver :: "MountEventType \<Rightarrow> MountInfo \<Rightarrow> mountEventSubscriber \<Rightarrow> mountEventSubscriber" where
  "deliver eventType mount subscriber =
     (if \<not> matches subscriber (MountId mount) then subscriber
      else if length (sub_events subscriber) < event_buffer
      then subscriber\<lparr>sub_events := sub_events subscriber @ [\<lparr>EventType = eventType, EventMount = mount\<rparr>]\<rparr>
      else subscriber)"

definition publishMountEvent :: "MountEventType \<Rightarrow> MountInfo \<Rightarrow> event_bus \<Rightarrow> event_bus" where
  "publishMountEvent eventType mount b =
     b\<lparr>eventSubscribers := map (\<lambda>(i, s). (i, deliver eventType mount s)) (eventSubscribers b)\<rparr>"

definition send_snapshots :: "MountInfo list \<Rightarrow> mountEventSubscriber \<Rightarrow> mountEventSubscriber option" where
  "send_snapshots mounts subscriber =
     (let snapshots = map (\<lambda>m. \<lparr>EventType = MOUNT_EVENT_TYPE_SNAPSHOT, EventMount = m\<rparr>)
            (filter (\<lambda>m. matches subscriber (MountId m)) mounts)
      in if length (sub_events subscriber) + length snapshots \<le> event_buffer
         then Some (subscriber\<lparr>sub_events := sub_events subscriber @ snapshots\<rparr>)
         else None)"

text \<open>
  \<open>mounts\<close> are the redacted snapshots of the managed mounts; the result is the new subscriber's ID,
  which the returned cancel function captures, and the bus.
\<close>

definition SubscribeMountEvents ::
    "WatchMountEventsRequest option \<Rightarrow> MountInfo list \<Rightarrow> event_bus \<Rightarrow> (nat \<times> event_bus) option" where
  "SubscribeMountEvents request mounts b =
     (let request = (case request of None \<Rightarrow> \<lparr>WatchMountIds = [], IncludeCurrent = False\<rparr> | Some r \<Rightarrow> r);
          subFilter = remdups (filter (\<lambda>mountID. mountID \<noteq> []) (WatchMountIds request));
          subscriberID = (nextSubscriberID b + 1) mod 2 ^ 64;
          subscriber = \<lparr>sub_mountIDs = subFilter, sub_events = []\<rparr>
      in case (if IncludeCurrent request then send_snapshots mounts subscriber else Some subscriber) of
           None \<Rightarrow> None
         | Some subscriber \<Rightarrow>
             Some (subscriberID,
               b\<lparr>nextSubscriberID := subscriberID,
                 eventSubscribers := AList.update subscriberID subscriber (eventSubscribers b)\<rparr>))"

definition cancelSubscription :: "nat \<Rightarrow> event_bus \<Rightarrow> event_bus" where
  "cancelSubscription subscriberID b =
     b\<lparr>eventSubscribers := AList.delete subscriberID (eventSubscribers b)\<rparr>"

text \<open>Receiving from the subscriber's channel.\<close>

definition receiveEvent :: "nat \<Rightarrow> event_bus \<Rightarrow> MountEvent option \<times> event_bus" where
  "receiveEvent subscriberID b =
     (case map_of (eventSubscribers b) subscriberID of
        None \<Rightarrow> (None, b)
      | Some s \<Rightarrow>
          (case sub_events s of
             [] \<Rightarrow> (None, b)
           | ev # rest \<Rightarrow>
               (Some ev, b\<lparr>eventSubscribers :=
                  AList.update subscriberID (s\<lparr>sub_events := rest\<rparr>) (eventSubscribers b)\<rparr>)))"

section \<open>Delivery\<close>

text \<open>A message without secrets is its own redaction.\<close>

definition secret_free :: "MountInfo \<Rightarrow> bool" where
  "secret_free m \<longleftrightarrow> redactMountInfo m = m"

lemma secret_free_redact [simp]: "secret_free (redactMountInfo m)"
  by (simp add: secret_free_def redactMountInfo_on_secrets on_secrets_comp)

definition bus_ok :: "event_bus \<Rightarrow> bool" where
  "bus_ok b \<longleftrightarrow> wf_alist (eventSubscribers b) \<and>
     list_all (\<lambda>(i, s). length (sub_events s) \<le> event_buffer \<and>
       list_all (\<lambda>e. secret_free (EventMount e)) (sub_events s)) (eventSubscribers b)"

lemma map_of_map_snd: "map_of (map (\<lambda>(i, s). (i, f s)) xs) k = map_option f (map_of xs k)"
  by (induction xs) auto

lemma publish_subscriber:
  "map_of (eventSubscribers (publishMountEvent t m b)) i = map_option (deliver t m) (map_of (eventSubscribers b) i)"
  by (simp add: publishMountEvent_def map_of_map_snd)

lemma matches_events [simp]: "matches (s\<lparr>sub_events := es\<rparr>) = matches s"
  by (simp add: matches_def fun_eq_iff)

lemma publish_fold:
  "map_of (eventSubscribers (fold (\<lambda>(t, m). publishMountEvent t m) evs b)) i =
     map_option (fold (\<lambda>(t, m). deliver t m) evs) (map_of (eventSubscribers b) i)"
  by (induction evs arbitrary: b)
    (auto simp: publish_subscriber option.map_comp comp_def option.map_id split: prod.splits)

lemma deliver_fold:
  "length (sub_events s) \<le> event_buffer \<Longrightarrow>
     fold (\<lambda>(t, m). deliver t m) evs s =
     s\<lparr>sub_events := take event_buffer
         (sub_events s @ map (\<lambda>(t, m). \<lparr>EventType = t, EventMount = m\<rparr>) (filter (\<lambda>(t, m). matches s (MountId m)) evs))\<rparr>"
proof (induction evs arbitrary: s)
  case (Cons ev evs)
  obtain t m where ev: "ev = (t, m)" by force
  have "length (sub_events (deliver t m s)) \<le> event_buffer"
    using Cons.prems by (simp add: deliver_def)
  from Cons.IH [OF this] show ?case using Cons.prems
    by (auto simp: ev deliver_def take_Cons')
qed simp

text \<open>
  C34: delivery. After any sequence of publications a subscriber's channel holds the events it had,
  followed by the published events that match its filter, in the order of publication, cut off at
  the 64 events the buffer holds: nothing is reordered, duplicated or misdirected, and an event is
  lost only when the subscriber has 64 events waiting.
\<close>

theorem publish_in_order:
  assumes "bus_ok b" and "map_of (eventSubscribers b) i = Some s"
  shows "map_of (eventSubscribers (fold (\<lambda>(t, m). publishMountEvent t m) evs b)) i =
    Some (s\<lparr>sub_events := take event_buffer (sub_events s @
      map (\<lambda>(t, m). \<lparr>EventType = t, EventMount = m\<rparr>) (filter (\<lambda>(t, m). matches s (MountId m)) evs))\<rparr>)"
proof -
  have "(i, s) \<in> set (eventSubscribers b)" using assms(2) by (rule map_of_in_set)
  then have "length (sub_events s) \<le> event_buffer" using assms(1) by (auto simp: bus_ok_def list_all_iff)
  with assms(2) show ?thesis by (simp add: publish_fold deliver_fold)
qed

text \<open>
  C35: a subscription that asks for the current mounts returns exactly when at most 64 of them match
  its filter; beyond that the registration blocks on its own full channel with the event lock held.
\<close>

theorem subscribe_returns_iff:
  "SubscribeMountEvents (Some r) mounts b \<noteq> None \<longleftrightarrow>
     (if IncludeCurrent r
      then length (filter (\<lambda>m. filter (\<lambda>x. x \<noteq> []) (WatchMountIds r) = [] \<or>
                          (MountId m \<noteq> [] \<and> MountId m \<in> set (WatchMountIds r))) mounts) \<le> 64
      else True)"
proof -
  have "matches \<lparr>sub_mountIDs = remdups (filter (\<lambda>x. x \<noteq> []) ids), sub_events = []\<rparr> i \<longleftrightarrow>
      filter (\<lambda>x. x \<noteq> []) ids = [] \<or> (i \<noteq> [] \<and> i \<in> set ids)" for ids i
    by (auto simp: matches_def filter_empty_conv)
  then show ?thesis
    by (simp add: SubscribeMountEvents_def send_snapshots_def Let_def event_buffer_def split: option.splits)
qed

section \<open>The invariant of the bus\<close>

lemma bus_ok_empty [inv_intros]: "bus_ok empty_bus"
  by (simp add: bus_ok_def empty_bus_def)

lemma bus_ok_publish [inv_intros]: "bus_ok b \<Longrightarrow> secret_free m \<Longrightarrow> bus_ok (publishMountEvent t m b)"
  by (auto simp: bus_ok_def publishMountEvent_def deliver_def list_all_iff comp_def split_beta)

lemma list_all_update:
  "list_all P xs \<Longrightarrow> P (k, v) \<Longrightarrow> list_all P (AList.update k v xs)"
  by (induction xs) auto

lemma list_all_delete: "list_all P xs \<Longrightarrow> list_all P (AList.delete k xs)"
  by (simp add: AList.delete_eq list_all_iff)

lemma list_all_filter_sub: "list_all P xs \<Longrightarrow> list_all P (filter Q xs)"
  by (induction xs) auto

lemma bus_ok_subscribe [inv_intros]:
  "bus_ok b \<Longrightarrow> list_all secret_free ms \<Longrightarrow> SubscribeMountEvents r ms b = Some (i, b') \<Longrightarrow> bus_ok b'"
  by (auto simp: SubscribeMountEvents_def send_snapshots_def bus_ok_def Let_def
      list.pred_map comp_def list_all_filter_sub intro!: list_all_update split: option.splits if_splits)

lemma bus_ok_cancel [inv_intros]: "bus_ok b \<Longrightarrow> bus_ok (cancelSubscription i b)"
  by (simp add: bus_ok_def cancelSubscription_def list_all_delete)

section \<open>A concrete bus\<close>

definition sample_info :: "string \<Rightarrow> MountInfo" where
  "sample_info i =
     \<lparr>MountId = i, State = MOUNT_STATE_MOUNTED, InfoConfig = None, Attempt = 1, LastError = None,
      Pid = 0, CreatedAt = None, UpdatedAt = None, MountedAt = None, UnmountedAt = None, NextRetryAt = None\<rparr>"

definition sample_bus :: event_bus where
  "sample_bus = \<lparr>eventSubscribers = [(1, \<lparr>sub_mountIDs = [''a''], sub_events = []\<rparr>)], nextSubscriberID = 1\<rparr>"

theorem publish_in_order_witness:
  "map_option (\<lambda>s. map (MountId \<circ> EventMount) (sub_events s))
     (map_of (eventSubscribers (fold (\<lambda>(t, m). publishMountEvent t m)
       [(MOUNT_EVENT_TYPE_UPDATED, sample_info ''a''), (MOUNT_EVENT_TYPE_UPDATED, sample_info ''b''),
        (MOUNT_EVENT_TYPE_REMOVED, sample_info ''a'')] sample_bus)) 1) = Some [''a'', ''a'']"
proof -
  have ok: "bus_ok sample_bus" by (simp add: bus_ok_def sample_bus_def)
  have sub: "map_of (eventSubscribers sample_bus) 1 = Some \<lparr>sub_mountIDs = [''a''], sub_events = []\<rparr>"
    by (simp add: sample_bus_def)
  show ?thesis unfolding publish_in_order [OF ok sub]
    by (simp add: matches_def sample_info_def event_buffer_def)
qed

end
