(* ===== verification/RetryPolicy.thy ===== *)
theory RetryPolicy
  imports Config
begin

text \<open>
  The retry policy of the mount manager: \<open>maxAttempts\<close> and \<open>computeRetryDelay\<close>
  (\<open>service/mount_manager.go\<close>). The delay is computed in \<open>float64\<close>, so each operation is
  followed by \<open>rnd64\<close>, rounding to the nearest number with a 53-bit significand, ties to even.
  \<open>math.Pow\<close> is taken as the correctly rounded power, and the exponent range is unbounded above:
  an infinite product is larger than the maximal delay and is replaced by it all the same.
  The lemmas show that rounding is monotone and keeps the integers up to \<open>2\<^sup>5\<^sup>3\<close>, and from
  this the bounds of the delay.
\<close>

section \<open>Rounding to float64\<close>

definition round_even :: "real \<Rightarrow> int" where
  "round_even x =
     (let f = \<lfloor>x\<rfloor>; d = x - of_int f
      in if d < 1 / 2 then f else if 1 / 2 < d then f + 1 else if even f then f else f + 1)"

definition ulp_exp :: "real \<Rightarrow> int" where
  "ulp_exp x = max (\<lfloor>log 2 \<bar>x\<bar>\<rfloor> - 52) (- 1074)"

definition rnd64 :: "real \<Rightarrow> real" where
  "rnd64 x =
     (if x = 0 then 0
      else of_int (round_even (x / 2 powr of_int (ulp_exp x))) * 2 powr of_int (ulp_exp x))"

definition pow64 :: "real \<Rightarrow> nat \<Rightarrow> real" where
  "pow64 x n = rnd64 (x ^ n)"

section \<open>The policy\<close>

definition maxAttempts :: "Config \<Rightarrow> int" where
  "maxAttempts config =
     (if MaxAttempts (Retry config) > 0 then MaxAttempts (Retry config) else RetryMaxAttemptsDefault)"

definition computeRetryDelay :: "RetryConfig \<Rightarrow> int \<Rightarrow> real option \<Rightarrow> duration" where
  "computeRetryDelay retry attempt randFloat =
     (let initial = (if InitialDelay retry \<le> 0 then RetryInitialDelayDefault else InitialDelay retry);
          maxDelay = (if MaxDelay retry \<le> 0 then RetryMaxDelayDefault else MaxDelay retry);
          multiplier = (if Multiplier retry < 1 then RetryMultiplierDefault else Multiplier retry);
          attempt = (if attempt < 1 then 1 else attempt);
          delay = rnd64 (rnd64 (of_int initial) * pow64 multiplier (nat (attempt - 1)));
          delay = (if delay > rnd64 (of_int maxDelay) then rnd64 (of_int maxDelay) else delay);
          delay = (case randFloat of
                     Some r \<Rightarrow>
                       if Jitter retry > 0
                       then rnd64 (delay + rnd64 (rnd64 (delay * Jitter retry) * r))
                       else delay
                   | None \<Rightarrow> delay)
      in \<lfloor>delay\<rfloor>)"

section \<open>Rounding is monotone and keeps small integers\<close>

lemma round_even_bounds: "of_int (round_even x) - 1 / 2 \<le> x" "x \<le> of_int (round_even x) + 1 / 2"
  unfolding round_even_def Let_def by (auto split: if_splits; linarith)+

lemma round_even_of_int [simp]: "round_even (of_int n) = n"
  by (simp add: round_even_def)

lemma round_even_floor: "round_even x = \<lfloor>x\<rfloor> \<or> round_even x = \<lfloor>x\<rfloor> + 1"
  by (auto simp: round_even_def Let_def)

lemma round_even_mono: "x \<le> y \<Longrightarrow> round_even x \<le> round_even y"
proof (cases "\<lfloor>x\<rfloor> = \<lfloor>y\<rfloor>")
  case True
  moreover assume "x \<le> y"
  ultimately show ?thesis by (auto simp: round_even_def Let_def)
next
  case False
  moreover assume "x \<le> y"
  ultimately have "\<lfloor>x\<rfloor> + 1 \<le> \<lfloor>y\<rfloor>" using floor_mono [of x y] by linarith
  then show ?thesis using round_even_floor [of x] round_even_floor [of y] by linarith
qed

lemma round_even_le: "x \<le> of_int n \<Longrightarrow> round_even x \<le> n"
  using round_even_mono [of x "of_int n"] by simp

lemma round_even_ge: "of_int n \<le> x \<Longrightarrow> n \<le> round_even x"
  using round_even_mono [of "of_int n" x] by simp

lemma ulp_exp_mono: "0 < x \<Longrightarrow> x \<le> y \<Longrightarrow> ulp_exp x \<le> ulp_exp y"
  unfolding ulp_exp_def by (intro max.mono diff_mono floor_mono) auto

lemma less_ulp: "0 < x \<Longrightarrow> x / 2 powr of_int (ulp_exp x) \<le> 2 ^ 53"
proof -
  assume x: "0 < x"
  have "log 2 x < of_int \<lfloor>log 2 x\<rfloor> + 1" by linarith
  also have "\<dots> \<le> of_int (ulp_exp x) + 53" using x by (simp add: ulp_exp_def)
  finally have "x < 2 powr (of_int (ulp_exp x) + 53)" using x by (simp add: log_less_iff)
  then show ?thesis by (simp add: powr_add field_simps powr_numeral)
qed

lemma ulp_le: "0 < y \<Longrightarrow> - 1074 < ulp_exp y \<Longrightarrow> 2 ^ 52 \<le> y / 2 powr of_int (ulp_exp y)"
proof -
  assume y: "0 < y" "- 1074 < ulp_exp y"
  then have "of_int (ulp_exp y) + 52 = (of_int \<lfloor>log 2 y\<rfloor> :: real)" by (simp add: ulp_exp_def)
  also have "\<dots> \<le> log 2 y" by linarith
  finally have "2 powr (of_int (ulp_exp y) + 52) \<le> y" using y by (simp add: le_log_iff)
  then show ?thesis by (simp add: powr_add field_simps powr_numeral)
qed

lemma rnd64_pos_eq:
  "0 < x \<Longrightarrow> rnd64 x = of_int (round_even (x / 2 powr of_int (ulp_exp x))) * 2 powr of_int (ulp_exp x)"
  by (simp add: rnd64_def)

lemma rnd64_nonneg: "0 \<le> x \<Longrightarrow> 0 \<le> rnd64 x"
  using round_even_ge [of 0 "x / 2 powr of_int (ulp_exp x)"] by (simp add: rnd64_def)

lemma rnd64_mono_pos:
  assumes "0 < x" and "x \<le> y"
  shows "rnd64 x \<le> rnd64 y"
proof (cases "ulp_exp x = ulp_exp y")
  case True
  have "round_even (x / 2 powr of_int (ulp_exp y)) \<le> round_even (y / 2 powr of_int (ulp_exp y))"
    by (intro round_even_mono divide_right_mono assms(2)) simp
  with True assms show ?thesis by (simp add: rnd64_pos_eq)
next
  case False
  with assms have less: "ulp_exp x + 1 \<le> ulp_exp y" using ulp_exp_mono [of x y] by simp
  moreover have "- 1074 \<le> ulp_exp x" by (simp add: ulp_exp_def)
  ultimately have "- 1074 < ulp_exp y" by simp
  have "rnd64 x \<le> 2 ^ 53 * 2 powr of_int (ulp_exp x)"
    using less_ulp [OF assms(1)] round_even_le [of _ "2 ^ 53"] assms(1) by (simp add: rnd64_pos_eq)
  also have "\<dots> = 2 ^ 52 * 2 powr of_int (ulp_exp x + 1)" by (simp add: powr_add)
  also have "\<dots> \<le> 2 ^ 52 * 2 powr of_int (ulp_exp y)" using less by (simp add: powr_mono)
  also have "\<dots> \<le> rnd64 y"
    using ulp_le [of y] round_even_ge [of "2 ^ 52"] assms \<open>- 1074 < ulp_exp y\<close>
    by (simp add: rnd64_pos_eq)
  finally show ?thesis .
qed

lemma rnd64_mono: "0 \<le> x \<Longrightarrow> x \<le> y \<Longrightarrow> rnd64 x \<le> rnd64 y"
  using rnd64_mono_pos [of x y] rnd64_nonneg [of y] by (cases "x = 0") (auto simp: rnd64_def)

lemma rnd64_of_int:
  assumes "0 \<le> n" and "n < 2 ^ 53"
  shows "rnd64 (of_int n) = of_int n"
proof (cases "n = 0")
  case True
  then show ?thesis by (simp add: rnd64_def)
next
  case False
  with assms have pos: "(0 :: real) < of_int n" by simp
  have "(of_int n :: real) < 2 ^ 53" using assms(2) by (metis of_int_less_iff of_int_numeral of_int_power)
  then have "log 2 (of_int n) < 53" using pos by (simp add: log_less_iff powr_numeral)
  then have "\<lfloor>log 2 (of_int n)\<rfloor> < 53" by (simp add: floor_less_iff)
  then have e: "ulp_exp (of_int n) \<le> 0" using pos by (simp add: ulp_exp_def)
  define k where "k = nat (- ulp_exp (of_int n))"
  have p: "(2 :: real) powr of_int (ulp_exp (of_int n)) = 1 / 2 ^ k"
    using e by (simp add: k_def powr_minus_divide powr_realpow [symmetric] flip: powr_minus_divide)
  have "(of_int n :: real) / 2 powr of_int (ulp_exp (of_int n)) = of_int (n * 2 ^ k)"
    by (simp add: p)
  then have "round_even ((of_int n :: real) / 2 powr of_int (ulp_exp (of_int n))) = n * 2 ^ k"
    by (simp only: round_even_of_int)
  with pos show ?thesis by (simp add: rnd64_pos_eq p)
qed

lemma rnd64_one [simp]: "rnd64 1 = 1"
  using rnd64_of_int [of 1] by simp

lemma rnd64_le_of_int: "0 \<le> x \<Longrightarrow> x \<le> of_int n \<Longrightarrow> 0 \<le> n \<Longrightarrow> n < 2 ^ 53 \<Longrightarrow> rnd64 x \<le> of_int n"
  using rnd64_mono [of x "of_int n"] rnd64_of_int [of n] by simp

lemma rnd64_ge_of_int: "of_int n \<le> x \<Longrightarrow> 0 \<le> n \<Longrightarrow> n < 2 ^ 53 \<Longrightarrow> of_int n \<le> rnd64 x"
  using rnd64_mono [of "of_int n" x] rnd64_of_int [of n] by simp

lemma pow64_ge_one: "1 \<le> m \<Longrightarrow> 1 \<le> pow64 m n"
  using rnd64_ge_of_int [of 1 "m ^ n"] by (simp add: pow64_def)

lemma pow64_mono: "1 \<le> m \<Longrightarrow> i \<le> j \<Longrightarrow> pow64 m i \<le> pow64 m j"
  unfolding pow64_def by (intro rnd64_mono power_increasing) auto

section \<open>Executable rounding\<close>

text \<open>\<open>ilog2 n\<close> is the position of the highest bit of \<open>n\<close>; it replaces the logarithm in evaluation.\<close>

function ilog2 :: "int \<Rightarrow> int" where
  "ilog2 n = (if n < 2 then 0 else 1 + ilog2 (n div 2))"
  by auto
termination by (relation "measure nat") auto

declare ilog2.simps [simp del]

lemma ilog2_nonneg: "0 \<le> ilog2 n"
  by (induction n rule: ilog2.induct) (simp add: ilog2.simps)

lemma ilog2_bounds: "1 \<le> n \<Longrightarrow> 2 ^ nat (ilog2 n) \<le> n \<and> n < 2 ^ Suc (nat (ilog2 n))"
proof (induction n rule: ilog2.induct)
  case (1 n)
  show ?case
  proof (cases "n < 2")
    case False
    then have "nat (ilog2 n) = Suc (nat (ilog2 (n div 2)))"
      using ilog2_nonneg [of "n div 2"] by (simp add: ilog2.simps [of n] nat_add_distrib)
    moreover have "2 ^ nat (ilog2 (n div 2)) \<le> n div 2" "n div 2 < 2 ^ Suc (nat (ilog2 (n div 2)))"
      using 1 False by auto
    ultimately show ?thesis unfolding power_Suc by (simp only: power_Suc) linarith
  qed (use 1 in \<open>simp add: ilog2.simps [of n]\<close>)
qed

lemma ilog2_real:
  assumes "1 \<le> n"
  shows "2 powr real_of_int (ilog2 n) \<le> of_int n" and "of_int n + 1 \<le> 2 powr (real_of_int (ilog2 n) + 1)"
proof -
  have p: "2 powr of_int (ilog2 n) = (of_int (2 ^ nat (ilog2 n)) :: real)"
    using ilog2_nonneg [of n] by (simp add: powr_int)
  show "2 powr real_of_int (ilog2 n) \<le> of_int n" using ilog2_bounds [OF assms] by (simp only: p of_int_le_iff)
  have "n + 1 \<le> 2 * 2 ^ nat (ilog2 n)" using ilog2_bounds [OF assms] by simp
  then have "(of_int (n + 1) :: real) \<le> of_int (2 * 2 ^ nat (ilog2 n))" by (simp only: of_int_le_iff)
  then show "of_int n + 1 \<le> 2 powr (real_of_int (ilog2 n) + 1)" by (simp add: powr_add p)
qed

lemma floor_log2_ge_one:
  assumes "1 \<le> x"
  shows "\<lfloor>log 2 x\<rfloor> = ilog2 \<lfloor>x\<rfloor>"
proof -
  have "1 \<le> \<lfloor>x\<rfloor>" using assms by simp
  note b = ilog2_real [OF this]
  have "2 powr of_int (ilog2 \<lfloor>x\<rfloor>) \<le> x" using b(1) by linarith
  moreover have "x < 2 powr (of_int (ilog2 \<lfloor>x\<rfloor>) + 1)" using b(2) by linarith
  ultimately show ?thesis using assms by (subst floor_log_eq_powr_iff) auto
qed

lemma floor_log2_less_one:
  assumes "0 < x" and "x < 1"
  shows "\<lfloor>log 2 x\<rfloor> = - 1 - ilog2 (\<lceil>1 / x\<rceil> - 1)"
proof -
  define k where "k = ilog2 (\<lceil>1 / x\<rceil> - 1)"
  have "1 < 1 / x" using assms by simp
  then have "1 < \<lceil>1 / x\<rceil>" by (simp only: less_ceiling_iff of_int_1)
  then have "1 \<le> \<lceil>1 / x\<rceil> - 1" by simp
  note b = ilog2_real [OF this, folded k_def]
  have y: "2 powr of_int k < 1 / x" "1 / x \<le> 2 powr (of_int k + 1)" using b by linarith+
  have "x < inverse (2 powr of_int k)" "inverse (2 powr (of_int k + 1)) \<le> x"
    using y assms by (simp_all add: field_simps)
  then have "2 powr of_int (- 1 - k) \<le> x" "x < 2 powr of_int (- 1 - k + 1)"
    by (simp_all add: powr_minus add.commute flip: powr_minus)
  then show ?thesis using assms by (subst floor_log_eq_powr_iff) (auto simp: k_def)
qed

definition ulp_exp_exec :: "real \<Rightarrow> int" where
  "ulp_exp_exec x =
     (let y = \<bar>x\<bar>; e = (if 1 \<le> y then ilog2 \<lfloor>y\<rfloor> else - 1 - ilog2 (\<lceil>1 / y\<rceil> - 1))
      in max (e - 52) (- 1074))"

lemma ulp_exp_exec: "x \<noteq> 0 \<Longrightarrow> ulp_exp_exec x = ulp_exp x"
  using floor_log2_ge_one [of "\<bar>x\<bar>"] floor_log2_less_one [of "\<bar>x\<bar>"]
  by (auto simp: ulp_exp_def ulp_exp_exec_def Let_def)

definition two_to :: "int \<Rightarrow> real" where
  "two_to k = (if 0 \<le> k then 2 ^ nat k else 1 / 2 ^ nat (- k))"

lemma two_to_powr: "two_to k = 2 powr of_int k"
  by (simp add: two_to_def powr_int powr_minus_divide)

lemma rnd64_code [code]:
  "rnd64 x =
     (if x = 0 then 0
      else (let e = ulp_exp_exec x; u = two_to e in of_int (round_even (x / u)) * u))"
  by (simp add: rnd64_def ulp_exp_exec two_to_powr Let_def)

section \<open>Bounds of the delay\<close>

text \<open>The delay before jitter, for a configuration that passed validation.\<close>

definition baseDelay :: "RetryConfig \<Rightarrow> int \<Rightarrow> real" where
  "baseDelay retry attempt =
     min (rnd64 (rnd64 (of_int (InitialDelay retry)) *
            pow64 (Multiplier retry) (nat ((if attempt < 1 then 1 else attempt) - 1))))
         (rnd64 (of_int (MaxDelay retry)))"

definition valid_retry :: "RetryConfig \<Rightarrow> bool" where
  "valid_retry retry =
     (1 \<le> MaxAttempts retry \<and> 0 < InitialDelay retry \<and> InitialDelay retry \<le> MaxDelay retry \<and>
      1 \<le> Multiplier retry \<and> 0 \<le> Jitter retry \<and> Jitter retry \<le> 1)"

lemma computeRetryDelay_valid:
  assumes "valid_retry retry"
  shows "computeRetryDelay retry attempt rand =
     \<lfloor>case rand of
        Some r \<Rightarrow> (if Jitter retry > 0
                   then rnd64 (baseDelay retry attempt +
                          rnd64 (rnd64 (baseDelay retry attempt * Jitter retry) * r))
                   else baseDelay retry attempt)
      | None \<Rightarrow> baseDelay retry attempt\<rfloor>"
  using assms
  by (simp add: computeRetryDelay_def valid_retry_def baseDelay_def min_def Let_def not_less
      split: option.split)

lemma baseDelay_bounds:
  assumes "valid_retry retry" and "MaxDelay retry < 2 ^ 53"
  shows "of_int (InitialDelay retry) \<le> baseDelay retry attempt"
    and "baseDelay retry attempt \<le> of_int (MaxDelay retry)"
proof -
  have i: "0 < InitialDelay retry" "InitialDelay retry \<le> MaxDelay retry" "1 \<le> Multiplier retry"
    using assms(1) by (simp_all add: valid_retry_def)
  have eqs: "rnd64 (of_int (InitialDelay retry)) = of_int (InitialDelay retry)"
    "rnd64 (of_int (MaxDelay retry)) = of_int (MaxDelay retry)"
    using i assms(2) by (intro rnd64_of_int; simp)+
  have "(of_int (InitialDelay retry) :: real) * 1 \<le> of_int (InitialDelay retry) * pow64 (Multiplier retry) n" for n
    using i pow64_ge_one by (intro mult_left_mono) auto
  then have "of_int (InitialDelay retry) \<le> rnd64 (of_int (InitialDelay retry) * pow64 (Multiplier retry) n)" for n
    using i assms(2) by (intro rnd64_ge_of_int) auto
  with i show "of_int (InitialDelay retry) \<le> baseDelay retry attempt"
    by (simp add: baseDelay_def eqs)
  show "baseDelay retry attempt \<le> of_int (MaxDelay retry)"
    by (simp add: baseDelay_def eqs)
qed

lemma baseDelay_mono:
  assumes "valid_retry retry" and "a \<le> b"
  shows "baseDelay retry a \<le> baseDelay retry b"
proof -
  have "1 \<le> Multiplier retry" "0 < InitialDelay retry" using assms(1) by (simp_all add: valid_retry_def)
  moreover have "0 \<le> rnd64 (of_int (InitialDelay retry))"
    using \<open>0 < InitialDelay retry\<close> by (intro rnd64_nonneg) simp
  ultimately show ?thesis unfolding baseDelay_def
    using assms(2) pow64_ge_one [of "Multiplier retry"]
    by (intro min.mono rnd64_mono mult_left_mono pow64_mono mult_nonneg_nonneg order_refl)
      (auto intro: order_trans [OF zero_le_one])
qed

lemma jitter_bounds:
  assumes "0 \<le> d" and "d \<le> of_int m" and "m < 2 ^ 53" and "0 \<le> j" "j \<le> 1" and "0 \<le> r" "r < 1"
  shows "0 \<le> rnd64 (rnd64 (d * j) * r)" and "rnd64 (rnd64 (d * j) * r) \<le> of_int m"
proof -
  have m: "0 \<le> m" using assms(1,2) by linarith
  have dj: "0 \<le> d * j" "d * j \<le> of_int m"
    using assms mult_mono [of d "of_int m" j 1] m by auto
  have a: "0 \<le> rnd64 (d * j)" "rnd64 (d * j) \<le> of_int m"
    using rnd64_nonneg [OF dj(1)] rnd64_le_of_int [OF dj m assms(3)] by auto
  then have "0 \<le> rnd64 (d * j) * r" "rnd64 (d * j) * r \<le> of_int m"
    using assms(6,7) mult_mono [of "rnd64 (d * j)" "of_int m" r 1] m by auto
  then show "0 \<le> rnd64 (rnd64 (d * j) * r)" "rnd64 (rnd64 (d * j) * r) \<le> of_int m"
    using rnd64_nonneg rnd64_le_of_int m assms(3) by auto
qed



end
