(* ===== verification/MountManager.thy ===== *)
theory MountManager
  imports MountPolicy EventBus RetryPolicy
begin

text \<open>
  The mount manager (\<open>service/mount_manager.go\<close>): its state and every operation that changes it.

  Entries live in a heap (\<open>gHeap\<close>, addresses are positions) because goroutines and timers keep
  pointers to entries that the registry \<open>gMounts\<close> no longer holds. Channels (\<open>exitDone\<close>) are
  positions in \<open>gChans\<close>, true once closed; closing twice is a Go panic and sets \<open>gPanicked\<close>, waiting
  for a channel nobody will close sets \<open>gBlocked\<close>. Timers are \<open>gTimers\<close>; a timer that has fired, and
  every goroutine, is a \<open>task\<close>. \<open>gTrace\<close> is what the manager did to the outside, oldest first.

  A handler is a function of the repository operations \<open>rp\<close>, the environment \<open>ev\<close> of this run and
  the state. Locks do not appear: a handler that holds an entry's operation lock runs as one step,
  and a wait for the child's exit runs the goroutine that signals it at that point.
\<close>

section \<open>State\<close>

record managedMount =
  mInfo :: MountInfo
  mCommand :: "nat option"
  mClient :: mountClientType
  mPersistent :: bool
  mExitDone :: nat
  mUnmounting :: bool
  mTimedOut :: bool
  mStopping :: bool
  mGeneration :: nat
  mRetryTimer :: "nat option"
  mMountLog :: "string list option"

datatype timer_action =
    FireRetryMount nat nat
  | FireRetryUnmount nat nat

text \<open>Goroutines: address of the entry and generation of the attempt they belong to, and the rest.\<close>

datatype task =
    WaitForProcess nat nat nat
  | HandleCrash nat nat mountClientType string "gerror option"
  | WaitForMount nat nat "nat option"
  | RunRetryMount nat nat
  | RunRetryUnmount nat nat
  | RunUnmount string nat

record Metrics =
  mountOperations :: "(string \<times> string \<times> duration) list"
  childCrashesTotal :: nat
  reconcileErrorsTotal :: nat

record 'r manager =
  gConfig :: Config
  gRepository :: 'r
  gMounts :: "(string \<times> nat) list"
  gHeap :: "managedMount list"
  gChans :: "bool list"
  gBus :: event_bus
  gMetrics :: "Metrics option"
  gTimers :: "(nat \<times> timer_action) list"
  gNextTimer :: nat
  gTasks :: "task list"
  gNextProc :: nat
  gTrace :: "effect list"
  gPanicked :: bool
  gBlocked :: bool

section \<open>Access to the state\<close>

definition entry :: "'r manager \<Rightarrow> nat \<Rightarrow> managedMount" where
  "entry st a = gHeap st ! a"

definition upd_entry :: "nat \<Rightarrow> (managedMount \<Rightarrow> managedMount) \<Rightarrow> 'r manager \<Rightarrow> 'r manager" where
  "upd_entry a f st = st\<lparr>gHeap := (gHeap st)[a := f (gHeap st ! a)]\<rparr>"

definition upd_info :: "nat \<Rightarrow> (MountInfo \<Rightarrow> MountInfo) \<Rightarrow> 'r manager \<Rightarrow> 'r manager" where
  "upd_info a f st = upd_entry a (\<lambda>e. e\<lparr>mInfo := f (mInfo e)\<rparr>) st"

definition emit :: "effect list \<Rightarrow> 'r manager \<Rightarrow> 'r manager" where
  "emit es st = st\<lparr>gTrace := gTrace st @ es\<rparr>"

definition spawn :: "task list \<Rightarrow> 'r manager \<Rightarrow> 'r manager" where
  "spawn ts st = st\<lparr>gTasks := gTasks st @ ts\<rparr>"

definition close_chan :: "nat \<Rightarrow> 'r manager \<Rightarrow> 'r manager" where
  "close_chan c st =
     (if gChans st ! c then st\<lparr>gPanicked := True\<rparr> else st\<lparr>gChans := (gChans st)[c := True]\<rparr>)"

definition make_chan :: "'r manager \<Rightarrow> nat \<times> 'r manager" where
  "make_chan st = (length (gChans st), st\<lparr>gChans := gChans st @ [False]\<rparr>)"

definition mountPath :: "'r manager \<Rightarrow> nat \<Rightarrow> string" where
  "mountPath st a = GetMountPath (InfoConfig (mInfo (entry st a)))"

definition mountID :: "'r manager \<Rightarrow> nat \<Rightarrow> string" where
  "mountID st a = MountId (mInfo (entry st a))"

definition snapshot :: "'r manager \<Rightarrow> nat \<Rightarrow> MountInfo" where
  "snapshot st a = redactMountInfo (mInfo (entry st a))"

definition publish :: "MountEventType \<Rightarrow> MountInfo \<Rightarrow> 'r manager \<Rightarrow> 'r manager" where
  "publish eventType mount st = st\<lparr>gBus := publishMountEvent eventType mount (gBus st)\<rparr>"

text \<open>\<open>int32\<close> and \<open>uint64\<close> increments.\<close>

definition inc32 :: "int \<Rightarrow> int" where
  "inc32 n = (n + 1 + 2 ^ 31) mod 2 ^ 32 - 2 ^ 31"

definition inc64 :: "nat \<Rightarrow> nat" where
  "inc64 n = (n + 1) mod 2 ^ 64"

section \<open>Metrics, timers, persistence\<close>

definition observeMountOperation :: "string \<Rightarrow> string \<Rightarrow> duration \<Rightarrow> Metrics \<Rightarrow> Metrics" where
  "observeMountOperation operation result d m =
     m\<lparr>mountOperations := mountOperations m @ [(operation, result, d)]\<rparr>"

definition countChildCrash :: "Metrics \<Rightarrow> Metrics" where
  "countChildCrash m = m\<lparr>childCrashesTotal := childCrashesTotal m + 1\<rparr>"

definition countReconcileError :: "Metrics \<Rightarrow> Metrics" where
  "countReconcileError m = m\<lparr>reconcileErrorsTotal := reconcileErrorsTotal m + 1\<rparr>"

definition recordMountOperation ::
    "env \<Rightarrow> string \<Rightarrow> gerror option \<Rightarrow> 'r manager \<Rightarrow> 'r manager" where
  "recordMountOperation ev operation err st =
     (case gMetrics st of
        None \<Rightarrow> st
      | Some m \<Rightarrow>
          st\<lparr>gMetrics := Some (observeMountOperation operation (if err = None then ''accepted'' else ''rejected'')
               (now ev AtMetrics - now ev AtStart) m)\<rparr>)"

definition recordChildCrash :: "'r manager \<Rightarrow> 'r manager" where
  "recordChildCrash st = st\<lparr>gMetrics := map_option countChildCrash (gMetrics st)\<rparr>"

definition recordReconcileError :: "'r manager \<Rightarrow> 'r manager" where
  "recordReconcileError st = st\<lparr>gMetrics := map_option countReconcileError (gMetrics st)\<rparr>"

definition cancelRetryTimer :: "nat \<Rightarrow> 'r manager \<Rightarrow> 'r manager" where
  "cancelRetryTimer a st =
     (case mRetryTimer (entry st a) of
        None \<Rightarrow> st
      | Some t \<Rightarrow> (upd_entry a (\<lambda>e. e\<lparr>mRetryTimer := None\<rparr>) st)\<lparr>gTimers := AList.delete t (gTimers st)\<rparr>)"

definition afterFunc :: "nat \<Rightarrow> timer_action \<Rightarrow> 'r manager \<Rightarrow> 'r manager" where
  "afterFunc a action st =
     upd_entry a (\<lambda>e. e\<lparr>mRetryTimer := Some (gNextTimer st)\<rparr>)
       (st\<lparr>gTimers := (gNextTimer st, action) # gTimers st, gNextTimer := gNextTimer st + 1\<rparr>)"

definition repo_update ::
    "'r repo \<Rightarrow> gerror option \<Rightarrow> MountRecord \<Rightarrow> 'r manager \<Rightarrow> gerror option \<times> 'r manager" where
  "repo_update rp ctx record st =
     (case repo_Update rp ctx (Some record) (gRepository st) of
        (err, r) \<Rightarrow>
          (err, emit (if err = None then [EUpdateRecord record] else []) (st\<lparr>gRepository := r\<rparr>)))"

definition repo_create ::
    "'r repo \<Rightarrow> gerror option \<Rightarrow> MountRecord \<Rightarrow> 'r manager \<Rightarrow> gerror option \<times> 'r manager" where
  "repo_create rp ctx record st =
     (case repo_Create rp ctx (Some record) (gRepository st) of
        (err, r) \<Rightarrow>
          (err, emit (if err = None then [ECreateRecord record] else []) (st\<lparr>gRepository := r\<rparr>)))"

definition repo_delete ::
    "'r repo \<Rightarrow> gerror option \<Rightarrow> string \<Rightarrow> 'r manager \<Rightarrow> gerror option \<times> 'r manager" where
  "repo_delete rp ctx i st =
     (case repo_Delete rp ctx i (gRepository st) of
        (err, r) \<Rightarrow>
          (err, emit (if err = None then [EDeleteRecord i] else []) (st\<lparr>gRepository := r\<rparr>)))"

definition persistRecord ::
    "'r repo \<Rightarrow> gerror option \<Rightarrow> nat \<Rightarrow> 'r manager \<Rightarrow> gerror option \<times> 'r manager" where
  "persistRecord rp ctx a st =
     repo_update rp ctx \<lparr>Info = mInfo (entry st a), Tombstone = mUnmounting (entry st a)\<rparr> st"

definition persistBestEffort :: "'r repo \<Rightarrow> nat \<Rightarrow> 'r manager \<Rightarrow> 'r manager" where
  "persistBestEffort rp a st = snd (persistRecord rp None a st)"

section \<open>Failed mount attempts\<close>

definition isNonRetryableMountFailure :: "string \<Rightarrow> bool" where
  "isNonRetryableMountFailure code =
     (code = ''IRODSFS_CONFIGURATION_INVALID'' \<or> code = ''IRODSFS_AUTHENTICATION_FAILED'')"

text \<open>
  The update of the entry when an attempt fails; \<open>retrying\<close> decides between waiting for the next
  attempt and giving up. It is shared by mounting and unmounting.
\<close>

definition failure_info ::
    "env \<Rightarrow> RetryConfig \<Rightarrow> string \<Rightarrow> message \<Rightarrow> bool \<Rightarrow> (string \<times> string) list \<Rightarrow> MountInfo \<Rightarrow> MountInfo" where
  "failure_info ev retry code msg retrying details info =
     info\<lparr>UpdatedAt := Some (now ev AtFailure),
          LastError := Some \<lparr>ErrCode = code, ErrMessage = msg, Retryable = retrying, Details = details\<rparr>,
          State := (if retrying then MOUNT_STATE_RETRY_WAIT else MOUNT_STATE_FAILED),
          NextRetryAt := (if retrying
                          then Some (now ev AtNextRetry + computeRetryDelay retry (Attempt info) (Some (randFloat ev)))
                          else None)\<rparr>"

definition recordMountFailure ::
    "'r repo \<Rightarrow> env \<Rightarrow> nat \<Rightarrow> nat \<Rightarrow> string \<Rightarrow> message \<Rightarrow> (string \<times> string) list \<Rightarrow> 'r manager \<Rightarrow> 'r manager" where
  "recordMountFailure rp ev a gen code msg details st =
     (if mGeneration (entry st a) \<noteq> gen \<or> mUnmounting (entry st a) then st
      else
        (let info = mInfo (entry st a);
             attempt = Attempt info;
             hadMounted = (MountedAt info \<noteq> None);
             retrying = (\<not> isNonRetryableMountFailure code \<and> attempt < maxAttempts (gConfig st) \<and>
                         (\<not> hadMounted \<or> AutoRemount (gConfig st)));
             st = upd_info a (failure_info ev (Retry (gConfig st)) code msg retrying details) st;
             st = persistBestEffort rp a st;
             st = publish MOUNT_EVENT_TYPE_UPDATED (snapshot st a) st
         in if \<not> retrying then st else afterFunc a (FireRetryMount a gen) st))"

definition recordTerminalMountFailure ::
    "'r repo \<Rightarrow> env \<Rightarrow> nat \<Rightarrow> nat \<Rightarrow> string \<Rightarrow> message \<Rightarrow> 'r manager \<Rightarrow> 'r manager" where
  "recordTerminalMountFailure rp ev a gen code msg st =
     (if mGeneration (entry st a) \<noteq> gen \<or> mUnmounting (entry st a) then st
      else
        (let st = upd_info a (\<lambda>info. info\<lparr>State := MOUNT_STATE_FAILED, UpdatedAt := Some (now ev AtFailure),
                    LastError := Some \<lparr>ErrCode = code, ErrMessage = msg, Retryable = False, Details = []\<rparr>,
                    NextRetryAt := None\<rparr>) st;
             st = persistBestEffort rp a st
         in publish MOUNT_EVENT_TYPE_UPDATED (snapshot st a) st))"

definition finishMountStartFailure ::
    "'r repo \<Rightarrow> env \<Rightarrow> nat \<Rightarrow> nat \<Rightarrow> string \<Rightarrow> message \<Rightarrow> 'r manager \<Rightarrow> 'r manager" where
  "finishMountStartFailure rp ev a gen code msg st =
     recordMountFailure rp ev a gen code msg [] (close_chan (mExitDone (entry st a)) st)"

definition failMountBeforeStart ::
    "'r repo \<Rightarrow> env \<Rightarrow> nat \<Rightarrow> nat \<Rightarrow> string \<Rightarrow> 'r manager \<Rightarrow> (MountInfo \<times> gerror option) \<times> 'r manager" where
  "failMountBeforeStart rp ev a gen dataRootPath st =
     (let timeoutErr = errors_New ''timed out while preparing filesystem mount'';
          st = upd_entry a (\<lambda>e. e\<lparr>mTimedOut := True\<rparr>) st;
          st = emit [ERemoveAll dataRootPath] st;
          msg = (case removeAll ev of
                   None \<Rightarrow> errtext timeoutErr
                 | Some err \<Rightarrow> errtext timeoutErr @ [Lit ''; cleanup failed: ''] @ errtext err);
          st = finishMountStartFailure rp ev a gen ''MOUNT_TIMEOUT'' msg st
      in ((snapshot st a, Some timeoutErr), st))"

section \<open>Starting a mount\<close>

text \<open>The two directory steps, the log, the command and the start, in the order of the code.\<close>

definition start_process ::
    "'r repo \<Rightarrow> env \<Rightarrow> nat \<Rightarrow> nat \<Rightarrow> exec_Cmd \<Rightarrow> mountClientType \<Rightarrow> int \<Rightarrow> 'r manager \<Rightarrow> 'r manager" where
  "start_process rp ev a gen cmd client pid st =
     (let proc = gNextProc st;
          st = emit [EStart (mountID st a) cmd] (st\<lparr>gNextProc := proc + 1\<rparr>);
          st = upd_entry a (\<lambda>e. e\<lparr>mCommand := Some proc, mClient := client,
                 mPersistent := (client = mountClientIRODSFS),
                 mInfo := (let info = mInfo e;
                               info = (if client = mountClientIRODSFS then info\<lparr>Pid := pid\<rparr> else info)
                           in info\<lparr>State := MOUNT_STATE_MOUNTING, UpdatedAt := Some (now ev AtStarted)\<rparr>)\<rparr>) st;
          exitDone = mExitDone (entry st a);
          st = persistBestEffort rp a st;
          st = publish MOUNT_EVENT_TYPE_UPDATED (snapshot st a) st
      in spawn [WaitForProcess a gen exitDone, WaitForMount a gen (Some exitDone)] st)"

definition open_log :: "env \<Rightarrow> nat \<Rightarrow> 'r manager \<Rightarrow> gerror option \<times> 'r manager" where
  "open_log ev a st =
     (case mMountLog (entry st a) of
        Some _ \<Rightarrow> (None, st)
      | None \<Rightarrow>
          (let logPath = GetMountLogPath (gConfig st) (mountID st a);
               secrets = collectMountSecrets (InfoConfig (mInfo (entry st a)));
               st = emit [EOpenLog logPath secrets] st
           in case openLog ev of
                Some err \<Rightarrow> (Some err, st)
              | None \<Rightarrow> (None, upd_entry a (\<lambda>e. e\<lparr>mMountLog := Some secrets\<rparr>) st)))"

definition startMount ::
    "'r repo \<Rightarrow> env \<Rightarrow> nat \<Rightarrow> nat \<Rightarrow> string \<Rightarrow> 'r manager \<Rightarrow> (MountInfo \<times> gerror option) \<times> 'r manager" where
  "startMount rp ev a gen dataRootPath st =
     (let fail = (\<lambda>code msg err st. let st = finishMountStartFailure rp ev a gen code msg st
                                    in ((snapshot st a, Some err), st));
          path = mountPath st a;
          st = emit [EMkdirAll path] st
      in case mkdirMount ev of
           Some err \<Rightarrow>
             (let startErr = errors_Wrapf err [Lit ''failed to create mount directory '', Quoted path]
              in fail ''MOUNT_DIRECTORY_FAILED'' (errtext startErr) startErr st)
         | None \<Rightarrow>
     (let st = emit [EMkdirAll dataRootPath] st
      in case mkdirData ev of
           Some err \<Rightarrow>
             (let startErr = errors_Wrapf err [Lit ''failed to create mount data directory '', Quoted dataRootPath]
              in fail ''MOUNT_DATA_DIRECTORY_FAILED'' (errtext startErr) startErr st)
         | None \<Rightarrow>
     (if deadlinePassed1 ev then failMountBeforeStart rp ev a gen dataRootPath st
      else case open_log ev a st of
        (Some err, st) \<Rightarrow> fail ''MOUNT_LOG_OPEN_FAILED'' (errtext err) err st
      | (None, st) \<Rightarrow>
     (case makeMountCommand ev (gConfig st) (InfoConfig (mInfo (entry st a))) (mountID st a) dataRootPath True of
        (command, effs) \<Rightarrow>
     (let st = emit effs st
      in case command of
           Inl err \<Rightarrow> fail ''MOUNT_CONFIGURATION_FAILED'' (errtext err) err st
         | Inr (cmd, client) \<Rightarrow>
     (if deadlinePassed2 ev then failMountBeforeStart rp ev a gen dataRootPath st
      else case startCommand ev of
             Inl err \<Rightarrow>
               fail ''MOUNT_COMMAND_START_FAILED'' (errtext err)
                 (errors_Wrapf err [Lit ''failed to start '', Lit (client_name client), Lit '' mount command'']) st
           | Inr pid \<Rightarrow>
               (let st = start_process rp ev a gen cmd client pid st
                in ((snapshot st a, None), st))))))))"

section \<open>Mount\<close>

definition new_entry :: "MountInfo \<Rightarrow> nat \<Rightarrow> managedMount" where
  "new_entry info chan =
     \<lparr>mInfo = info, mCommand = None, mClient = mountClientUnset, mPersistent = False, mExitDone = chan,
      mUnmounting = False, mTimedOut = False, mStopping = False, mGeneration = 1, mRetryTimer = None,
      mMountLog = None\<rparr>"

text \<open>Allocate the entry and its channel and register it under its ID.\<close>

definition register :: "MountInfo \<Rightarrow> 'r manager \<Rightarrow> nat \<times> 'r manager" where
  "register info st =
     (let (chan, st) = make_chan st;
          a = length (gHeap st);
          st = st\<lparr>gHeap := gHeap st @ [new_entry info chan]\<rparr>
      in (a, st\<lparr>gMounts := AList.update (MountId info) a (gMounts st)\<rparr>))"

definition mount_info0 :: "env \<Rightarrow> Config \<Rightarrow> MountConfig \<Rightarrow> string \<Rightarrow> MountInfo" where
  "mount_info0 ev mconfig config i =
     \<lparr>MountId = i, State = MOUNT_STATE_PENDING_MOUNT,
      InfoConfig = Some (applyFuseAllowOtherPolicy mconfig (config\<lparr>MountPath := Clean (MountPath config)\<rparr>)),
      Attempt = 1, LastError = None, Pid = 0, CreatedAt = Some (now ev AtCreate),
      UpdatedAt = Some (now ev AtCreate), MountedAt = None, UnmountedAt = None, NextRetryAt = None\<rparr>"

text \<open>The checks under the registry lock.\<close>

definition registry_conflict :: "string \<Rightarrow> string \<Rightarrow> 'r manager \<Rightarrow> gerror option" where
  "registry_conflict i path st =
     (if map_of (gMounts st) i \<noteq> None
      then Some (errors_Wrapf (errors_sentinel ErrMountIDConflict ''mount ID is already in use'') [Lit ''mount ID '', Quoted i])
      else if MaxConcurrentMounts (gConfig st) > 0 \<and> int (length (gMounts st)) \<ge> MaxConcurrentMounts (gConfig st)
      then Some (errors_sentinel ErrMountLimitReached ''maximum number of mounts reached'')
      else case find (\<lambda>(j, b). Clean (mountPath st b) = path) (gMounts st) of
             Some (existingID, _) \<Rightarrow>
               Some (errors_Wrapf (errors_sentinel ErrMountPathConflict ''mount path is already in use'')
                 [Lit ''mount path '', Quoted path, Lit '' is owned by '', Quoted existingID])
           | None \<Rightarrow> None)"

definition Mount_run ::
    "'r repo \<Rightarrow> env \<Rightarrow> MountRequest option \<Rightarrow> 'r manager \<Rightarrow> (MountInfo option \<times> gerror option) \<times> 'r manager" where
  "Mount_run rp ev request st =
     (case ctxErr ev of
        Some err \<Rightarrow> ((None, Some err), st)
      | None \<Rightarrow>
     (case request of
        None \<Rightarrow> ((None, Some (errors_New ''mount request is required'')), st)
      | Some req \<Rightarrow>
     (case validateMountConfig ev (gConfig st) (ReqConfig req) of
        Some err \<Rightarrow> ((None, Some err), st)
      | None \<Rightarrow>
     (let requested = GetString (ReqMountId req);
          i = (if requested = [] then newMountID ev else requested)
      in case (if requested = [] then None else validateMountID requested) of
           Some err \<Rightarrow> ((None, Some err), st)
         | None \<Rightarrow>
     (let info = mount_info0 ev (gConfig st) (the (ReqConfig req)) i;
          dataRootPath = mountDataRoot (gConfig st) i
      in case registry_conflict i (Clean (MountPath (the (ReqConfig req)))) st of
           Some err \<Rightarrow> ((None, Some err), st)
         | None \<Rightarrow>
     (let (a, st) = register info st
      in case repo_create rp (ctxErr ev) \<lparr>Info = mInfo (entry st a), Tombstone = False\<rparr> st of
           (Some err, st) \<Rightarrow>
             (let persistErr = errors_Wrap err ''failed to persist mount record'';
                  st = upd_info a (\<lambda>info. info\<lparr>State := MOUNT_STATE_FAILED, UpdatedAt := Some (now ev AtPersistFailed),
                         LastError := Some \<lparr>ErrCode = ''MOUNT_PERSIST_FAILED'', ErrMessage = errtext persistErr,
                                            Retryable = False, Details = []\<rparr>\<rparr>) st;
                  st = close_chan (mExitDone (entry st a)) st
              in ((Some (snapshot st a), Some persistErr), st))
         | (None, st) \<Rightarrow>
             (let ((info, err), st) = startMount rp ev a (mGeneration (entry st a)) dataRootPath st
              in ((Some info, err), st))))))))"

definition Mount ::
    "'r repo \<Rightarrow> env \<Rightarrow> MountRequest option \<Rightarrow> 'r manager \<Rightarrow> (MountInfo option \<times> gerror option) \<times> 'r manager" where
  "Mount rp ev request st =
     (let ((result, err), st) = Mount_run rp ev request st
      in ((result, err), recordMountOperation ev ''mount'' err st))"

end
