(* ===== verification/Supervisor.thy ===== *)
theory Supervisor
  imports MountManager
begin

text \<open>
  The rest of the mount manager (\<open>service/mount_manager.go\<close>): supervision of a running attempt
  (\<open>waitForProcess\<close>, \<open>waitForMount\<close>, \<open>handleMountTimeout\<close>), scheduled retries, unmounting,
  reconciliation with the persisted records, shutdown and the read-only requests.

  The goroutine \<open>waitForProcess\<close> is two steps: the section under the entry's lock, and the handling
  of a crash, which runs later and may find that the entry has moved on. \<open>waitForMount\<close> is one step
  per event it waits for. \<open>Unmount\<close> is the lookup and the part that runs once the operation lock is
  held, when the entry may have been replaced.
\<close>

section \<open>The child process\<close>

definition processExitMessage :: "gerror option \<Rightarrow> message" where
  "processExitMessage err =
     (case err of
        None \<Rightarrow> [Lit ''irodsfs exited unexpectedly'']
      | Some e \<Rightarrow> [Lit ''irodsfs exited unexpectedly: ''] @ errtext e)"

definition exitCodeIRODSFSConfigurationInvalid :: int where
  "exitCodeIRODSFSConfigurationInvalid = 10"

definition exitCodeIRODSFSAuthenticationFailed :: int where
  "exitCodeIRODSFSAuthenticationFailed = 11"

definition mountFailureCode :: "mountClientType \<Rightarrow> gerror option \<Rightarrow> string" where
  "mountFailureCode client err =
     (if client = mountClientIRODSFS then
        (case err of
           Some e \<Rightarrow>
             (case cause e of
                ExitError code \<Rightarrow>
                  (if code = exitCodeIRODSFSConfigurationInvalid then ''IRODSFS_CONFIGURATION_INVALID''
                   else if code = exitCodeIRODSFSAuthenticationFailed then ''IRODSFS_AUTHENTICATION_FAILED''
                   else ''MOUNT_COMMAND_EXITED'')
              | _ \<Rightarrow> ''MOUNT_COMMAND_EXITED'')
         | None \<Rightarrow> ''MOUNT_COMMAND_EXITED'')
      else ''MOUNT_COMMAND_EXITED'')"

text \<open>\<open>waitForProcess\<close> after \<open>command.Wait\<close> returned \<open>err\<close>: the section under the lock.\<close>

definition process_exited :: "nat \<Rightarrow> nat \<Rightarrow> nat \<Rightarrow> gerror option \<Rightarrow> 'r manager \<Rightarrow> 'r manager" where
  "process_exited a gen exitDone err st =
     (let e = entry st a;
          stale = (mGeneration e \<noteq> gen);
          st = close_chan exitDone st;
          st = (if \<not> stale \<and> \<not> mPersistent e then upd_info a (\<lambda>info. info\<lparr>Pid := 0\<rparr>) st else st);
          crashed = (\<not> stale \<and> \<not> mUnmounting e \<and> \<not> mTimedOut e \<and> \<not> mStopping e \<and>
                     (mPersistent e \<or> err \<noteq> None))
      in if \<not> crashed then st
         else spawn [HandleCrash a gen (mClient e) (mountPath st a) err] (recordChildCrash st))"

text \<open>\<open>waitForProcess\<close> after a crash: clean up a broken mount point, then decide on a retry.\<close>

definition handle_crash ::
    "'r repo \<Rightarrow> env \<Rightarrow> nat \<Rightarrow> nat \<Rightarrow> mountClientType \<Rightarrow> string \<Rightarrow> gerror option \<Rightarrow> 'r manager \<Rightarrow> 'r manager" where
  "handle_crash rp ev a gen client path err st =
     (let msg = processExitMessage err;
          failureCode = mountFailureCode client err
      in case probe ev of
           Inr True \<Rightarrow>
             (case unmountByClientType ev (gConfig st) client path of
                (Some unmountErr, effs) \<Rightarrow>
                  recordTerminalMountFailure rp ev a gen failureCode
                    (msg @ [Lit ''; failed to clean up the broken mount: ''] @ errtext unmountErr) (emit effs st)
              | (None, effs) \<Rightarrow> recordMountFailure rp ev a gen failureCode msg [] (emit effs st))
         | _ \<Rightarrow> recordMountFailure rp ev a gen failureCode msg [] st)"

section \<open>The mount point\<close>

definition check_mounted :: "'r repo \<Rightarrow> env \<Rightarrow> nat \<Rightarrow> nat \<Rightarrow> 'r manager \<Rightarrow> bool \<times> 'r manager" where
  "check_mounted rp ev a gen st =
     (case probe ev of
        Inr True \<Rightarrow>
          (if mGeneration (entry st a) = gen \<and> State (mInfo (entry st a)) = MOUNT_STATE_MOUNTING \<and>
              \<not> mUnmounting (entry st a)
           then
             (let st = upd_info a (\<lambda>info. info\<lparr>State := MOUNT_STATE_MOUNTED,
                         MountedAt := Some (now ev AtMounted), UpdatedAt := Some (now ev AtMounted)\<rparr>) st;
                  st = persistBestEffort rp a st
              in (True, publish MOUNT_EVENT_TYPE_UPDATED (snapshot st a) st))
           else (True, st))
      | _ \<Rightarrow> (False, st))"

text \<open>\<open>waitForMount\<close> woken by the closed channel: whether it stops.\<close>

definition mount_wait_stopped :: "nat \<Rightarrow> nat \<Rightarrow> 'r manager \<Rightarrow> bool" where
  "mount_wait_stopped a gen st =
     (mPersistent (entry st a) \<or> mGeneration (entry st a) \<noteq> gen \<or>
      State (mInfo (entry st a)) = MOUNT_STATE_FAILED \<or>
      State (mInfo (entry st a)) = MOUNT_STATE_RETRY_WAIT)"

definition cleanupTimedOutMount ::
    "env \<Rightarrow> Config \<Rightarrow> mountClientType \<Rightarrow> string \<Rightarrow> string \<Rightarrow> (bool \<times> gerror option) \<times> effect list" where
  "cleanupTimedOutMount ev mconfig client path i =
     (case probe ev of
        Inl err \<Rightarrow> ((False, Some (errors_Wrap err ''failed to check timed-out mount'')), [])
      | Inr mounted \<Rightarrow>
          (let remove = (\<lambda>effs.
                 let dataRootPath = mountDataRoot mconfig i
                 in ((False, map_option (\<lambda>err. errors_Wrapf err [Lit ''failed to delete mount data directory '', Quoted dataRootPath])
                        (removeAll ev)), effs @ [ERemoveAll dataRootPath]))
           in if \<not> mounted then remove []
              else (case client of
                mountClientIRODSFS \<Rightarrow>
                  (case fuseUnmount ev of
                     Some err \<Rightarrow> ((False, Some (errors_Wrap err ''failed to lazily unmount timed-out FUSE mount'')), [EFuseUnmount path])
                   | None \<Rightarrow> remove [EFuseUnmount path])
              | mountClientDAVFS \<Rightarrow>
                  (case fuseUnmount ev of
                     Some err \<Rightarrow> ((True, Some (errors_Wrap err ''failed to lazily unmount timed-out DAVFS mount'')), [EFuseUnmount path])
                   | None \<Rightarrow> ((True, None), [EFuseUnmount path]))
              | mountClientNFS \<Rightarrow>
                  (case runSystemUnmount ev mconfig path True (UnmountTimeout mconfig) of
                     (Some err, effs) \<Rightarrow> ((False, Some (errors_Wrap err ''failed to lazily unmount timed-out NFS mount'')), effs)
                   | (None, effs) \<Rightarrow> remove effs)
              | mountClientUnset \<Rightarrow> remove [])))"

definition handleMountTimeout :: "'r repo \<Rightarrow> env \<Rightarrow> nat \<Rightarrow> nat \<Rightarrow> 'r manager \<Rightarrow> 'r manager" where
  "handleMountTimeout rp ev a gen st =
     (if mGeneration (entry st a) \<noteq> gen \<or> mUnmounting (entry st a) \<or>
         State (mInfo (entry st a)) = MOUNT_STATE_MOUNTED
      then st
      else
        (let st = upd_entry a (\<lambda>e. e\<lparr>mTimedOut := True\<rparr>) st;
             e = entry st a;
             st = emit (case mCommand e of None \<Rightarrow> [] | Some proc \<Rightarrow> [EKill proc]) st
         in case cleanupTimedOutMount ev (gConfig st) (mClient e) (GetMountPath (InfoConfig (mInfo e))) (MountId (mInfo e)) of
              ((preserved, Some cleanupErr), effs) \<Rightarrow>
                recordTerminalMountFailure rp ev a gen ''MOUNT_TIMEOUT''
                  ([Lit ''timed out waiting for filesystem mount; cleanup failed: ''] @ errtext cleanupErr) (emit effs st)
            | ((preserved, None), effs) \<Rightarrow>
                recordMountFailure rp ev a gen ''MOUNT_TIMEOUT'' [Lit ''timed out waiting for filesystem mount'']
                  (if preserved then [(''davfs_cache'', ''preserved for recovery after lazy unmount'')] else [])
                  (emit effs st)))"

section \<open>Scheduled mount retries\<close>

definition begin_retry :: "env \<Rightarrow> nat \<Rightarrow> 'r manager \<Rightarrow> 'r manager" where
  "begin_retry ev a st =
     (let (chan, st) = make_chan st
      in upd_entry a (\<lambda>e. e\<lparr>mRetryTimer := None, mGeneration := inc64 (mGeneration e),
           mInfo := (mInfo e)\<lparr>Attempt := inc32 (Attempt (mInfo e)), State := MOUNT_STATE_PENDING_MOUNT,
                              UpdatedAt := Some (now ev AtRetry)\<rparr>,
           mExitDone := chan, mTimedOut := False, mCommand := None, mClient := mountClientUnset,
           mPersistent := False\<rparr>) st)"

definition retryMount :: "'r repo \<Rightarrow> env \<Rightarrow> nat \<Rightarrow> nat \<Rightarrow> 'r manager \<Rightarrow> 'r manager" where
  "retryMount rp ev a gen st =
     (if mGeneration (entry st a) \<noteq> gen \<or> mUnmounting (entry st a) then st
      else
        (let st = begin_retry ev a st;
             newGeneration = mGeneration (entry st a);
             st = persistBestEffort rp a st;
             st = publish MOUNT_EVENT_TYPE_UPDATED (snapshot st a) st;
             dataRootPath = mountDataRoot (gConfig st) (mountID st a)
         in snd (startMount rp ev a newGeneration dataRootPath st)))"

section \<open>Unmounting\<close>

definition recordUnmountFailure ::
    "'r repo \<Rightarrow> env \<Rightarrow> nat \<Rightarrow> nat \<Rightarrow> string \<Rightarrow> message \<Rightarrow> 'r manager \<Rightarrow> 'r manager" where
  "recordUnmountFailure rp ev a gen code msg st =
     (if mGeneration (entry st a) \<noteq> gen then st
      else
        (let retrying = (Attempt (mInfo (entry st a)) < maxAttempts (gConfig st));
             st = upd_info a (failure_info ev (Retry (gConfig st)) code msg retrying []) st;
             st = persistBestEffort rp a st;
             st = publish MOUNT_EVENT_TYPE_UPDATED (snapshot st a) st
         in if \<not> retrying then st else afterFunc a (FireRetryUnmount a gen) st))"

text \<open>
  Waiting for the child: a channel that is still open is closed by the goroutine that waits for
  the process of this channel, which runs now; without one the wait would not end.
\<close>

definition is_process_wait :: "nat \<Rightarrow> task \<Rightarrow> bool" where
  "is_process_wait c t = (case t of WaitForProcess _ _ d \<Rightarrow> d = c | _ \<Rightarrow> False)"

definition await_exit :: "env \<Rightarrow> nat \<Rightarrow> 'r manager \<Rightarrow> 'r manager" where
  "await_exit ev c st =
     (if gChans st ! c then st
      else case find (is_process_wait c) (gTasks st) of
             Some (WaitForProcess b gen d) \<Rightarrow>
               process_exited b gen d (exitErr ev) (st\<lparr>gTasks := remove1 (WaitForProcess b gen d) (gTasks st)\<rparr>)
           | _ \<Rightarrow> st\<lparr>gBlocked := True\<rparr>)"

definition unmount_failed ::
    "'r repo \<Rightarrow> env \<Rightarrow> nat \<Rightarrow> nat \<Rightarrow> string \<Rightarrow> gerror \<Rightarrow> 'r manager \<Rightarrow> (MountInfo option \<times> gerror option) \<times> 'r manager" where
  "unmount_failed rp ev a gen code err st =
     (let st = recordUnmountFailure rp ev a gen code (errtext err) st
      in ((Some (snapshot st a), Some err), st))"

text \<open>The data directory is deleted, the log closed, the record deleted, the entry dropped.\<close>

definition finish_unmount ::
    "'r repo \<Rightarrow> env \<Rightarrow> gerror option \<Rightarrow> nat \<Rightarrow> nat \<Rightarrow> 'r manager \<Rightarrow> (MountInfo option \<times> gerror option) \<times> 'r manager" where
  "finish_unmount rp ev ctx a gen st =
     (let i = mountID st a;
          dataRootPath = mountDataRoot (gConfig st) i;
          st = emit [ERemoveAll dataRootPath] st
      in case removeAll ev of
           Some err \<Rightarrow>
             unmount_failed rp ev a gen ''UNMOUNT_FAILED''
               (errors_Wrapf err [Lit ''failed to delete mount data directory '', Quoted dataRootPath]) st
         | None \<Rightarrow>
             (let st = upd_info a (\<lambda>info. info\<lparr>UnmountedAt := Some (now ev AtUnmounted), UpdatedAt := Some (now ev AtUnmounted)\<rparr>) st;
                  result = snapshot st a;
                  st = emit (case mMountLog (entry st a) of None \<Rightarrow> [] | Some _ \<Rightarrow> [ECloseLog (GetMountLogPath (gConfig st) i)]) st;
                  st = snd (repo_delete rp ctx i st);
                  st = st\<lparr>gMounts := AList.delete i (gMounts st)\<rparr>;
                  st = publish MOUNT_EVENT_TYPE_REMOVED result st
              in ((Some result, None), st)))"

definition performUnmountAttempt ::
    "'r repo \<Rightarrow> env \<Rightarrow> gerror option \<Rightarrow> nat \<Rightarrow> nat \<Rightarrow> 'r manager \<Rightarrow> (MountInfo option \<times> gerror option) \<times> 'r manager" where
  "performUnmountAttempt rp ev ctx a gen st =
     (case probe ev of
        Inl probeErr \<Rightarrow>
          unmount_failed rp ev a gen ''UNMOUNT_FAILED''
            (errors_Wrap probeErr ''failed to check the mount table before unmount'') st
      | Inr mounted \<Rightarrow>
     (case (if mounted then unmountByClientType ev (gConfig st) (mClient (entry st a)) (mountPath st a) else (None, [])) of
        (Some err, effs) \<Rightarrow>
          (if cause err = ErrDAVFSLazyUnmount
           then unmount_failed rp ev a gen ''DAVFS_LAZY_UNMOUNT'' err (emit effs st)
           else unmount_failed rp ev a gen ''UNMOUNT_FAILED'' (errors_Wrap err ''failed to unmount mount'') (emit effs st))
      | (None, effs) \<Rightarrow>
     (let st = emit effs st;
          e = entry st a;
          st = (case mCommand e of
                  Some proc \<Rightarrow> if mPersistent e then emit [ESignalTerm proc] st else st
                | None \<Rightarrow> st);
          kill = (case mCommand e of None \<Rightarrow> [] | Some proc \<Rightarrow> [EKill proc])
      in case exitWait ev of
           Exited \<Rightarrow> finish_unmount rp ev ctx a gen (await_exit ev (mExitDone e) st)
         | KilledThenExited \<Rightarrow> finish_unmount rp ev ctx a gen (await_exit ev (mExitDone e) (emit kill st))
         | CtxDone \<Rightarrow> unmount_failed rp ev a gen ''UNMOUNT_FAILED'' (ctxDoneErr ev) st
         | KilledCtxDone \<Rightarrow> unmount_failed rp ev a gen ''UNMOUNT_FAILED'' (ctxDoneErr ev) (emit kill st))))"

text \<open>The state change by which an unmount is accepted.\<close>

definition begin_unmount :: "env \<Rightarrow> nat \<Rightarrow> 'r manager \<Rightarrow> 'r manager" where
  "begin_unmount ev a st =
     upd_entry a (\<lambda>e. e\<lparr>mGeneration := inc64 (mGeneration e), mUnmounting := True,
       mInfo := (mInfo e)\<lparr>State := MOUNT_STATE_UNMOUNTING,
                          Attempt := (if mUnmounting e then Attempt (mInfo e) else 1),
                          UpdatedAt := Some (now ev AtUnmountAccepted)\<rparr>\<rparr>) st"

definition mount_not_found :: "string \<Rightarrow> gerror" where
  "mount_not_found i =
     errors_Wrapf (errors_sentinel ErrMountNotFound ''mount not found'') [Lit ''mount ID '', Quoted i]"

text \<open>
  \<open>Unmount\<close> once it holds the operation lock of the entry at address \<open>a\<close> that it looked up.
\<close>

definition Unmount_locked ::
    "'r repo \<Rightarrow> env \<Rightarrow> string \<Rightarrow> nat \<Rightarrow> 'r manager \<Rightarrow> (MountInfo option \<times> gerror option) \<times> 'r manager" where
  "Unmount_locked rp ev i a st =
     (if map_of (gMounts st) i \<noteq> Some a then ((None, Some (mount_not_found i)), st)
      else
        (let st = cancelRetryTimer a st;
             wasUnmounting = mUnmounting (entry st a);
             previousState = State (mInfo (entry st a));
             st = begin_unmount ev a st;
             gen = mGeneration (entry st a);
             tombstoneRecord = \<lparr>Info = mInfo (entry st a), Tombstone = True\<rparr>;
             st = publish MOUNT_EVENT_TYPE_UPDATED (snapshot st a) st
         in case repo_update rp (ctxErr ev) tombstoneRecord st of
              (Some err, st) \<Rightarrow>
                (let st = upd_entry a (\<lambda>e. e\<lparr>mUnmounting := wasUnmounting,
                            mInfo := (mInfo e)\<lparr>State := previousState, UpdatedAt := Some (now ev AtUnmountRolledBack)\<rparr>\<rparr>) st
                 in ((None, Some (errors_Wrap err ''failed to persist unmount tombstone'')), st))
            | (None, st) \<Rightarrow> performUnmountAttempt rp ev (ctxErr ev) a gen st))"

definition Unmount ::
    "'r repo \<Rightarrow> env \<Rightarrow> UnmountRequest option \<Rightarrow> 'r manager \<Rightarrow> (MountInfo option \<times> gerror option) \<times> 'r manager" where
  "Unmount rp ev request st =
     (let ((result, err), st) =
        (case ctxErr ev of
           Some err \<Rightarrow> ((None, Some err), st)
         | None \<Rightarrow>
             (case request of
                None \<Rightarrow> ((None, Some (errors_New ''mount ID is required'')), st)
              | Some req \<Rightarrow>
                  (if UnmountMountId req = [] then ((None, Some (errors_New ''mount ID is required'')), st)
                   else case map_of (gMounts st) (UnmountMountId req) of
                          None \<Rightarrow> ((None, Some (mount_not_found (UnmountMountId req))), st)
                        | Some a \<Rightarrow> Unmount_locked rp ev (UnmountMountId req) a st)))
      in ((result, err), recordMountOperation ev ''unmount'' err st))"

definition retryUnmount :: "'r repo \<Rightarrow> env \<Rightarrow> nat \<Rightarrow> nat \<Rightarrow> 'r manager \<Rightarrow> 'r manager" where
  "retryUnmount rp ev a gen st =
     (if mGeneration (entry st a) \<noteq> gen \<or> \<not> mUnmounting (entry st a) then st
      else
        (let st = upd_entry a (\<lambda>e. e\<lparr>mRetryTimer := None, mGeneration := inc64 (mGeneration e),
                    mInfo := (mInfo e)\<lparr>Attempt := inc32 (Attempt (mInfo e)), State := MOUNT_STATE_UNMOUNTING,
                                       UpdatedAt := Some (now ev AtRetry)\<rparr>\<rparr>) st;
             newGeneration = mGeneration (entry st a);
             st = persistBestEffort rp a st;
             st = publish MOUNT_EVENT_TYPE_UPDATED (snapshot st a) st
         in snd (performUnmountAttempt rp ev None a newGeneration st)))"

section \<open>Read-only requests\<close>

definition GetMount :: "env \<Rightarrow> string \<Rightarrow> 'r manager \<Rightarrow> MountInfo result" where
  "GetMount ev i st =
     (case ctxErr ev of
        Some err \<Rightarrow> Inl err
      | None \<Rightarrow>
          (case map_of (gMounts st) i of
             None \<Rightarrow> Inl (mount_not_found i)
           | Some a \<Rightarrow> Inr (snapshot st a)))"

definition snapshotMounts :: "'r manager \<Rightarrow> MountInfo list" where
  "snapshotMounts st = map (snapshot st \<circ> snd) (gMounts st)"

definition list_filter :: "ListMountsRequest \<Rightarrow> MountInfo \<Rightarrow> bool" where
  "list_filter request info =
     ((length (ReqStates request) > 0 \<longrightarrow> State info \<in> set (ReqStates request)) \<and>
      (case ReqMountPathPrefix request of None \<Rightarrow> True | Some p \<Rightarrow> HasPrefix (GetMountPath (InfoConfig info)) p) \<and>
      (case ReqClientUser request of
         None \<Rightarrow> True
       | Some u \<Rightarrow> accountClientUser (GetAccount (GetIrodsfs (InfoConfig info))) = u))"

definition ListMounts :: "env \<Rightarrow> ListMountsRequest option \<Rightarrow> 'r manager \<Rightarrow> MountInfo list result" where
  "ListMounts ev request st =
     (case ctxErr ev of
        Some err \<Rightarrow> Inl err
      | None \<Rightarrow>
          (let request = (case request of
                            None \<Rightarrow> \<lparr>ReqStates = [], ReqMountPathPrefix = None, ReqClientUser = None\<rparr>
                          | Some r \<Rightarrow> r)
           in Inr (sort_key MountId (filter (list_filter request) (snapshotMounts st)))))"

definition validateExecutable :: "env \<Rightarrow> string \<Rightarrow> gerror option" where
  "validateExecutable ev path =
     (if path = [] then Some (errors_New ''irodsfs executable path is required'')
      else case stat ev path of
             Inl err \<Rightarrow> Some (errors_Wrapf err [Lit ''invalid irodsfs executable '', Quoted path])
           | Inr info \<Rightarrow>
               (if fi_IsDir info \<or> \<not> fi_Exec info
                then Some (errors_Errorf [Lit ''irodsfs executable '', Quoted path, Lit '' is not executable''])
                else None))"

definition first_error :: "gerror option list \<Rightarrow> gerror option" where
  "first_error es = fold (\<lambda>e acc. case acc of Some x \<Rightarrow> Some x | None \<Rightarrow> e) es None"

definition Ready :: "'r repo \<Rightarrow> env \<Rightarrow> 'r manager \<Rightarrow> gerror option" where
  "Ready rp ev st =
     first_error
       [case repo_List rp (ctxErr ev) (gRepository st) of
          Inl err \<Rightarrow> Some (errors_Wrap err ''mount repository is not ready'') | Inr _ \<Rightarrow> None,
        map_option (\<lambda>err. errors_Wrap err ''FUSE is not ready'') (fuseCheck ev),
        validateExecutable ev (IRODSFSExecutablePath (gConfig st)),
        validateExecutable ev (MountExecutablePath (gConfig st)),
        validateExecutable ev (UnmountExecutablePath (gConfig st)),
        if AllowFuseAllowOther (gConfig st)
        then map_option (\<lambda>err. errors_Wrap err ''allow_fuse_allow_other is enabled but the system is not configured for it'')
               (fuseCheckAllowOther ev)
        else None]"

definition isExecutableFile :: "env \<Rightarrow> string \<Rightarrow> bool" where
  "isExecutableFile ev path =
     (case stat ev path of Inl _ \<Rightarrow> False | Inr info \<Rightarrow> \<not> fi_IsDir info \<and> fi_Exec info)"

definition resolveExecutablePath :: "env \<Rightarrow> string \<Rightarrow> string \<Rightarrow> string list \<Rightarrow> string" where
  "resolveExecutablePath ev path defaultPath fallbacks =
     (if path \<noteq> defaultPath \<or> isExecutableFile ev path then path
      else case find (isExecutableFile ev) fallbacks of Some candidate \<Rightarrow> candidate | None \<Rightarrow> path)"

definition resolveIRODSFSExecutablePath :: "env \<Rightarrow> string \<Rightarrow> string" where
  "resolveIRODSFSExecutablePath ev path =
     resolveExecutablePath ev path IRODSFSExecutablePathDefault IRODSFSExecutablePathFallbacks"

definition newMountManager ::
    "env \<Rightarrow> Config option \<Rightarrow> 'r option \<Rightarrow> 'r manager result" where
  "newMountManager ev config repository =
     (case config of
        None \<Rightarrow> Inl (errors_New ''daemon config is required'')
      | Some cfg \<Rightarrow>
     (case repository of
        None \<Rightarrow> Inl (errors_New ''mount repository is required'')
      | Some r \<Rightarrow>
     (case fuseCheck ev of
        Some err \<Rightarrow> Inl (errors_Wrap err ''FUSE is unavailable'')
      | None \<Rightarrow>
     (let cfg = cfg\<lparr>IRODSFSExecutablePath := resolveIRODSFSExecutablePath ev (IRODSFSExecutablePath cfg)\<rparr>
      in case first_error
           [validateExecutable ev (IRODSFSExecutablePath cfg),
            validateExecutable ev (MountExecutablePath cfg),
            validateExecutable ev (UnmountExecutablePath cfg),
            if AllowFuseAllowOther cfg
            then map_option (\<lambda>err. errors_Wrap err ''allow_fuse_allow_other is enabled but the system is not configured for it'')
                   (fuseCheckAllowOther ev)
            else None] of
           Some err \<Rightarrow> Inl err
         | None \<Rightarrow>
             Inr \<lparr>gConfig = cfg, gRepository = r, gMounts = [], gHeap = [], gChans = [], gBus = empty_bus,
                  gMetrics = None, gTimers = [], gNextTimer = 0, gTasks = [], gNextProc = 0, gTrace = [],
                  gPanicked = False, gBlocked = False\<rparr>))))"

section \<open>Reconciliation\<close>

text \<open>The end of a resumed unmount: the data directory and then the record are deleted.\<close>

definition delete_tombstone :: "'r repo \<Rightarrow> env \<Rightarrow> string \<Rightarrow> 'r manager \<Rightarrow> 'r manager" where
  "delete_tombstone rp ev i st =
     (let st = emit [ERemoveAll (mountDataRoot (gConfig st) i)] st
      in case removeAll ev of
           Some err \<Rightarrow> recordReconcileError st
         | None \<Rightarrow>
             (case repo_delete rp (ctxErr ev) i st of
                (Some err, st) \<Rightarrow> recordReconcileError st
              | (None, st) \<Rightarrow> st))"

definition reconcileTombstone ::
    "'r repo \<Rightarrow> env \<Rightarrow> MountRecord \<Rightarrow> bool \<Rightarrow> 'r manager \<Rightarrow> 'r manager" where
  "reconcileTombstone rp ev record mounted st =
     (let i = MountId (Info record)
      in if \<not> mounted then delete_tombstone rp ev i st
         else case clientType (InfoConfig (Info record)) of
                Inl err \<Rightarrow> recordReconcileError st
              | Inr client \<Rightarrow>
                  (case unmountByClientType ev (gConfig st) client (GetMountPath (InfoConfig (Info record))) of
                     (Some err, effs) \<Rightarrow>
                       (if cause err = ErrDAVFSLazyUnmount then emit effs st
                        else recordReconcileError (emit effs st))
                   | (None, effs) \<Rightarrow> delete_tombstone rp ev i (emit effs st)))"

definition remount :: "'r repo \<Rightarrow> env \<Rightarrow> MountRecord \<Rightarrow> 'r manager \<Rightarrow> 'r manager" where
  "remount rp ev record st =
     (let i = MountId (Info record)
      in if map_of (gMounts st) i \<noteq> None then st
         else
           (let info = (Info record)\<lparr>State := MOUNT_STATE_PENDING_MOUNT, Pid := 0, LastError := None,
                         NextRetryAt := None, UpdatedAt := Some (now ev AtRemount)\<rparr>;
                (a, st) = register info st;
                st = (case persistRecord rp (ctxErr ev) a st of
                        (Some err, st) \<Rightarrow> recordReconcileError st
                      | (None, st) \<Rightarrow> st);
                dataRootPath = mountDataRoot (gConfig st) i
            in case startMount rp ev a (mGeneration (entry st a)) dataRootPath st of
                 ((_, Some err), st) \<Rightarrow> recordReconcileError st
               | ((_, None), st) \<Rightarrow> st))"

definition reconcileOrdinaryRecord ::
    "'r repo \<Rightarrow> env \<Rightarrow> MountRecord \<Rightarrow> bool \<Rightarrow> 'r manager \<Rightarrow> 'r manager" where
  "reconcileOrdinaryRecord rp ev record mounted st =
     (if \<not> mounted then remount rp ev record st
      else case clientType (InfoConfig (Info record)) of
             Inl err \<Rightarrow> recordReconcileError st
           | Inr client \<Rightarrow>
               (case unmountByClientType ev (gConfig st) client (GetMountPath (InfoConfig (Info record))) of
                  (Some err, effs) \<Rightarrow> recordReconcileError (emit effs st)
                | (None, effs) \<Rightarrow> remount rp ev record (emit effs st)))"

definition reconcileRecord :: "'r repo \<Rightarrow> env \<Rightarrow> MountRecord \<Rightarrow> 'r manager \<Rightarrow> 'r manager" where
  "reconcileRecord rp ev record st =
     (if map_of (gMounts st) (MountId (Info record)) \<noteq> None then st
      else case probe ev of
             Inl err \<Rightarrow> recordReconcileError st
           | Inr mounted \<Rightarrow>
               (if Tombstone record then reconcileTombstone rp ev record mounted st
                else reconcileOrdinaryRecord rp ev record mounted st))"

text \<open>\<open>evs\<close> is the environment of the pass over each record, by mount ID.\<close>

definition Reconcile ::
    "'r repo \<Rightarrow> gerror option \<Rightarrow> (string \<Rightarrow> env) \<Rightarrow> 'r manager \<Rightarrow> gerror option \<times> 'r manager" where
  "Reconcile rp ctx evs st =
     (case repo_List rp ctx (gRepository st) of
        Inl err \<Rightarrow> (Some (errors_Wrap err ''failed to list mount records for reconciliation''), st)
      | Inr records \<Rightarrow>
          (None, fold (\<lambda>record st. reconcileRecord rp (evs (MountId (Info record))) record st) records st))"

definition ReconcileTombstones ::
    "'r repo \<Rightarrow> gerror option \<Rightarrow> (string \<Rightarrow> env) \<Rightarrow> 'r manager \<Rightarrow> gerror option \<times> 'r manager" where
  "ReconcileTombstones rp ctx evs st =
     (case repo_List rp ctx (gRepository st) of
        Inl err \<Rightarrow> (Some (errors_Wrap err ''failed to list mount records for reconciliation''), st)
      | Inr records \<Rightarrow>
          (None, fold (\<lambda>record st. if Tombstone record
                                   then reconcileRecord rp (evs (MountId (Info record))) record st else st)
                   records st))"

section \<open>Shutdown\<close>

definition shutdownEntry :: "'r repo \<Rightarrow> env \<Rightarrow> nat \<Rightarrow> 'r manager \<Rightarrow> 'r manager" where
  "shutdownEntry rp ev a st =
     (let st = cancelRetryTimer a st
      in if mUnmounting (entry st a) then st
         else
           (let st = upd_entry a (\<lambda>e. e\<lparr>mStopping := True\<rparr>) st;
                st = (case probe ev of
                        Inr True \<Rightarrow>
                          emit (snd (unmountByClientType ev (gConfig st) (mClient (entry st a)) (mountPath st a))) st
                      | _ \<Rightarrow> st);
                e = entry st a;
                st = (case mCommand e of
                        Some proc \<Rightarrow> if mPersistent e then emit [ESignalTerm proc] st else st
                      | None \<Rightarrow> st);
                st = (case exitWait ev of
                        Exited \<Rightarrow> await_exit ev (mExitDone e) st
                      | _ \<Rightarrow> await_exit ev (mExitDone e)
                               (emit (case mCommand e of None \<Rightarrow> [] | Some proc \<Rightarrow> [EKill proc]) st));
                st = upd_info a (\<lambda>info. info\<lparr>State := MOUNT_STATE_PENDING_MOUNT, Pid := 0, LastError := None,
                       NextRetryAt := None, UpdatedAt := Some (now ev AtShutdown)\<rparr>) st;
                st = persistBestEffort rp a st
            in case mMountLog (entry st a) of
                 None \<Rightarrow> st
               | Some _ \<Rightarrow>
                   emit [ECloseLog (GetMountLogPath (gConfig st) (mountID st a))]
                     (upd_entry a (\<lambda>e. e\<lparr>mMountLog := None\<rparr>) st)))"

text \<open>The entries are stopped in parallel; they share only the repository.\<close>

definition Shutdown :: "'r repo \<Rightarrow> (nat \<Rightarrow> env) \<Rightarrow> 'r manager \<Rightarrow> 'r manager" where
  "Shutdown rp evs st = fold (\<lambda>a st. shutdownEntry rp (evs a) a st) (map snd (gMounts st)) st"

end
