(* ===== verification/ManagerFacts.thy ===== *)
theory ManagerFacts
  imports Supervisor
begin

text \<open>
  What the primitive operations of the mount manager leave unchanged. Each primitive touches a few
  fields of the state; the rules below let the simplifier look through all of them. A \<open>view\<close> is the
  part of the state an invariant depends on: \<open>reg_view\<close> the registry with the immutable identity of
  the entries, \<open>chan_view\<close> the exit channels and who will close them. Almost every operation keeps
  both views, which is the content of the collection \<open>keeps\<close>.
\<close>

section \<open>Fields\<close>

lemma upd_entry_fields [simp]:
  "gConfig (upd_entry a f st) = gConfig st"
  "gRepository (upd_entry a f st) = gRepository st"
  "gMounts (upd_entry a f st) = gMounts st"
  "gChans (upd_entry a f st) = gChans st"
  "gBus (upd_entry a f st) = gBus st"
  "gMetrics (upd_entry a f st) = gMetrics st"
  "gTimers (upd_entry a f st) = gTimers st"
  "gNextTimer (upd_entry a f st) = gNextTimer st"
  "gTasks (upd_entry a f st) = gTasks st"
  "gNextProc (upd_entry a f st) = gNextProc st"
  "gTrace (upd_entry a f st) = gTrace st"
  "gPanicked (upd_entry a f st) = gPanicked st"
  "gBlocked (upd_entry a f st) = gBlocked st"
  by (simp_all add: upd_entry_def)

lemma upd_info_fields [simp]:
  "gConfig (upd_info a f st) = gConfig st"
  "gRepository (upd_info a f st) = gRepository st"
  "gMounts (upd_info a f st) = gMounts st"
  "gChans (upd_info a f st) = gChans st"
  "gBus (upd_info a f st) = gBus st"
  "gMetrics (upd_info a f st) = gMetrics st"
  "gTimers (upd_info a f st) = gTimers st"
  "gNextTimer (upd_info a f st) = gNextTimer st"
  "gTasks (upd_info a f st) = gTasks st"
  "gNextProc (upd_info a f st) = gNextProc st"
  "gTrace (upd_info a f st) = gTrace st"
  "gPanicked (upd_info a f st) = gPanicked st"
  "gBlocked (upd_info a f st) = gBlocked st"
  by (simp_all add: upd_info_def upd_entry_def)

lemma emit_fields [simp]:
  "gConfig (emit es st) = gConfig st"
  "gRepository (emit es st) = gRepository st"
  "gMounts (emit es st) = gMounts st"
  "gHeap (emit es st) = gHeap st"
  "gChans (emit es st) = gChans st"
  "gBus (emit es st) = gBus st"
  "gMetrics (emit es st) = gMetrics st"
  "gTimers (emit es st) = gTimers st"
  "gNextTimer (emit es st) = gNextTimer st"
  "gTasks (emit es st) = gTasks st"
  "gNextProc (emit es st) = gNextProc st"
  "gPanicked (emit es st) = gPanicked st"
  "gBlocked (emit es st) = gBlocked st"
  by (simp_all add: emit_def)

lemma spawn_fields [simp]:
  "gConfig (spawn ts st) = gConfig st"
  "gRepository (spawn ts st) = gRepository st"
  "gMounts (spawn ts st) = gMounts st"
  "gHeap (spawn ts st) = gHeap st"
  "gChans (spawn ts st) = gChans st"
  "gBus (spawn ts st) = gBus st"
  "gMetrics (spawn ts st) = gMetrics st"
  "gTimers (spawn ts st) = gTimers st"
  "gNextTimer (spawn ts st) = gNextTimer st"
  "gNextProc (spawn ts st) = gNextProc st"
  "gTrace (spawn ts st) = gTrace st"
  "gPanicked (spawn ts st) = gPanicked st"
  "gBlocked (spawn ts st) = gBlocked st"
  by (simp_all add: spawn_def)

lemma close_chan_fields [simp]:
  "gConfig (close_chan c st) = gConfig st"
  "gRepository (close_chan c st) = gRepository st"
  "gMounts (close_chan c st) = gMounts st"
  "gHeap (close_chan c st) = gHeap st"
  "gBus (close_chan c st) = gBus st"
  "gMetrics (close_chan c st) = gMetrics st"
  "gTimers (close_chan c st) = gTimers st"
  "gNextTimer (close_chan c st) = gNextTimer st"
  "gTasks (close_chan c st) = gTasks st"
  "gNextProc (close_chan c st) = gNextProc st"
  "gTrace (close_chan c st) = gTrace st"
  "gBlocked (close_chan c st) = gBlocked st"
  by (simp_all add: close_chan_def)

lemma publish_fields [simp]:
  "gConfig (publish t m st) = gConfig st"
  "gRepository (publish t m st) = gRepository st"
  "gMounts (publish t m st) = gMounts st"
  "gHeap (publish t m st) = gHeap st"
  "gChans (publish t m st) = gChans st"
  "gMetrics (publish t m st) = gMetrics st"
  "gTimers (publish t m st) = gTimers st"
  "gNextTimer (publish t m st) = gNextTimer st"
  "gTasks (publish t m st) = gTasks st"
  "gNextProc (publish t m st) = gNextProc st"
  "gTrace (publish t m st) = gTrace st"
  "gPanicked (publish t m st) = gPanicked st"
  "gBlocked (publish t m st) = gBlocked st"
  by (simp_all add: publish_def)

lemma recordChildCrash_fields [simp]:
  "gConfig (recordChildCrash st) = gConfig st"
  "gRepository (recordChildCrash st) = gRepository st"
  "gMounts (recordChildCrash st) = gMounts st"
  "gHeap (recordChildCrash st) = gHeap st"
  "gChans (recordChildCrash st) = gChans st"
  "gBus (recordChildCrash st) = gBus st"
  "gTimers (recordChildCrash st) = gTimers st"
  "gNextTimer (recordChildCrash st) = gNextTimer st"
  "gTasks (recordChildCrash st) = gTasks st"
  "gNextProc (recordChildCrash st) = gNextProc st"
  "gTrace (recordChildCrash st) = gTrace st"
  "gPanicked (recordChildCrash st) = gPanicked st"
  "gBlocked (recordChildCrash st) = gBlocked st"
  by (simp_all add: recordChildCrash_def)

lemma recordReconcileError_fields [simp]:
  "gConfig (recordReconcileError st) = gConfig st"
  "gRepository (recordReconcileError st) = gRepository st"
  "gMounts (recordReconcileError st) = gMounts st"
  "gHeap (recordReconcileError st) = gHeap st"
  "gChans (recordReconcileError st) = gChans st"
  "gBus (recordReconcileError st) = gBus st"
  "gTimers (recordReconcileError st) = gTimers st"
  "gNextTimer (recordReconcileError st) = gNextTimer st"
  "gTasks (recordReconcileError st) = gTasks st"
  "gNextProc (recordReconcileError st) = gNextProc st"
  "gTrace (recordReconcileError st) = gTrace st"
  "gPanicked (recordReconcileError st) = gPanicked st"
  "gBlocked (recordReconcileError st) = gBlocked st"
  by (simp_all add: recordReconcileError_def)

lemma recordMountOperation_fields [simp]:
  "gConfig (recordMountOperation ev op err st) = gConfig st"
  "gRepository (recordMountOperation ev op err st) = gRepository st"
  "gMounts (recordMountOperation ev op err st) = gMounts st"
  "gHeap (recordMountOperation ev op err st) = gHeap st"
  "gChans (recordMountOperation ev op err st) = gChans st"
  "gBus (recordMountOperation ev op err st) = gBus st"
  "gTimers (recordMountOperation ev op err st) = gTimers st"
  "gNextTimer (recordMountOperation ev op err st) = gNextTimer st"
  "gTasks (recordMountOperation ev op err st) = gTasks st"
  "gNextProc (recordMountOperation ev op err st) = gNextProc st"
  "gTrace (recordMountOperation ev op err st) = gTrace st"
  "gPanicked (recordMountOperation ev op err st) = gPanicked st"
  "gBlocked (recordMountOperation ev op err st) = gBlocked st"
  by (simp_all add: recordMountOperation_def split: option.splits)

lemma cancelRetryTimer_fields [simp]:
  "gConfig (cancelRetryTimer a st) = gConfig st"
  "gRepository (cancelRetryTimer a st) = gRepository st"
  "gMounts (cancelRetryTimer a st) = gMounts st"
  "gChans (cancelRetryTimer a st) = gChans st"
  "gBus (cancelRetryTimer a st) = gBus st"
  "gMetrics (cancelRetryTimer a st) = gMetrics st"
  "gNextTimer (cancelRetryTimer a st) = gNextTimer st"
  "gTasks (cancelRetryTimer a st) = gTasks st"
  "gNextProc (cancelRetryTimer a st) = gNextProc st"
  "gTrace (cancelRetryTimer a st) = gTrace st"
  "gPanicked (cancelRetryTimer a st) = gPanicked st"
  "gBlocked (cancelRetryTimer a st) = gBlocked st"
  by (simp_all add: cancelRetryTimer_def upd_entry_def split: option.splits)

lemma afterFunc_fields [simp]:
  "gConfig (afterFunc a act st) = gConfig st"
  "gRepository (afterFunc a act st) = gRepository st"
  "gMounts (afterFunc a act st) = gMounts st"
  "gChans (afterFunc a act st) = gChans st"
  "gBus (afterFunc a act st) = gBus st"
  "gMetrics (afterFunc a act st) = gMetrics st"
  "gTasks (afterFunc a act st) = gTasks st"
  "gNextProc (afterFunc a act st) = gNextProc st"
  "gTrace (afterFunc a act st) = gTrace st"
  "gPanicked (afterFunc a act st) = gPanicked st"
  "gBlocked (afterFunc a act st) = gBlocked st"
  by (simp_all add: afterFunc_def upd_entry_def)

lemma repo_update_fields [simp]:
  "gConfig (snd (repo_update rp ctx r st)) = gConfig st"
  "gMounts (snd (repo_update rp ctx r st)) = gMounts st"
  "gHeap (snd (repo_update rp ctx r st)) = gHeap st"
  "gChans (snd (repo_update rp ctx r st)) = gChans st"
  "gBus (snd (repo_update rp ctx r st)) = gBus st"
  "gMetrics (snd (repo_update rp ctx r st)) = gMetrics st"
  "gTimers (snd (repo_update rp ctx r st)) = gTimers st"
  "gNextTimer (snd (repo_update rp ctx r st)) = gNextTimer st"
  "gTasks (snd (repo_update rp ctx r st)) = gTasks st"
  "gNextProc (snd (repo_update rp ctx r st)) = gNextProc st"
  "gPanicked (snd (repo_update rp ctx r st)) = gPanicked st"
  "gBlocked (snd (repo_update rp ctx r st)) = gBlocked st"
  by (simp_all add: repo_update_def emit_def split: prod.splits)

lemma repo_create_fields [simp]:
  "gConfig (snd (repo_create rp ctx r st)) = gConfig st"
  "gMounts (snd (repo_create rp ctx r st)) = gMounts st"
  "gHeap (snd (repo_create rp ctx r st)) = gHeap st"
  "gChans (snd (repo_create rp ctx r st)) = gChans st"
  "gBus (snd (repo_create rp ctx r st)) = gBus st"
  "gMetrics (snd (repo_create rp ctx r st)) = gMetrics st"
  "gTimers (snd (repo_create rp ctx r st)) = gTimers st"
  "gNextTimer (snd (repo_create rp ctx r st)) = gNextTimer st"
  "gTasks (snd (repo_create rp ctx r st)) = gTasks st"
  "gNextProc (snd (repo_create rp ctx r st)) = gNextProc st"
  "gPanicked (snd (repo_create rp ctx r st)) = gPanicked st"
  "gBlocked (snd (repo_create rp ctx r st)) = gBlocked st"
  by (simp_all add: repo_create_def emit_def split: prod.splits)

lemma repo_delete_fields [simp]:
  "gConfig (snd (repo_delete rp ctx i st)) = gConfig st"
  "gMounts (snd (repo_delete rp ctx i st)) = gMounts st"
  "gHeap (snd (repo_delete rp ctx i st)) = gHeap st"
  "gChans (snd (repo_delete rp ctx i st)) = gChans st"
  "gBus (snd (repo_delete rp ctx i st)) = gBus st"
  "gMetrics (snd (repo_delete rp ctx i st)) = gMetrics st"
  "gTimers (snd (repo_delete rp ctx i st)) = gTimers st"
  "gNextTimer (snd (repo_delete rp ctx i st)) = gNextTimer st"
  "gTasks (snd (repo_delete rp ctx i st)) = gTasks st"
  "gNextProc (snd (repo_delete rp ctx i st)) = gNextProc st"
  "gPanicked (snd (repo_delete rp ctx i st)) = gPanicked st"
  "gBlocked (snd (repo_delete rp ctx i st)) = gBlocked st"
  by (simp_all add: repo_delete_def emit_def split: prod.splits)

lemma persistRecord_fields [simp]:
  "gConfig (snd (persistRecord rp ctx a st)) = gConfig st"
  "gMounts (snd (persistRecord rp ctx a st)) = gMounts st"
  "gHeap (snd (persistRecord rp ctx a st)) = gHeap st"
  "gChans (snd (persistRecord rp ctx a st)) = gChans st"
  "gBus (snd (persistRecord rp ctx a st)) = gBus st"
  "gMetrics (snd (persistRecord rp ctx a st)) = gMetrics st"
  "gTimers (snd (persistRecord rp ctx a st)) = gTimers st"
  "gNextTimer (snd (persistRecord rp ctx a st)) = gNextTimer st"
  "gTasks (snd (persistRecord rp ctx a st)) = gTasks st"
  "gNextProc (snd (persistRecord rp ctx a st)) = gNextProc st"
  "gPanicked (snd (persistRecord rp ctx a st)) = gPanicked st"
  "gBlocked (snd (persistRecord rp ctx a st)) = gBlocked st"
  by (simp_all add: persistRecord_def repo_update_def emit_def split: prod.splits)

lemma persistBestEffort_fields [simp]:
  "gConfig (persistBestEffort rp a st) = gConfig st"
  "gMounts (persistBestEffort rp a st) = gMounts st"
  "gHeap (persistBestEffort rp a st) = gHeap st"
  "gChans (persistBestEffort rp a st) = gChans st"
  "gBus (persistBestEffort rp a st) = gBus st"
  "gMetrics (persistBestEffort rp a st) = gMetrics st"
  "gTimers (persistBestEffort rp a st) = gTimers st"
  "gNextTimer (persistBestEffort rp a st) = gNextTimer st"
  "gTasks (persistBestEffort rp a st) = gTasks st"
  "gNextProc (persistBestEffort rp a st) = gNextProc st"
  "gPanicked (persistBestEffort rp a st) = gPanicked st"
  "gBlocked (persistBestEffort rp a st) = gBlocked st"
  by (simp_all add: persistBestEffort_def persistRecord_def repo_update_def emit_def split: prod.splits)

lemma length_heap [simp]:
  "length (gHeap (upd_entry a f st)) = length (gHeap st)"
  "length (gHeap (upd_info a g st)) = length (gHeap st)"
  "length (gHeap (cancelRetryTimer a st)) = length (gHeap st)"
  "length (gHeap (afterFunc a act st)) = length (gHeap st)"
  by (simp_all add: upd_info_def upd_entry_def cancelRetryTimer_def afterFunc_def split: option.splits)

lemma entry_upd [simp]:
  "entry (upd_entry a f st) b = (if a = b \<and> a < length (gHeap st) then f (entry st a) else entry st b)"
  "entry (upd_info a g st) b =
     (if a = b \<and> a < length (gHeap st) then (entry st a)\<lparr>mInfo := g (mInfo (entry st a))\<rparr> else entry st b)"
  by (auto simp: upd_info_def upd_entry_def entry_def nth_update_if)

lemma entry_same [simp]:
  "entry (emit es st) = entry st"
  "entry (spawn ts st) = entry st"
  "entry (close_chan c st) = entry st"
  "entry (publish t m st) = entry st"
  "entry (recordChildCrash st) = entry st"
  "entry (recordReconcileError st) = entry st"
  "entry (recordMountOperation ev op err st) = entry st"
  "entry (snd (repo_update rp ctx r st)) = entry st"
  "entry (snd (repo_create rp ctx r st)) = entry st"
  "entry (snd (repo_delete rp ctx i st)) = entry st"
  "entry (snd (persistRecord rp ctx a st)) = entry st"
  "entry (persistBestEffort rp a st) = entry st"
  by (simp_all add: entry_def fun_eq_iff)

lemma entry_fields [simp]:
  "entry (st\<lparr>gRepository := x1\<rparr>) = entry st"
  "entry (st\<lparr>gMounts := x2\<rparr>) = entry st"
  "entry (st\<lparr>gTasks := x3\<rparr>) = entry st"
  "entry (st\<lparr>gTimers := x4\<rparr>) = entry st"
  "entry (st\<lparr>gNextTimer := x5\<rparr>) = entry st"
  "entry (st\<lparr>gNextProc := x6\<rparr>) = entry st"
  "entry (st\<lparr>gChans := x7\<rparr>) = entry st"
  "entry (st\<lparr>gBlocked := x8\<rparr>) = entry st"
  "entry (st\<lparr>gPanicked := x9\<rparr>) = entry st"
  "entry (st\<lparr>gBus := x10\<rparr>) = entry st"
  by (simp_all add: entry_def fun_eq_iff)

lemma entry_timer [simp]:
  "entry (afterFunc a act st) b =
     (if a = b \<and> a < length (gHeap st) then (entry st a)\<lparr>mRetryTimer := Some (gNextTimer st)\<rparr> else entry st b)"
  "entry (cancelRetryTimer a st) b =
     (if a = b \<and> a < length (gHeap st) then (entry st a)\<lparr>mRetryTimer := None\<rparr> else entry st b)"
  by (auto simp: afterFunc_def cancelRetryTimer_def upd_entry_def entry_def nth_update_if split: option.splits)

section \<open>The registry view\<close>

definition ident :: "managedMount \<Rightarrow> string \<times> string" where
  "ident e = (MountId (mInfo e), GetMountPath (InfoConfig (mInfo e)))"

definition reg_view :: "'r manager \<Rightarrow> (string \<times> nat) list \<times> (string \<times> string) list" where
  "reg_view st = (gMounts st, map ident (gHeap st))"

lemma reg_view_fields [simp]:
  "reg_view (st\<lparr>gRepository := x1\<rparr>) = reg_view st"
  "reg_view (st\<lparr>gTasks := x3\<rparr>) = reg_view st"
  "reg_view (st\<lparr>gTimers := x4\<rparr>) = reg_view st"
  "reg_view (st\<lparr>gNextTimer := x5\<rparr>) = reg_view st"
  "reg_view (st\<lparr>gNextProc := x6\<rparr>) = reg_view st"
  "reg_view (st\<lparr>gChans := x7\<rparr>) = reg_view st"
  "reg_view (st\<lparr>gBlocked := x8\<rparr>) = reg_view st"
  "reg_view (st\<lparr>gPanicked := x9\<rparr>) = reg_view st"
  "reg_view (st\<lparr>gBus := x10\<rparr>) = reg_view st"
  by (simp_all add: reg_view_def)

lemma reg_view_upd [simp]:
  "ident (f (entry st a)) = ident (entry st a) \<Longrightarrow> reg_view (upd_entry a f st) = reg_view st"
  by (simp add: reg_view_def upd_entry_def entry_def map_update_same)

lemma reg_view_upd_info [simp]:
  "MountId (g (mInfo (entry st a))) = MountId (mInfo (entry st a)) \<Longrightarrow>
   InfoConfig (g (mInfo (entry st a))) = InfoConfig (mInfo (entry st a)) \<Longrightarrow>
     reg_view (upd_info a g st) = reg_view st"
  by (simp add: upd_info_def ident_def)

lemma reg_view_prims [simp]:
  "reg_view (emit es st) = reg_view st"
  "reg_view (spawn ts st) = reg_view st"
  "reg_view (close_chan c st) = reg_view st"
  "reg_view (publish t m st) = reg_view st"
  "reg_view (recordChildCrash st) = reg_view st"
  "reg_view (recordReconcileError st) = reg_view st"
  "reg_view (recordMountOperation ev op err st) = reg_view st"
  "reg_view (snd (repo_update rp ctx r st)) = reg_view st"
  "reg_view (snd (repo_create rp ctx r st)) = reg_view st"
  "reg_view (snd (repo_delete rp ctx i st)) = reg_view st"
  "reg_view (snd (persistRecord rp ctx a st)) = reg_view st"
  "reg_view (persistBestEffort rp a st) = reg_view st"
  by (simp_all add: reg_view_def)

lemma reg_view_timer [simp]:
  "reg_view (afterFunc a act st) = reg_view st"
  "reg_view (cancelRetryTimer a st) = reg_view st"
  by (auto simp: afterFunc_def cancelRetryTimer_def reg_view_def upd_entry_def ident_def map_update_same
      split: option.splits)

section \<open>The channel view\<close>

definition wait_chans :: "task list \<Rightarrow> nat list" where
  "wait_chans ts = concat (map (\<lambda>t. case t of WaitForProcess a g c \<Rightarrow> [c] | _ \<Rightarrow> []) ts)"

lemma wait_chans_simps [simp]:
  "wait_chans [] = []"
  "wait_chans (WaitForProcess a g c # ts) = c # wait_chans ts"
  "wait_chans (HandleCrash a g cl p e # ts) = wait_chans ts"
  "wait_chans (WaitForMount a g co # ts) = wait_chans ts"
  "wait_chans (RunRetryMount a g # ts) = wait_chans ts"
  "wait_chans (RunRetryUnmount a g # ts) = wait_chans ts"
  "wait_chans (RunUnmount i a # ts) = wait_chans ts"
  "wait_chans (ts @ us) = wait_chans ts @ wait_chans us"
  by (simp_all add: wait_chans_def)

definition chan_view :: "'r manager \<Rightarrow> nat list \<times> bool list \<times> nat list \<times> bool \<times> bool" where
  "chan_view st = (map mExitDone (gHeap st), gChans st, wait_chans (gTasks st), gPanicked st, gBlocked st)"

lemma chan_view_fields [simp]:
  "chan_view (st\<lparr>gRepository := x1\<rparr>) = chan_view st"
  "chan_view (st\<lparr>gMounts := x2\<rparr>) = chan_view st"
  "chan_view (st\<lparr>gTimers := x4\<rparr>) = chan_view st"
  "chan_view (st\<lparr>gNextTimer := x5\<rparr>) = chan_view st"
  "chan_view (st\<lparr>gNextProc := x6\<rparr>) = chan_view st"
  "chan_view (st\<lparr>gBus := x10\<rparr>) = chan_view st"
  by (simp_all add: chan_view_def)

lemma chan_view_upd [simp]:
  "mExitDone (f (entry st a)) = mExitDone (entry st a) \<Longrightarrow> chan_view (upd_entry a f st) = chan_view st"
  by (simp add: chan_view_def upd_entry_def entry_def map_update_same)

lemma chan_view_upd_info [simp]: "chan_view (upd_info a g st) = chan_view st"
  by (simp add: upd_info_def)

lemma chan_view_prims [simp]:
  "chan_view (emit es st) = chan_view st"
  "chan_view (publish t m st) = chan_view st"
  "chan_view (recordChildCrash st) = chan_view st"
  "chan_view (recordReconcileError st) = chan_view st"
  "chan_view (recordMountOperation ev op err st) = chan_view st"
  "chan_view (snd (repo_update rp ctx r st)) = chan_view st"
  "chan_view (snd (repo_create rp ctx r st)) = chan_view st"
  "chan_view (snd (repo_delete rp ctx i st)) = chan_view st"
  "chan_view (snd (persistRecord rp ctx a st)) = chan_view st"
  "chan_view (persistBestEffort rp a st) = chan_view st"
  by (simp_all add: chan_view_def)

lemma chan_view_spawn [simp]: "wait_chans ts = [] \<Longrightarrow> chan_view (spawn ts st) = chan_view st"
  by (simp add: chan_view_def spawn_def)

lemma chan_view_timer [simp]:
  "chan_view (afterFunc a act st) = chan_view st"
  "chan_view (cancelRetryTimer a st) = chan_view st"
  by (auto simp: afterFunc_def cancelRetryTimer_def chan_view_def upd_entry_def map_update_same
      split: option.splits)

section \<open>Failures keep both views\<close>

lemma failure_info_fields [simp]:
  "MountId (failure_info ev r code msg b ds info) = MountId info"
  "InfoConfig (failure_info ev r code msg b ds info) = InfoConfig info"
  "Attempt (failure_info ev r code msg b ds info) = Attempt info"
  "MountedAt (failure_info ev r code msg b ds info) = MountedAt info"
  by (simp_all add: failure_info_def)

lemma failure_views [simp]:
  "reg_view (recordMountFailure rp ev a gen code msg ds st) = reg_view st"
  "chan_view (recordMountFailure rp ev a gen code msg ds st) = chan_view st"
  "reg_view (recordTerminalMountFailure rp ev a gen code msg st) = reg_view st"
  "chan_view (recordTerminalMountFailure rp ev a gen code msg st) = chan_view st"
  "reg_view (recordUnmountFailure rp ev a gen code msg st) = reg_view st"
  "chan_view (recordUnmountFailure rp ev a gen code msg st) = chan_view st"
  by (simp_all add: recordMountFailure_def recordTerminalMountFailure_def recordUnmountFailure_def Let_def)

lemma supervision_views [simp]:
  "reg_view (handle_crash rp ev a gen client path err st) = reg_view st"
  "chan_view (handle_crash rp ev a gen client path err st) = chan_view st"
  "reg_view (snd (check_mounted rp ev a gen st)) = reg_view st"
  "chan_view (snd (check_mounted rp ev a gen st)) = chan_view st"
  "reg_view (handleMountTimeout rp ev a gen st) = reg_view st"
  "chan_view (handleMountTimeout rp ev a gen st) = chan_view st"
  "reg_view (snd (unmount_failed rp ev a gen code e st)) = reg_view st"
  "chan_view (snd (unmount_failed rp ev a gen code e st)) = chan_view st"
  by (auto simp: handle_crash_def check_mounted_def handleMountTimeout_def unmount_failed_def ident_def Let_def
      split: sum.splits bool.splits prod.splits option.splits)

end
