(* ===== verification/Invariants.thy ===== *)
theory Invariants
  imports ManagerFacts
begin

text \<open>
  The invariant of the mount manager. \<open>reg_ok\<close>: the registry maps each ID to an entry with that ID,
  and no two registered mounts have the same cleaned path. \<open>chan_inv\<close>: every entry has its own exit
  channel, which is closed or will be closed by exactly one waiting goroutine, so that no close
  panics and no wait for an exit blocks forever; the entry an operation is working on (\<open>busy\<close>) has
  an open channel and nobody to close it yet. \<open>refs_ok\<close>: goroutines and timers point into the heap.
\<close>

section \<open>Channels\<close>

definition chan_ok :: "nat option \<Rightarrow> nat list \<times> bool list \<times> nat list \<times> bool \<times> bool \<Rightarrow> bool" where
  "chan_ok busy v =
     (case v of (xs, cs, ws, panicked, blocked) \<Rightarrow>
        distinct xs \<and> (\<forall>c \<in> set xs. c < length cs) \<and>
        distinct ws \<and> (\<forall>c \<in> set ws. c < length cs \<and> \<not> cs ! c) \<and>
        (\<forall>a < length xs. if busy = Some a then \<not> cs ! (xs ! a) \<and> xs ! a \<notin> set ws
                         else cs ! (xs ! a) \<or> xs ! a \<in> set ws) \<and>
        \<not> panicked \<and> \<not> blocked)"

definition chan_inv :: "nat option \<Rightarrow> 'r manager \<Rightarrow> bool" where
  "chan_inv busy st = chan_ok busy (chan_view st)"

lemma chan_inv_cong: "chan_view st' = chan_view st \<Longrightarrow> chan_inv busy st \<Longrightarrow> chan_inv busy st'"
  by (simp add: chan_inv_def)

lemma nth_exitDone: "a < length (gHeap st) \<Longrightarrow> map mExitDone (gHeap st) ! a = mExitDone (entry st a)"
  by (simp add: entry_def)

lemma chan_inv_unfold:
  "chan_inv busy st \<longleftrightarrow>
     distinct (map mExitDone (gHeap st)) \<and>
     (\<forall>a < length (gHeap st). mExitDone (entry st a) < length (gChans st)) \<and>
     distinct (wait_chans (gTasks st)) \<and>
     (\<forall>c \<in> set (wait_chans (gTasks st)). c < length (gChans st) \<and> \<not> gChans st ! c) \<and>
     (\<forall>a < length (gHeap st).
        if busy = Some a
        then \<not> gChans st ! mExitDone (entry st a) \<and> mExitDone (entry st a) \<notin> set (wait_chans (gTasks st))
        else gChans st ! mExitDone (entry st a) \<or> mExitDone (entry st a) \<in> set (wait_chans (gTasks st))) \<and>
     \<not> gPanicked st \<and> \<not> gBlocked st"
  by (simp add: chan_inv_def chan_ok_def chan_view_def entry_def all_set_conv_all_nth [of "gHeap st"])

lemma exitDone_inj:
  "chan_inv busy st \<Longrightarrow> a < length (gHeap st) \<Longrightarrow> b < length (gHeap st) \<Longrightarrow>
     mExitDone (entry st a) = mExitDone (entry st b) \<Longrightarrow> a = b"
  using nth_eq_iff_index_eq [of "map mExitDone (gHeap st)" a b]
  by (auto simp: chan_inv_unfold entry_def)

lemma register_simps:
  "register info st =
     (length (gHeap st),
      st\<lparr>gChans := gChans st @ [False], gHeap := gHeap st @ [new_entry info (length (gChans st))],
         gMounts := AList.update (MountId info) (length (gHeap st)) (gMounts st)\<rparr>)"
  by (simp add: register_def make_chan_def Let_def)

lemma chan_inv_register:
  "chan_inv None st \<Longrightarrow> chan_inv (Some (length (gHeap st))) (snd (register info st))"
  unfolding chan_inv_def chan_ok_def chan_view_def register_simps
  by (auto simp: new_entry_def nth_append less_Suc_eq dest: nth_mem)

lemma chan_inv_close:
  assumes "chan_inv (Some a) st" and "a < length (gHeap st)"
  shows "chan_inv None (close_chan (mExitDone (entry st a)) st)"
proof -
  have open_c: "\<not> gChans st ! mExitDone (entry st a)" using assms by (auto simp: chan_inv_unfold)
  show ?thesis
    using assms exitDone_inj [OF assms(1)] open_c unfolding chan_inv_unfold
    by (auto simp: close_chan_def nth_update_if entry_def split: if_splits)
qed

lemma chan_inv_spawn:
  assumes "chan_inv (Some a) st" and "a < length (gHeap st)"
  shows "chan_inv None (spawn [WaitForProcess a gen (mExitDone (entry st a)), WaitForMount a gen' co] st)"
  using assms unfolding chan_inv_unfold
  by (auto simp: spawn_def entry_def split: if_splits)

lemma begin_retry_heap:
  "chan_view (begin_retry ev a st) =
     ((map mExitDone (gHeap st))[a := length (gChans st)], gChans st @ [False], wait_chans (gTasks st),
      gPanicked st, gBlocked st)"
  by (simp add: begin_retry_def make_chan_def chan_view_def upd_entry_def map_update)

lemma chan_inv_begin_retry:
  assumes "chan_inv None st" and "a < length (gHeap st)"
  shows "chan_inv (Some a) (begin_retry ev a st)"
proof -
  have fresh: "length (gChans st) \<notin> set (map mExitDone (gHeap st))" "length (gChans st) \<notin> set (wait_chans (gTasks st))"
    using assms(1) unfolding chan_inv_def chan_ok_def chan_view_def by auto
  show ?thesis
    using assms fresh distinct_list_update [of "map mExitDone (gHeap st)" "length (gChans st)" a]
    unfolding chan_inv_def begin_retry_heap unfolding chan_ok_def chan_view_def
    by (auto simp: nth_update_if nth_append less_Suc_eq dest!: set_update_subset_insert [THEN subsetD] dest: nth_mem split: if_splits)
qed

lemma wait_chans_remove:
  "WaitForProcess a g c \<in> set ts \<Longrightarrow> distinct (wait_chans ts) \<Longrightarrow>
     distinct (wait_chans (remove1 (WaitForProcess a g c) ts)) \<and>
     set (wait_chans (remove1 (WaitForProcess a g c) ts)) = set (wait_chans ts) - {c}"
proof (induction ts)
  case (Cons t ts)
  have mem: "WaitForProcess a' g' c' \<in> set us \<Longrightarrow> c' \<in> set (wait_chans us)" for a' g' c' us
    by (force simp: wait_chans_def)
  show ?case
  proof (cases "t = WaitForProcess a g c")
    case False
    with Cons mem show ?thesis by (cases t) auto
  qed (use Cons in auto)
qed simp

lemma wait_chans_mem: "c \<in> set (wait_chans ts) \<longleftrightarrow> (\<exists>a g. WaitForProcess a g c \<in> set ts)"
  by (induction ts) (auto simp: wait_chans_def split: task.splits)

lemma process_exited_chan_view:
  "chan_view (process_exited a g c err st) = chan_view (close_chan c st)"
  by (simp add: process_exited_def Let_def)

lemma chan_inv_process_exited:
  assumes inv: "chan_inv None st" and t: "WaitForProcess a g c \<in> set (gTasks st)"
  shows "chan_inv None (process_exited a g c err (st\<lparr>gTasks := remove1 (WaitForProcess a g c) (gTasks st)\<rparr>))"
    and "gChans (process_exited a g c err (st\<lparr>gTasks := remove1 (WaitForProcess a g c) (gTasks st)\<rparr>)) ! c"
proof -
  let ?st = "st\<lparr>gTasks := remove1 (WaitForProcess a g c) (gTasks st)\<rparr>"
  have c: "c \<in> set (wait_chans (gTasks st))" using t by (auto simp: wait_chans_mem)
  then have open_c: "c < length (gChans st)" "\<not> gChans st ! c" using inv by (auto simp: chan_inv_unfold)
  have rem: "distinct (wait_chans (gTasks ?st))" "set (wait_chans (gTasks ?st)) = set (wait_chans (gTasks st)) - {c}"
    using wait_chans_remove [OF t] inv by (auto simp: chan_inv_unfold)
  have "chan_inv None (close_chan c ?st)"
    using inv rem open_c unfolding chan_inv_unfold
    by (auto simp: close_chan_def nth_update_if entry_def split: if_splits)
  then show "chan_inv None (process_exited a g c err ?st)"
    by (simp add: process_exited_chan_view chan_inv_def)
  show "gChans (process_exited a g c err ?st) ! c"
    using open_c by (simp add: process_exited_def close_chan_def Let_def)
qed

lemma find_process_wait:
  "find (is_process_wait c) ts = Some t \<Longrightarrow> \<exists>a g. t = WaitForProcess a g c \<and> t \<in> set ts"
proof -
  assume "find (is_process_wait c) ts = Some t"
  then have "t \<in> set ts" "is_process_wait c t" by (auto simp: find_Some_iff)
  then show ?thesis by (cases t rule: task.exhaust) (auto simp: is_process_wait_def)
qed

lemma await_exit_closes:
  assumes "chan_inv None st" and "a < length (gHeap st)"
  shows "chan_inv None (await_exit ev (mExitDone (entry st a)) st)"
    and "gChans (await_exit ev (mExitDone (entry st a)) st) ! mExitDone (entry st a)"
proof -
  let ?c = "mExitDone (entry st a)"
  have "chan_inv None (await_exit ev ?c st) \<and> gChans (await_exit ev ?c st) ! ?c"
  proof (cases "gChans st ! ?c")
    case False
    then have "?c \<in> set (wait_chans (gTasks st))" using assms by (auto simp: chan_inv_unfold)
    then obtain b g where "WaitForProcess b g ?c \<in> set (gTasks st)" by (auto simp: wait_chans_mem)
    then have "find (is_process_wait ?c) (gTasks st) \<noteq> None"
      by (auto simp: find_None_iff is_process_wait_def)
    then obtain t where t: "find (is_process_wait ?c) (gTasks st) = Some t" by blast
    from find_process_wait [OF t] obtain b g where w: "t = WaitForProcess b g ?c" "t \<in> set (gTasks st)" by blast
    from chan_inv_process_exited [OF assms(1) w(2) [unfolded w(1)]] show ?thesis
      using False t w(1) by (simp add: await_exit_def)
  qed (use assms in \<open>simp add: await_exit_def\<close>)
  then show "chan_inv None (await_exit ev ?c st)" "gChans (await_exit ev ?c st) ! ?c" by auto
qed

section \<open>Channels across the handlers\<close>

lemma reg_view_heap: "reg_view st' = reg_view st \<Longrightarrow> length (gHeap st') = length (gHeap st)"
  by (auto simp: reg_view_def dest: map_eq_imp_length_eq)

lemma failure_length [simp]:
  "length (gHeap (recordMountFailure rp ev a gen code msg ds st)) = length (gHeap st)"
  "length (gHeap (recordTerminalMountFailure rp ev a gen code msg st)) = length (gHeap st)"
  "length (gHeap (recordUnmountFailure rp ev a gen code msg st)) = length (gHeap st)"
  by (rule reg_view_heap, simp)+

lemma failure_tasks [simp]:
  "gTasks (recordMountFailure rp ev a gen code msg ds st) = gTasks st"
  "gTasks (recordTerminalMountFailure rp ev a gen code msg st) = gTasks st"
  "gTasks (recordUnmountFailure rp ev a gen code msg st) = gTasks st"
  by (simp_all add: recordMountFailure_def recordTerminalMountFailure_def recordUnmountFailure_def Let_def)

lemma chan_inv_start_failure:
  "chan_inv (Some a) st \<Longrightarrow> a < length (gHeap st) \<Longrightarrow>
     chan_inv None (finishMountStartFailure rp ev a gen code msg st)"
  unfolding finishMountStartFailure_def
  by (rule chan_inv_cong [OF _ chan_inv_close]) simp_all

lemma chan_inv_failBefore:
  assumes "chan_inv (Some a) st" and "a < length (gHeap st)"
  shows "chan_inv None (snd (failMountBeforeStart rp ev a gen d st))"
proof -
  have "chan_inv (Some a) (emit [ERemoveAll d] (upd_entry a (\<lambda>e. e\<lparr>mTimedOut := True\<rparr>) st))"
    by (rule chan_inv_cong [OF _ assms(1)]) simp
  then show ?thesis
    using assms(2) by (simp add: failMountBeforeStart_def Let_def chan_inv_start_failure)
qed

lemma chan_inv_start_process:
  assumes "chan_inv (Some a) st" and "a < length (gHeap st)"
  shows "chan_inv None (start_process rp ev a gen cmd client pid st)"
proof -
  let ?s1 = "upd_entry a (\<lambda>e. e\<lparr>mCommand := Some (gNextProc st), mClient := client,
                 mPersistent := (client = mountClientIRODSFS),
                 mInfo := (let info = mInfo e;
                               info = (if client = mountClientIRODSFS then info\<lparr>Pid := pid\<rparr> else info)
                           in info\<lparr>State := MOUNT_STATE_MOUNTING, UpdatedAt := Some (now ev AtStarted)\<rparr>)\<rparr>)
               (emit [EStart (mountID st a) cmd] (st\<lparr>gNextProc := gNextProc st + 1\<rparr>))"
  let ?s2 = "persistBestEffort rp a ?s1"
  let ?s3 = "publish MOUNT_EVENT_TYPE_UPDATED (snapshot ?s2 a) ?s2"
  have "chan_inv (Some a) ?s3" by (rule chan_inv_cong [OF _ assms(1)]) simp
  moreover have "a < length (gHeap ?s3)" using assms(2) by simp
  ultimately have "chan_inv None (spawn [WaitForProcess a gen (mExitDone (entry ?s3 a)),
      WaitForMount a gen (Some (mExitDone (entry ?s1 a)))] ?s3)"
    by (rule chan_inv_spawn)
  moreover have "entry ?s3 a = entry ?s1 a" by simp
  ultimately show ?thesis unfolding start_process_def Let_def by simp
qed

lemma open_log_view [simp]:
  "chan_view (snd (open_log ev a st)) = chan_view st"
  "reg_view (snd (open_log ev a st)) = reg_view st"
  "gConfig (snd (open_log ev a st)) = gConfig st"
  "length (gHeap (snd (open_log ev a st))) = length (gHeap st)"
  by (auto simp: open_log_def ident_def Let_def split: option.splits)

text \<open>
  The shape of \<open>startMount\<close>: every path through it ends in one of three ways, on a state that differs
  from the given one only by the log handle and the trace.
\<close>

definition prepared :: "nat \<Rightarrow> effect list \<Rightarrow> string list option \<Rightarrow> 'r manager \<Rightarrow> 'r manager" where
  "prepared a es l st = emit es (upd_entry a (\<lambda>e. e\<lparr>mMountLog := l\<rparr>) st)"

lemma emit_emit [simp]: "emit x (emit y st) = emit (y @ x) st"
  by (simp add: emit_def)

lemma emit_upd_entry: "upd_entry a f (emit es st) = emit es (upd_entry a f st)"
  by (simp add: emit_def upd_entry_def)

lemma upd_entry_id: "upd_entry a (\<lambda>e. e\<lparr>mMountLog := mMountLog (entry st a)\<rparr>) st = st"
  by (simp add: upd_entry_def entry_def)

lemma emit_prepared: "emit es st = prepared a es (mMountLog (entry st a)) st"
  by (simp add: prepared_def upd_entry_id)

lemma open_log_prepared:
  "open_log ev a (emit es st) = (r, st') \<Longrightarrow> \<exists>es' l. st' = prepared a es' l st"
  unfolding open_log_def
  by (auto simp: emit_upd_entry Let_def split: option.splits)
    (auto simp: prepared_def intro: emit_prepared [unfolded prepared_def])

lemma startMount_cases:
  fixes st :: "'r manager"
  obtains (start_failed) es l code msg err where
      "startMount rp ev a gen d st =
         ((snapshot (finishMountStartFailure rp ev a gen code msg (prepared a es l st)) a, Some err),
          finishMountStartFailure rp ev a gen code msg (prepared a es l st))"
    | (too_late) es l where
      "startMount rp ev a gen d st = failMountBeforeStart rp ev a gen d (prepared a es l st)"
    | (started) es l cmd client pid where
      "startMount rp ev a gen d st =
         ((snapshot (start_process rp ev a gen cmd client pid (prepared a es l st)) a, None),
          start_process rp ev a gen cmd client pid (prepared a es l st))"
proof (cases "mkdirMount ev")
  case (Some err)
  then show thesis
    using start_failed [of "''MOUNT_DIRECTORY_FAILED''" _ "[EMkdirAll (mountPath st a)]" "mMountLog (entry st a)"]
    by (simp add: startMount_def Let_def emit_prepared [of _ st a])
next
  case None
  note mk1 = None
  show thesis
  proof (cases "mkdirData ev")
    case (Some err)
    with mk1 show thesis
      using start_failed [of "''MOUNT_DATA_DIRECTORY_FAILED''"]
      by (simp add: startMount_def Let_def emit_prepared [of "[EMkdirAll (mountPath st a), EMkdirAll d]" st a])
  next
    case None
    note mk2 = None
    show thesis
    proof (cases "deadlinePassed1 ev")
      case True
      with mk1 mk2 show thesis
        using too_late
        by (simp add: startMount_def Let_def emit_prepared [of "[EMkdirAll (mountPath st a), EMkdirAll d]" st a])
    next
      case False
      obtain r s where ol: "open_log ev a (emit [EMkdirAll (mountPath st a), EMkdirAll d] st) = (r, s)" by force
      from open_log_prepared [OF ol] obtain es l where s: "s = prepared a es l st" by blast
      have em: "emit es' s = prepared a (es @ es') l st" for es' by (simp add: s prepared_def)
      obtain c effs where mc: "makeMountCommand ev (gConfig s) (InfoConfig (mInfo (entry s a))) (mountID s a) d True = (c, effs)"
        by force
      note unf = mk1 mk2 False ol mc startMount_def Let_def em
      show thesis
      proof (cases r)
        case (Some err)
        show thesis
          by (rule start_failed [of "''MOUNT_LOG_OPEN_FAILED''" "errtext err" es l err]) (simp add: Some unf flip: s)
      next
        case None
        note r = None
        show thesis
        proof (cases c)
          case (Inl err)
          show thesis
            by (rule start_failed [of "''MOUNT_CONFIGURATION_FAILED''" "errtext err" "es @ effs" l err])
              (simp add: r Inl unf)
        next
          case (Inr x)
          obtain cmd client where x: "x = (cmd, client)" by force
          show thesis
          proof (cases "deadlinePassed2 ev")
            case True
            show thesis by (rule too_late [of "es @ effs" l]) (simp add: True r Inr x unf)
          next
            case d2: False
            show thesis
            proof (cases "startCommand ev")
              case (Inl err)
              show thesis
                by (rule start_failed [of "''MOUNT_COMMAND_START_FAILED''" "errtext err" "es @ effs" l])
                  (simp add: Inl d2 r Inr x unf)
            next
              case sc: (Inr pid)
              show thesis by (rule started [of cmd client pid "es @ effs" l]) (simp add: sc d2 r Inr x unf)
            qed
          qed
        qed
      qed
    qed
  qed
qed

lemma prepared_simps [simp]:
  "chan_view (prepared a es l st) = chan_view st"
  "reg_view (prepared a es l st) = reg_view st"
  "length (gHeap (prepared a es l st)) = length (gHeap st)"
  "gConfig (prepared a es l st) = gConfig st"
  "gTasks (prepared a es l st) = gTasks st"
  "gTimers (prepared a es l st) = gTimers st"
  "gMounts (prepared a es l st) = gMounts st"
  "gRepository (prepared a es l st) = gRepository st"
  "gBus (prepared a es l st) = gBus st"
  "gNextTimer (prepared a es l st) = gNextTimer st"
  by (simp_all add: prepared_def ident_def)

lemma entry_prepared [simp]:
  "entry (prepared a es l st) b =
     (if a = b \<and> a < length (gHeap st) then (entry st a)\<lparr>mMountLog := l\<rparr> else entry st b)"
  by (simp add: prepared_def)

lemma chan_inv_startMount:
  assumes "chan_inv (Some a) st" and "a < length (gHeap st)"
  shows "chan_inv None (snd (startMount rp ev a gen d st))"
proof -
  have inv: "chan_inv (Some a) (prepared a es l st)" for es l
    by (rule chan_inv_cong [OF _ assms(1)]) simp
  show ?thesis
    by (cases rule: startMount_cases [of rp ev a gen d st])
      (use inv assms(2) in \<open>simp_all add: chan_inv_start_failure chan_inv_failBefore chan_inv_start_process\<close>)
qed

lemma chan_inv_finish_unmount:
  "chan_inv None st \<Longrightarrow> chan_inv None (snd (finish_unmount rp ev ctx a gen st))"
  by (erule chan_inv_cong [rotated]) (simp add: finish_unmount_def Let_def split: option.splits)

lemma process_exited_fields [simp]:
  "reg_view (process_exited b g c err st) = reg_view st"
  "gMounts (process_exited b g c err st) = gMounts st"
  "gRepository (process_exited b g c err st) = gRepository st"
  "gConfig (process_exited b g c err st) = gConfig st"
  "gTimers (process_exited b g c err st) = gTimers st"
  "gTrace (process_exited b g c err st) = gTrace st"
  "gBus (process_exited b g c err st) = gBus st"
  "length (gHeap (process_exited b g c err st)) = length (gHeap st)"
  by (simp_all add: process_exited_def Let_def)

lemma await_exit_fields [simp]:
  "reg_view (await_exit ev c st) = reg_view st"
  "gMounts (await_exit ev c st) = gMounts st"
  "gRepository (await_exit ev c st) = gRepository st"
  "gConfig (await_exit ev c st) = gConfig st"
  "gTimers (await_exit ev c st) = gTimers st"
  "gTrace (await_exit ev c st) = gTrace st"
  "gBus (await_exit ev c st) = gBus st"
  "length (gHeap (await_exit ev c st)) = length (gHeap st)"
  by (auto simp: await_exit_def split: option.splits task.splits)

lemma chan_inv_performUnmount:
  assumes "chan_inv None st" and "a < length (gHeap st)"
  shows "chan_inv None (snd (performUnmountAttempt rp ev ctx a gen st))"
proof -
  have em: "chan_inv None (emit es st)" for es by (rule chan_inv_cong [OF _ assms(1)]) simp
  have fail: "chan_inv None (snd (unmount_failed rp ev a gen code e (emit es st)))" for code e es
    by (rule chan_inv_cong [OF _ em [of es]]) simp
  have fin: "chan_inv None (snd (finish_unmount rp ev ctx a gen (await_exit ev (mExitDone (entry st a)) (emit es st))))" for es
    using await_exit_closes(1) [of "emit es st" a ev] em assms(2) by (intro chan_inv_finish_unmount) simp
  have fail0: "chan_inv None (snd (unmount_failed rp ev a gen code e st))" for code e
    by (rule chan_inv_cong [OF _ assms(1)]) simp
  show ?thesis unfolding performUnmountAttempt_def
    using fail fail0 fin by (auto simp: Let_def split: sum.splits prod.splits option.splits exit_wait.splits)
qed

end
