(* ===== verification/Requests.thy ===== *)
theory Requests
  imports Invariants
begin

text \<open>
  What a request does to the outside world and in which order. \<open>gTrace\<close> only grows, so the effects
  of an operation are what it appends. The theorems state the orderings and guards the manager's
  recovery after a crash of the daemon rests on: an intent record before any work of a mount, a
  tombstone before any work of an unmount, no data directory deleted under a mounted file system.
\<close>

section \<open>Traces grow\<close>

lemma trace_emit [simp]: "gTrace (emit es st) = gTrace st @ es"
  by (simp add: emit_def)

lemma trace_repo_update [simp]:
  "gTrace (snd (repo_update rp ctx r st)) = gTrace st @ (if fst (repo_update rp ctx r st) = None then [EUpdateRecord r] else [])"
  by (auto simp: repo_update_def split: prod.splits)

lemma trace_repo_create [simp]:
  "gTrace (snd (repo_create rp ctx r st)) = gTrace st @ (if fst (repo_create rp ctx r st) = None then [ECreateRecord r] else [])"
  by (auto simp: repo_create_def split: prod.splits)

lemma trace_repo_delete [simp]:
  "gTrace (snd (repo_delete rp ctx i st)) = gTrace st @ (if fst (repo_delete rp ctx i st) = None then [EDeleteRecord i] else [])"
  by (auto simp: repo_delete_def split: prod.splits)

lemma repo_create_result:
  assumes "repo_create rp ctx r st = (oe, st')"
  shows "gTrace st' = gTrace st @ (if oe = None then [ECreateRecord r] else [])" and "gMounts st' = gMounts st"
  using trace_repo_create [of rp ctx r st] repo_create_fields(2) [of rp ctx r st] unfolding assms by simp_all

definition tells :: "(effect \<Rightarrow> bool) \<Rightarrow> 'r manager \<Rightarrow> 'r manager \<Rightarrow> bool" where
  "tells P st st' \<longleftrightarrow> (\<exists>es. gTrace st' = gTrace st @ es \<and> list_all P es)"

lemma tells_refl [simp]: "gTrace st' = gTrace st \<Longrightarrow> tells P st st'"
  by (simp add: tells_def)

lemma tells_trans [trans]: "tells P st st' \<Longrightarrow> tells P st' st'' \<Longrightarrow> tells P st st''"
  by (force simp: tells_def)

lemma tells_same: "gTrace st1 = gTrace st \<Longrightarrow> gTrace st2 = gTrace st' \<Longrightarrow> tells P st1 st2 = tells P st st'"
  by (simp add: tells_def)

lemma tells_after: "list_all P es \<Longrightarrow> gTrace st1 = gTrace st @ es \<Longrightarrow> tells P st1 st' \<Longrightarrow> tells P st st'"
  by (force simp: tells_def)

definition is_update :: "effect \<Rightarrow> bool" where
  "is_update e = (case e of EUpdateRecord _ \<Rightarrow> True | _ \<Rightarrow> False)"

lemma tells_mono: "tells P st st' \<Longrightarrow> (\<And>e. P e \<Longrightarrow> Q e) \<Longrightarrow> tells Q st st'"
  by (auto simp: tells_def list_all_iff)

lemma persist_trace:
  "gTrace (persistBestEffort rp a st) =
     gTrace st @ (if fst (persistRecord rp None a st) = None
                  then [EUpdateRecord \<lparr>Info = mInfo (entry st a), Tombstone = mUnmounting (entry st a)\<rparr>] else [])"
  by (simp add: persistBestEffort_def persistRecord_def)

lemma persist_tells: "tells is_update st (persistBestEffort rp a st)"
  by (auto simp: tells_def persistBestEffort_def persistRecord_def is_update_def)

lemma failures_tell:
  "tells is_update st (recordMountFailure rp ev a gen code msg ds st)"
  "tells is_update st (recordTerminalMountFailure rp ev a gen code msg st)"
  "tells is_update st (recordUnmountFailure rp ev a gen code msg st)"
  by (auto simp: tells_def recordMountFailure_def recordTerminalMountFailure_def recordUnmountFailure_def
      persistBestEffort_def persistRecord_def is_update_def Let_def)

lemma unmount_failed_tells: "tells is_update st (snd (unmount_failed rp ev a gen code err st))"
  using failures_tell(3) by (simp add: unmount_failed_def Let_def)

lemma finish_unmount_tells:
  "\<exists>es. gTrace (snd (finish_unmount rp ev ctx a gen st)) = gTrace st @ ERemoveAll (mountDataRoot (gConfig st) (mountID st a)) # es \<and>
     list_all (\<lambda>e. \<not> (\<exists>d. e = ERemoveAll d)) es"
proof (cases "removeAll ev")
  case None
  then show ?thesis by (auto simp: finish_unmount_def Let_def split: option.splits)
next
  case (Some err)
  let ?st = "emit [ERemoveAll (mountDataRoot (gConfig st) (mountID st a))] st"
  have "tells is_update ?st (snd (finish_unmount rp ev ctx a gen st))"
    using Some unmount_failed_tells by (simp add: finish_unmount_def Let_def)
  then show ?thesis unfolding tells_def by (auto simp: list_all_iff is_update_def split: effect.splits)
qed

section \<open>Unmounting\<close>

lemma unmount_effects:
  "e \<in> set (snd (unmountByClientType ev mc client p)) \<Longrightarrow> (\<exists>q. e = EFuseUnmount q) \<or> (\<exists>as t. e = ESystemUnmount as t)"
  by (auto simp: unmountByClientType_def runSystemUnmount_def Let_def split: option.splits mountClientType.splits if_splits prod.splits)

lemma not_removal:
  "list_all is_update es \<Longrightarrow> ERemoveAll d \<notin> set es"
  "ERemoveAll d \<notin> set (snd (unmountByClientType ev mc client p))"
  using unmount_effects by (fastforce simp: list_all_iff is_update_def)+

text \<open>
  An attempt fails before anything is deleted, or it reaches \<open>finish_unmount\<close> after the file system
  was not mounted or has been unmounted, and the child has exited.
\<close>

lemma performUnmount_cases:
  fixes st :: "'r manager"
  obtains (failed) code err fs where
      "performUnmountAttempt rp ev ctx a gen st = unmount_failed rp ev a gen code err (emit fs st)"
      "\<And>d. ERemoveAll d \<notin> set fs"
    | (finished) fs where
      "performUnmountAttempt rp ev ctx a gen st =
         finish_unmount rp ev ctx a gen (await_exit ev (mExitDone (entry st a)) (emit fs st))"
      "\<And>d. ERemoveAll d \<notin> set fs"
      "probe ev = Inr False \<or> probe ev = Inr True \<and>
         fst (unmountByClientType ev (gConfig st) (mClient (entry st a)) (mountPath st a)) = None"
proof (cases "probe ev")
  case (Inl e)
  then show thesis
    using failed [of "''UNMOUNT_FAILED''" _ "[]"] by (simp add: performUnmountAttempt_def emit_def)
next
  case (Inr mounted)
  let ?u = "unmountByClientType ev (gConfig st) (mClient (entry st a)) (mountPath st a)" and ?e = "entry st a"
  obtain oe fs where u: "(if mounted then ?u else (None, [])) = (oe, fs)" by force
  have fs: "ERemoveAll d \<notin> set fs" for d using not_removal(2) u by (metis snd_conv empty_iff empty_set)
  show thesis
  proof (cases oe)
    case (Some err)
    then show thesis
      using failed [OF _ fs, of "''DAVFS_LAZY_UNMOUNT''" err]
        failed [OF _ fs, of "''UNMOUNT_FAILED''" "errors_Wrap err ''failed to unmount mount''"]
      by (cases "cause err = ErrDAVFSLazyUnmount") (simp_all add: performUnmountAttempt_def Inr u)
  next
    case None
    have ok: "probe ev = Inr False \<or> probe ev = Inr True \<and> fst ?u = None" using u None Inr by (cases mounted) auto
    define t where "t = (case mCommand ?e of Some proc \<Rightarrow> if mPersistent ?e then [ESignalTerm proc] else [] | None \<Rightarrow> [])"
    define k where "k = (case mCommand ?e of None \<Rightarrow> [] | Some proc \<Rightarrow> [EKill proc])"
    have free: "ERemoveAll d \<notin> set (fs @ t)" "ERemoveAll d \<notin> set (fs @ t @ k)" for d
      using fs by (auto simp: t_def k_def split: option.splits)
    have sig: "(case mCommand ?e of Some proc \<Rightarrow> if mPersistent (entry (emit fs st) a) then emit [ESignalTerm proc] (emit fs st) else emit fs st
        | None \<Rightarrow> emit fs st) = emit (fs @ t) st"
      by (simp add: t_def split: option.splits)
    note unf = performUnmountAttempt_def Inr u None Let_def sig k_def [symmetric]
    show thesis
      using failed [OF _ free(1)] failed [OF _ free(2)] finished [OF _ free(1) ok] finished [OF _ free(2) ok]
      by (cases "exitWait ev") (simp_all add: unf)
  qed
qed

lemma await_mountID [simp]: "mountID (await_exit ev c st) a = mountID st a"
  by (simp add: mountID_def await_exit_def process_exited_def Let_def split: option.splits task.splits)

lemma emit_mountID [simp]: "mountID (emit es st) a = mountID st a"
  by (simp add: mountID_def)

lemma performUnmount_effects:
  "\<exists>es. gTrace (snd (performUnmountAttempt rp ev ctx a gen st)) = gTrace st @ es \<and>
     (ERemoveAll d \<in> set es \<longrightarrow>
        d = mountDataRoot (gConfig st) (mountID st a) \<and>
        (probe ev = Inr False \<or> probe ev = Inr True \<and>
         fst (unmountByClientType ev (gConfig st) (mClient (entry st a)) (mountPath st a)) = None))"
proof (cases rule: performUnmount_cases [of rp ev ctx a gen st])
  case (failed code err fs)
  then show ?thesis
    using unmount_failed_tells [of "emit fs st" rp ev a gen code err] not_removal(1)
    by (fastforce simp: tells_def)
next
  case (finished fs)
  then show ?thesis
    using finish_unmount_tells [of rp ev ctx a gen "await_exit ev (mExitDone (entry st a)) (emit fs st)"]
    by (fastforce simp: list_all_iff)
qed

lemma trace_begin_unmount [simp]: "gTrace (begin_unmount ev a st) = gTrace st"
  by (simp add: begin_unmount_def)

lemma Unmount_cases:
  fixes st :: "'r manager"
  obtains (rejected) err where "Unmount rp ev req st = ((None, Some err), recordMountOperation ev ''unmount'' (Some err) st)"
    | (accepted) q a where "req = Some q" "map_of (gMounts st) (UnmountMountId q) = Some a" "ctxErr ev = None"
      "Unmount rp ev req st =
         (let (res, st') = Unmount_locked rp ev (UnmountMountId q) a st
          in (res, recordMountOperation ev ''unmount'' (snd res) st'))"
proof (cases "ctxErr ev")
  case None
  note ctx = None
  show thesis
  proof (cases req)
    case (Some q)
    note req = Some
    show thesis
    proof (cases "UnmountMountId q = []")
      case True
      then show thesis by (intro rejected) (simp add: Unmount_def ctx req)
    next
      case False
      show thesis
      proof (cases "map_of (gMounts st) (UnmountMountId q)")
        case None
        then show thesis by (intro rejected) (simp add: Unmount_def ctx req False)
      next
        case (Some a)
        then show thesis by (intro accepted [of q a]) (simp_all add: Unmount_def ctx req False Let_def split_beta)
      qed
    qed
  next
    case None
    then show thesis by (intro rejected) (simp add: Unmount_def ctx)
  qed
next
  case (Some err)
  then show thesis by (intro rejected) (simp add: Unmount_def)
qed


section \<open>Mounting\<close>

text \<open>The shape of \<open>Mount\<close>: rejected before anything happens, not persisted, or started.\<close>

lemma Mount_run_cases:
  fixes st :: "'r manager"
  obtains (rejected) err where "Mount_run rp ev req st = ((None, Some err), st)"
    | (unpersisted) config i err st1 where
      "validateMountConfig ev (gConfig st) (Some config) = None"
      "registry_conflict i (Clean (MountPath config)) st = None"
      "i = newMountID ev \<or> validateMountID i = None \<and> i \<noteq> []"
      "repo_create rp None \<lparr>Info = mount_info0 ev (gConfig st) config i, Tombstone = False\<rparr>
         (snd (register (mount_info0 ev (gConfig st) config i) st)) = (Some err, st1)"
      "snd (Mount_run rp ev req st) =
         close_chan (mExitDone (entry st1 (length (gHeap st))))
           (upd_info (length (gHeap st)) (\<lambda>info. info\<lparr>State := MOUNT_STATE_FAILED, UpdatedAt := Some (now ev AtPersistFailed),
              LastError := Some \<lparr>ErrCode = ''MOUNT_PERSIST_FAILED'', ErrMessage = errtext (errors_Wrap err ''failed to persist mount record''),
                                 Retryable = False, Details = []\<rparr>\<rparr>) st1)"
      "snd (fst (Mount_run rp ev req st)) = Some (errors_Wrap err ''failed to persist mount record'')"
    | (persisted) config i st1 where
      "validateMountConfig ev (gConfig st) (Some config) = None"
      "registry_conflict i (Clean (MountPath config)) st = None"
      "i = newMountID ev \<or> validateMountID i = None \<and> i \<noteq> []"
      "repo_create rp None \<lparr>Info = mount_info0 ev (gConfig st) config i, Tombstone = False\<rparr>
         (snd (register (mount_info0 ev (gConfig st) config i) st)) = (None, st1)"
      "snd (Mount_run rp ev req st) = snd (startMount rp ev (length (gHeap st)) 1 (mountDataRoot (gConfig st) i) st1)"
      "snd (fst (Mount_run rp ev req st)) = snd (fst (startMount rp ev (length (gHeap st)) 1 (mountDataRoot (gConfig st) i) st1))"
proof (cases "ctxErr ev")
  case (Some err)
  then show thesis by (intro rejected [of err]) (simp add: Mount_run_def)
next
  case None
  note ctx = None
  show thesis
  proof (cases req)
    case None
    then show thesis by (intro rejected) (simp add: Mount_run_def ctx)
  next
    case (Some r)
    note req = Some
    show thesis
    proof (cases "validateMountConfig ev (gConfig st) (ReqConfig r)")
      case (Some err)
      then show thesis by (intro rejected [of err]) (simp add: Mount_run_def ctx req)
    next
      case None
      then obtain config where config: "ReqConfig r = Some config" by (cases "ReqConfig r") (auto simp: validateMountConfig_def)
      note valid = None [unfolded config]
      let ?q = "GetString (ReqMountId r)"
      define i where "i = (if ?q = [] then newMountID ev else ?q)"
      show thesis
      proof (cases "if ?q = [] then None else validateMountID ?q")
        case (Some err)
        then show thesis by (intro rejected [of err]) (simp add: Mount_run_def ctx req config valid Let_def split: if_splits)
      next
        case None
        then have ok: "i = newMountID ev \<or> validateMountID i = None \<and> i \<noteq> []"
          by (auto simp: i_def split: if_splits)
        show thesis
        proof (cases "registry_conflict i (Clean (MountPath config)) st")
          case (Some err)
          with None show thesis
            by (intro rejected [of err]) (simp add: Mount_run_def ctx req config valid Let_def flip: i_def)
        next
          case free: None
          let ?info = "mount_info0 ev (gConfig st) config i"
          obtain rg where reg: "register ?info st = (length (gHeap st), rg)" by (simp add: register_simps)
          then have e: "mInfo (entry rg (length (gHeap st))) = ?info" "mGeneration (entry rg (length (gHeap st))) = 1"
            by (auto simp: register_simps entry_def new_entry_def)
          obtain oe st1 where rc: "repo_create rp None \<lparr>Info = ?info, Tombstone = False\<rparr> rg = (oe, st1)" by force
          have "entry st1 = entry rg"
            using entry_same(9) [of rp None "\<lparr>Info = ?info, Tombstone = False\<rparr>" rg] rc by simp
          with e have gen: "mGeneration (entry st1 (length (gHeap st))) = 1" by simp
          note unf = Mount_run_def ctx req config valid None free reg e rc gen Let_def split_beta
          have rc': "repo_create rp None \<lparr>Info = ?info, Tombstone = False\<rparr> (snd (register ?info st)) = (oe, st1)"
            by (simp add: reg rc)
          show thesis
          proof (cases oe)
            case (Some err)
            show thesis
              by (rule unpersisted [OF valid free ok rc' [unfolded Some]])
                (simp_all add: unf Some flip: i_def)
          next
            case p: None
            show thesis
              by (rule persisted [OF valid free ok rc' [unfolded p]])
                (simp_all add: unf p flip: i_def)
          qed
        qed
      qed
    qed
  qed
qed

lemma registry_conflict_None:
  assumes "registry_conflict i p st = None"
  shows "map_of (gMounts st) i = None"
    and "\<And>j b. (j, b) \<in> set (gMounts st) \<Longrightarrow> Clean (mountPath st b) \<noteq> p"
    and "0 < MaxConcurrentMounts (gConfig st) \<Longrightarrow> int (length (gMounts st)) < MaxConcurrentMounts (gConfig st)"
  using assms
  by (auto simp: registry_conflict_def find_None_iff split: if_splits option.splits)

lemma mount_info0_ident [simp]:
  "MountId (mount_info0 ev mc c i) = i"
  "GetMountPath (InfoConfig (mount_info0 ev mc c i)) = Clean (MountPath c)"
  by (simp_all add: mount_info0_def applyFuseAllowOtherPolicy_def split: sum.splits)

lemma startMount_views [simp]:
  "reg_view (snd (startMount rp ev a gen d st)) = reg_view st"
  by (cases rule: startMount_cases [of rp ev a gen d st])
    (simp_all add: finishMountStartFailure_def failMountBeforeStart_def start_process_def ident_def Let_def)

lemma startMount_tells: "\<exists>es. gTrace (snd (startMount rp ev a gen d st)) = gTrace st @ es"
proof -
  have f: "\<exists>es. gTrace (finishMountStartFailure rp ev a gen code msg s) = gTrace s @ es" for code msg and s :: "'a manager"
    using failures_tell(1) [of "close_chan (mExitDone (entry s a)) s"] by (force simp: finishMountStartFailure_def tells_def)
  show ?thesis
  proof (cases rule: startMount_cases [of rp ev a gen d st])
    case (start_failed es l code msg err)
    then show ?thesis using f [of code msg "prepared a es l st"] by (auto simp: prepared_def)
  next
    case (too_late es l)
    let ?s = "emit [ERemoveAll d] (upd_entry a (\<lambda>e. e\<lparr>mTimedOut := True\<rparr>) (prepared a es l st))"
    let ?m = "errtext (errors_New ''timed out while preparing filesystem mount'')"
    show ?thesis
      using f [of "''MOUNT_TIMEOUT''" _ ?s] too_late
      by (fastforce simp: failMountBeforeStart_def prepared_def Let_def)
  next
    case (started es l cmd client pid)
    then show ?thesis by (simp add: start_process_def prepared_def persist_trace Let_def)
  qed
qed


end
