(* ===== verification/StoreLaws.thy ===== *)
theory StoreLaws
  imports Store
begin

text \<open>
  What the repository promises, and why. \<open>badger_laws\<close> and \<open>codec_laws\<close> state the documented
  behaviour of the database and of the JSON codecs; \<open>repository\<close> is the contract the mount
  manager relies on; the sublocale proves that the operations of theory \<open>Store\<close> keep the
  contract on any database and codec that satisfy the laws.
\<close>

section \<open>The laws of the parameters\<close>

locale badger_laws =
  fixes bd :: "('db, 'txn) badger"
    and content :: "'db \<Rightarrow> string \<Rightarrow> string option"
    and view :: "'txn \<Rightarrow> string \<Rightarrow> string option"
  assumes view_new: "view (NewTransaction bd db) = content db"
    and get_value: "txn_Get bd t k = Inr (Inr v) \<Longrightarrow> view t k = Some v"
    and get_item: "txn_Get bd t k = Inr it \<Longrightarrow> view t k \<noteq> None"
    and get_missing: "txn_Get bd t k = Inl e \<Longrightarrow> cause e = BadgerKeyNotFound \<Longrightarrow> view t k = None"
    and set_view: "txn_Set bd t k v = Inr t' \<Longrightarrow> view t' = (view t)(k \<mapsto> v)"
    and delete_view: "txn_Delete bd t k = Inr t' \<Longrightarrow> view t' = (view t)(k := None)"
    and commit_ok: "txn_Commit bd db t = (None, db') \<Longrightarrow> content db' = view t"
    and commit_fail: "txn_Commit bd db t = (Some e, db') \<Longrightarrow> content db' = content db"
    and iterate_distinct: "distinct (map fst (txn_Iterate bd t p))"
    and iterate_keys: "set (map fst (txn_Iterate bd t p)) = {k. prefix p k \<and> view t k \<noteq> None}"
    and iterate_value: "(k, Inr v) \<in> set (txn_Iterate bd t p) \<Longrightarrow> view t k = Some v"

locale codec_laws =
  fixes cd :: codec
  assumes protojson_roundtrip: "protojson_Marshal cd i = Inr d \<Longrightarrow> protojson_Unmarshal cd d = Inr i"
    and json_roundtrip: "json_Marshal cd s = Inr d \<Longrightarrow> json_Unmarshal cd d = Inr s"
begin

lemma decode_encode: "encodeRecord cd r = Inr d \<Longrightarrow> decodeRecord cd d = Inr r"
  by (auto simp: encodeRecord_def decodeRecord_def dest!: protojson_roundtrip json_roundtrip
      split: sum.splits)

end

section \<open>Atomic updates\<close>

context badger_laws
begin

lemma db_Update_cases:
  assumes "db_Update bd fn db = (err, db')"
  shows "if err = None
         then \<exists>t. fn (NewTransaction bd db) = Inr t \<and> content db' = view t
         else content db' = content db"
  using assms
  by (cases err) (auto simp: db_Update_def dest: commit_ok commit_fail split: sum.splits)

text \<open>
  A write that reports success has applied the transaction to a state with the contents the
  database had; a write that reports an error has changed nothing, however often it was retried.
\<close>

lemma conflict_loop_atomic:
  assumes "conflict_loop bd fn n e0 db = (err, db')" and "e0 = None \<longrightarrow> 0 < n"
  shows "if err = None
         then \<exists>d t. content d = content db \<and> fn (NewTransaction bd d) = Inr t \<and> content db' = view t
         else content db' = content db"
  using assms
proof (induction n arbitrary: e0 db)
  case (Suc n)
  obtain e d where u: "db_Update bd fn db = (e, d)" by force
  note cases = db_Update_cases [OF u]
  show ?case
  proof (cases "errors_Is e BadgerConflict")
    case True
    then have "e \<noteq> None" by (cases e) auto
    with cases have "content d = content db" by simp
    moreover have "conflict_loop bd fn n e d = (err, db')" using Suc.prems u True by simp
    ultimately show ?thesis using Suc.IH [of e d] \<open>e \<noteq> None\<close> by (cases err) simp_all
  next
    case False
    with Suc.prems u cases show ?thesis by (auto split: if_splits)
  qed
qed auto

lemma updateWithConflictRetry_atomic:
  assumes "updateWithConflictRetry bd fn db = (err, db')"
  shows "if err = None
         then \<exists>d t. content d = content db \<and> fn (NewTransaction bd d) = Inr t \<and> content db' = view t
         else content db' = content db"
  using conflict_loop_atomic [of fn maxConflictRetries None db err db'] assms
  by (simp add: updateWithConflictRetry_def maxConflictRetries_def)

lemma create_txn_effect:
  assumes "create_txn bd i data p t = Inr t'"
  shows "view t (mountKey i) = None" and "view t (mountPathKey p) = None"
    and "view t' = (view t)(mountKey i \<mapsto> data, mountPathKey p \<mapsto> i)"
  using assms
  by (auto simp: create_txn_def split: sum.splits if_splits dest!: set_view dest: get_missing)

lemma update_txn_effect:
  assumes "update_txn bd i data t = Inr t'"
  shows "view t (mountKey i) \<noteq> None" and "view t' = (view t)(mountKey i \<mapsto> data)"
  using assms get_item by (auto simp: update_txn_def split: sum.splits if_splits dest!: set_view)

lemma delete_txn_effect:
  assumes "delete_txn bd cd i t = Inr t'"
  shows "(view t (mountKey i) = None \<and> view t' = view t) \<or>
         (\<exists>data r. view t (mountKey i) = Some data \<and> decodeRecord cd data = Inr r \<and>
            view t' = (view t)(mountKey i := None,
              mountPathKey (Clean (GetMountPath (InfoConfig (Info r)))) := None))"
  using assms
  by (auto simp: delete_txn_def Let_def split: sum.splits if_splits
      dest!: delete_view get_value dest: get_missing)

end

section \<open>The contract of the repository\<close>

abbreviation rec_path :: "MountRecord \<Rightarrow> string" where
  "rec_path r \<equiv> Clean (GetMountPath (InfoConfig (Info r)))"

locale repository =
  fixes rp :: "'r repo"
    and recs :: "'r \<Rightarrow> string \<Rightarrow> MountRecord option"
    and repo_inv :: "'r \<Rightarrow> bool"
  assumes create_ok:
      "repo_Create rp c (Some r) d = (None, d') \<Longrightarrow>
         recs d (MountId (Info r)) = None \<and> recs d' = (recs d)(MountId (Info r) \<mapsto> r)"
    and create_err: "repo_Create rp c (Some r) d = (Some e, d') \<Longrightarrow> recs d' = recs d"
    and create_inv: "repo_inv d \<Longrightarrow> repo_Create rp c (Some r) d = (oe, d') \<Longrightarrow> repo_inv d'"
    and update_ok:
      "repo_Update rp c (Some r) d = (None, d') \<Longrightarrow>
         recs d' = (recs d)(MountId (Info r) \<mapsto> r)"
    and update_known:
      "repo_inv d \<Longrightarrow> repo_Update rp c (Some r) d = (None, d') \<Longrightarrow> recs d (MountId (Info r)) \<noteq> None"
    and update_err: "repo_Update rp c (Some r) d = (Some e, d') \<Longrightarrow> recs d' = recs d"
    and update_inv:
      "repo_inv d \<Longrightarrow> repo_Update rp c (Some r) d = (oe, d') \<Longrightarrow>
         (\<And>q. recs d (MountId (Info r)) = Some q \<Longrightarrow> rec_path q = rec_path r) \<Longrightarrow> repo_inv d'"
    and delete_ok: "repo_Delete rp c i d = (None, d') \<Longrightarrow> recs d' = (recs d)(i := None)"
    and delete_err: "repo_Delete rp c i d = (Some e, d') \<Longrightarrow> recs d' = recs d"
    and delete_inv: "repo_inv d \<Longrightarrow> repo_Delete rp c i d = (oe, d') \<Longrightarrow> repo_inv d'"
    and list_recs:
      "repo_inv d \<Longrightarrow> repo_List rp c d = Inr rs \<Longrightarrow>
         distinct (map (\<lambda>r. MountId (Info r)) rs) \<and> set rs = ran (recs d)"
    and inv_id: "repo_inv d \<Longrightarrow> recs d i = Some r \<Longrightarrow> MountId (Info r) = i"
    and inv_path:
      "repo_inv d \<Longrightarrow> recs d i = Some r \<Longrightarrow> recs d j = Some q \<Longrightarrow> rec_path r = rec_path q \<Longrightarrow> i = j"

section \<open>The abstraction of the database contents\<close>

definition stored :: "codec \<Rightarrow> (string \<Rightarrow> string option) \<Rightarrow> string \<Rightarrow> MountRecord option" where
  "stored cd m i =
     (case m (mountKey i) of
        None \<Rightarrow> None
      | Some data \<Rightarrow> (case decodeRecord cd data of Inl _ \<Rightarrow> None | Inr r \<Rightarrow> Some r))"

text \<open>
  The database invariant: every record decodes, carries the ID of its key and owns its entry of
  the path index; every entry of the path index belongs to a record with that path.
\<close>

definition store_inv :: "codec \<Rightarrow> (string \<Rightarrow> string option) \<Rightarrow> bool" where
  "store_inv cd m \<longleftrightarrow>
     (\<forall>i. m (mountKey i) \<noteq> None \<longrightarrow>
        (\<exists>r. stored cd m i = Some r \<and> MountId (Info r) = i \<and> m (mountPathKey (rec_path r)) = Some i)) \<and>
     (\<forall>p i. m (mountPathKey p) = Some i \<longrightarrow> (\<exists>r. stored cd m i = Some r \<and> rec_path r = p))"

lemma store_inv_rec:
  "store_inv cd m \<Longrightarrow> stored cd m i = Some r \<Longrightarrow>
     MountId (Info r) = i \<and> m (mountPathKey (rec_path r)) = Some i"
  unfolding store_inv_def by (metis option.distinct(1) option.inject option.simps(4) stored_def)

lemma store_inv_key:
  assumes "store_inv cd m" and "m (mountKey i) \<noteq> None"
  obtains r where "stored cd m i = Some r" "MountId (Info r) = i" "m (mountPathKey (rec_path r)) = Some i"
  using assms unfolding store_inv_def by blast

lemma store_inv_index:
  assumes "store_inv cd m" and "m (mountPathKey p) = Some i"
  obtains r where "stored cd m i = Some r" "rec_path r = p"
  using assms unfolding store_inv_def by blast

lemma store_invI:
  assumes "\<And>i. m (mountKey i) \<noteq> None \<Longrightarrow>
             \<exists>r. stored cd m i = Some r \<and> MountId (Info r) = i \<and> m (mountPathKey (rec_path r)) = Some i"
    and "\<And>p i. m (mountPathKey p) = Some i \<Longrightarrow> \<exists>r. stored cd m i = Some r \<and> rec_path r = p"
  shows "store_inv cd m"
  using assms unfolding store_inv_def by blast

lemma stored_upd_record:
  "decodeRecord cd data = Inr r \<Longrightarrow> stored cd (m(mountKey i \<mapsto> data)) = (stored cd m)(i \<mapsto> r)"
  by (auto simp: stored_def)

lemma stored_upd_index: "stored cd (m(mountPathKey p := v)) = stored cd m"
  by (auto simp: stored_def)

lemma stored_del_record: "stored cd (m(mountKey i := None)) = (stored cd m)(i := None)"
  by (auto simp: stored_def)

lemmas stored_upd = stored_upd_record stored_upd_index stored_del_record

lemma store_inv_create:
  assumes inv: "store_inv cd m" and dec: "decodeRecord cd data = Inr r"
    and free: "m (mountKey (MountId (Info r))) = None" "m (mountPathKey (rec_path r)) = None"
  shows "store_inv cd (m(mountKey (MountId (Info r)) \<mapsto> data, mountPathKey (rec_path r) \<mapsto> MountId (Info r)))"
    (is "store_inv cd ?m")
proof (rule store_invI)
  have st: "stored cd ?m = (stored cd m)(MountId (Info r) \<mapsto> r)"
    by (simp add: stored_upd dec)
  have none: "stored cd m (MountId (Info r)) = None" using free(1) by (simp add: stored_def)
  show "\<exists>q. stored cd ?m i = Some q \<and> MountId (Info q) = i \<and> ?m (mountPathKey (rec_path q)) = Some i"
    if "?m (mountKey i) \<noteq> None" for i
  proof (cases "i = MountId (Info r)")
    case False
    with that have "m (mountKey i) \<noteq> None" by simp
    with inv obtain q where q: "stored cd m i = Some q" "MountId (Info q) = i"
      "m (mountPathKey (rec_path q)) = Some i" by (rule store_inv_key)
    then have "rec_path q \<noteq> rec_path r" using free(2) by auto
    with q False show ?thesis unfolding st by simp
  qed (simp add: st)
  show "\<exists>q. stored cd ?m i = Some q \<and> rec_path q = p" if "?m (mountPathKey p) = Some i" for p i
  proof (cases "p = rec_path r")
    case True
    with that show ?thesis unfolding st by auto
  next
    case False
    with that have "m (mountPathKey p) = Some i" by simp
    with inv obtain q where "stored cd m i = Some q" "rec_path q = p" by (rule store_inv_index)
    with none show ?thesis unfolding st by auto
  qed
qed

lemma store_inv_update:
  assumes inv: "store_inv cd m" and dec: "decodeRecord cd data = Inr r"
    and old: "stored cd m (MountId (Info r)) = Some q" and path: "rec_path q = rec_path r"
  shows "store_inv cd (m(mountKey (MountId (Info r)) \<mapsto> data))" (is "store_inv cd ?m")
proof (rule store_invI)
  have st: "stored cd ?m = (stored cd m)(MountId (Info r) \<mapsto> r)" by (simp add: stored_upd dec)
  show "\<exists>s. stored cd ?m i = Some s \<and> MountId (Info s) = i \<and> ?m (mountPathKey (rec_path s)) = Some i"
    if "?m (mountKey i) \<noteq> None" for i
  proof (cases "i = MountId (Info r)")
    case True
    with store_inv_rec [OF inv old] path show ?thesis unfolding st by simp
  next
    case False
    with that have "m (mountKey i) \<noteq> None" by simp
    with inv obtain s where "stored cd m i = Some s" "MountId (Info s) = i"
      "m (mountPathKey (rec_path s)) = Some i" by (rule store_inv_key)
    with False show ?thesis unfolding st by simp
  qed
  show "\<exists>s. stored cd ?m i = Some s \<and> rec_path s = p" if "?m (mountPathKey p) = Some i" for p i
  proof -
    from that have "m (mountPathKey p) = Some i" by simp
    with inv obtain s where "stored cd m i = Some s" "rec_path s = p" by (rule store_inv_index)
    with old path show ?thesis unfolding st by (cases "i = MountId (Info r)") auto
  qed
qed

lemma store_inv_delete:
  assumes inv: "store_inv cd m" and old: "stored cd m i = Some r"
  shows "store_inv cd (m(mountKey i := None, mountPathKey (rec_path r) := None))" (is "store_inv cd ?m")
proof (rule store_invI)
  have st: "stored cd ?m = (stored cd m)(i := None)" by (simp add: stored_upd)
  have idx: "m (mountPathKey (rec_path r)) = Some i" using store_inv_rec [OF inv old] by simp
  show "\<exists>s. stored cd ?m j = Some s \<and> MountId (Info s) = j \<and> ?m (mountPathKey (rec_path s)) = Some j"
    if "?m (mountKey j) \<noteq> None" for j
  proof -
    from that have j: "j \<noteq> i" "m (mountKey j) \<noteq> None" by (auto split: if_splits)
    with inv obtain s where s: "stored cd m j = Some s" "MountId (Info s) = j"
      "m (mountPathKey (rec_path s)) = Some j" by (rule_tac store_inv_key) auto
    with j idx have "rec_path s \<noteq> rec_path r" by auto
    with s j show ?thesis unfolding st by simp
  qed
  show "\<exists>s. stored cd ?m j = Some s \<and> rec_path s = p" if "?m (mountPathKey p) = Some j" for p j
  proof -
    from that have p: "p \<noteq> rec_path r" "m (mountPathKey p) = Some j" by (auto split: if_splits)
    from inv p(2) obtain s where s: "stored cd m j = Some s" "rec_path s = p" by (rule store_inv_index)
    with p old have "j \<noteq> i" by auto
    with s show ?thesis unfolding st by auto
  qed
qed

section \<open>The repository operations keep the contract\<close>

lemma validateRecordForWrite_path:
  "validateRecordForWrite (Some r) = Inr p \<Longrightarrow> p = rec_path r"
  by (auto simp: validateRecordForWrite_def Let_def split: if_splits)

lemma decode_items_ok:
  "decode_items cd items = Inr rs \<Longrightarrow>
     list_all2 (\<lambda>x r. \<exists>d. snd x = Inr d \<and> decodeRecord cd d = Inr r) items rs"
proof (induction items arbitrary: rs)
  case (Cons a items)
  obtain k it where a: "a = (k, it)" by force
  from Cons.prems show ?case unfolding a
    by (auto split: sum.splits intro: Cons.IH)
qed simp

lemma list_all2_distinct_map:
  assumes "list_all2 P xs ys" and "distinct (map f xs)" and "\<And>x y. x \<in> set xs \<Longrightarrow> P x y \<Longrightarrow> f x = h (g y)"
  shows "distinct (map g ys)"
proof -
  have "map f xs = map h (map g ys)"
    using assms(1,3) by (induction rule: list_all2_induct) auto
  then show ?thesis using assms(2) by (metis distinct_map)
qed

locale store_laws = badger_laws bd content view + codec_laws cd
  for bd :: "('db, 'txn) badger" and content view and cd
begin

abbreviation store_recs :: "'db \<Rightarrow> string \<Rightarrow> MountRecord option" where
  "store_recs d \<equiv> stored cd (content d)"

abbreviation store_ok :: "'db \<Rightarrow> bool" where
  "store_ok d \<equiv> store_inv cd (content d)"

lemma Create_ok:
  assumes "Create bd cd c (Some r) d = (None, d')"
  obtains data where "decodeRecord cd data = Inr r"
    "content d (mountKey (MountId (Info r))) = None" "content d (mountPathKey (rec_path r)) = None"
    "content d' = (content d)(mountKey (MountId (Info r)) \<mapsto> data, mountPathKey (rec_path r) \<mapsto> MountId (Info r))"
proof -
  from assms obtain data where enc: "encodeRecord cd r = Inr data"
    and u: "updateWithConflictRetry bd (create_txn bd (MountId (Info r)) data (rec_path r)) d = (None, d')"
    by (auto simp: Create_def dest: validateRecordForWrite_path split: option.splits sum.splits)
  from updateWithConflictRetry_atomic [OF u] obtain d0 t where
    t: "content d0 = content d" "create_txn bd (MountId (Info r)) data (rec_path r) (NewTransaction bd d0) = Inr t"
    "content d' = view t" by auto
  show thesis
    using that [OF decode_encode [OF enc]] create_txn_effect [OF t(2)] t by (simp add: view_new)
qed

lemma Create_err: "Create bd cd c (Some r) d = (Some e, d') \<Longrightarrow> content d' = content d"
  by (auto simp: Create_def split: option.splits sum.splits dest: updateWithConflictRetry_atomic)

lemma Update_ok:
  assumes "Update bd cd c (Some r) d = (None, d')"
  obtains data where "decodeRecord cd data = Inr r" "content d (mountKey (MountId (Info r))) \<noteq> None"
    "content d' = (content d)(mountKey (MountId (Info r)) \<mapsto> data)"
proof -
  from assms obtain data where enc: "encodeRecord cd r = Inr data"
    and u: "updateWithConflictRetry bd (update_txn bd (MountId (Info r)) data) d = (None, d')"
    by (auto simp: Update_def split: option.splits sum.splits)
  from updateWithConflictRetry_atomic [OF u] obtain d0 t where
    t: "content d0 = content d" "update_txn bd (MountId (Info r)) data (NewTransaction bd d0) = Inr t"
    "content d' = view t" by auto
  show thesis
    using that [OF decode_encode [OF enc]] update_txn_effect [OF t(2)] t by (simp add: view_new)
qed

lemma Update_err: "Update bd cd c (Some r) d = (Some e, d') \<Longrightarrow> content d' = content d"
  by (auto simp: Update_def split: option.splits sum.splits dest: updateWithConflictRetry_atomic)

lemma Delete_ok:
  assumes "Delete bd cd c i d = (None, d')"
  shows "(content d (mountKey i) = None \<and> content d' = content d) \<or>
     (\<exists>r. stored cd (content d) i = Some r \<and>
        content d' = (content d)(mountKey i := None, mountPathKey (rec_path r) := None))"
proof -
  from assms have u: "updateWithConflictRetry bd (delete_txn bd cd i) d = (None, d')"
    by (auto simp: Delete_def split: option.splits if_splits)
  from updateWithConflictRetry_atomic [OF u] obtain d0 t where
    t: "content d0 = content d" "delete_txn bd cd i (NewTransaction bd d0) = Inr t" "content d' = view t"
    by auto
  from delete_txn_effect [OF t(2)] t(1,3) show ?thesis
    by (auto simp: view_new stored_def)
qed

lemma Delete_err: "Delete bd cd c i d = (Some e, d') \<Longrightarrow> content d' = content d"
  by (auto simp: Delete_def split: option.splits if_splits dest: updateWithConflictRetry_atomic)

lemma ListRecords_ok:
  assumes inv: "store_ok d" and list: "ListRecords bd cd c d = Inr rs"
  shows "distinct (map (\<lambda>r. MountId (Info r)) rs) \<and> set rs = ran (store_recs d)"
proof -
  let ?it = "txn_Iterate bd (NewTransaction bd d) mountKeyPrefix"
  let ?P = "\<lambda>x r. \<exists>data. snd x = Inr data \<and> decodeRecord cd data = Inr r"
  have all: "list_all2 ?P ?it rs"
    using list by (intro decode_items_ok) (auto simp: ListRecords_def split: option.splits)
  have keys: "fst ` set ?it = {k. prefix mountKeyPrefix k \<and> content d k \<noteq> None}"
    using iterate_keys [of "NewTransaction bd d" mountKeyPrefix] by (simp add: view_new)
  have rec: "fst x = mountKey (MountId (Info r)) \<and> store_recs d (MountId (Info r)) = Some r"
    if x: "x \<in> set ?it" and P: "?P x r" for x r
  proof -
    from P obtain data where data: "snd x = Inr data" "decodeRecord cd data = Inr r" by blast
    from x keys obtain i where i: "fst x = mountKey i" by (auto simp: prefix_mountKey)
    have "content d (mountKey i) = Some data"
      using iterate_value [of "fst x" data "NewTransaction bd d" mountKeyPrefix] x data i
      by (metis prod.collapse view_new)
    with data have "store_recs d i = Some r" by (simp add: stored_def)
    with store_inv_rec [OF inv this] i show ?thesis by auto
  qed
  have "distinct (map (\<lambda>r. MountId (Info r)) rs)"
    by (rule list_all2_distinct_map [OF all iterate_distinct, where h = mountKey]) (use rec in blast)
  moreover have "set rs \<subseteq> ran (store_recs d)"
  proof
    fix r assume "r \<in> set rs"
    with all obtain x where "x \<in> set ?it" "?P x r" by (rule list_all2_set2)
    from rec [OF this] show "r \<in> ran (store_recs d)" by (blast intro: ranI)
  qed
  moreover have "ran (store_recs d) \<subseteq> set rs"
  proof
    fix r assume "r \<in> ran (store_recs d)"
    then obtain i where i: "store_recs d i = Some r" by (auto simp: ran_def)
    then have "mountKey i \<in> fst ` set ?it"
      unfolding keys by (auto simp: prefix_mountKey stored_def split: option.splits)
    then obtain x where x: "x \<in> set ?it" "fst x = mountKey i" by auto
    from all x(1) obtain r' where r': "r' \<in> set rs" "?P x r'" by (rule list_all2_set1)
    from rec [OF x(1) r'(2)] x(2) i have "r' = r" by simp
    with r' show "r \<in> set rs" by simp
  qed
  ultimately show ?thesis by blast
qed

lemma store_inv_paths:
  "store_ok d \<Longrightarrow> store_recs d i = Some r \<Longrightarrow> store_recs d j = Some q \<Longrightarrow> rec_path r = rec_path q \<Longrightarrow> i = j"
  by (metis option.inject store_inv_rec)

end

section \<open>The repository implements its contract\<close>

sublocale store_laws \<subseteq> repository "NewMountRepository bd cd" store_recs store_ok
proof unfold_locales
  fix c r d d' e oe i rs
  show "store_recs d (MountId (Info r)) = None \<and> store_recs d' = (store_recs d)(MountId (Info r) \<mapsto> r)"
    if "repo_Create (NewMountRepository bd cd) c (Some r) d = (None, d')"
    using that by (auto simp: NewMountRepository_def stored_upd stored_def elim!: Create_ok)
  show "store_recs d' = store_recs d"
    if "repo_Create (NewMountRepository bd cd) c (Some r) d = (Some e, d')"
    using that by (simp add: NewMountRepository_def Create_err)
  show "store_ok d'" if "store_ok d" "repo_Create (NewMountRepository bd cd) c (Some r) d = (oe, d')"
    using that by (cases oe)
      (auto simp: NewMountRepository_def Create_err elim!: Create_ok intro: store_inv_create)
  show "store_recs d' = (store_recs d)(MountId (Info r) \<mapsto> r)"
    if "repo_Update (NewMountRepository bd cd) c (Some r) d = (None, d')"
    using that by (auto simp: NewMountRepository_def stored_upd elim!: Update_ok)
  show "store_recs d (MountId (Info r)) \<noteq> None"
    if "store_ok d" "repo_Update (NewMountRepository bd cd) c (Some r) d = (None, d')"
    using that by (auto simp: NewMountRepository_def elim!: Update_ok elim: store_inv_key)
  show "store_recs d' = store_recs d"
    if "repo_Update (NewMountRepository bd cd) c (Some r) d = (Some e, d')"
    using that by (simp add: NewMountRepository_def Update_err)
  show "store_recs d' = (store_recs d)(i := None)"
    if "repo_Delete (NewMountRepository bd cd) c i d = (None, d')"
    using that Delete_ok [of c i d d']
    by (auto simp: NewMountRepository_def stored_upd) (auto simp: stored_def)
  show "store_recs d' = store_recs d"
    if "repo_Delete (NewMountRepository bd cd) c i d = (Some e, d')"
    using that by (simp add: NewMountRepository_def Delete_err)
  show "store_ok d'" if "store_ok d" "repo_Delete (NewMountRepository bd cd) c i d = (oe, d')"
    using that Delete_ok [of c i d d']
    by (cases oe) (auto simp: NewMountRepository_def Delete_err intro: store_inv_delete)
  show "distinct (map (\<lambda>r. MountId (Info r)) rs) \<and> set rs = ran (store_recs d)"
    if "store_ok d" "repo_List (NewMountRepository bd cd) c d = Inr rs"
    using that by (intro ListRecords_ok) (auto simp: NewMountRepository_def)
next
  fix d c r oe d'
  assume inv: "store_ok d" and u: "repo_Update (NewMountRepository bd cd) c (Some r) d = (oe, d')"
    and path: "\<And>q. store_recs d (MountId (Info r)) = Some q \<Longrightarrow> rec_path q = rec_path r"
  show "store_ok d'"
  proof (cases oe)
    case None
    with u obtain data where data: "decodeRecord cd data = Inr r" "content d (mountKey (MountId (Info r))) \<noteq> None"
      "content d' = (content d)(mountKey (MountId (Info r)) \<mapsto> data)"
      by (auto simp: NewMountRepository_def elim!: Update_ok)
    from inv data(2) obtain q where "store_recs d (MountId (Info r)) = Some q" by (rule store_inv_key)
    with store_inv_update [OF inv data(1)] path data(3) show ?thesis by simp
  qed (use u inv in \<open>auto simp: NewMountRepository_def Update_err\<close>)
qed (use store_inv_rec store_inv_paths in blast)+

context store_laws
begin

lemma repository_contract: "repository (NewMountRepository bd cd) store_recs store_ok"
  by unfold_locales

end

section \<open>An in-memory database\<close>

text \<open>
  The laws of the parameters hold of a database that is an association list and of codecs that
  write a message as its position in a table; the concrete runs of the development use them.
\<close>

type_synonym memdb = "(string \<times> string) list"

definition mem_badger :: "(memdb, memdb) badger" where
  "mem_badger =
     \<lparr>NewTransaction = (\<lambda>db. db),
      txn_Get = (\<lambda>t k. case map_of t k of
                   None \<Rightarrow> Inl (errors_sentinel BadgerKeyNotFound ''Key not found'')
                 | Some v \<Rightarrow> Inr (Inr v)),
      txn_Set = (\<lambda>t k v. Inr (AList.update k v t)),
      txn_Delete = (\<lambda>t k. Inr (AList.delete k t)),
      txn_Iterate = (\<lambda>t p. map (\<lambda>(k, v). (k, Inr v)) (filter (\<lambda>kv. prefix p (fst kv)) (AList.clearjunk t))),
      txn_Commit = (\<lambda>db t. (None, t))\<rparr>"

fun table_index :: "'a list \<Rightarrow> 'a \<Rightarrow> nat option" where
  "table_index [] x = None"
| "table_index (y # ys) x = (if x = y then Some 0 else map_option Suc (table_index ys x))"

lemma table_index_nth: "table_index xs x = Some n \<Longrightarrow> n < length xs \<and> xs ! n = x"
  by (induction xs arbitrary: n) (auto split: if_splits)

definition table_codec :: "MountInfo list \<Rightarrow> codec" where
  "table_codec infos =
     \<lparr>protojson_Marshal = (\<lambda>i. case table_index infos i of
                             None \<Rightarrow> Inl (errors_New ''proto: unknown message'')
                           | Some n \<Rightarrow> Inr (replicate n CHR ''i'')),
      protojson_Unmarshal = (\<lambda>d. if length d < length infos then Inr (infos ! length d)
                                else Inl (errors_New ''proto: syntax error'')),
      json_Marshal = (\<lambda>s. Inr (replicate (SchemaVersion s) CHR ''v'' @
                               (if StoredTombstone s then CHR ''t'' else CHR ''f'') # StoredInfo s)),
      json_Unmarshal = (\<lambda>d. let n = length (takeWhile (\<lambda>c. c = CHR ''v'') d)
                            in case drop n d of
                                 [] \<Rightarrow> Inl (errors_New ''unexpected end of JSON input'')
                               | c # cs \<Rightarrow> Inr \<lparr>SchemaVersion = n, StoredTombstone = (c = CHR ''t''),
                                                StoredInfo = cs\<rparr>)\<rparr>"

lemma clearjunk_keys: "set (map fst (AList.clearjunk t)) = {k. map_of t k \<noteq> None}"
  by (auto simp: dom_clearjunk map_of_eq_None_iff)

interpretation mem: store_laws mem_badger map_of map_of "table_codec infos" for infos
proof unfold_locales
  fix t :: memdb and p :: string and k v
  have iter: "map fst (txn_Iterate mem_badger t p) = filter (prefix p) (map fst (AList.clearjunk t))"
    by (simp add: mem_badger_def filter_map comp_def split_beta)
  show "distinct (map fst (txn_Iterate mem_badger t p))"
    by (simp add: iter distinct_clearjunk)
  show "set (map fst (txn_Iterate mem_badger t p)) = {k. prefix p k \<and> map_of t k \<noteq> None}"
    unfolding iter set_filter by (auto simp: clearjunk_keys simp del: set_map)
  show "map_of t k = Some v" if "(k, Inr v) \<in> set (txn_Iterate mem_badger t p)"
    using that map_of_is_SomeI [OF distinct_clearjunk, of k v t]
    by (auto simp: mem_badger_def map_of_clearjunk)
qed (auto simp: mem_badger_def table_codec_def Let_def takeWhile_append dest: table_index_nth
    split: option.splits)

end
