(* ===== verification/Scenarios.thy ===== *)
theory Scenarios
  imports Supervisor StoreLaws
begin

text \<open>
  Concrete runs, used to show that the hypotheses of the theorems can hold: a daemon with the
  default configuration on an empty store, in an environment where every operation succeeds, and a
  client that asks for an NFS mount. The codec is a table of the records these runs store.
\<close>

section \<open>A fresh daemon\<close>

definition exec_env :: env where
  "exec_env = quiet_env\<lparr>stat := (\<lambda>_. Inr \<lparr>fi_IsDir = False, fi_Exec = True\<rparr>)\<rparr>"

definition sample_nfs_mount :: MountConfig where
  "sample_nfs_mount = \<lparr>MountPath = ''/mnt/irods/n'', ReadOnly = False, MountOptions = [],
     ClientConfig = Some (MountConfig_Nfs \<lparr>NfsHost = ''h'', NfsPort = 0, NfsPath = ''/x''\<rparr>)\<rparr>"

definition sample_request :: MountRequest where
  "sample_request = \<lparr>ReqMountId = Some ''m1'', ReqConfig = Some sample_nfs_mount\<rparr>"

definition sample_infos :: "MountInfo list" where
  "sample_infos =
     (let i = mount_info0 quiet_env NewDefaultConfig sample_nfs_mount ''m1''
      in [i, i\<lparr>State := MOUNT_STATE_MOUNTING\<rparr>, i\<lparr>State := MOUNT_STATE_UNMOUNTING\<rparr>])"

definition sample_repo :: "memdb repo" where
  "sample_repo = NewMountRepository mem_badger (table_codec sample_infos)"

definition sample_start :: "memdb manager" where
  "sample_start =
     (case newMountManager exec_env (Some NewDefaultConfig) (Some []) of Inr st \<Rightarrow> st | Inl _ \<Rightarrow> undefined)"

lemma sample_start_new: "newMountManager exec_env (Some NewDefaultConfig) (Some []) = Inr sample_start"
  by (simp add: newMountManager_def sample_start_def exec_env_def quiet_env_def
      resolveIRODSFSExecutablePath_def resolveExecutablePath_def isExecutableFile_def first_error_def
      validateExecutable_def NewDefaultConfig_def IRODSFSExecutablePathDefault_def
      MountExecutablePathDefault_def UnmountExecutablePathDefault_def)

text \<open>A repository whose database has no space left.\<close>

definition failing_repo :: "memdb repo" where
  "failing_repo =
     sample_repo\<lparr>repo_Create := \<lambda>ctx r d. (Some (errors_New ''disk full''), d),
                 repo_Update := \<lambda>ctx r d. (Some (errors_New ''disk full''), d)\<rparr>"

section \<open>After one accepted mount request\<close>

definition sample_mounted :: "memdb manager" where
  "sample_mounted = snd (Mount sample_repo quiet_env (Some sample_request) sample_start)"

text \<open>What the theorems read of a state; a run is evaluated once for all of it.\<close>

definition run_view ::
    "memdb manager \<Rightarrow> (string \<times> nat) list \<times> task list \<times> bool list \<times> MountInfo list \<times> bool list \<times> bool" where
  "run_view st =
     (gMounts st, gTasks st, gChans st, map mInfo (gHeap st), map mUnmounting (gHeap st),
      map_of (gRepository st) (mountKey ''m1'') \<noteq> None)"

definition sample_info0 :: MountInfo where
  "sample_info0 = mount_info0 quiet_env NewDefaultConfig sample_nfs_mount ''m1''"

lemma sample_mounted_view:
  "run_view sample_mounted =
     ([(''m1'', 0)], [WaitForProcess 0 1 0, WaitForMount 0 1 (Some 0)], [False],
      [sample_info0\<lparr>State := MOUNT_STATE_MOUNTING\<rparr>], [False], True)"
  by code_simp

lemma sample_mounted_state:
  "gMounts sample_mounted = [(''m1'', 0)]"
  "gTasks sample_mounted = [WaitForProcess 0 1 0, WaitForMount 0 1 (Some 0)]"
  "gChans sample_mounted = [False]"
  "map mInfo (gHeap sample_mounted) = [sample_info0\<lparr>State := MOUNT_STATE_MOUNTING\<rparr>]"
  "map_of (gRepository sample_mounted) (mountKey ''m1'') \<noteq> None"
  using sample_mounted_view by (auto simp: run_view_def)

lemma sample_mounted_entry:
  "length (gHeap sample_mounted) = 1"
  "mInfo (entry sample_mounted 0) = sample_info0\<lparr>State := MOUNT_STATE_MOUNTING\<rparr>"
  using sample_mounted_state(4) by (auto simp: entry_def map_eq_Cons_conv)

lemma sample_mounted_live: "\<not> mUnmounting (entry sample_mounted 0)"
  using sample_mounted_view by (auto simp: run_view_def entry_def map_eq_Cons_conv)

section \<open>Unmounting it\<close>

text \<open>In the quiet environment every attempt to unmount succeeds, and the tombstone can be stored.\<close>

lemma quiet_unmount: "snd (fst (performUnmountAttempt rp quiet_env ctx a gen st)) = None"
proof -
  have "fst (unmountByClientType quiet_env mc client p) = None" for mc client p
    by (simp add: unmount_done_iff quiet_env_def)
  then have u: "\<exists>effs. unmountByClientType quiet_env mc client p = (None, effs)" for mc client p
    by (metis prod.collapse)
  have f: "snd (fst (finish_unmount rp quiet_env ctx a gen s)) = None" for s
    by (simp add: finish_unmount_def quiet_env_def Let_def)
  obtain effs where "unmountByClientType quiet_env (gConfig st) (mClient (entry st a)) (mountPath st a) = (None, effs)"
    using u by blast
  moreover have "probe quiet_env = Inr True" "exitWait quiet_env = Exited" by (simp_all add: quiet_env_def)
  ultimately show ?thesis using f by (simp add: performUnmountAttempt_def Let_def)
qed

lemma sample_tombstone:
  assumes "map_of d (mountKey ''m1'') \<noteq> None"
  shows "fst (repo_Update sample_repo None (Some \<lparr>Info = sample_info0\<lparr>State := MOUNT_STATE_UNMOUNTING\<rparr>, Tombstone = True\<rparr>) d) = None"
proof -
  let ?r = "\<lparr>Info = sample_info0\<lparr>State := MOUNT_STATE_UNMOUNTING\<rparr>, Tombstone = True\<rparr>"
  have v: "\<not> isl (validateRecordForWrite (Some ?r))" by code_simp
  have e: "\<not> isl (encodeRecord (table_codec sample_infos) ?r)" by code_simp
  have i: "MountId (Info ?r) = ''m1''" by code_simp
  obtain p data where pd: "validateRecordForWrite (Some ?r) = Inr p" "encodeRecord (table_codec sample_infos) ?r = Inr data"
    using v e by (metis isl_def sum.collapse(2) sum.exhaust)
  obtain v where "map_of d (mountKey ''m1'') = Some v" using assms by blast
  then have "db_Update mem_badger (update_txn mem_badger ''m1'' data) d = (None, AList.update (mountKey ''m1'') data d)"
    by (simp add: db_Update_def update_txn_def mem_badger_def)
  then show ?thesis
    using pd i by (simp add: sample_repo_def NewMountRepository_def Update_def updateWithConflictRetry_def
        maxConflictRetries_def numeral_eq_Suc errors_Is_def)
qed

end
