(* ===== verification/Lifecycle.thy ===== *)
theory Lifecycle
  imports Requests Scenarios
begin

text \<open>
  The manager as a state machine. \<open>step\<close> has one rule per event: a client request, a goroutine or a
  fired timer taking its next step, a pass of the periodic reconciler, the shutdown of the daemon.
  \<open>reach\<close> starts with a new manager, after the startup reconciliation if restoration is enabled.
  The invariant \<open>mgr_inv\<close> holds in every reachable state.
\<close>

section \<open>Steps\<close>

definition drop_task :: "task \<Rightarrow> 'r manager \<Rightarrow> 'r manager" where
  "drop_task t st = st\<lparr>gTasks := remove1 t (gTasks st)\<rparr>"

fun fired :: "timer_action \<Rightarrow> task" where
  "fired (FireRetryMount a gen) = RunRetryMount a gen"
| "fired (FireRetryUnmount a gen) = RunRetryUnmount a gen"

definition fire :: "nat \<Rightarrow> timer_action \<Rightarrow> 'r manager \<Rightarrow> 'r manager" where
  "fire k act st = spawn [fired act] (st\<lparr>gTimers := AList.delete k (gTimers st)\<rparr>)"

inductive step :: "'r repo \<Rightarrow> 'r manager \<Rightarrow> 'r manager \<Rightarrow> bool" for rp :: "'r repo" where
  mount: "step rp st (snd (Mount rp ev req st))"
| unmount: "step rp st (snd (Unmount rp ev ureq st))"
| unmount_wait: "map_of (gMounts st) i = Some a \<Longrightarrow> step rp st (spawn [RunUnmount i a] st)"
| unmount_run: "RunUnmount i a \<in> set (gTasks st) \<Longrightarrow>
    step rp st (snd (Unmount_locked rp ev i a (drop_task (RunUnmount i a) st)))"
| timer: "map_of (gTimers st) k = Some act \<Longrightarrow> step rp st (fire k act st)"
| retry_mount: "RunRetryMount a gen \<in> set (gTasks st) \<Longrightarrow>
    step rp st (retryMount rp ev a gen (drop_task (RunRetryMount a gen) st))"
| retry_unmount: "RunRetryUnmount a gen \<in> set (gTasks st) \<Longrightarrow>
    step rp st (retryUnmount rp ev a gen (drop_task (RunRetryUnmount a gen) st))"
| process_exit: "WaitForProcess a gen c \<in> set (gTasks st) \<Longrightarrow>
    step rp st (process_exited a gen c err (drop_task (WaitForProcess a gen c) st))"
| crash: "HandleCrash a gen client path err \<in> set (gTasks st) \<Longrightarrow>
    step rp st (handle_crash rp ev a gen client path err (drop_task (HandleCrash a gen client path err) st))"
| mount_tick: "WaitForMount a gen co \<in> set (gTasks st) \<Longrightarrow> check_mounted rp ev a gen st = (found, st') \<Longrightarrow>
    step rp st (if found then drop_task (WaitForMount a gen co) st' else st')"
| mount_exit: "WaitForMount a gen (Some c) \<in> set (gTasks st) \<Longrightarrow> gChans st ! c \<Longrightarrow>
    step rp st (let st' = drop_task (WaitForMount a gen (Some c)) st
                in if mount_wait_stopped a gen st then st' else spawn [WaitForMount a gen None] st')"
| mount_timeout: "WaitForMount a gen co \<in> set (gTasks st) \<Longrightarrow>
    step rp st (handleMountTimeout rp ev a gen (drop_task (WaitForMount a gen co) st))"
| reconcile: "step rp st (snd (ReconcileTombstones rp ctx evs st))"
| shutdown: "step rp st (Shutdown rp aevs st)"
| subscribe: "SubscribeMountEvents wreq (snapshotMounts st) (gBus st) = Some (i, b) \<Longrightarrow>
    step rp st (st\<lparr>gBus := b\<rparr>)"
| cancel: "step rp st (st\<lparr>gBus := cancelSubscription k (gBus st)\<rparr>)"
| receive: "receiveEvent k (gBus st) = (e, b) \<Longrightarrow> step rp st (st\<lparr>gBus := b\<rparr>)"
| metrics: "step rp st (st\<lparr>gMetrics := Some m\<rparr>)"

text \<open>
  \<open>reach rp ok n st\<close>: after startup on a repository with \<open>ok\<close>, \<open>n\<close> steps lead to \<open>st\<close>.
\<close>

inductive reach :: "'r repo \<Rightarrow> ('r \<Rightarrow> bool) \<Rightarrow> nat \<Rightarrow> 'r manager \<Rightarrow> bool"
  for rp :: "'r repo" and ok :: "'r \<Rightarrow> bool" where
  fresh: "ok r \<Longrightarrow> newMountManager ev (Some cfg) (Some r) = Inr st \<Longrightarrow> reach rp ok 0 st"
| restored: "ok r \<Longrightarrow> newMountManager ev (Some cfg) (Some r) = Inr st0 \<Longrightarrow>
    reach rp ok 0 (snd (Reconcile rp ctx evs st0))"
| stepped: "reach rp ok n st \<Longrightarrow> step rp st st' \<Longrightarrow> reach rp ok (Suc n) st'"

section \<open>The registry\<close>

definition reg_ok :: "'r manager \<Rightarrow> bool" where
  "reg_ok st \<longleftrightarrow>
     wf_alist (gMounts st) \<and>
     (\<forall>i a. (i, a) \<in> set (gMounts st) \<longrightarrow> a < length (gHeap st) \<and> mountID st a = i) \<and>
     (\<forall>i a j b. (i, a) \<in> set (gMounts st) \<longrightarrow> (j, b) \<in> set (gMounts st) \<longrightarrow>
        Clean (mountPath st a) = Clean (mountPath st b) \<longrightarrow> i = j)"

lemma reg_view_ident:
  assumes "reg_view st' = reg_view st"
  shows "gMounts st' = gMounts st" and "length (gHeap st') = length (gHeap st)"
    and "a < length (gHeap st) \<Longrightarrow> mountID st' a = mountID st a \<and> mountPath st' a = mountPath st a"
proof -
  have eq: "gMounts st' = gMounts st" "map ident (gHeap st') = map ident (gHeap st)"
    using assms by (simp_all add: reg_view_def)
  from eq(1) show "gMounts st' = gMounts st" .
  from eq(2) show len: "length (gHeap st') = length (gHeap st)" by (rule map_eq_imp_length_eq)
  assume "a < length (gHeap st)"
  with eq(2) len have "ident (gHeap st' ! a) = ident (gHeap st ! a)" by (metis nth_map)
  then show "mountID st' a = mountID st a \<and> mountPath st' a = mountPath st a"
    by (simp add: ident_def mountID_def mountPath_def entry_def)
qed

lemma reg_ok_cong: "reg_view st' = reg_view st \<Longrightarrow> reg_ok st \<Longrightarrow> reg_ok st'"
  using reg_view_ident [of st' st] unfolding reg_ok_def by metis

lemma reg_ok_lookup:
  "reg_ok st \<Longrightarrow> map_of (gMounts st) i = Some a \<Longrightarrow> a < length (gHeap st) \<and> mountID st a = i"
  by (auto simp: reg_ok_def dest: map_of_in_set)

lemma set_alist_update_fresh:
  "map_of xs k = None \<Longrightarrow> set (AList.update k v xs) = insert (k, v) (set xs)"
  by (induction xs) auto

lemma register_ident:
  "b < length (gHeap st) \<Longrightarrow> mountID (snd (register info st)) b = mountID st b"
  "b < length (gHeap st) \<Longrightarrow> mountPath (snd (register info st)) b = mountPath st b"
  "mountID (snd (register info st)) (length (gHeap st)) = MountId info"
  "mountPath (snd (register info st)) (length (gHeap st)) = GetMountPath (InfoConfig info)"
  by (simp_all add: register_simps mountID_def mountPath_def entry_def nth_append new_entry_def)

lemma reg_ok_register:
  assumes "reg_ok st" and "map_of (gMounts st) (MountId info) = None"
    and free: "\<And>j b. (j, b) \<in> set (gMounts st) \<Longrightarrow> Clean (mountPath st b) \<noteq> Clean (GetMountPath (InfoConfig info))"
  shows "reg_ok (snd (register info st))"
proof -
  let ?st = "snd (register info st)" and ?n = "length (gHeap st)"
  have ms: "set (gMounts ?st) = insert (MountId info, ?n) (set (gMounts st))"
    using assms(2) by (simp add: register_simps set_alist_update_fresh)
  have old: "b < ?n \<and> mountID st b = j" if "(j, b) \<in> set (gMounts st)" for j b
    using assms(1) that by (auto simp: reg_ok_def)
  have "wf_alist (gMounts ?st)" using assms(1) by (simp add: register_simps reg_ok_def)
  moreover have "length (gHeap ?st) = Suc ?n" by (simp add: register_simps)
  moreover have "i = j"
    if "(i, a) \<in> set (gMounts st)" "(j, b) \<in> set (gMounts st)" "Clean (mountPath st a) = Clean (mountPath st b)" for i a j b
    using assms(1) that by (auto simp: reg_ok_def)
  ultimately show ?thesis
    unfolding reg_ok_def ms using old free register_ident [where st = st and info = info]
    by (auto simp: less_Suc_eq) metis+
qed

lemma reg_ok_delete:
  assumes "reg_ok st"
  shows "reg_ok (st\<lparr>gMounts := AList.delete i (gMounts st)\<rparr>)"
proof -
  have "set (AList.delete i (gMounts st)) \<subseteq> set (gMounts st)" by (auto simp: AList.delete_eq)
  with assms show ?thesis
    unfolding reg_ok_def mountID_def mountPath_def by simp blast
qed

section \<open>References\<close>

fun task_addr :: "task \<Rightarrow> nat" where
  "task_addr (WaitForProcess a _ _) = a"
| "task_addr (HandleCrash a _ _ _ _) = a"
| "task_addr (WaitForMount a _ _) = a"
| "task_addr (RunRetryMount a _) = a"
| "task_addr (RunRetryUnmount a _) = a"
| "task_addr (RunUnmount _ a) = a"

fun timer_addr :: "timer_action \<Rightarrow> nat" where
  "timer_addr (FireRetryMount a _) = a"
| "timer_addr (FireRetryUnmount a _) = a"

definition addrs :: "'r manager \<Rightarrow> nat set" where
  "addrs st = task_addr ` set (gTasks st) \<union> (timer_addr \<circ> snd) ` set (gTimers st)"

definition refs_ok :: "'r manager \<Rightarrow> bool" where
  "refs_ok st \<longleftrightarrow> addrs st \<subseteq> {..<length (gHeap st)}"

lemma addrs_cong: "gTasks st' = gTasks st \<Longrightarrow> gTimers st' = gTimers st \<Longrightarrow> addrs st' = addrs st"
  by (simp add: addrs_def)

lemma addrs_prims [simp]:
  "addrs (upd_entry a f st) = addrs st"
  "addrs (upd_info a g st) = addrs st"
  "addrs (emit es st) = addrs st"
  "addrs (close_chan c st) = addrs st"
  "addrs (publish t m st) = addrs st"
  "addrs (recordChildCrash st) = addrs st"
  "addrs (recordReconcileError st) = addrs st"
  "addrs (recordMountOperation ev op err st) = addrs st"
  "addrs (snd (repo_update rp ctx r st)) = addrs st"
  "addrs (snd (repo_create rp ctx r st)) = addrs st"
  "addrs (snd (repo_delete rp ctx i st)) = addrs st"
  "addrs (snd (persistRecord rp ctx a st)) = addrs st"
  "addrs (persistBestEffort rp a st) = addrs st"
  "addrs (prepared a es l st) = addrs st"
  "addrs (spawn ts st) = task_addr ` set ts \<union> addrs st"
  "addrs (afterFunc a act st) = insert (timer_addr act) (addrs st)"
  "addrs (st\<lparr>gMounts := x2\<rparr>) = addrs st"
  "addrs (st\<lparr>gBus := x10\<rparr>) = addrs st"
  "addrs (st\<lparr>gNextProc := x6\<rparr>) = addrs st"
  "addrs (st\<lparr>gBlocked := x8\<rparr>) = addrs st"
  by (auto simp: addrs_def spawn_def afterFunc_def upd_entry_def)

lemma addrs_drop: "addrs (drop_task t st) \<subseteq> addrs st"
  using set_remove1_subset [of t "gTasks st"] by (auto simp: addrs_def drop_task_def)

lemma addrs_cancel: "addrs (cancelRetryTimer a st) \<subseteq> addrs st"
  by (auto simp: addrs_def cancelRetryTimer_def upd_entry_def AList.delete_eq split: option.splits)

lemma addrs_process_exited: "addrs (process_exited a g c err st) \<subseteq> insert a (addrs st)"
  by (auto simp: process_exited_def Let_def)

lemma addrs_failures:
  "addrs (recordMountFailure rp ev a gen code msg ds st) \<subseteq> insert a (addrs st)"
  "addrs (recordTerminalMountFailure rp ev a gen code msg st) \<subseteq> insert a (addrs st)"
  "addrs (recordUnmountFailure rp ev a gen code msg st) \<subseteq> insert a (addrs st)"
  by (auto simp: recordMountFailure_def recordTerminalMountFailure_def recordUnmountFailure_def Let_def)

lemma addrs_startMount: "addrs (snd (startMount rp ev a gen d st)) \<subseteq> insert a (addrs st)"
  using addrs_failures(1)
  by (cases rule: startMount_cases [of rp ev a gen d st])
    (auto simp: finishMountStartFailure_def failMountBeforeStart_def start_process_def Let_def; fastforce)+

section \<open>The invariant\<close>

definition mgr_inv :: "nat option \<Rightarrow> 'r manager \<Rightarrow> bool" where
  "mgr_inv busy st \<longleftrightarrow> reg_ok st \<and> chan_inv busy st \<and> refs_ok st \<and> bus_ok (gBus st)"

lemma mgr_invI:
  assumes "reg_ok st" and "reg_view st' = reg_view st" and "chan_inv busy st'"
    and "refs_ok st" and "addrs st' \<subseteq> insert a (addrs st)" and "a < length (gHeap st)" and "bus_ok (gBus st')"
  shows "mgr_inv busy st'"
proof -
  have "length (gHeap st') = length (gHeap st)" using assms(2) by (rule reg_view_heap)
  then have "refs_ok st'" using assms(4,5,6) by (auto simp: refs_ok_def)
  with assms show ?thesis by (auto simp: mgr_inv_def intro: reg_ok_cong)
qed

lemma mgr_inv_same:
  assumes "mgr_inv busy st" and "reg_view st' = reg_view st" and "chan_view st' = chan_view st"
    and "addrs st' \<subseteq> addrs st" and "bus_ok (gBus st')"
  shows "mgr_inv busy st'"
proof -
  have "length (gHeap st') = length (gHeap st)" using assms(2) by (rule reg_view_heap)
  then have "refs_ok st'" using assms(1,4) by (auto simp: mgr_inv_def refs_ok_def)
  with assms show ?thesis by (auto simp: mgr_inv_def intro: reg_ok_cong chan_inv_cong)
qed

lemma mgr_inv_eq:
  "reg_view st' = reg_view st \<Longrightarrow> chan_view st' = chan_view st \<Longrightarrow> addrs st' = addrs st \<Longrightarrow> gBus st' = gBus st \<Longrightarrow>
     mgr_inv busy st' = mgr_inv busy st"
  unfolding mgr_inv_def refs_ok_def
  by (metis reg_ok_cong chan_inv_cong reg_view_heap)

lemma secret_free_snapshot [simp]: "secret_free (snapshot st a)"
  by (simp add: snapshot_def)

lemma secret_free_snapshots [simp]: "list_all secret_free (snapshotMounts st)"
  by (simp add: snapshotMounts_def list.pred_map comp_def list_all_iff)

lemma bus_ok_handlers [simp]:
  "bus_ok (gBus st) \<Longrightarrow> secret_free m \<Longrightarrow> bus_ok (gBus (publish t m st))"
  "bus_ok (gBus st) \<Longrightarrow> bus_ok (gBus (recordMountFailure rp ev a gen code msg ds st))"
  "bus_ok (gBus st) \<Longrightarrow> bus_ok (gBus (recordTerminalMountFailure rp ev a gen code msg st))"
  "bus_ok (gBus st) \<Longrightarrow> bus_ok (gBus (recordUnmountFailure rp ev a gen code msg st))"
  "bus_ok (gBus st) \<Longrightarrow> bus_ok (gBus (begin_retry ev a st))"
  by (simp_all add: publish_def bus_ok_publish recordMountFailure_def recordTerminalMountFailure_def
      recordUnmountFailure_def begin_retry_def make_chan_def Let_def)

lemma startMount_bus [simp]:
  "bus_ok (gBus st) \<Longrightarrow> bus_ok (gBus (snd (startMount rp ev a gen d st)))"
  by (cases rule: startMount_cases [of rp ev a gen d st])
    (simp_all add: finishMountStartFailure_def failMountBeforeStart_def start_process_def Let_def)

lemma mgr_inv_startMount:
  assumes "mgr_inv (Some a) st" and "a < length (gHeap st)"
  shows "mgr_inv None (snd (startMount rp ev a gen d st))"
  by (rule mgr_invI [of st _ _ a])
    (use assms addrs_startMount [of rp ev a gen d st] in \<open>auto simp: mgr_inv_def chan_inv_startMount\<close>)

lemma mgr_inv_register:
  assumes "mgr_inv None st" and "map_of (gMounts st) (MountId info) = None"
    and "\<And>j b. (j, b) \<in> set (gMounts st) \<Longrightarrow> Clean (mountPath st b) \<noteq> Clean (GetMountPath (InfoConfig info))"
  shows "mgr_inv (Some (length (gHeap st))) (snd (register info st))"
    and "length (gHeap st) < length (gHeap (snd (register info st)))"
proof -
  have "addrs (snd (register info st)) = addrs st" by (simp add: register_simps addrs_def)
  then show "mgr_inv (Some (length (gHeap st))) (snd (register info st))"
    using assms reg_ok_register [of st info] chan_inv_register [of st info]
    by (auto simp: mgr_inv_def refs_ok_def register_simps)
  show "length (gHeap st) < length (gHeap (snd (register info st)))" by (simp add: register_simps)
qed

lemma repo_create_pair: "repo_create rp ctx r st = (err, st') \<Longrightarrow> st' = snd (repo_create rp ctx r st)" by simp
lemma repo_update_pair: "repo_update rp ctx r st = (err, st') \<Longrightarrow> st' = snd (repo_update rp ctx r st)" by simp
lemma repo_delete_pair: "repo_delete rp ctx r st = (err, st') \<Longrightarrow> st' = snd (repo_delete rp ctx r st)" by simp

lemma mgr_inv_prims [simp]:
  "mgr_inv busy (snd (repo_create rp ctx r st)) = mgr_inv busy st"
  "mgr_inv busy (snd (repo_update rp ctx r st)) = mgr_inv busy st"
  "mgr_inv busy (snd (repo_delete rp ctx i st)) = mgr_inv busy st"
  "mgr_inv busy (snd (persistRecord rp ctx a st)) = mgr_inv busy st"
  "mgr_inv busy (persistBestEffort rp a st) = mgr_inv busy st"
  "mgr_inv busy (recordMountOperation ev op err st) = mgr_inv busy st"
  "mgr_inv busy (recordReconcileError st) = mgr_inv busy st"
  "mgr_inv busy (recordChildCrash st) = mgr_inv busy st"
  "mgr_inv busy (emit es st) = mgr_inv busy st"
  by (rule mgr_inv_eq; simp)+

lemma mgr_inv_upd_info:
  "mgr_inv busy st \<Longrightarrow> (\<And>i. MountId (g i) = MountId i) \<Longrightarrow> (\<And>i. InfoConfig (g i) = InfoConfig i) \<Longrightarrow>
     mgr_inv busy (upd_info a g st)"
  by (rule mgr_inv_same) (auto simp: mgr_inv_def)

lemma mgr_inv_close:
  "mgr_inv (Some a) st \<Longrightarrow> a < length (gHeap st) \<Longrightarrow> mgr_inv None (close_chan (mExitDone (entry st a)) st)"
  by (rule mgr_invI [of st _ _ a]) (auto simp: mgr_inv_def chan_inv_close)

lemma mgr_inv_fail_close:
  assumes "mgr_inv (Some a) st" and "a < length (gHeap st)"
    and "\<And>i. MountId (g i) = MountId i" and "\<And>i. InfoConfig (g i) = InfoConfig i"
  shows "mgr_inv None (close_chan (mExitDone (entry st a)) (upd_info a g st))"
proof -
  have "mgr_inv (Some a) (upd_info a g st)" using assms(1,3,4) by (rule mgr_inv_upd_info)
  from mgr_inv_close [OF this] assms(2) show ?thesis by simp
qed

lemma mgr_inv_Mount:
  assumes "mgr_inv None st"
  shows "mgr_inv None (snd (Mount rp ev req st))"
proof -
  have "mgr_inv None (snd (Mount_run rp ev req st))"
  proof (cases rule: Mount_run_cases [of rp ev req st])
    case (unpersisted config i err st1)
    let ?n = "length (gHeap st)"
    note free = registry_conflict_None [OF unpersisted(2)]
    have "mgr_inv (Some ?n) (snd (register (mount_info0 ev (gConfig st) config i) st))"
      using free by (intro mgr_inv_register(1) [OF assms]) simp_all
    then have inv: "mgr_inv (Some ?n) st1" "?n < length (gHeap st1)"
      unfolding repo_create_pair [OF unpersisted(4)] by (simp_all add: register_simps)
    then show ?thesis
      unfolding unpersisted(5) by (rule mgr_inv_fail_close) simp_all
  next
    case (persisted config i st1)
    let ?n = "length (gHeap st)"
    note free = registry_conflict_None [OF persisted(2)]
    have "mgr_inv (Some ?n) (snd (register (mount_info0 ev (gConfig st) config i) st))"
      using free by (intro mgr_inv_register(1) [OF assms]) simp_all
    then have "mgr_inv (Some ?n) st1" "?n < length (gHeap st1)"
      unfolding repo_create_pair [OF persisted(4)] by (simp_all add: register_simps)
    then show ?thesis unfolding persisted(5) by (rule mgr_inv_startMount)
  qed (use assms in simp)
  then show ?thesis by (simp add: Mount_def Let_def split_beta)
qed

lemma mgr_inv_drop:
  assumes "mgr_inv None st" and "wait_chans [t] = []"
  shows "mgr_inv None (drop_task t st)"
proof -
  have rem: "wait_chans (remove1 t ts) = wait_chans ts" for ts
    using assms(2) by (induction ts) (auto simp: wait_chans_def)
  have "reg_view (drop_task t st) = reg_view st" by (simp add: drop_task_def)
  moreover have "chan_view (drop_task t st) = chan_view st" by (simp add: drop_task_def chan_view_def rem)
  moreover have "gBus (drop_task t st) = gBus st" by (simp add: drop_task_def)
  moreover have "bus_ok (gBus st)" using assms(1) by (simp add: mgr_inv_def)
  ultimately show ?thesis by (intro mgr_inv_same [OF assms(1)] addrs_drop) simp_all
qed

lemma mgr_inv_task_addr: "mgr_inv busy st \<Longrightarrow> t \<in> set (gTasks st) \<Longrightarrow> task_addr t < length (gHeap st)"
  by (auto simp: mgr_inv_def refs_ok_def addrs_def)

lemma mgr_inv_process_exited:
  assumes "mgr_inv None st" and "WaitForProcess a g c \<in> set (gTasks st)"
  shows "mgr_inv None (process_exited a g c err (drop_task (WaitForProcess a g c) st))"
proof (rule mgr_invI [of st _ _ a])
  show "chan_inv None (process_exited a g c err (drop_task (WaitForProcess a g c) st))"
    using assms chan_inv_process_exited(1) [of st a g c err] by (simp add: mgr_inv_def drop_task_def)
  show "addrs (process_exited a g c err (drop_task (WaitForProcess a g c) st)) \<subseteq> insert a (addrs st)"
    using addrs_process_exited addrs_drop by fastforce
  show "a < length (gHeap st)" using mgr_inv_task_addr [OF assms] by simp
qed (use assms in \<open>simp_all add: mgr_inv_def drop_task_def\<close>)

lemma mgr_inv_await:
  assumes "mgr_inv None st" and "a < length (gHeap st)"
  shows "mgr_inv None (await_exit ev (mExitDone (entry st a)) st)"
proof (cases "gChans st ! mExitDone (entry st a)")
  case False
  have "chan_inv None (await_exit ev (mExitDone (entry st a)) st)"
    using assms await_exit_closes(1) by (auto simp: mgr_inv_def)
  then have "\<not> gBlocked (await_exit ev (mExitDone (entry st a)) st)" by (simp add: chan_inv_unfold)
  with False obtain t where t: "find (is_process_wait (mExitDone (entry st a))) (gTasks st) = Some t"
    by (cases "find (is_process_wait (mExitDone (entry st a))) (gTasks st)") (auto simp: await_exit_def)
  from find_process_wait [OF this] obtain b g where
    w: "t = WaitForProcess b g (mExitDone (entry st a))" "t \<in> set (gTasks st)" by blast
  from mgr_inv_process_exited [OF assms(1) w(2) [unfolded w(1)]] False t w(1) show ?thesis
    by (simp add: await_exit_def drop_task_def)
qed (use assms in \<open>simp add: await_exit_def\<close>)

lemma mgr_inv_failures:
  assumes "mgr_inv None st" and "a < length (gHeap st)"
  shows "mgr_inv None (recordMountFailure rp ev a gen code msg ds st)"
    and "mgr_inv None (recordTerminalMountFailure rp ev a gen code msg st)"
    and "mgr_inv None (recordUnmountFailure rp ev a gen code msg st)"
proof -
  have reg: "reg_ok st" and chan: "chan_inv None st" and refs: "refs_ok st" and bus: "bus_ok (gBus st)"
    using assms(1) by (simp_all add: mgr_inv_def)
  note rule = mgr_invI [OF reg _ _ refs _ assms(2)]
  show "mgr_inv None (recordMountFailure rp ev a gen code msg ds st)"
    by (rule rule) (use addrs_failures bus in \<open>simp_all add: chan_inv_cong [OF _ chan]\<close>)
  show "mgr_inv None (recordTerminalMountFailure rp ev a gen code msg st)"
    by (rule rule) (use addrs_failures bus in \<open>simp_all add: chan_inv_cong [OF _ chan]\<close>)
  show "mgr_inv None (recordUnmountFailure rp ev a gen code msg st)"
    by (rule rule) (use addrs_failures bus in \<open>simp_all add: chan_inv_cong [OF _ chan]\<close>)
qed

lemma mgr_inv_unmount_failed:
  "mgr_inv None st \<Longrightarrow> a < length (gHeap st) \<Longrightarrow> mgr_inv None (snd (unmount_failed rp ev a gen code err st))"
  by (simp add: unmount_failed_def Let_def mgr_inv_failures)

lemma mgr_inv_publish [simp]: "mgr_inv busy st \<Longrightarrow> secret_free m \<Longrightarrow> mgr_inv busy (publish t m st)"
  by (rule mgr_inv_same) (auto simp: mgr_inv_def)

lemma mgr_inv_delete_mount:
  "mgr_inv busy st \<Longrightarrow> ms = gMounts st \<Longrightarrow> mgr_inv busy (st\<lparr>gMounts := AList.delete i ms\<rparr>)"
  using reg_ok_delete [of st i] chan_inv_cong [of "st\<lparr>gMounts := AList.delete i (gMounts st)\<rparr>" st]
  by (simp add: mgr_inv_def refs_ok_def)

lemma mgr_inv_upd_entry:
  "mgr_inv busy st \<Longrightarrow> (\<And>e. ident (f e) = ident e) \<Longrightarrow> (\<And>e. mExitDone (f e) = mExitDone e) \<Longrightarrow>
     mgr_inv busy (upd_entry a f st)"
  by (rule mgr_inv_same) (auto simp: mgr_inv_def)

lemma mgr_inv_finish_unmount:
  assumes "mgr_inv None st" and "a < length (gHeap st)"
  shows "mgr_inv None (snd (finish_unmount rp ev ctx a gen st))"
  using assms
  by (auto simp: finish_unmount_def Let_def mgr_inv_unmount_failed
      intro!: mgr_inv_publish mgr_inv_delete_mount mgr_inv_upd_info split: option.split)

lemma mgr_inv_performUnmount:
  assumes "mgr_inv None st" and "a < length (gHeap st)"
  shows "mgr_inv None (snd (performUnmountAttempt rp ev ctx a gen st))"
proof -
  have fin: "mgr_inv None (snd (finish_unmount rp ev ctx a gen (await_exit ev (mExitDone (entry st a)) (emit es st))))" for es
    using mgr_inv_await [of "emit es st" a ev] assms by (intro mgr_inv_finish_unmount) simp_all
  have fail: "mgr_inv None (snd (unmount_failed rp ev a gen code e (emit es st)))" for code e es
    using assms by (simp add: mgr_inv_unmount_failed)
  show ?thesis unfolding performUnmountAttempt_def
    using fail fin mgr_inv_unmount_failed [OF assms]
    by (auto simp: Let_def split: sum.splits prod.splits option.splits exit_wait.splits)
qed

lemma mgr_inv_cancel [simp]: "mgr_inv busy st \<Longrightarrow> mgr_inv busy (cancelRetryTimer a st)"
  by (rule mgr_inv_same [OF _ _ _ addrs_cancel]) (simp_all add: mgr_inv_def)

lemma mgr_inv_begin_unmount: "mgr_inv busy st \<Longrightarrow> mgr_inv busy (begin_unmount ev a st)"
  unfolding begin_unmount_def by (rule mgr_inv_upd_entry) (simp_all add: ident_def)

lemma begin_unmount_length [simp]: "length (gHeap (begin_unmount ev a st)) = length (gHeap st)"
  by (simp add: begin_unmount_def)

lemma mgr_inv_Unmount_locked:
  assumes "mgr_inv None st"
  shows "mgr_inv None (snd (Unmount_locked rp ev i a st))"
proof (cases "map_of (gMounts st) i = Some a")
  case True
  have len: "a < length (gHeap st)" using reg_ok_lookup [OF _ True] assms by (simp add: mgr_inv_def)
  define s1 where "s1 = begin_unmount ev a (cancelRetryTimer a st)"
  have s1: "mgr_inv None s1" "a < length (gHeap s1)"
    using assms len by (simp_all add: s1_def mgr_inv_begin_unmount)
  let ?s2 = "publish MOUNT_EVENT_TYPE_UPDATED (snapshot s1 a) s1"
  obtain oe s3 where u: "repo_update rp (ctxErr ev) \<lparr>Info = mInfo (entry s1 a), Tombstone = True\<rparr> ?s2 = (oe, s3)" by force
  have s3: "mgr_inv None s3" "a < length (gHeap s3)"
    unfolding repo_update_pair [OF u] using s1 by simp_all
  show ?thesis
    using True u s3
    by (auto simp: Unmount_locked_def Let_def mgr_inv_performUnmount ident_def simp flip: s1_def
        intro!: mgr_inv_upd_entry split: option.splits)
qed (use assms in \<open>simp add: Unmount_locked_def\<close>)

lemma mgr_inv_Unmount:
  "mgr_inv None st \<Longrightarrow> mgr_inv None (snd (Unmount rp ev req st))"
  by (auto simp: Unmount_def Let_def split_beta mgr_inv_Unmount_locked split: option.splits)

lemma mgr_inv_retryUnmount:
  assumes "mgr_inv None st" and "a < length (gHeap st)"
  shows "mgr_inv None (retryUnmount rp ev a gen st)"
  using assms
  by (auto simp: retryUnmount_def Let_def ident_def intro!: mgr_inv_performUnmount mgr_inv_publish mgr_inv_upd_entry)

lemma mgr_inv_begin_retry:
  assumes "mgr_inv None st" and "a < length (gHeap st)"
  shows "mgr_inv (Some a) (begin_retry ev a st)" and "a < length (gHeap (begin_retry ev a st))"
proof -
  have "reg_view (begin_retry ev a st) = reg_view st"
    by (simp add: begin_retry_def make_chan_def ident_def entry_def reg_view_def upd_entry_def map_update_same)
  moreover have "addrs (begin_retry ev a st) = addrs st"
    by (simp add: begin_retry_def make_chan_def addrs_def)
  ultimately show "mgr_inv (Some a) (begin_retry ev a st)"
    using assms chan_inv_begin_retry by (intro mgr_invI [of st _ _ a]) (auto simp: mgr_inv_def)
  show "a < length (gHeap (begin_retry ev a st))" using assms(2) by (simp add: begin_retry_def make_chan_def)
qed

lemma mgr_inv_retryMount:
  assumes "mgr_inv None st" and "a < length (gHeap st)"
  shows "mgr_inv None (retryMount rp ev a gen st)"
  using assms mgr_inv_begin_retry [OF assms, of ev]
  by (auto simp: retryMount_def Let_def intro!: mgr_inv_startMount mgr_inv_publish)

lemma mgr_inv_handle_crash:
  assumes "mgr_inv None st" and "a < length (gHeap st)"
  shows "mgr_inv None (handle_crash rp ev a gen client path err st)"
  using assms
  by (auto simp: handle_crash_def Let_def intro!: mgr_inv_failures
      split: sum.splits bool.splits prod.splits option.splits)

lemma mgr_inv_check_mounted:
  assumes "mgr_inv None st"
  shows "mgr_inv None (snd (check_mounted rp ev a gen st))"
  using assms
  by (auto simp: check_mounted_def Let_def intro!: mgr_inv_publish mgr_inv_upd_info split: sum.splits bool.splits)

lemma mgr_inv_timeout:
  assumes "mgr_inv None st" and "a < length (gHeap st)"
  shows "mgr_inv None (handleMountTimeout rp ev a gen st)"
  using assms
  by (auto simp: handleMountTimeout_def Let_def ident_def intro!: mgr_inv_failures mgr_inv_upd_entry
      split: prod.splits option.splits)

lemma mgr_inv_delete_record:
  assumes "mgr_inv busy st"
  shows "mgr_inv busy (case repo_delete rp ctx i st of (Some e, s) \<Rightarrow> recordReconcileError s | (None, s) \<Rightarrow> s)"
proof -
  obtain oe s where d: "repo_delete rp ctx i st = (oe, s)" by force
  then have "mgr_inv busy s" using assms mgr_inv_prims(3) [of busy rp ctx i st] by simp
  with d show ?thesis by (cases oe) simp_all
qed

lemma mgr_inv_delete_tombstone: "mgr_inv None st \<Longrightarrow> mgr_inv None (delete_tombstone rp ev i st)"
  unfolding delete_tombstone_def Let_def
  by (cases "removeAll ev") (simp_all add: mgr_inv_delete_record)

lemma mgr_inv_reconcileTombstone:
  "mgr_inv None st \<Longrightarrow> mgr_inv None (reconcileTombstone rp ev r mounted st)"
  by (auto simp: reconcileTombstone_def Let_def mgr_inv_delete_tombstone split: option.split sum.split prod.split)

lemma mgr_inv_ReconcileTombstones:
  assumes "mgr_inv None st"
  shows "mgr_inv None (snd (ReconcileTombstones rp ctx evs st))"
proof -
  have "mgr_inv None (fold (\<lambda>r st. if Tombstone r then reconcileRecord rp (evs (MountId (Info r))) r st else st) rs st)" for rs
    using assms
    by (induction rs arbitrary: st) (auto simp: reconcileRecord_def mgr_inv_reconcileTombstone split: sum.splits)
  with assms show ?thesis by (simp add: ReconcileTombstones_def split: sum.splits)
qed

lemma shutdownEntry_length [simp]: "length (gHeap (shutdownEntry rp ev a st)) = length (gHeap st)"
  by (auto simp: shutdownEntry_def Let_def split: option.splits sum.splits bool.splits exit_wait.splits)

lemma shutdown_pre_views:
  "reg_view (case probe ev of Inr True \<Rightarrow> emit es st | _ \<Rightarrow> st) = reg_view st"
  "chan_view (case probe ev of Inr True \<Rightarrow> emit es st | _ \<Rightarrow> st) = chan_view st"
  by (auto split: sum.splits bool.splits)

lemma mgr_inv_shutdownEntry:
  assumes "mgr_inv None st" and "a < length (gHeap st)"
  shows "mgr_inv None (shutdownEntry rp ev a st)"
proof -
  define s1 where "s1 = upd_entry a (\<lambda>e. e\<lparr>mStopping := True\<rparr>) (cancelRetryTimer a st)"
  have s1: "mgr_inv None s1" "a < length (gHeap s1)"
    using assms by (simp_all add: s1_def mgr_inv_upd_entry ident_def)
  define aw where "aw es = await_exit ev (mExitDone (entry s1 a)) (emit es s1)" for es
  have aw: "mgr_inv None (aw es)" for es
    using mgr_inv_await [of "emit es s1" a ev] s1 by (simp add: aw_def)
  have aw0: "await_exit ev (mExitDone (entry s1 a)) s1 = aw []" by (simp add: aw_def emit_def)
  have fin: "mgr_inv None (persistBestEffort rp a (upd_info a (\<lambda>info. info\<lparr>State := MOUNT_STATE_PENDING_MOUNT, Pid := 0,
      LastError := None, NextRetryAt := None, UpdatedAt := Some (now ev AtShutdown)\<rparr>) (aw es)))" for es
    using aw by (simp add: mgr_inv_upd_info)
  show ?thesis
    using assms fin
    unfolding shutdownEntry_def Let_def
    by (auto simp: aw0 simp flip: s1_def aw_def intro!: mgr_inv_upd_entry
        simp: ident_def split: option.splits sum.splits bool.splits exit_wait.splits)
qed

lemma mgr_inv_Shutdown:
  assumes "mgr_inv None st"
  shows "mgr_inv None (Shutdown rp evs st)"
proof -
  have "mgr_inv None s \<Longrightarrow> \<forall>a \<in> set as. a < length (gHeap s) \<Longrightarrow>
      mgr_inv None (fold (\<lambda>a st. shutdownEntry rp (evs a) a st) as s)" for as s
    by (induction as arbitrary: s) (auto simp: mgr_inv_shutdownEntry)
  moreover have "\<forall>a \<in> set (map snd (gMounts st)). a < length (gHeap st)"
    using assms by (auto simp: mgr_inv_def reg_ok_def)
  ultimately show ?thesis using assms by (simp add: Shutdown_def)
qed

lemma mgr_inv_fire:
  assumes "mgr_inv None st" and "map_of (gTimers st) k = Some act"
  shows "mgr_inv None (fire k act st)"
proof -
  have "addrs (fire k act st) \<subseteq> addrs st"
    using map_of_in_set [OF assms(2)]
    by (cases act) (force simp: addrs_def fire_def spawn_def AList.delete_eq)+
  moreover have "wait_chans [fired act] = []" by (cases act) simp_all
  ultimately show ?thesis
    using assms(1) by (intro mgr_inv_same [OF assms(1)]) (simp_all add: fire_def mgr_inv_def)
qed

lemma mgr_inv_spawn:
  "mgr_inv None st \<Longrightarrow> wait_chans ts = [] \<Longrightarrow> (\<And>t. t \<in> set ts \<Longrightarrow> task_addr t < length (gHeap st)) \<Longrightarrow>
     mgr_inv None (spawn ts st)"
  by (auto simp: mgr_inv_def refs_ok_def intro: reg_ok_cong [of "spawn ts st" st] chan_inv_cong [of "spawn ts st" st])

lemma mgr_inv_bus: "mgr_inv busy st \<Longrightarrow> bus_ok b \<Longrightarrow> mgr_inv busy (st\<lparr>gBus := b\<rparr>)"
  by (erule mgr_inv_same) simp_all

lemma mgr_inv_metrics: "mgr_inv busy st \<Longrightarrow> mgr_inv busy (st\<lparr>gMetrics := m\<rparr>)"
  by (subst mgr_inv_eq) (simp_all add: reg_view_def chan_view_def addrs_def)

lemma bus_ok_receive: "bus_ok b \<Longrightarrow> receiveEvent k b = (e, b') \<Longrightarrow> bus_ok b'"
  by (auto simp: receiveEvent_def bus_ok_def dest!: map_of_in_set intro!: list_all_update
      split: option.splits list.splits) (auto simp: list_all_iff)

lemma drop_task_fields [simp]:
  "gHeap (drop_task t st) = gHeap st" "entry (drop_task t st) = entry st"
  "gMounts (drop_task t st) = gMounts st" "gConfig (drop_task t st) = gConfig st"
  "gRepository (drop_task t st) = gRepository st" "gTrace (drop_task t st) = gTrace st"
  by (simp_all add: drop_task_def)

lemma step_preserves: "step rp st st' \<Longrightarrow> mgr_inv None st \<Longrightarrow> mgr_inv None st'"
proof (induction rule: step.induct)
  case (mount_tick a gen co st ev found st')
  then have "mgr_inv None st'" using mgr_inv_check_mounted [of st rp ev a gen] by simp
  then show ?case by (simp add: mgr_inv_drop)
next
  case (mount_exit a gen c st)
  then have "mgr_inv None (drop_task (WaitForMount a gen (Some c)) st)" "a < length (gHeap st)"
    using mgr_inv_task_addr [of None st] by (fastforce intro: mgr_inv_drop)+
  then show ?case by (auto simp: Let_def intro!: mgr_inv_spawn)
next
  case (unmount_wait st i a)
  then show ?case using reg_ok_lookup [of st i a] by (intro mgr_inv_spawn) (auto simp: mgr_inv_def)
next
  case (retry_mount a gen st ev)
  then show ?case using mgr_inv_task_addr [of None st] by (fastforce intro!: mgr_inv_retryMount mgr_inv_drop)
next
  case (retry_unmount a gen st ev)
  then show ?case using mgr_inv_task_addr [of None st] by (fastforce intro!: mgr_inv_retryUnmount mgr_inv_drop)
next
  case (crash a gen client path err st ev)
  then show ?case using mgr_inv_task_addr [of None st] by (fastforce intro!: mgr_inv_handle_crash mgr_inv_drop)
next
  case (mount_timeout a gen co st ev)
  then show ?case using mgr_inv_task_addr [of None st] by (fastforce intro!: mgr_inv_timeout mgr_inv_drop)
next
  case (subscribe wreq st i b)
  then show ?case by (intro mgr_inv_bus) (auto simp: mgr_inv_def intro: bus_ok_subscribe [OF _ secret_free_snapshots])
next
  case (receive k st e b)
  then show ?case by (intro mgr_inv_bus) (auto simp: mgr_inv_def intro: bus_ok_receive)
next
  case (cancel st k)
  then show ?case by (intro mgr_inv_bus) (auto simp: mgr_inv_def intro: bus_ok_cancel)
qed (auto intro!: mgr_inv_Mount mgr_inv_Unmount mgr_inv_Unmount_locked mgr_inv_drop mgr_inv_fire
    mgr_inv_process_exited mgr_inv_ReconcileTombstones mgr_inv_Shutdown mgr_inv_metrics)

section \<open>Startup\<close>

lemma newMountManager_fields:
  assumes "newMountManager ev (Some cfg) (Some r) = Inr st"
  shows "gRepository st = r" "gMounts st = []" "gHeap st = []" "gTasks st = []" "gTimers st = []"
    "gTrace st = []" "mgr_inv None st"
  using assms
  by (auto simp: newMountManager_def Let_def mgr_inv_def reg_ok_def chan_inv_unfold refs_ok_def addrs_def
      intro: bus_ok_empty split: option.splits)

lemma mgr_inv_remount:
  assumes "mgr_inv None st" and "map_of (gMounts st) (MountId (Info r)) = None"
    and "\<And>j b. (j, b) \<in> set (gMounts st) \<Longrightarrow> Clean (mountPath st b) \<noteq> rec_path r"
  shows "mgr_inv None (remount rp ev r st)"
    and "\<exists>info. MountId info = MountId (Info r) \<and> InfoConfig info = InfoConfig (Info r) \<and>
           reg_view (remount rp ev r st) = reg_view (snd (register info st))"
proof -
  define info where "info = (Info r)\<lparr>State := MOUNT_STATE_PENDING_MOUNT, Pid := 0, LastError := None,
                         NextRetryAt := None, UpdatedAt := Some (now ev AtRemount)\<rparr>"
  have id: "MountId info = MountId (Info r)" "InfoConfig info = InfoConfig (Info r)" by (simp_all add: info_def)
  obtain rg where reg: "register info st = (length (gHeap st), rg)" by (simp add: register_simps)
  have rg: "mgr_inv (Some (length (gHeap st))) rg" "length (gHeap st) < length (gHeap rg)"
    using mgr_inv_register [of st info] assms id reg by auto
  obtain oe s1 where pr: "persistRecord rp (ctxErr ev) (length (gHeap st)) rg = (oe, s1)" by force
  define s2 where "s2 = (case oe of Some err \<Rightarrow> recordReconcileError s1 | None \<Rightarrow> s1)"
  have s1: "s1 = snd (persistRecord rp (ctxErr ev) (length (gHeap st)) rg)" using pr by simp
  have s2: "mgr_inv (Some (length (gHeap st))) s2" "length (gHeap st) < length (gHeap s2)" "reg_view s2 = reg_view rg"
    using rg by (auto simp: s2_def s1 split: option.split)
  obtain x y z where sm: "startMount rp ev (length (gHeap st)) (mGeneration (entry s2 (length (gHeap st))))
      (mountDataRoot (gConfig s2) (MountId (Info r))) s2 = ((x, y), z)" by (metis surj_pair)
  have z: "mgr_inv None z" "reg_view z = reg_view rg"
    using mgr_inv_startMount [OF s2(1,2)] startMount_views s2(3) sm by (metis snd_conv)+
  have pc: "(case persistRecord rp (ctxErr ev) (length (gHeap st)) rg of
               (Some err, s) \<Rightarrow> recordReconcileError s | (None, s) \<Rightarrow> s) = s2"
    by (simp add: pr s2_def split: option.split)
  have rm: "remount rp ev r st = (case y of Some err \<Rightarrow> recordReconcileError z | None \<Rightarrow> z)"
    using assms(2) reg sm pc by (simp add: remount_def Let_def split: option.split flip: info_def)
  show "mgr_inv None (remount rp ev r st)" using z by (simp add: rm split: option.split)
  have "reg_view (remount rp ev r st) = reg_view (snd (register info st))"
    using z reg by (simp add: rm split: option.split)
  with id show "\<exists>info. MountId info = MountId (Info r) \<and> InfoConfig info = InfoConfig (Info r) \<and>
           reg_view (remount rp ev r st) = reg_view (snd (register info st))" by blast
qed

text \<open>During the startup pass every registered entry belongs to a record already visited.\<close>

definition covered :: "MountRecord set \<Rightarrow> 'r manager \<Rightarrow> bool" where
  "covered R st \<longleftrightarrow>
     (\<forall>j b. (j, b) \<in> set (gMounts st) \<longrightarrow> (\<exists>r \<in> R. MountId (Info r) = j \<and> rec_path r = Clean (mountPath st b)))"

lemma covered_view:
  assumes "reg_view st' = reg_view st" and "reg_ok st" and "covered R st" and "R \<subseteq> R'"
  shows "covered R' st'"
  using assms(2,3,4) reg_view_ident [OF assms(1)] unfolding covered_def reg_ok_def by (metis subsetD)

lemma covered_register:
  assumes "reg_ok st" and "covered R st" and "map_of (gMounts st) (MountId info) = None"
    and "MountId info = MountId (Info r)" and "InfoConfig info = InfoConfig (Info r)"
  shows "covered (insert r R) (snd (register info st))"
proof -
  have ms: "set (gMounts (snd (register info st))) = insert (MountId info, length (gHeap st)) (set (gMounts st))"
    using assms(3) by (simp add: register_simps set_alist_update_fresh)
  show ?thesis
    unfolding covered_def ms using assms register_ident [where st = st and info = info]
    by (auto simp: covered_def reg_ok_def)
qed

lemma reconcileRecord_covered:
  assumes inv: "mgr_inv None st" and cov: "covered R st" and new: "\<And>q. q \<in> R \<Longrightarrow> rec_path q \<noteq> rec_path r"
  shows "mgr_inv None (reconcileRecord rp ev r st) \<and> covered (insert r R) (reconcileRecord rp ev r st)"
proof -
  have reg: "reg_ok st" using inv by (simp add: mgr_inv_def)
  have same: "mgr_inv None s \<and> covered (insert r R) s" if "mgr_inv None s" "reg_view s = reg_view st" for s
    using that covered_view [OF that(2) reg cov] by blast
  have rem: "mgr_inv None (remount rp ev r s) \<and> covered (insert r R) (remount rp ev r s)"
    if s: "mgr_inv None s" "reg_view s = reg_view st" and free: "map_of (gMounts st) (MountId (Info r)) = None" for s
  proof -
    have g: "gMounts s = gMounts st" using reg_view_ident(1) [OF s(2)] .
    have path: "Clean (mountPath s b) \<noteq> rec_path r" if "(j, b) \<in> set (gMounts s)" for j b
      using that cov new reg reg_view_ident [OF s(2)] unfolding covered_def reg_ok_def g by metis
    have cs: "covered R s" by (rule covered_view [OF s(2) reg cov order_refl])
    from mgr_inv_remount [OF s(1), of r rp ev] free g path obtain info where
      i: "mgr_inv None (remount rp ev r s)" "MountId info = MountId (Info r)" "InfoConfig info = InfoConfig (Info r)"
      "reg_view (remount rp ev r s) = reg_view (snd (register info s))" by auto
    have "reg_ok s" using s(1) by (simp add: mgr_inv_def)
    then have c: "covered (insert r R) (snd (register info s))"
      using covered_register [OF _ cs _ i(2,3)] free g i(2) by simp
    have "reg_ok (snd (register info s))"
      using i(1,4) reg_ok_cong [OF i(4) [symmetric]] by (simp add: mgr_inv_def)
    from covered_view [OF i(4) this c order_refl] i(1) show ?thesis by blast
  qed
  have tomb: "reg_view (delete_tombstone rp ev i s) = reg_view s" for i s
  proof -
    obtain oe s' where d: "repo_delete rp (ctxErr ev) i (emit [ERemoveAll (mountDataRoot (gConfig s) i)] s) = (oe, s')" by force
    then have "reg_view s' = reg_view s" using reg_view_prims(10) [of rp "ctxErr ev" i "emit [ERemoveAll (mountDataRoot (gConfig s) i)] s"] by simp
    with d show ?thesis by (cases "removeAll ev"; cases oe) (simp_all add: delete_tombstone_def)
  qed
  have "reg_view (reconcileTombstone rp ev r m st) = reg_view st" for m
    by (auto simp: reconcileTombstone_def Let_def tomb split: option.split sum.split prod.split)
  then have t: "mgr_inv None (reconcileTombstone rp ev r m st) \<and> covered (insert r R) (reconcileTombstone rp ev r m st)" for m
    using same mgr_inv_reconcileTombstone [OF inv] by blast
  have err: "mgr_inv None (recordReconcileError (emit es st)) \<and> covered (insert r R) (recordReconcileError (emit es st))" for es
    using same [of "recordReconcileError (emit es st)"] inv by simp
  have err0: "mgr_inv None (recordReconcileError st) \<and> covered (insert r R) (recordReconcileError st)"
    using same [of "recordReconcileError st"] inv by simp
  have o: "mgr_inv None (reconcileOrdinaryRecord rp ev r m st) \<and> covered (insert r R) (reconcileOrdinaryRecord rp ev r m st)"
    if "map_of (gMounts st) (MountId (Info r)) = None" for m
    using rem [of st] rem [of "emit _ st"] err err0 inv that
    by (auto simp: reconcileOrdinaryRecord_def split: sum.split prod.split option.split)
  show ?thesis
    using same [OF inv refl] err0 t o by (auto simp: reconcileRecord_def split: sum.split)
qed

lemma Reconcile_fold:
  assumes "mgr_inv None st" and "covered R st"
    and "distinct (map rec_path rs)" and "\<And>q r. q \<in> R \<Longrightarrow> r \<in> set rs \<Longrightarrow> rec_path q \<noteq> rec_path r"
  shows "mgr_inv None (fold (\<lambda>r st. reconcileRecord rp (evs (MountId (Info r))) r st) rs st)"
  using assms
proof (induction rs arbitrary: st R)
  case (Cons r rs)
  have "mgr_inv None (reconcileRecord rp (evs (MountId (Info r))) r st) \<and>
        covered (insert r R) (reconcileRecord rp (evs (MountId (Info r))) r st)"
    using Cons.prems by (intro reconcileRecord_covered) auto
  moreover have "rec_path q \<noteq> rec_path r'" if "q \<in> insert r R" "r' \<in> set rs" for q r'
    using Cons.prems(3,4) that by (auto simp: image_iff)
  ultimately show ?case using Cons.IH [of "reconcileRecord rp (evs (MountId (Info r))) r st" "insert r R"] Cons.prems(3)
    by simp
qed simp

context repository
begin

lemma distinct_paths:
  assumes "repo_inv d" and "repo_List rp c d = Inr rs"
  shows "distinct (map rec_path rs)"
proof -
  from list_recs [OF assms] have ids: "distinct (map (\<lambda>r. MountId (Info r)) rs)" and set: "set rs = ran (recs d)" by auto
  have "inj_on rec_path (set rs)"
  proof (rule inj_onI)
    fix r q assume rq: "r \<in> set rs" "q \<in> set rs" "rec_path r = rec_path q"
    then obtain i j where ij: "recs d i = Some r" "recs d j = Some q" unfolding set by (auto simp: ran_def)
    from inv_path [OF assms(1) this rq(3)] ij show "r = q" by simp
  qed
  moreover have "distinct rs" using ids by (metis distinct_map)
  ultimately show ?thesis by (simp add: distinct_map)
qed

lemma reach_mgr_inv: "reach rp repo_inv n st \<Longrightarrow> mgr_inv None st"
proof (induction rule: reach.induct)
  case (restored r ev cfg st0 ctx evs)
  note new = newMountManager_fields [OF restored(2)]
  show ?case
  proof (cases "repo_List rp ctx (gRepository st0)")
    case (Inr rs)
    then have "distinct (map rec_path rs)" using distinct_paths restored(1) new(1) by blast
    with Inr new show ?thesis
      using Reconcile_fold [of st0 "{}" rs rp evs] by (simp add: Reconcile_def covered_def)
  qed (use new in \<open>simp add: Reconcile_def\<close>)
qed (auto simp: newMountManager_fields intro: step_preserves)

end

lemma registry_lookup:
  assumes "store_laws bd content view cd"
    and "reach (NewMountRepository bd cd) (\<lambda>d. store_inv cd (content d)) n st"
    and "map_of (gMounts st) i = Some a"
  shows "a < length (gHeap st) \<and> mountID st a = i"
proof -
  have "mgr_inv None st" using assms(1,2) by (rule repository.reach_mgr_inv [OF store_laws.repository_contract])
  then show ?thesis using assms(3) by (auto simp: mgr_inv_def dest: reg_ok_lookup)
qed

lemma sample_mounted_reach:
  "reach (NewMountRepository mem_badger (table_codec sample_infos))
     (\<lambda>d. store_inv (table_codec sample_infos) (map_of d)) 1 sample_mounted"
proof -
  have "store_inv (table_codec sample_infos) (map_of ([] :: memdb))" by (simp add: store_inv_def)
  then have "reach (NewMountRepository mem_badger (table_codec sample_infos))
     (\<lambda>d. store_inv (table_codec sample_infos) (map_of d)) 0 sample_start"
    by (rule reach.fresh [where r = "[]"]) (rule sample_start_new)
  then show ?thesis
    unfolding sample_mounted_def sample_repo_def One_nat_def by (rule reach.stepped) (rule step.mount)
qed

text \<open>
  C1: the registry. In every reachable state the registry holds each mount ID once, under an entry
  with that ID, and no two registered mounts have the same mount path, whatever requests, retries,
  crashes, timeouts, reconciliations and restarts happened before.
\<close>

theorem registry_unique:
  assumes "store_laws bd content view cd"
    and "reach (NewMountRepository bd cd) (\<lambda>d. store_inv cd (content d)) n st"
  shows "wf_alist (gMounts st) \<and>
    (\<forall>i a. map_of (gMounts st) i = Some a \<longrightarrow> a < length (gHeap st) \<and> mountID st a = i) \<and>
    (\<forall>i a j b. map_of (gMounts st) i = Some a \<longrightarrow> map_of (gMounts st) j = Some b \<longrightarrow>
       Clean (mountPath st a) = Clean (mountPath st b) \<longrightarrow> i = j)"
proof -
  have "mgr_inv None st" using assms by (rule repository.reach_mgr_inv [OF store_laws.repository_contract])
  then have "reg_ok st" by (simp add: mgr_inv_def)
  then show ?thesis unfolding reg_ok_def by (blast dest: map_of_in_set)
qed

theorem registry_unique_witness:
  "map_of (gMounts sample_mounted) ''m1'' = Some 0 \<and> mountID sample_mounted 0 = ''m1''"
proof -
  have "map_of (gMounts sample_mounted) ''m1'' = Some 0" by (simp add: sample_mounted_state(1))
  moreover from this registry_unique [OF mem.store_laws_axioms sample_mounted_reach]
  have "mountID sample_mounted 0 = ''m1''" by blast
  ultimately show ?thesis ..
qed

text \<open>
  C2: exit channels. In every reachable state no channel has been closed twice (a Go panic) and no
  operation waits for a child whose exit nobody will signal: each entry's channel is closed or a
  goroutine waiting for exactly this child is going to close it.
\<close>

theorem exit_channels_safe:
  assumes "store_laws bd content view cd"
    and "reach (NewMountRepository bd cd) (\<lambda>d. store_inv cd (content d)) n st"
  shows "\<not> gPanicked st \<and> \<not> gBlocked st \<and>
    (\<forall>a < length (gHeap st). gChans st ! mExitDone (entry st a) \<or>
       (\<exists>b g. WaitForProcess b g (mExitDone (entry st a)) \<in> set (gTasks st)))"
proof -
  have "mgr_inv None st" using assms by (rule repository.reach_mgr_inv [OF store_laws.repository_contract])
  then have "chan_inv None st" by (simp add: mgr_inv_def)
  then show ?thesis by (auto simp: chan_inv_unfold wait_chans_mem)
qed

theorem exit_channels_safe_witness:
  "\<not> gPanicked sample_mounted \<and> \<not> gBlocked sample_mounted \<and>
   (gChans sample_mounted ! mExitDone (entry sample_mounted 0) \<or>
    (\<exists>b g. WaitForProcess b g (mExitDone (entry sample_mounted 0)) \<in> set (gTasks sample_mounted)))"
proof -
  note sample_mounted_entry(1)
  with exit_channels_safe [OF mem.store_laws_axioms sample_mounted_reach] show ?thesis by simp
qed

end
