(* ===== verification/Outcomes.thy ===== *)
theory Outcomes
  imports Requests Scenarios
begin

text \<open>
  What the handlers leave behind: when a data directory is deleted, what a shutdown and a pass of
  the periodic reconciler touch, when a failed attempt is retried, and what a handler of a
  superseded attempt may still do.
\<close>

section \<open>Deleted data directories\<close>

definition told :: "'r manager \<Rightarrow> 'r manager \<Rightarrow> effect list" where
  "told st st' = drop (length (gTrace st)) (gTrace st')"

definition removed :: "'r manager \<Rightarrow> 'r manager \<Rightarrow> string set" where
  "removed st st' = {d. ERemoveAll d \<in> set (told st st')}"

lemma told_append: "gTrace st' = gTrace st @ es \<Longrightarrow> told st st' = es"
  by (simp add: told_def)

lemma removed_append: "gTrace st' = gTrace st @ es \<Longrightarrow> removed st st' = {d. ERemoveAll d \<in> set es}"
  by (simp add: removed_def told_append)

lemma removed_update: "gTrace st1 = gTrace st @ es \<Longrightarrow> tells is_update st1 st' \<Longrightarrow> removed st st' = {d. ERemoveAll d \<in> set es}"
  by (auto simp: tells_def removed_append [of st' st "es @ _"] list_all_iff is_update_def split: effect.splits)

text \<open>When the clean-up of a timed-out mount may delete the data directory.\<close>

definition timeout_unmounted :: "env \<Rightarrow> mountClientType \<Rightarrow> bool" where
  "timeout_unmounted ev client \<longleftrightarrow>
     probe ev = Inr False \<or>
     probe ev = Inr True \<and>
     (client = mountClientIRODSFS \<and> fuseUnmount ev = None \<or> client = mountClientNFS \<and> umountRun ev = None \<or>
      client = mountClientUnset)"

lemma runSystemUnmount_done: "fst (runSystemUnmount ev mc p lazy t) = None \<longleftrightarrow> umountRun ev = None"
  by (auto simp: runSystemUnmount_def Let_def split: option.splits)

lemma runSystemUnmount_effects: "ERemoveAll d \<notin> set (snd (runSystemUnmount ev mc p lazy t))"
  by (simp add: runSystemUnmount_def Let_def)

lemma cleanup_removes:
  "ERemoveAll d \<in> set (snd (cleanupTimedOutMount ev mc client p i)) \<longleftrightarrow>
     d = mountDataRoot mc i \<and> timeout_unmounted ev client"
  using runSystemUnmount_done [of ev mc p True "UnmountTimeout mc"] runSystemUnmount_effects [of _ ev mc p True "UnmountTimeout mc"]
  by (cases "probe ev"; cases client)
    (auto simp: cleanupTimedOutMount_def timeout_unmounted_def Let_def split: option.splits prod.splits)

lemma removed_timeout:
  "removed st (handleMountTimeout rp ev a gen st) \<subseteq>
     (if timeout_unmounted ev (mClient (entry st a)) then {mountDataRoot (gConfig st) (mountID st a)} else {})"
proof (cases "mGeneration (entry st a) \<noteq> gen \<or> mUnmounting (entry st a) \<or> State (mInfo (entry st a)) = MOUNT_STATE_MOUNTED")
  case True
  then show ?thesis by (simp add: handleMountTimeout_def removed_def told_def)
next
  case False
  define st1 where "st1 = upd_entry a (\<lambda>e. e\<lparr>mTimedOut := True\<rparr>) st"
  define k where "k = (case mCommand (entry st1 a) of None \<Rightarrow> [] | Some proc \<Rightarrow> [EKill proc])"
  have st1: "gTrace st1 = gTrace st" "gConfig st1 = gConfig st" "mInfo (entry st1 a) = mInfo (entry st a)"
    "mClient (entry st1 a) = mClient (entry st a)" by (simp_all add: st1_def)
  obtain p oe effs where c: "cleanupTimedOutMount ev (gConfig st) (mClient (entry st a))
      (GetMountPath (InfoConfig (mInfo (entry st a)))) (MountId (mInfo (entry st a))) = ((p, oe), effs)"
    by (metis prod.exhaust)
  have k: "ERemoveAll d \<notin> set k" for d by (simp add: k_def split: option.splits)
  have effs: "ERemoveAll d \<in> set effs \<longleftrightarrow> d = mountDataRoot (gConfig st) (mountID st a) \<and> timeout_unmounted ev (mClient (entry st a))" for d
    using cleanup_removes [of d] c by (metis snd_conv mountID_def)
  have tr: "gTrace (emit effs (emit k st1)) = gTrace st @ k @ effs" by (simp add: st1)
  have "tells is_update (emit effs (emit k st1)) (handleMountTimeout rp ev a gen st)"
    using False c unfolding handleMountTimeout_def Let_def st1_def [symmetric] k_def
    by (simp add: st1 failures_tell split: option.splits)
  from removed_update [OF tr this] show ?thesis using k effs by auto
qed

lemma delete_tombstone_eq:
  "delete_tombstone rp ev i st =
     (let st = emit [ERemoveAll (mountDataRoot (gConfig st) i)] st; d = repo_delete rp (ctxErr ev) i st
      in case removeAll ev of
           Some err \<Rightarrow> recordReconcileError st
         | None \<Rightarrow> if fst d = None then snd d else recordReconcileError (snd d))"
  by (auto simp: delete_tombstone_def Let_def split: option.splits prod.splits)

lemma delete_tombstone_trace:
  "\<exists>es. gTrace (delete_tombstone rp ev i st) = gTrace st @ ERemoveAll (mountDataRoot (gConfig st) i) # es \<and> (es = [] \<or> es = [EDeleteRecord i])"
  by (simp add: delete_tombstone_eq Let_def split: option.splits)

lemma removed_tombstone:
  "removed st (reconcileTombstone rp ev record mounted st) \<subseteq>
     (if \<not> mounted \<or> (\<exists>client. clientType (InfoConfig (Info record)) = Inr client \<and>
          fst (unmountByClientType ev (gConfig st) client (GetMountPath (InfoConfig (Info record)))) = None)
      then {mountDataRoot (gConfig st) (MountId (Info record))} else {})"
proof -
  let ?i = "MountId (Info record)" and ?p = "GetMountPath (InfoConfig (Info record))"
  have del: "removed st (delete_tombstone rp ev ?i (emit fs st)) \<subseteq> {mountDataRoot (gConfig st) ?i}"
    if "\<And>d. ERemoveAll d \<notin> set fs" for fs
    using delete_tombstone_trace [of rp ev ?i "emit fs st"] that
    by (auto simp: removed_append [of _ st "fs @ ERemoveAll (mountDataRoot (gConfig st) ?i) # _"])
  show ?thesis
  proof (cases mounted)
    case False
    then show ?thesis using del [of "[]"] by (simp add: reconcileTombstone_def emit_def)
  next
    case True
    show ?thesis
    proof (cases "clientType (InfoConfig (Info record))")
      case (Inr client)
      obtain oe fs where u: "unmountByClientType ev (gConfig st) client ?p = (oe, fs)" by force
      have fs: "ERemoveAll d \<notin> set fs" for d using not_removal(2) u by (metis snd_conv)
      have none: "removed st (emit fs st) = {}" "removed st (recordReconcileError (emit fs st)) = {}"
        using fs by (simp_all add: removed_def told_def)
      show ?thesis using del [OF fs] none by (simp add: reconcileTombstone_def True Inr u split: option.splits)
    qed (simp add: reconcileTombstone_def True removed_def told_def)
  qed
qed

lemma removed_performUnmount:
  "removed st (snd (performUnmountAttempt rp ev ctx a gen st)) \<subseteq>
     (if probe ev = Inr False \<or> probe ev = Inr True \<and>
         fst (unmountByClientType ev (gConfig st) (mClient (entry st a)) (mountPath st a)) = None
      then {mountDataRoot (gConfig st) (mountID st a)} else {})"
proof (rule subsetI)
  fix d assume d: "d \<in> removed st (snd (performUnmountAttempt rp ev ctx a gen st))"
  from performUnmount_effects [of rp ev ctx a gen st d] d show "d \<in> (if probe ev = Inr False \<or> probe ev = Inr True \<and>
         fst (unmountByClientType ev (gConfig st) (mClient (entry st a)) (mountPath st a)) = None
      then {mountDataRoot (gConfig st) (mountID st a)} else {})"
    by (auto simp: removed_def told_def)
qed


section \<open>Reconciliation of tombstones\<close>

lemma reconcileTombstone_trace:
  "\<exists>es. gTrace (reconcileTombstone rp ev record mounted st) = gTrace st @ es \<and>
     list_all (\<lambda>e. case e of EFuseUnmount _ \<Rightarrow> True | ESystemUnmount _ _ \<Rightarrow> True
       | ERemoveAll d \<Rightarrow> d = mountDataRoot (gConfig st) (MountId (Info record))
       | EDeleteRecord i \<Rightarrow> i = MountId (Info record) | _ \<Rightarrow> False) es"
  (is "\<exists>es. _ \<and> list_all ?P es")
proof -
  let ?i = "MountId (Info record)" and ?p = "GetMountPath (InfoConfig (Info record))"
  have del: "\<exists>es. gTrace (delete_tombstone rp ev ?i (emit fs st)) = gTrace st @ es \<and> list_all ?P es" if "list_all ?P fs" for fs
    using delete_tombstone_trace [of rp ev ?i "emit fs st"] that by fastforce
  show ?thesis
  proof (cases mounted)
    case False
    then show ?thesis using del [of "[]"] by (simp add: reconcileTombstone_def emit_def)
  next
    case True
    show ?thesis
    proof (cases "clientType (InfoConfig (Info record))")
      case (Inr client)
      obtain oe fs where u: "unmountByClientType ev (gConfig st) client ?p = (oe, fs)" by force
      have fs: "list_all ?P fs" using unmount_effects [of _ ev "gConfig st" client ?p] u by (fastforce simp: list_all_iff)
      show ?thesis using del [OF fs] fs by (simp add: reconcileTombstone_def True Inr u split: option.splits)
    qed (simp add: reconcileTombstone_def True)
  qed
qed

lemma delete_tombstone_fields [simp]:
  "gMounts (delete_tombstone rp ev i st) = gMounts st"
  "gHeap (delete_tombstone rp ev i st) = gHeap st"
  "gTasks (delete_tombstone rp ev i st) = gTasks st"
  "gTimers (delete_tombstone rp ev i st) = gTimers st"
  "gConfig (delete_tombstone rp ev i st) = gConfig st"
  by (simp_all add: delete_tombstone_eq Let_def split: option.splits)

lemma reconcileTombstone_fields [simp]:
  "gMounts (reconcileTombstone rp ev r mounted st) = gMounts st"
  "gHeap (reconcileTombstone rp ev r mounted st) = gHeap st"
  "gTasks (reconcileTombstone rp ev r mounted st) = gTasks st"
  "gTimers (reconcileTombstone rp ev r mounted st) = gTimers st"
  "gConfig (reconcileTombstone rp ev r mounted st) = gConfig st"
  by (auto simp: reconcileTombstone_def Let_def split: option.splits prod.splits sum.splits)

text \<open>What the periodic pass may do for the records \<open>rs\<close>, with \<open>st\<close> the state it starts in.\<close>

definition resumes_unmount :: "'r manager \<Rightarrow> MountRecord list \<Rightarrow> effect \<Rightarrow> bool" where
  "resumes_unmount st rs e =
     (case e of
        EFuseUnmount _ \<Rightarrow> True
      | ESystemUnmount _ _ \<Rightarrow> True
      | ERemoveAll d \<Rightarrow>
          (\<exists>r \<in> set rs. Tombstone r \<and> map_of (gMounts st) (MountId (Info r)) = None \<and>
             d = mountDataRoot (gConfig st) (MountId (Info r)))
      | EDeleteRecord i \<Rightarrow>
          (\<exists>r \<in> set rs. Tombstone r \<and> map_of (gMounts st) (MountId (Info r)) = None \<and> i = MountId (Info r))
      | _ \<Rightarrow> False)"

lemma tombstone_fold:
  fixes st :: "'r manager"
  defines "pass \<equiv> \<lambda>rp evs. fold (\<lambda>r st. if Tombstone r then reconcileRecord rp (evs (MountId (Info r))) r st else st)"
  shows "gMounts (pass rp evs rs st) = gMounts st \<and> gHeap (pass rp evs rs st) = gHeap st \<and>
    gTasks (pass rp evs rs st) = gTasks st \<and> gTimers (pass rp evs rs st) = gTimers st \<and>
    gConfig (pass rp evs rs st) = gConfig st \<and> tells (resumes_unmount st rs) st (pass rp evs rs st)"
proof (induction rs arbitrary: st)
  case (Cons r rs)
  let ?ev = "evs (MountId (Info r))" and ?i = "MountId (Info r)"
  let ?st = "if Tombstone r then reconcileRecord rp ?ev r st else st"
  have f: "gMounts ?st = gMounts st" "gHeap ?st = gHeap st" "gTasks ?st = gTasks st" "gTimers ?st = gTimers st"
    "gConfig ?st = gConfig st"
    by (auto simp: reconcileRecord_def split: sum.splits)
  have "tells (resumes_unmount st (r # rs)) st ?st"
  proof (cases "Tombstone r \<and> map_of (gMounts st) ?i = None")
    case True
    show ?thesis
    proof (cases "probe ?ev")
      case (Inr m)
      with True have eq: "?st = reconcileTombstone rp ?ev r m st" by (simp add: reconcileRecord_def)
      from reconcileTombstone_trace [of rp ?ev r m st] show ?thesis
        unfolding eq tells_def using True
        by (auto simp: list_all_iff resumes_unmount_def split: effect.splits)
    qed (use True in \<open>simp add: reconcileRecord_def\<close>)
  qed (auto simp: reconcileRecord_def)
  moreover have "tells (resumes_unmount st (r # rs)) ?st (pass rp evs rs ?st)"
    by (rule tells_mono [of "resumes_unmount ?st rs"])
      (use Cons.IH [of ?st] in blast, auto simp: resumes_unmount_def f split: effect.splits)
  ultimately have "tells (resumes_unmount st (r # rs)) st (pass rp evs rs ?st)" by (rule tells_trans)
  then show ?case using Cons.IH [of ?st] f unfolding pass_def by simp
qed (simp add: pass_def)


section \<open>Shutdown\<close>

definition stopping_effect :: "effect \<Rightarrow> bool" where
  "stopping_effect e =
     (case e of
        EFuseUnmount _ \<Rightarrow> True
      | ESystemUnmount _ _ \<Rightarrow> True
      | ESignalTerm _ \<Rightarrow> True
      | EKill _ \<Rightarrow> True
      | ECloseLog _ \<Rightarrow> True
      | EUpdateRecord r \<Rightarrow> \<not> Tombstone r \<and> State (Info r) = MOUNT_STATE_PENDING_MOUNT \<and> Pid (Info r) = 0 \<and> LastError (Info r) = None
      | _ \<Rightarrow> False)"

lemma unmount_stopping: "list_all stopping_effect (snd (unmountByClientType ev mc client p))"
  using unmount_effects [of _ ev mc client p] by (fastforce simp: list_all_iff stopping_effect_def)

lemma process_exited_state [simp]:
  "State (mInfo (entry (process_exited b g c err st) a)) = State (mInfo (entry st a))"
  "mUnmounting (entry (process_exited b g c err st) a) = mUnmounting (entry st a)"
  by (simp_all add: process_exited_def Let_def)

lemma await_exit_state [simp]:
  "State (mInfo (entry (await_exit ev c st) a)) = State (mInfo (entry st a))"
  "mUnmounting (entry (await_exit ev c st) a) = mUnmounting (entry st a)"
  by (simp_all add: await_exit_def split: option.splits task.splits)

text \<open>A live entry is stopped, its child awaited, its record made pending, its log closed.\<close>

definition stopped :: "'r repo \<Rightarrow> env \<Rightarrow> nat \<Rightarrow> effect list \<Rightarrow> 'r manager \<Rightarrow> 'r manager" where
  "stopped rp ev a es st =
     (let s1 = upd_entry a (\<lambda>e. e\<lparr>mStopping := True\<rparr>) (cancelRetryTimer a st)
      in persistBestEffort rp a (upd_info a (\<lambda>info. info\<lparr>State := MOUNT_STATE_PENDING_MOUNT, Pid := 0,
           LastError := None, NextRetryAt := None, UpdatedAt := Some (now ev AtShutdown)\<rparr>)
           (await_exit ev (mExitDone (entry s1 a)) (emit es s1))))"

lemma shutdownEntry_cases:
  fixes st :: "'r manager"
  obtains (unmounting) "mUnmounting (entry st a)" "shutdownEntry rp ev a st = cancelRetryTimer a st"
    | (live) es where "\<not> mUnmounting (entry st a)" "list_all stopping_effect es"
      "shutdownEntry rp ev a st =
         (case mMountLog (entry (stopped rp ev a es st) a) of
            None \<Rightarrow> stopped rp ev a es st
          | Some _ \<Rightarrow>
              emit [ECloseLog (GetMountLogPath (gConfig st) (mountID (stopped rp ev a es st) a))]
                (upd_entry a (\<lambda>e. e\<lparr>mMountLog := None\<rparr>) (stopped rp ev a es st)))"
proof (cases "mUnmounting (entry st a)")
  case True
  then show thesis by (intro unmounting) (simp_all add: shutdownEntry_def Let_def)
next
  case False
  define s1 where "s1 = upd_entry a (\<lambda>e. e\<lparr>mStopping := True\<rparr>) (cancelRetryTimer a st)"
  define e where "e = entry s1 a"
  define u where "u = (case probe ev of Inr True \<Rightarrow> snd (unmountByClientType ev (gConfig st) (mClient e) (mountPath s1 a)) | _ \<Rightarrow> [])"
  define t where "t = (case mCommand e of Some proc \<Rightarrow> if mPersistent e then [ESignalTerm proc] else [] | None \<Rightarrow> [])"
  define k where "k = (if exitWait ev = Exited then [] else case mCommand e of None \<Rightarrow> [] | Some proc \<Rightarrow> [EKill proc])"
  have es: "list_all stopping_effect (u @ t @ k)"
    using unmount_stopping by (auto simp: u_def t_def k_def stopping_effect_def split: sum.splits bool.splits option.splits)
  have nil: "emit [] s = s" for s :: "'r manager" by (simp add: emit_def)
  have s1: "gConfig s1 = gConfig st" by (simp add: s1_def)
  have pre: "(case probe ev of Inr True \<Rightarrow> emit (snd (unmountByClientType ev (gConfig s1) (mClient e) (mountPath s1 a))) s1
      | _ \<Rightarrow> s1) = emit u s1"
    by (simp add: u_def nil s1 split: sum.splits bool.splits)
  have sig: "(case mCommand e of Some proc \<Rightarrow> if mPersistent e then emit [ESignalTerm proc] (emit u s1) else emit u s1
      | None \<Rightarrow> emit u s1) = emit (u @ t) s1"
    by (simp add: t_def split: option.splits)
  have wait: "(case exitWait ev of Exited \<Rightarrow> await_exit ev c (emit (u @ t) s1)
      | _ \<Rightarrow> await_exit ev c (emit (case mCommand e of None \<Rightarrow> [] | Some proc \<Rightarrow> [EKill proc]) (emit (u @ t) s1))) =
      await_exit ev c (emit (u @ t @ k) s1)" for c
    by (cases "exitWait ev") (simp_all add: k_def)
  have um: "mUnmounting (entry (cancelRetryTimer a st) a) = False" using False by simp
  have cfg: "gConfig (stopped rp ev a (u @ t @ k) st) = gConfig st" by (simp add: stopped_def Let_def)
  have "shutdownEntry rp ev a st =
         (case mMountLog (entry (stopped rp ev a (u @ t @ k) st) a) of
            None \<Rightarrow> stopped rp ev a (u @ t @ k) st
          | Some _ \<Rightarrow>
              emit [ECloseLog (GetMountLogPath (gConfig st) (mountID (stopped rp ev a (u @ t @ k) st) a))]
                (upd_entry a (\<lambda>e. e\<lparr>mMountLog := None\<rparr>) (stopped rp ev a (u @ t @ k) st)))"
    unfolding shutdownEntry_def Let_def um if_False s1_def [symmetric] e_def [symmetric] pre
    unfolding entry_same(1) e_def [symmetric] sig wait
    unfolding cfg [symmetric] unfolding stopped_def Let_def s1_def [symmetric] e_def [symmetric] by (rule refl)
  with False es show thesis by (rule live)
qed

lemma stopped_spec:
  assumes "a < length (gHeap st)" and "\<not> mUnmounting (entry st a)" and "list_all stopping_effect es"
  shows "tells stopping_effect st (stopped rp ev a es st)"
    and "gMounts (stopped rp ev a es st) = gMounts st"
    and "length (gHeap (stopped rp ev a es st)) = length (gHeap st)"
    and "mUnmounting (entry (stopped rp ev a es st) b) = mUnmounting (entry st b)"
    and "State (mInfo (entry (stopped rp ev a es st) b)) =
      (if b = a then MOUNT_STATE_PENDING_MOUNT else State (mInfo (entry st b)))"
proof -
  show "tells stopping_effect st (stopped rp ev a es st)"
    using assms unfolding tells_def stopped_def Let_def by (simp add: persist_trace stopping_effect_def)
qed (use assms in \<open>simp_all add: stopped_def Let_def\<close>)

lemma tells_emit: "tells P st st' \<Longrightarrow> list_all P es \<Longrightarrow> gTrace st'' = gTrace st' @ es \<Longrightarrow> tells P st st''"
  by (force simp: tells_def)

lemma shutdownEntry_spec:
  assumes "a < length (gHeap st)"
  shows "tells stopping_effect st (shutdownEntry rp ev a st)"
    and "gMounts (shutdownEntry rp ev a st) = gMounts st"
    and "length (gHeap (shutdownEntry rp ev a st)) = length (gHeap st)"
    and "mUnmounting (entry (shutdownEntry rp ev a st) b) = mUnmounting (entry st b)"
    and "State (mInfo (entry (shutdownEntry rp ev a st) b)) =
      (if b = a \<and> \<not> mUnmounting (entry st a) then MOUNT_STATE_PENDING_MOUNT else State (mInfo (entry st b)))"
proof -
  let ?st = "shutdownEntry rp ev a st"
  have "tells stopping_effect st ?st \<and> gMounts ?st = gMounts st \<and> length (gHeap ?st) = length (gHeap st) \<and>
    (\<forall>b. mUnmounting (entry ?st b) = mUnmounting (entry st b) \<and> State (mInfo (entry ?st b)) =
      (if b = a \<and> \<not> mUnmounting (entry st a) then MOUNT_STATE_PENDING_MOUNT else State (mInfo (entry st b))))"
  proof (cases rule: shutdownEntry_cases [of st a rp ev])
    case (live es)
    let ?t = "stopped rp ev a es st"
    note t = stopped_spec [OF assms live(1,2), where rp = rp and ev = ev]
    have "tells stopping_effect st (emit [ECloseLog p] (upd_entry a f ?t))" for p f
      by (rule tells_emit [OF t(1), of "[ECloseLog p]"]) (simp_all add: stopping_effect_def)
    with t live(1) show ?thesis unfolding live(3) by (cases "mMountLog (entry ?t a)") simp_all
  qed simp
  then show "tells stopping_effect st ?st" and "gMounts ?st = gMounts st" and "length (gHeap ?st) = length (gHeap st)"
    and "mUnmounting (entry ?st b) = mUnmounting (entry st b)"
    and "State (mInfo (entry ?st b)) =
      (if b = a \<and> \<not> mUnmounting (entry st a) then MOUNT_STATE_PENDING_MOUNT else State (mInfo (entry st b)))"
    by blast+
qed

lemma shutdown_fold:
  "\<forall>a \<in> set as. a < length (gHeap st) \<Longrightarrow>
     (let st' = fold (\<lambda>a st. shutdownEntry rp (evs a) a st) as st
      in tells stopping_effect st st' \<and> gMounts st' = gMounts st \<and>
         (\<forall>b. mUnmounting (entry st' b) = mUnmounting (entry st b) \<and>
           State (mInfo (entry st' b)) =
             (if b \<in> set as \<and> \<not> mUnmounting (entry st b) then MOUNT_STATE_PENDING_MOUNT else State (mInfo (entry st b)))))"
proof (induction as arbitrary: st)
  case (Cons a as)
  let ?st = "shutdownEntry rp (evs a) a st"
  have a: "a < length (gHeap st)" using Cons.prems by simp
  note spec = shutdownEntry_spec [OF a, where rp = rp and ev = "evs a"]
  have "\<forall>b \<in> set as. b < length (gHeap ?st)" using Cons.prems spec(3) by simp
  note ih = Cons.IH [OF this, unfolded Let_def]
  show ?case unfolding Let_def fold_simps comp_apply
    using ih spec tells_trans [OF spec(1)] by auto
qed simp



section \<open>Persistence failures\<close>

lemma inc64_neq: "inc64 n \<noteq> n"
proof (cases "n + 1 < 2 ^ 64")
  case False
  then have "inc64 n < 2 ^ 64 \<and> (n + 1 = 2 ^ 64 \<or> 2 ^ 64 \<le> n)" by (auto simp: inc64_def)
  then show ?thesis by (auto simp: inc64_def)
qed (simp add: inc64_def)

lemma Unmount_update_fails:
  assumes "map_of (gMounts st) (UnmountMountId q) = Some a" and "ctxErr ev = None"
    and "UnmountMountId q \<noteq> []" and "\<And>r d. fst (repo_Update rp None r d) \<noteq> None"
  obtains err st1 where
    "Unmount rp ev (Some q) st =
       ((None, Some err), recordMountOperation ev ''unmount'' (Some err)
          (upd_entry a (\<lambda>e. e\<lparr>mUnmounting := mUnmounting (entry st a),
             mInfo := (mInfo e)\<lparr>State := State (mInfo (entry st a)), UpdatedAt := Some (now ev AtUnmountRolledBack)\<rparr>\<rparr>) st1))"
    "gHeap st1 = gHeap (begin_unmount ev a (cancelRetryTimer a st))" "gMounts st1 = gMounts st" "gTasks st1 = gTasks st"
proof -
  let ?b = "begin_unmount ev a (cancelRetryTimer a st)"
  let ?st = "publish MOUNT_EVENT_TYPE_UPDATED (snapshot ?b a) ?b"
  let ?r = "\<lparr>Info = mInfo (entry ?b a), Tombstone = True\<rparr>"
  obtain e d where u: "repo_Update rp None (Some ?r) (gRepository ?st) = (Some e, d)"
    using assms(4) by (metis not_None_eq surj_pair fst_conv)
  let ?s1 = "emit [] (?st\<lparr>gRepository := d\<rparr>)"
  have up: "repo_update rp None ?r ?st = (Some e, ?s1)" using u by (simp add: repo_update_def)
  have c: "mUnmounting (entry (cancelRetryTimer a st) a) = mUnmounting (entry st a)"
    "mInfo (entry (cancelRetryTimer a st) a) = mInfo (entry st a)" by simp_all
  have "Unmount rp ev (Some q) st =
       ((None, Some (errors_Wrap e ''failed to persist unmount tombstone'')),
        recordMountOperation ev ''unmount'' (Some (errors_Wrap e ''failed to persist unmount tombstone''))
          (upd_entry a (\<lambda>e. e\<lparr>mUnmounting := mUnmounting (entry st a),
             mInfo := (mInfo e)\<lparr>State := State (mInfo (entry st a)), UpdatedAt := Some (now ev AtUnmountRolledBack)\<rparr>\<rparr>) ?s1))"
    unfolding Unmount_def Unmount_locked_def assms(1,2) Let_def option.case using assms(1,3) up c by simp
  then show thesis by (rule that) (simp_all add: begin_unmount_def)
qed

text \<open>
  C31: an unmount whose tombstone cannot be stored strands the mount. The request fails and state and
  unmount flag are rolled back, but the generation is not: it stays bumped, with the retry timer
  cancelled. The goroutine that waits for the running child belongs to the old generation, so when
  the child dies afterwards nothing notices: no crash handling is scheduled and the entry keeps the
  state it had.
\<close>

theorem tombstone_failure_strands_mount:
  assumes "map_of (gMounts st) (UnmountMountId q) = Some a" and "a < length (gHeap st)"
    and "ctxErr ev = None" and "UnmountMountId q \<noteq> []" and "\<And>r d. fst (repo_Update rp None r d) \<noteq> None"
  shows "let st' = snd (Unmount rp ev (Some q) st); e = entry st a; e' = entry st' a
    in State (mInfo e') = State (mInfo e) \<and> mUnmounting e' = mUnmounting e \<and> mRetryTimer e' = None \<and>
       mGeneration e' = inc64 (mGeneration e) \<and> gTasks st' = gTasks st \<and>
       (\<forall>c err. gTasks (process_exited a (mGeneration e) c err st') = gTasks st' \<and>
                entry (process_exited a (mGeneration e) c err st') a = e')"
proof -
  from Unmount_update_fails [OF assms(1,3-5)] obtain err st1 where
    u: "Unmount rp ev (Some q) st =
       ((None, Some err), recordMountOperation ev ''unmount'' (Some err)
          (upd_entry a (\<lambda>e. e\<lparr>mUnmounting := mUnmounting (entry st a),
             mInfo := (mInfo e)\<lparr>State := State (mInfo (entry st a)), UpdatedAt := Some (now ev AtUnmountRolledBack)\<rparr>\<rparr>) st1))"
    and heap: "gHeap st1 = gHeap (begin_unmount ev a (cancelRetryTimer a st))" and tasks: "gTasks st1 = gTasks st" by blast
  have len: "length (gHeap st1) = length (gHeap st)" by (simp add: heap begin_unmount_def)
  have e: "entry st1 a = entry (begin_unmount ev a (cancelRetryTimer a st)) a" by (simp add: entry_def heap)
  show ?thesis
    using assms(2) inc64_neq [of "mGeneration (entry st a)"]
    by (simp add: u Let_def len e tasks begin_unmount_def process_exited_def)
qed

theorem tombstone_failure_strands_mount_witness:
  "let rp = failing_repo;
       st' = snd (Unmount rp quiet_env (Some \<lparr>UnmountMountId = ''m1''\<rparr>) sample_mounted)
   in gTasks st' = [WaitForProcess 0 1 0, WaitForMount 0 1 (Some 0)] \<and>
      gTasks (process_exited 0 (mGeneration (entry sample_mounted 0)) 0 None st') = gTasks st'"
proof -
  note sample_mounted_entry(1)
  then show ?thesis
    using tombstone_failure_strands_mount [of sample_mounted "\<lparr>UnmountMountId = ''m1''\<rparr>" 0 quiet_env
        failing_repo]
    by (simp add: sample_mounted_state Let_def quiet_env_def failing_repo_def)
qed



end
