(* ===== verification/Guarantees.thy ===== *)
theory Guarantees
  imports Lifecycle Outcomes
begin

text \<open>
  What the requests guarantee in every reachable state of the daemon: what clients are shown, and
  what an accepted request changes.
\<close>

section \<open>Secrets\<close>



section \<open>Listing\<close>

lemma snapshot_id [simp]: "MountId (snapshot st a) = mountID st a"
  by (simp add: snapshot_def mountID_def redactMountInfo_def on_config_def)

lemma sorted_key_distinct: "distinct (map f xs) \<Longrightarrow> sorted_wrt (\<lambda>x y. f x < f y) (sort_key f xs)"
  using strict_sorted_iff [of "map f (sort_key f xs)"] sorted_sort_key [of f xs]
  by (simp add: sorted_wrt_map distinct_map)



section \<open>A successful unmount\<close>

lemma snapshot_fields [simp]:
  "UnmountedAt (snapshot st a) = UnmountedAt (mInfo (entry st a))"
  by (simp add: snapshot_def redactMountInfo_def on_config_def)

lemma finish_unmount_ok:
  assumes "finish_unmount rp ev ctx a gen st = ((res, None), st')" and "a < length (gHeap st)"
  obtains info where "res = Some info" "MountId info = mountID st a" "UnmountedAt info \<noteq> None" "secret_free info"
    "gMounts st' = AList.delete (mountID st a) (gMounts st)"
    "gRepository st' = snd (repo_Delete rp ctx (mountID st a) (gRepository st))"
proof (cases "removeAll ev")
  case None
  define s where "s = upd_info a (\<lambda>info. info\<lparr>UnmountedAt := Some (now ev AtUnmounted), UpdatedAt := Some (now ev AtUnmounted)\<rparr>)
              (emit [ERemoveAll (mountDataRoot (gConfig st) (mountID st a))] st)"
  have s: "mountID s a = mountID st a" "UnmountedAt (mInfo (entry s a)) \<noteq> None" "gMounts s = gMounts st" "gRepository s = gRepository st"
    using assms(2) by (simp_all add: s_def mountID_def)
  have "res = Some (snapshot s a)" "gMounts st' = AList.delete (mountID st a) (gMounts st)"
    "gRepository st' = snd (repo_Delete rp ctx (mountID st a) (gRepository st))"
    using assms(1) None unfolding finish_unmount_def Let_def s_def [symmetric]
    by (auto simp: s repo_delete_def split_beta split: option.splits)
  with s show thesis by (intro that [of "snapshot s a"]) simp_all
next
  case (Some err)
  then show thesis using assms(1) by (simp add: finish_unmount_def unmount_failed_def Let_def)
qed

lemma Unmount_locked_ok:
  assumes "Unmount_locked rp ev i a st = ((res, None), st')"
  defines "b \<equiv> begin_unmount ev a (cancelRetryTimer a st)"
  obtains s1 where "repo_update rp (ctxErr ev) \<lparr>Info = mInfo (entry b a), Tombstone = True\<rparr>
      (publish MOUNT_EVENT_TYPE_UPDATED (snapshot b a) b) = (None, s1)"
    "performUnmountAttempt rp ev (ctxErr ev) a (mGeneration (entry b a)) s1 = ((res, None), st')"
  using assms by (auto simp: Unmount_locked_def Let_def split: if_splits prod.splits option.splits)

lemma repo_update_ok:
  assumes "repo_update rp ctx r st = (None, st')"
  shows "\<exists>d. repo_Update rp ctx (Some r) (gRepository st) = (None, d) \<and> gRepository st' = d"
    and "gMounts st' = gMounts st" and "gHeap st' = gHeap st" and "entry st' = entry st"
  using assms repo_update_fields(2,3) [of rp ctx r st] entry_same(8) [of rp ctx r st]
  by (auto simp: repo_update_def split: prod.splits)

lemma Unmount_ok:
  fixes st :: "'r manager"
  assumes "Unmount rp ev (Some q) st = ((res, None), st')"
    and "\<And>a. map_of (gMounts st) (UnmountMountId q) = Some a \<Longrightarrow> a < length (gHeap st) \<and> mountID st a = UnmountMountId q"
  obtains info r d where "res = Some info" "MountId info = UnmountMountId q" "UnmountedAt info \<noteq> None" "secret_free info"
    "gMounts st' = AList.delete (UnmountMountId q) (gMounts st)"
    "Tombstone r" "MountId (Info r) = UnmountMountId q"
    "repo_Update rp None (Some r) (gRepository st) = (None, d)"
    "gRepository st' = snd (repo_Delete rp None (UnmountMountId q) d)"
proof (cases rule: Unmount_cases [of rp ev "Some q" st])
  case (rejected err)
  then show thesis using assms(1) by simp
next
  case (accepted q' a)
  then have q: "q' = q" by simp
  note acc = accepted [unfolded q]
  have a: "a < length (gHeap st)" "mountID st a = UnmountMountId q" using assms(2) acc(2) by auto
  define b where "b = begin_unmount ev a (cancelRetryTimer a st)"
  define r where "r = \<lparr>Info = mInfo (entry b a), Tombstone = True\<rparr>"
  have b: "gRepository b = gRepository st" "gMounts b = gMounts st" "length (gHeap b) = length (gHeap st)" "mountID b a = UnmountMountId q"
    using a by (simp_all add: b_def begin_unmount_def mountID_def)
  obtain st'' where l: "Unmount_locked rp ev (UnmountMountId q) a st = ((res, None), st'')" "gMounts st' = gMounts st''" "gRepository st' = gRepository st''"
    using assms(1) acc(4) by (auto simp: Let_def split: prod.splits)
  from Unmount_locked_ok [OF l(1)] acc(3) obtain s1 where
    up: "repo_update rp None r (publish MOUNT_EVENT_TYPE_UPDATED (snapshot b a) b) = (None, s1)"
    and p: "performUnmountAttempt rp ev None a (mGeneration (entry b a)) s1 = ((res, None), st'')"
    unfolding r_def b_def by metis
  from repo_update_ok [OF up] b obtain d where d: "repo_Update rp None (Some r) (gRepository st) = (None, d)" "gRepository s1 = d"
    and s1: "gMounts s1 = gMounts st" "length (gHeap s1) = length (gHeap st)" "mountID s1 a = UnmountMountId q"
    by (auto simp: mountID_def)
  show thesis
  proof (cases rule: performUnmount_cases [of rp ev None a "mGeneration (entry b a)" s1])
    case (failed code err fs)
    then show thesis using p by (simp add: unmount_failed_def Let_def)
  next
    case (finished fs)
    let ?w = "await_exit ev (mExitDone (entry s1 a)) (emit fs s1)"
    have w: "a < length (gHeap ?w)" "mountID ?w a = UnmountMountId q" "gMounts ?w = gMounts st" "gRepository ?w = d"
      using a s1 d by simp_all
    from p finished(1) have "finish_unmount rp ev None a (mGeneration (entry b a)) ?w = ((res, None), st'')" by simp
    from finish_unmount_ok [OF this w(1)] obtain info where "res = Some info" "MountId info = UnmountMountId q"
      "UnmountedAt info \<noteq> None" "secret_free info" "gMounts st'' = AList.delete (UnmountMountId q) (gMounts st)"
      "gRepository st'' = snd (repo_Delete rp None (UnmountMountId q) d)"
      unfolding w by blast
    then show thesis using that [OF _ _ _ _ _ _ _ d(1)] l b(4) by (simp add: r_def mountID_def)
  qed
qed


lemma sample_unmount:
  "\<exists>res st'. Unmount sample_repo quiet_env (Some \<lparr>UnmountMountId = ''m1''\<rparr>) sample_mounted = ((res, None), st')"
proof -
  define b where "b = begin_unmount quiet_env 0 (cancelRetryTimer 0 sample_mounted)"
  define s where "s = publish MOUNT_EVENT_TYPE_UPDATED (snapshot b 0) b"
  have "\<not> mUnmounting (entry sample_mounted 0)"
    using sample_mounted_live .
  then have i: "mInfo (entry b 0) = sample_info0\<lparr>State := MOUNT_STATE_UNMOUNTING\<rparr>"
    by (simp add: b_def begin_unmount_def sample_mounted_entry) (simp add: sample_info0_def mount_info0_def quiet_env_def)
  have r: "gRepository s = gRepository sample_mounted" by (simp add: s_def b_def begin_unmount_def)
  have "fst (repo_update sample_repo None \<lparr>Info = mInfo (entry b 0), Tombstone = True\<rparr> s) = None"
    using sample_tombstone [OF sample_mounted_state(5)] by (simp add: repo_update_def i r split_beta)
  then obtain s1 where u: "repo_update sample_repo None \<lparr>Info = mInfo (entry b 0), Tombstone = True\<rparr> s = (None, s1)"
    by (metis prod.collapse)
  have c: "ctxErr quiet_env = None" by (simp add: quiet_env_def)
  have "Unmount_locked sample_repo quiet_env ''m1'' 0 sample_mounted =
      performUnmountAttempt sample_repo quiet_env None 0 (mGeneration (entry b 0)) s1"
    unfolding Unmount_locked_def Let_def b_def [symmetric] s_def [symmetric] c u
    by (simp add: sample_mounted_state(1))
  then have "snd (fst (Unmount sample_repo quiet_env (Some \<lparr>UnmountMountId = ''m1''\<rparr>) sample_mounted)) = None"
    using quiet_unmount by (simp add: Unmount_def c sample_mounted_state(1) Let_def split_beta)
  then show ?thesis by (metis prod.collapse)
qed


end
