(* ===== verification/StoreTheorems.thy ===== *)
theory StoreTheorems
  imports StoreLaws "HOL-Library.Word"
begin

text \<open>
  The embedded database (\<open>service/store/store.go\<close>): opening it, the schema version record and its
  encoding; and the theorems on the mount repository: it refines a finite map from mount IDs to
  records, keeps the path index consistent, and its keys do not collide.
\<close>

section \<open>The schema version\<close>

definition encodeUint64 :: "64 word \<Rightarrow> string" where
  "encodeUint64 v = map (\<lambda>k. char_of (unat v div 256 ^ k mod 256)) (rev [0..<8])"

definition BigEndian_Uint64 :: "string \<Rightarrow> 64 word" where
  "BigEndian_Uint64 b = foldl (\<lambda>w c. w * 256 + of_char c) 0 b"

definition readSchemaVersion :: "('db, 'txn) badger \<Rightarrow> 'txn \<Rightarrow> 64 word result" where
  "readSchemaVersion bd txn =
     (case txn_Get bd txn metaSchemaVersionKey of
        Inl err \<Rightarrow>
          (if cause err = BadgerKeyNotFound then Inr 0
           else Inl (errors_Wrap err ''failed to read mount database schema version''))
      | Inr item \<Rightarrow>
          (case item of
             Inl err \<Rightarrow> Inl (errors_Wrap err ''failed to read mount database schema version'')
           | Inr v \<Rightarrow>
               (if length v \<noteq> 8
                then Inl (errors_Errorf [Lit ''mount database schema version record has invalid length '', Lit (show_nat (length v))])
                else Inr (BigEndian_Uint64 v))))"

text \<open>No migration exists yet; the loop over the versions is the code's.\<close>

definition migrations :: "nat \<Rightarrow> ('txn \<Rightarrow> 'txn result) option" where
  "migrations = Map.empty"

fun migrate_from :: "nat list \<Rightarrow> 'txn \<Rightarrow> 'txn result" where
  "migrate_from [] txn = Inr txn"
| "migrate_from (version # versions) txn =
     (case migrations version of
        None \<Rightarrow> migrate_from versions txn
      | Some migrate \<Rightarrow>
          (case migrate txn of
             Inl err \<Rightarrow> Inl (errors_Wrapf err [Lit ''failed to migrate mount database from schema version '', Lit (show_nat version)])
           | Inr txn \<Rightarrow> migrate_from versions txn))"

definition ensure_txn :: "('db, 'txn) badger \<Rightarrow> 'txn \<Rightarrow> 'txn result" where
  "ensure_txn bd txn =
     (case readSchemaVersion bd txn of
        Inl err \<Rightarrow> Inl err
      | Inr stored_version \<Rightarrow>
          (if stored_version > of_nat CurrentSchemaVersion
           then Inl (errors_Errorf [Lit ''mount database schema version '', Lit (show_nat (unat stored_version)),
                  Lit '' is newer than the version '', Lit (show_nat CurrentSchemaVersion), Lit '' supported by this build''])
           else (case migrate_from [unat stored_version..<CurrentSchemaVersion] txn of
                   Inl err \<Rightarrow> Inl err
                 | Inr txn \<Rightarrow>
                     (if stored_version = of_nat CurrentSchemaVersion then Inr txn
                      else txn_Set bd txn metaSchemaVersionKey (encodeUint64 (of_nat CurrentSchemaVersion))))))"

definition ensureSchema :: "('db, 'txn) badger \<Rightarrow> 'db \<Rightarrow> gerror option \<times> 'db" where
  "ensureSchema bd db = db_Update bd (ensure_txn bd) db"

definition Open :: "('db, 'txn) badger \<Rightarrow> (string \<Rightarrow> string \<Rightarrow> 'db result) \<Rightarrow> string \<Rightarrow> string \<Rightarrow> 'db result" where
  "Open bd badger_Open dataDir encryptionKey =
     (if encryptionKey = [] then Inl (errors_New ''mount database encryption key is required'')
      else case badger_Open dataDir encryptionKey of
             Inl err \<Rightarrow> Inl (errors_Wrapf err [Lit ''failed to open mount database at '', Quoted dataDir])
           | Inr db \<Rightarrow>
               (case ensureSchema bd db of
                  (Some err, _) \<Rightarrow> Inl err
                | (None, db) \<Rightarrow> Inr db))"

section \<open>The encoding of the version\<close>

lemma base256_digits:
  "foldl (\<lambda>w d. w * 256 + d) a (map (\<lambda>k. n div 256 ^ k mod 256) (rev [0..<m])) = a * 256 ^ m + (n :: nat) mod 256 ^ m"
proof (induction m arbitrary: a)
  case (Suc m)
  have "n mod 256 ^ Suc m = 256 ^ m * (n div 256 ^ m mod 256) + n mod 256 ^ m"
    by (simp only: power_Suc2 mod_mult2_eq)
  moreover have "foldl (\<lambda>w d. w * 256 + d) a (map (\<lambda>k. n div 256 ^ k mod 256) (rev [0..<Suc m])) =
      (a * 256 + n div 256 ^ m mod 256) * 256 ^ m + n mod 256 ^ m"
    by (simp add: Suc)
  ultimately show ?case by (simp add: algebra_simps)
qed simp

lemma foldl_bytes:
  "foldl (\<lambda>w c. w * 256 + of_char c) (of_nat a) (map char_of ds) =
     (of_nat (foldl (\<lambda>w d. w * 256 + d mod 256) a ds) :: 64 word)"
proof (induction ds arbitrary: a)
  case (Cons d ds)
  have "(of_char (char_of d :: char) :: 64 word) = of_nat (d mod 256)"
    using of_nat_of_char [of "char_of d", where ?'a = "64 word"] by (simp only: of_char_of)
  then show ?case using Cons [of "a * 256 + d mod 256"] by simp
qed simp

lemma decode_encodeUint64: "BigEndian_Uint64 (encodeUint64 v) = v" and length_encodeUint64: "length (encodeUint64 v) = 8"
proof -
  have "unat v < 256 ^ 8" using unsigned_less [of v, where ?'a = nat] by simp
  then have "foldl (\<lambda>w d. w * 256 + d mod 256) 0 (map (\<lambda>k. unat v div 256 ^ k mod 256) (rev [0..<8])) = unat v"
    using base256_digits [of 0 "unat v" 8] by (simp add: foldl_map)
  then show "BigEndian_Uint64 (encodeUint64 v) = v"
    using foldl_bytes [of 0 "map (\<lambda>k. unat v div 256 ^ k mod 256) (rev [0..<8])"]
    by (simp add: BigEndian_Uint64_def encodeUint64_def comp_def del: upt_Suc)
  show "length (encodeUint64 v) = 8" by (simp add: encodeUint64_def)
qed

section \<open>Opening the database\<close>

lemma migrate_none [simp]: "migrate_from versions txn = Inr txn"
  by (induction versions) (simp_all add: migrations_def)

context badger_laws
begin

lemma ensure_txn_ok:
  assumes "ensure_txn bd t = Inr t'" and "view t = content db"
  shows "\<exists>d. content db metaSchemaVersionKey = d \<and> (d = None \<or> (\<exists>b. d = Some b \<and> length b = 8 \<and> BigEndian_Uint64 b \<le> 1)) \<and>
    (\<exists>b. view t' = (content db)(metaSchemaVersionKey \<mapsto> b) \<and> length b = 8 \<and> BigEndian_Uint64 b = 1)"
proof -
  have set: "t' = t \<or> txn_Set bd t metaSchemaVersionKey (encodeUint64 1) = Inr t'"
    using assms(1) by (auto simp: ensure_txn_def CurrentSchemaVersion_def split: sum.splits if_splits)
  have eight: "length (encodeUint64 1) = 8" "BigEndian_Uint64 (encodeUint64 1) = 1"
    by (simp_all add: length_encodeUint64 decode_encodeUint64)
  show ?thesis
  proof (cases "txn_Get bd t metaSchemaVersionKey")
    case (Inl e)
    with assms(1) have "cause e = BadgerKeyNotFound" "txn_Set bd t metaSchemaVersionKey (encodeUint64 1) = Inr t'"
      by (auto simp: ensure_txn_def readSchemaVersion_def CurrentSchemaVersion_def split: if_splits)
    with get_missing [OF Inl] set_view assms(2) eight show ?thesis by fastforce
  next
    case (Inr it)
    with assms(1) obtain b where b: "it = Inr b" "length b = 8" "BigEndian_Uint64 b \<le> 1"
      "if BigEndian_Uint64 b = 1 then t' = t else txn_Set bd t metaSchemaVersionKey (encodeUint64 1) = Inr t'"
      by (auto simp: ensure_txn_def readSchemaVersion_def CurrentSchemaVersion_def not_less split: sum.splits if_splits)
    from get_value [OF Inr [unfolded b(1)]] assms(2) have "content db metaSchemaVersionKey = Some b" by simp
    then show ?thesis using b set_view assms(2) eight by (cases "BigEndian_Uint64 b = 1") fastforce+
  qed
qed

end

lemma stored_meta [simp]: "stored cd (m(metaSchemaVersionKey := v)) = stored cd m"
  by (simp add: stored_def fun_eq_iff)

lemma store_inv_meta [simp]: "store_inv cd (m(metaSchemaVersionKey := v)) = store_inv cd m"
  by (simp add: store_inv_def)

lemma Open_cases:
  assumes "badger_laws bd content view" and "badger_Open dir key = Inr db"
  shows "(case Open bd badger_Open dir key of
            Inr db' \<Rightarrow>
              key \<noteq> [] \<and> stored cd (content db') = stored cd (content db) \<and> store_inv cd (content db') = store_inv cd (content db) \<and>
              map_option BigEndian_Uint64 (content db' metaSchemaVersionKey) = Some 1 \<and>
              (case content db metaSchemaVersionKey of None \<Rightarrow> True | Some b \<Rightarrow> length b = 8 \<and> BigEndian_Uint64 b \<le> 1)
          | Inl err \<Rightarrow> key = [] \<or> content (snd (ensureSchema bd db)) = content db)"
proof (cases "key = []")
  case False
  obtain oe db' where e: "ensureSchema bd db = (oe, db')" by force
  note upd = badger_laws.db_Update_cases [OF assms(1) e [unfolded ensureSchema_def]]
  show ?thesis
  proof (cases oe)
    case None
    with upd obtain t where t: "ensure_txn bd (NewTransaction bd db) = Inr t" "content db' = view t" by auto
    from badger_laws.ensure_txn_ok [OF assms(1) t(1) badger_laws.view_new [OF assms(1)]] t(2)
    show ?thesis using False assms(2) e None by (auto simp: Open_def)
  next
    case (Some err)
    with upd show ?thesis using False assms(2) e by (simp add: Open_def)
  qed
qed (simp add: Open_def)

text \<open>
  C33: opening the database. It is opened only with an encryption key. A database without a schema
  version or with an older one is brought to the current version, a newer one is refused; either way
  the mount records are the ones that were there, and a refused database keeps its contents.
\<close>

theorem open_store_schema:
  assumes "badger_laws bd content view" and "badger_Open dir key = Inr db"
  shows "(case Open bd badger_Open dir key of
            Inr db' \<Rightarrow>
              key \<noteq> [] \<and> stored cd (content db') = stored cd (content db) \<and> store_inv cd (content db') = store_inv cd (content db) \<and>
              map_option BigEndian_Uint64 (content db' metaSchemaVersionKey) = Some 1 \<and>
              (case content db metaSchemaVersionKey of None \<Rightarrow> True | Some b \<Rightarrow> length b = 8 \<and> BigEndian_Uint64 b \<le> 1)
          | Inl err \<Rightarrow> key = [] \<or> content (snd (ensureSchema bd db)) = content db)"
  using assms by (rule Open_cases)

theorem open_store_schema_witness:
  "\<exists>db. Open mem_badger (\<lambda>_ _. Inr []) ''/var/lib/irodsfsd/db'' ''key'' = Inr db \<and>
     map_option BigEndian_Uint64 (map_of db metaSchemaVersionKey) = Some 1"
proof -
  obtain db where db: "Open mem_badger (\<lambda>_ _. Inr []) ''/var/lib/irodsfsd/db'' ''key'' = Inr db"
    by (simp add: Open_def ensureSchema_def db_Update_def ensure_txn_def readSchemaVersion_def mem_badger_def
        CurrentSchemaVersion_def errors_sentinel_def)
  with open_store_schema [OF mem.badger_laws_axioms, of "\<lambda>_ _. Inr []" "''/var/lib/irodsfsd/db''" "''key''" "[]" "table_codec []"]
  show ?thesis by simp
qed

section \<open>The repository refines a map\<close>

datatype repo_op =
    DoCreate MountRecord
  | DoUpdate MountRecord
  | DoDelete string

text \<open>The specification: what an operation that succeeds does to the map of records.\<close>

fun spec_op :: "repo_op \<Rightarrow> (string \<Rightarrow> MountRecord option) \<Rightarrow> (string \<Rightarrow> MountRecord option)" where
  "spec_op (DoCreate r) m = m(MountId (Info r) \<mapsto> r)"
| "spec_op (DoUpdate r) m = m(MountId (Info r) \<mapsto> r)"
| "spec_op (DoDelete i) m = m(i := None)"

text \<open>When the specification allows an operation to succeed.\<close>

fun allowed_op :: "repo_op \<Rightarrow> (string \<Rightarrow> MountRecord option) \<Rightarrow> bool" where
  "allowed_op (DoCreate r) m =
     (m (MountId (Info r)) = None \<and> (\<forall>q \<in> ran m. rec_path q \<noteq> rec_path r))"
| "allowed_op (DoUpdate r) m = (m (MountId (Info r)) \<noteq> None)"
| "allowed_op (DoDelete i) m = True"

fun run_op :: "'r repo \<Rightarrow> gerror option \<Rightarrow> repo_op \<Rightarrow> 'r \<Rightarrow> gerror option \<times> 'r" where
  "run_op rp ctx (DoCreate r) d = repo_Create rp ctx (Some r) d"
| "run_op rp ctx (DoUpdate r) d = repo_Update rp ctx (Some r) d"
| "run_op rp ctx (DoDelete i) d = repo_Delete rp ctx i d"

text \<open>The manager never changes the path of a stored record.\<close>

fun keeps_path :: "repo_op \<Rightarrow> (string \<Rightarrow> MountRecord option) \<Rightarrow> bool" where
  "keeps_path (DoUpdate r) m = (case m (MountId (Info r)) of None \<Rightarrow> True | Some q \<Rightarrow> rec_path q = rec_path r)"
| "keeps_path _ m = True"

fun run_ops :: "'r repo \<Rightarrow> (gerror option \<times> repo_op) list \<Rightarrow> 'r \<Rightarrow> repo_op list \<times> 'r" where
  "run_ops rp [] d = ([], d)"
| "run_ops rp ((ctx, oper) # opers) d =
     (case run_op rp ctx oper d of
        (err, d') \<Rightarrow>
          (case run_ops rp opers d' of
             (done, d'') \<Rightarrow> (if err = None then oper # done else done, d'')))"

text \<open>No update of the sequence changes the path of the record it finds.\<close>

fun paths_kept :: "'r repo \<Rightarrow> ('r \<Rightarrow> string \<Rightarrow> MountRecord option) \<Rightarrow> (gerror option \<times> repo_op) list \<Rightarrow> 'r \<Rightarrow> bool" where
  "paths_kept rp rs [] d = True"
| "paths_kept rp rs ((ctx, oper) # opers) d =
     (keeps_path oper (rs d) \<and> paths_kept rp rs opers (snd (run_op rp ctx oper d)))"

text \<open>A sequence the specification accepts: each operation is allowed where it is applied.\<close>

fun spec_run :: "repo_op list \<Rightarrow> (string \<Rightarrow> MountRecord option) \<Rightarrow> bool" where
  "spec_run [] m = True"
| "spec_run (oper # opers) m = (allowed_op oper m \<and> spec_run opers (spec_op oper m))"

context repository
begin

lemma run_op_refines:
  assumes "repo_inv d" and "keeps_path oper (recs d)" and "run_op rp ctx oper d = (err, d')"
  shows "repo_inv d'"
    and "if err = None then recs d' = spec_op oper (recs d) else recs d' = recs d"
proof -
  show "repo_inv d'"
    using assms by (cases oper) (auto intro: create_inv update_inv delete_inv split: option.splits)
  show "if err = None then recs d' = spec_op oper (recs d) else recs d' = recs d"
    using assms(3) by (cases oper) (auto dest: create_ok update_ok delete_ok create_err update_err delete_err)
qed

lemma run_op_allowed:
  assumes "repo_inv d" and "keeps_path oper (recs d)" and "run_op rp ctx oper d = (None, d')"
  shows "allowed_op oper (recs d)"
proof (cases oper)
  case (DoCreate r)
  from assms(3) have c: "recs d (MountId (Info r)) = None" "recs d' = (recs d)(MountId (Info r) \<mapsto> r)"
    by (auto simp: DoCreate dest: create_ok)
  have "rec_path q \<noteq> rec_path r" if q: "q \<in> ran (recs d)" for q
  proof
    assume p: "rec_path q = rec_path r"
    from q obtain j where j: "recs d j = Some q" by (auto simp: ran_def)
    with c have "j \<noteq> MountId (Info r)" by auto
    with j c have "recs d' j = Some q" "recs d' (MountId (Info r)) = Some r" by auto
    from inv_path [OF run_op_refines(1) [OF assms] this p] \<open>j \<noteq> _\<close> show False by simp
  qed
  then show ?thesis using c by (simp add: DoCreate)
next
  case (DoUpdate r)
  with assms show ?thesis by (auto dest: update_known)
qed simp

lemma run_ops_refine:
  assumes "repo_inv d" and "run_ops rp opers d = (done, d')"
    and "paths_kept rp recs opers d"
  shows "repo_inv d' \<and> recs d' = fold spec_op done (recs d) \<and> spec_run done (recs d)"
  using assms
proof (induction opers arbitrary: d "done")
  case (Cons x opers)
  obtain ctx oper where x: "x = (ctx, oper)" by force
  obtain err d1 where r1: "run_op rp ctx oper d = (err, d1)" by force
  obtain dn where r2: "run_ops rp opers d1 = (dn, d')" "done = (if err = None then oper # dn else dn)"
    using Cons.prems(2) by (auto simp: x r1 split: prod.splits)
  have k: "keeps_path oper (recs d)" "paths_kept rp recs opers d1" using Cons.prems(3) by (simp_all add: x r1)
  note r = run_op_refines [OF Cons.prems(1) k(1) r1]
  from Cons.IH [OF r(1) r2(1) k(2)] show ?case
    using r(2) r2(2) run_op_allowed [OF Cons.prems(1) k(1)] r1 by (auto split: if_splits)
qed simp

end

text \<open>
  C7: the repository is a map. Any sequence of creations, updates and deletions on a consistent
  database, whatever transactions fail or conflict on the way, has exactly the effect of its
  successful operations on a finite map from mount IDs to records; each of these was allowed, that
  is, a created ID and path were free and an updated record existed; failed operations change
  nothing, and the database stays consistent, so that the records have distinct IDs and paths.
\<close>

theorem repository_refines_map:
  assumes "store_laws bd content view cd" and "store_inv cd (content d)"
    and "paths_kept (NewMountRepository bd cd) (\<lambda>d. stored cd (content d)) opers d"
    and "run_ops (NewMountRepository bd cd) opers d = (done, d')"
  shows "store_inv cd (content d') \<and>
    stored cd (content d') = fold spec_op done (stored cd (content d)) \<and> spec_run done (stored cd (content d))"
  using repository.run_ops_refine [OF store_laws.repository_contract [OF assms(1)] assms(2,4,3)] by simp

definition rec_a :: MountRecord where
  "rec_a = \<lparr>Info = \<lparr>MountId = ''a'', State = MOUNT_STATE_MOUNTED,
     InfoConfig = Some \<lparr>MountPath = ''/mnt/irods/a'', ReadOnly = False, MountOptions = [], ClientConfig = None\<rparr>,
     Attempt = 1, LastError = None, Pid = 0, CreatedAt = None, UpdatedAt = None, MountedAt = None,
     UnmountedAt = None, NextRetryAt = None\<rparr>, Tombstone = False\<rparr>"

definition rec_b :: MountRecord where
  "rec_b = rec_a\<lparr>Info := (Info rec_a)\<lparr>MountId := ''b''\<rparr>\<rparr>"

definition sample_opers :: "(gerror option \<times> repo_op) list" where
  "sample_opers = [(None, DoCreate rec_a), (None, DoCreate rec_b), (None, DoUpdate (rec_a\<lparr>Tombstone := True\<rparr>))]"

theorem repository_refines_map_witness:
  "\<exists>d'. run_ops (NewMountRepository mem_badger (table_codec [Info rec_a, Info rec_b])) sample_opers [] =
     ([DoCreate rec_a, DoUpdate (rec_a\<lparr>Tombstone := True\<rparr>)], d') \<and>
     stored (table_codec [Info rec_a, Info rec_b]) (map_of d') = [''a'' \<mapsto> rec_a\<lparr>Tombstone := True\<rparr>]"
proof -
  let ?rp = "NewMountRepository mem_badger (table_codec [Info rec_a, Info rec_b])"
  let ?done = "[DoCreate rec_a, DoUpdate (rec_a\<lparr>Tombstone := True\<rparr>)]"
  have "fst (run_ops ?rp sample_opers []) = ?done" by code_simp
  then obtain d' where d': "run_ops ?rp sample_opers [] = (?done, d')" by (metis prod.collapse)
  have inv: "store_inv (table_codec [Info rec_a, Info rec_b]) (map_of ([] :: memdb))" by (simp add: store_inv_def)
  have "paths_kept ?rp (\<lambda>d. stored (table_codec [Info rec_a, Info rec_b]) (map_of d)) sample_opers []" by code_simp
  from repository_refines_map [OF mem.store_laws_axioms inv this d'] d' show ?thesis
    by (simp add: rec_a_def stored_def fun_eq_iff)
qed

text \<open>
  reading back. A record that was created and is read again is the record that was written.
\<close>

theorem create_get_roundtrip:
  assumes "store_laws bd content view cd" and "Create bd cd ctx (Some r) d = (None, d')"
    and "Get bd cd ctx' (MountId (Info r)) d' = Inr q"
  shows "q = r"
proof -
  from store_laws.Create_ok [OF assms(1,2)] obtain data where data: "decodeRecord cd data = Inr r"
    "content d' (mountKey (MountId (Info r))) = Some data" by (metis fun_upd_same fun_upd_other mountKey_path_neq(1))
  have b: "badger_laws bd content view" using assms(1) by (simp add: store_laws_def)
  from assms(3) obtain v where v: "txn_Get bd (NewTransaction bd d') (mountKey (MountId (Info r))) = Inr (Inr v)"
    "decodeRecord cd v = Inr q"
    by (auto simp: Get_def split: option.splits sum.splits if_splits)
  have "v = data"
    using badger_laws.get_value [OF b v(1)] badger_laws.view_new [OF b] data(2) by simp
  with v(2) data(1) show ?thesis by simp
qed

theorem create_get_roundtrip_witness:
  "\<exists>d'. Create mem_badger (table_codec [Info rec_a]) None (Some rec_a) [] = (None, d') \<and>
     Get mem_badger (table_codec [Info rec_a]) None ''a'' d' = Inr rec_a"
proof -
  let ?cd = "table_codec [Info rec_a]"
  have "fst (Create mem_badger ?cd None (Some rec_a) []) = None" by code_simp
  then obtain d' where d': "Create mem_badger ?cd None (Some rec_a) [] = (None, d')" by (metis prod.collapse)
  have "\<not> isl (Get mem_badger ?cd None ''a'' (snd (Create mem_badger ?cd None (Some rec_a) [])))" by code_simp
  then obtain q where q: "Get mem_badger ?cd None ''a'' d' = Inr q" by (auto simp: d' isl_def) (metis sum.exhaust)
  have "Get mem_badger ?cd None (MountId (Info rec_a)) d' = Inr q" using q by (simp add: rec_a_def)
  from create_get_roundtrip [OF mem.store_laws_axioms d' this] q d' show ?thesis by simp
qed

text \<open>
  the key spaces are separate. Mount IDs and mount paths are read off their keys, no key of one
  space is a key of the other, and none is the key of the schema version.
\<close>

theorem keys_separate:
  "(mountKey i = mountKey j \<longleftrightarrow> i = j) \<and> (mountPathKey p = mountPathKey q \<longleftrightarrow> p = q) \<and>
   mountKey i \<noteq> mountPathKey p \<and> mountKey i \<noteq> metaSchemaVersionKey \<and> mountPathKey p \<noteq> metaSchemaVersionKey"
  by simp

end
