(* ===== verification/MountInfoFile.thy ===== *)
theory MountInfoFile
  imports GoPath
begin

text \<open>
  The two system files the mount manager reads itself (\<open>isMountPoint\<close>, \<open>unescapeMountInfoPath\<close>
  and \<open>checkUserAllowOtherEnabled\<close> of \<open>service/mount_manager.go\<close>): the kernel's list of mounts,
  in which the default mount probe looks a mount path up, and FUSE's configuration. \<open>Fields\<close> is
  \<open>strings.Fields\<close> on bytes: it cuts at the UTF-8 encoding of every Unicode white space.
  \<open>mountinfo_file\<close> is what the kernel prints for a list of mounts; the lemmas show that the
  probe finds exactly the mounts printed there.
\<close>

section \<open>Fields and replacers\<close>

definition space_seqs :: "string list" where
  "space_seqs =
     [[CHR '' ''], [CHR 0x09], [CHR 0x0A], [CHR 0x0B], [CHR 0x0C], [CHR 0x0D],
      [CHR 0xC2, CHR 0x85], [CHR 0xC2, CHR 0xA0], [CHR 0xE1, CHR 0x9A, CHR 0x80],
      [CHR 0xE2, CHR 0x80, CHR 0x80], [CHR 0xE2, CHR 0x80, CHR 0x81], [CHR 0xE2, CHR 0x80, CHR 0x82],
      [CHR 0xE2, CHR 0x80, CHR 0x83], [CHR 0xE2, CHR 0x80, CHR 0x84], [CHR 0xE2, CHR 0x80, CHR 0x85],
      [CHR 0xE2, CHR 0x80, CHR 0x86], [CHR 0xE2, CHR 0x80, CHR 0x87], [CHR 0xE2, CHR 0x80, CHR 0x88],
      [CHR 0xE2, CHR 0x80, CHR 0x89], [CHR 0xE2, CHR 0x80, CHR 0x8A], [CHR 0xE2, CHR 0x80, CHR 0xA8],
      [CHR 0xE2, CHR 0x80, CHR 0xA9], [CHR 0xE2, CHR 0x80, CHR 0xAF], [CHR 0xE2, CHR 0x81, CHR 0x9F],
      [CHR 0xE3, CHR 0x80, CHR 0x80]]"

definition space_len :: "string \<Rightarrow> nat" where
  "space_len s = (case filter (\<lambda>q. prefix q s) space_seqs of [] \<Rightarrow> 0 | q # _ \<Rightarrow> length q)"

text \<open>\<open>cut field s\<close>: the fields of \<open>s\<close>, \<open>field\<close> being the part of the current one already read.\<close>

function cut :: "string \<Rightarrow> string \<Rightarrow> string list" where
  "cut field s =
     (case s of
        [] \<Rightarrow> (if field = [] then [] else [field])
      | c # cs \<Rightarrow>
          (let n = space_len s
           in if n = 0 then cut (field @ [c]) cs
              else (if field = [] then [] else [field]) @ cut [] (drop n s)))"
  by pat_completeness auto
termination
  by (relation "measure (\<lambda>(field, s). length s)") (auto simp: Let_def)

declare cut.simps [simp del]

definition Fields :: "string \<Rightarrow> string list" where
  "Fields s = cut [] s"

text \<open>\<open>strings.NewReplacer\<close>: at each position the first pattern that matches is replaced.\<close>

function Replacer :: "(string \<times> string) list \<Rightarrow> string \<Rightarrow> string" where
  "Replacer table s =
     (case s of
        [] \<Rightarrow> []
      | c # cs \<Rightarrow>
          (case filter (\<lambda>(old, new). old \<noteq> [] \<and> prefix old s) table of
             [] \<Rightarrow> c # Replacer table cs
           | (old, new) # _ \<Rightarrow> new @ Replacer table (drop (length old - 1) cs)))"
  by pat_completeness auto
termination
  by (relation "measure (\<lambda>(table, s). length s)") auto

declare Replacer.simps [simp del]

section \<open>The probe\<close>

abbreviation backslash :: char where "backslash \<equiv> CHR 0x5C"

definition mountinfo_table :: "(string \<times> string) list" where
  "mountinfo_table =
     [(backslash # ''040'', '' ''),
      (backslash # ''011'', [CHR 0x09]),
      (backslash # ''012'', [CHR 0x0A]),
      (backslash # ''134'', [backslash])]"

definition unescapeMountInfoPath :: "string \<Rightarrow> string" where
  "unescapeMountInfoPath value = Replacer mountinfo_table value"

fun findMount :: "string \<Rightarrow> string list \<Rightarrow> bool" where
  "findMount want [] = False"
| "findMount want (line # ls) =
     (let fields = Fields line
      in if length fields < 5 then findMount want ls
         else if Clean (unescapeMountInfoPath (fields ! 4)) = want then True
         else findMount want ls)"

definition isMountPoint :: "(string \<Rightarrow> string result) \<Rightarrow> string \<Rightarrow> bool result" where
  "isMountPoint readFile mountPath =
     (case readFile ''/proc/self/mountinfo'' of
        Inl err \<Rightarrow> Inl (errors_Wrap err ''failed to read mountinfo'')
      | Inr data \<Rightarrow> Inr (findMount (Clean mountPath) (split_on CHR 0x0A data)))"

section \<open>FUSE's configuration\<close>

definition fuseConfPath :: string where "fuseConfPath = ''/etc/fuse.conf''"

definition checkUserAllowOtherEnabled :: "nat \<Rightarrow> (string \<Rightarrow> string result) \<Rightarrow> string \<Rightarrow> gerror option" where
  "checkUserAllowOtherEnabled euid readFile p =
     (if euid = 0 then None
      else case readFile p of
             Inl err \<Rightarrow>
               Some (if errors_Is (Some err) NotExist
                     then errors_Errorf [Lit ''allow_fuse_allow_other requires user_allow_other to be set in '',
                            Quoted p, Lit '', but the file does not exist'']
                     else errors_Wrapf err [Lit ''failed to read '', Quoted p])
           | Inr data \<Rightarrow>
               (if list_ex (\<lambda>line. TrimSpace line = ''user_allow_other'') (split_on CHR 0x0A data) then None
                else Some (errors_Errorf [Lit ''allow_fuse_allow_other requires user_allow_other to be set in '',
                             Quoted p])))"

section \<open>What the kernel prints\<close>

definition octal :: "char \<Rightarrow> string" where
  "octal c =
     (if c = CHR '' '' then backslash # ''040''
      else if c = CHR 0x09 then backslash # ''011''
      else if c = CHR 0x0A then backslash # ''012''
      else if c = backslash then backslash # ''134''
      else [c])"

definition kernel_escape :: "string \<Rightarrow> string" where
  "kernel_escape p = concat (map octal p)"

lemma Replacer_Nil [simp]: "Replacer table [] = []"
  by (simp add: Replacer.simps)

lemma Replacer_octal: "Replacer mountinfo_table (octal c @ s) = c # Replacer mountinfo_table s"
  by (subst Replacer.simps) (auto simp: octal_def mountinfo_table_def)

lemma unescape_escape: "unescapeMountInfoPath (kernel_escape p) = p"
  unfolding unescapeMountInfoPath_def kernel_escape_def
  by (induction p) (simp_all add: Replacer_octal)

text \<open>A field: not empty and without white space.\<close>

fun no_space :: "string \<Rightarrow> bool" where
  "no_space [] = True"
| "no_space (c # cs) = (space_len (c # cs) = 0 \<and> no_space cs)"

lemma space_len_0_iff: "space_len s = 0 \<longleftrightarrow> (\<forall>q\<in>set space_seqs. \<not> prefix q s)"
proof -
  have ne: "[] \<notin> set space_seqs" by code_simp
  show ?thesis
  proof (cases "filter (\<lambda>q. prefix q s) space_seqs")
    case Nil
    then show ?thesis by (simp add: space_len_def filter_empty_conv)
  next
    case (Cons q qs)
    have "q \<in> set (filter (\<lambda>q. prefix q s) space_seqs)" unfolding Cons by simp
    then have "q \<in> set space_seqs \<and> prefix q s" by simp
    then show ?thesis using ne Cons by (auto simp: space_len_def)
  qed
qed

lemma space_len_append:
  assumes "s \<noteq> []" and "space_len s = 0"
  shows "space_len (s @ CHR '' '' # r) = 0"
proof -
  have tl: "list_all (\<lambda>q. CHR '' '' \<notin> set (tl q)) space_seqs" by code_simp
  have "\<not> prefix q (s @ CHR '' '' # r)" if q: "q \<in> set space_seqs" for q
  proof
    assume "prefix q (s @ CHR '' '' # r)"
    then consider "prefix q s" | u where "q = s @ CHR '' '' # u"
      by (auto simp: prefix_append prefix_Cons)
    then show False
    proof cases
      case 1
      then show ?thesis using assms(2) q by (simp add: space_len_0_iff)
    next
      case (2 u)
      then have "CHR '' '' \<in> set (tl q)" using assms(1) by (cases s) simp_all
      then show ?thesis using tl q by (auto simp: list_all_iff)
    qed
  qed
  then show ?thesis by (simp add: space_len_0_iff)
qed

lemma space_len_space [simp]: "space_len (CHR '' '' # r) = 1"
  by (simp add: space_len_def space_seqs_def)

lemma cut_space: "cut field (CHR '' '' # r) = (if field = [] then [] else [field]) @ cut [] r"
  by (subst cut.simps) simp

lemma cut_field:
  "no_space f \<Longrightarrow> cut field (f @ CHR '' '' # r) = cut (field @ f) (CHR '' '' # r)"
proof (induction f arbitrary: field)
  case (Cons c f)
  have "space_len ((c # f) @ CHR '' '' # r) = 0" using Cons.prems by (intro space_len_append) simp_all
  then have "cut field ((c # f) @ CHR '' '' # r) = cut (field @ [c]) (f @ CHR '' '' # r)"
    by (subst cut.simps) simp
  then show ?case using Cons by simp
qed simp

lemma Fields_Cons: "f \<noteq> [] \<Longrightarrow> no_space f \<Longrightarrow> Fields (f @ CHR '' '' # r) = f # Fields r"
  by (simp add: Fields_def cut_field cut_space)

text \<open>
  One line of the kernel's list: four fields, the escaped mount point, and the remaining text.
\<close>

record mountinfo_entry =
  miFields :: "string list"
  miPath :: string
  miRest :: string

definition entry_ok :: "mountinfo_entry \<Rightarrow> bool" where
  "entry_ok e \<longleftrightarrow>
     length (miFields e) = 4 \<and> list_all (\<lambda>f. f \<noteq> [] \<and> no_space f) (miFields e) \<and>
     miPath e \<noteq> [] \<and> no_space (kernel_escape (miPath e)) \<and> CHR 0x0A \<notin> set (miRest e)"

definition mountinfo_line :: "mountinfo_entry \<Rightarrow> string" where
  "mountinfo_line e = concat (map (\<lambda>f. f @ '' '') (miFields e @ [kernel_escape (miPath e)])) @ miRest e"

definition mountinfo_file :: "mountinfo_entry list \<Rightarrow> string" where
  "mountinfo_file es = concat (map (\<lambda>e. mountinfo_line e @ [CHR 0x0A]) es)"

lemma no_space_newline: "no_space f \<Longrightarrow> CHR 0x0A \<notin> set f"
proof (induction f)
  case (Cons c f)
  have "space_len (CHR 0x0A # f) = 1" by (simp add: space_len_def space_seqs_def)
  then show ?case using Cons by auto
qed simp

lemma Fields_line:
  assumes "entry_ok e"
  shows "\<exists>fs. Fields (mountinfo_line e) = miFields e @ kernel_escape (miPath e) # fs"
proof -
  have ne: "kernel_escape (miPath e) \<noteq> []"
    using assms by (cases "miPath e") (auto simp: entry_ok_def kernel_escape_def octal_def)
  have "Fields (concat (map (\<lambda>f. f @ '' '') gs) @ r) = gs @ Fields r"
    if "list_all (\<lambda>f. f \<noteq> [] \<and> no_space f) gs" for gs r
    using that by (induction gs) (simp_all add: Fields_Cons)
  from this [of "miFields e @ [kernel_escape (miPath e)]" "miRest e"] assms ne
  show ?thesis by (auto simp: mountinfo_line_def entry_ok_def)
qed

lemma line_newline: "entry_ok e \<Longrightarrow> CHR 0x0A \<notin> set (mountinfo_line e)"
  by (auto simp: entry_ok_def mountinfo_line_def list_all_iff dest: no_space_newline)

lemma findMount_lines:
  "list_all entry_ok es \<Longrightarrow>
     findMount want (split_on CHR 0x0A (mountinfo_file es)) \<longleftrightarrow> list_ex (\<lambda>e. Clean (miPath e) = want) es"
proof (induction es)
  case Nil
  then show ?case by (simp add: mountinfo_file_def Fields_def cut.simps)
next
  case (Cons e es)
  then have e: "entry_ok e" by simp
  from Fields_line [OF e] obtain fs where f: "Fields (mountinfo_line e) = miFields e @ kernel_escape (miPath e) # fs"
    by blast
  have s: "split_on CHR 0x0A (mountinfo_file (e # es)) =
      mountinfo_line e # split_on CHR 0x0A (mountinfo_file es)"
    by (simp add: mountinfo_file_def split_on_append line_newline [OF e])
  have "Fields (mountinfo_line e) ! 4 = kernel_escape (miPath e)" "length (Fields (mountinfo_line e)) \<ge> 5"
    using e by (simp_all add: f entry_ok_def nth_append)
  then show ?case using Cons by (simp add: s unescape_escape)
qed

text \<open>
  C20: The default mount probe is exact: read against the list the kernel prints, with spaces,
  tabs, newlines and backslashes of a path escaped, it reports a path as mounted if and only if
  the cleaned path is one of the listed mount points. (A mount point with another white-space
  character, which the kernel prints as it is, is outside this statement: it splits the field.)
\<close>

theorem mount_probe_exact:
  assumes "list_all entry_ok es"
    and "readFile ''/proc/self/mountinfo'' = Inr (mountinfo_file es)"
  shows "isMountPoint readFile p = Inr (list_ex (\<lambda>e. Clean (miPath e) = Clean p) es)"
  using assms by (simp add: isMountPoint_def findMount_lines)

definition sample_entries :: "mountinfo_entry list" where
  "sample_entries =
     [\<lparr>miFields = [''22'', ''1'', ''8:1'', ''/''], miPath = ''/'', miRest = ''rw - ext4 /dev/sda1 rw''\<rparr>,
      \<lparr>miFields = [''90'', ''22'', ''0:40'', ''/''], miPath = ''/mnt/irods/my data'', miRest = ''rw - fuse irodsfs rw''\<rparr>]"

theorem mount_probe_exact_witness:
  "isMountPoint (\<lambda>f. Inr (mountinfo_file sample_entries)) ''/mnt/irods//my data/'' = Inr True"
proof -
  have "list_all entry_ok sample_entries" by code_simp
  from mount_probe_exact [OF this, of "\<lambda>f. Inr (mountinfo_file sample_entries)" "''/mnt/irods//my data/''"]
  have "isMountPoint (\<lambda>f. Inr (mountinfo_file sample_entries)) ''/mnt/irods//my data/'' =
     Inr (list_ex (\<lambda>e. Clean (miPath e) = Clean ''/mnt/irods//my data/'') sample_entries)" by simp
  moreover have "list_ex (\<lambda>e. Clean (miPath e) = Clean ''/mnt/irods//my data/'') sample_entries" by code_simp
  ultimately show ?thesis by simp
qed

text \<open>A mount point with a carriage return is printed as it is and is not found.\<close>

lemma carriage_return_not_found:
  "isMountPoint (\<lambda>f. Inr (mountinfo_file
      [\<lparr>miFields = [''90'', ''22'', ''0:40'', ''/''], miPath = ''/mnt/a'' @ [CHR 0x0D] @ ''b'', miRest = ''rw''\<rparr>]))
     (''/mnt/a'' @ [CHR 0x0D] @ ''b'') = Inr False"
  by code_simp

end
