(* ===== verification/LogStore.thy ===== *)
theory LogStore
  imports GoPath Redaction
begin

text \<open>
  The log of a mount's child process (\<open>service/logstore/logstore.go\<close>, \<open>query.go\<close>): the writers
  that cut the child's two output streams into lines, the record written for each line with
  every configured secret replaced, and the query over the file. A \<open>MountLog\<close> keeps the chunks
  it handed to its writer, in order; the rotated file behind that writer is lumberjack's.
  \<open>encoding/json\<close> on a \<open>Record\<close> is a pair of parameters \<open>marshal\<close> and \<open>unmarshal\<close>; what the
  theorems use of them is \<open>json_record\<close>: a record whose time can be printed is encoded without
  a newline byte and decoded to the same record, its message made valid UTF-8. The lemmas show
  that the way the pipe cuts the output into chunks does not matter, and what a query returns.
\<close>

section \<open>Writing\<close>

abbreviation newline :: char where "newline \<equiv> CHR 0x0A"

definition maxSizeMB :: nat where "maxSizeMB = 10"
definition maxBackups :: nat where "maxBackups = 5"
definition maxAgeDays :: nat where "maxAgeDays = 14"

record Record =
  RecordTime :: time
  RecordStream :: string
  RecordMessage :: string

record lineWriter =
  lwStream :: string
  lwBuf :: string

text \<open>
  \<open>logClock\<close> is \<open>now\<close>: the time its n-th call returns; \<open>logCalls\<close> counts the calls.
\<close>

record MountLog =
  logFilename :: string
  logWritten :: "string list"
  logSecrets :: "string list"
  logClock :: "nat \<Rightarrow> time"
  logCalls :: nat
  logStdout :: lineWriter
  logStderr :: lineWriter

type_synonym marshal = "Record \<Rightarrow> string option"
type_synonym unmarshal = "string \<Rightarrow> Record option"

text \<open>\<open>mkdir\<close> is the outcome of \<open>os.MkdirAll\<close> on a directory.\<close>

definition OpenLog :: "(string \<Rightarrow> gerror option) \<Rightarrow> (nat \<Rightarrow> time) \<Rightarrow> string \<Rightarrow> string list \<Rightarrow> MountLog result" where
  "OpenLog mkdir clock p secrets =
     (case mkdir (Dir p) of
        Some err \<Rightarrow> Inl (errors_Wrapf err [Lit ''failed to create mount log directory for '', Quoted p])
      | None \<Rightarrow>
          Inr \<lparr>logFilename = p, logWritten = [],
               logSecrets = filter (\<lambda>secret. secret \<noteq> []) secrets,
               logClock = clock, logCalls = 0,
               logStdout = \<lparr>lwStream = ''stdout'', lwBuf = []\<rparr>,
               logStderr = \<lparr>lwStream = ''stderr'', lwBuf = []\<rparr>\<rparr>)"

definition redactLine :: "string list \<Rightarrow> string \<Rightarrow> string" where
  "redactLine secrets line = foldl (\<lambda>l secret. ReplaceAll l secret ''[REDACTED]'') line secrets"

definition writeLine :: "marshal \<Rightarrow> string \<Rightarrow> string \<Rightarrow> MountLog \<Rightarrow> MountLog" where
  "writeLine marshal stream line log =
     (let line = redactLine (logSecrets log) line;
          rec = \<lparr>RecordTime = logClock log (logCalls log), RecordStream = stream, RecordMessage = line\<rparr>;
          log = log\<lparr>logCalls := logCalls log + 1\<rparr>
      in case marshal rec of
           None \<Rightarrow> log
         | Some data \<Rightarrow> log\<lparr>logWritten := logWritten log @ [data @ [newline]]\<rparr>)"

text \<open>The loop of \<open>lineWriter.Write\<close>: one line at a time, until the buffer has no newline.\<close>

function drainLines :: "marshal \<Rightarrow> lineWriter \<Rightarrow> MountLog \<Rightarrow> lineWriter \<times> MountLog" where
  "drainLines marshal w log =
     (case IndexByte (lwBuf w) newline of
        None \<Rightarrow> (w, log)
      | Some index \<Rightarrow>
          (let line = take index (lwBuf w)
           in drainLines marshal (w\<lparr>lwBuf := drop (index + 1) (lwBuf w)\<rparr>)
                (writeLine marshal (lwStream w) line log)))"
  by pat_completeness auto
termination
  by (relation "measure (\<lambda>(marshal, w, log). length (lwBuf w))")
    (auto simp: IndexByte_def split: if_splits intro!: diff_less dest: length_pos_if_in_set)

declare drainLines.simps [simp del]

definition lineWriter_Write :: "marshal \<Rightarrow> lineWriter \<Rightarrow> string \<Rightarrow> MountLog \<Rightarrow> lineWriter \<times> MountLog \<times> nat" where
  "lineWriter_Write marshal w data log =
     (let (w', log') = drainLines marshal (w\<lparr>lwBuf := lwBuf w @ data\<rparr>) log
      in (w', log', length data))"

definition flushLine :: "marshal \<Rightarrow> lineWriter \<Rightarrow> MountLog \<Rightarrow> lineWriter \<times> MountLog" where
  "flushLine marshal w log =
     (if length (lwBuf w) = 0 then (w, log)
      else (w\<lparr>lwBuf := []\<rparr>, writeLine marshal (lwStream w) (lwBuf w) log))"

text \<open>The two writers a child process gets, by the pipe they serve.\<close>

datatype pipe = Stdout | Stderr

fun pipe_writer :: "pipe \<Rightarrow> MountLog \<Rightarrow> lineWriter" where
  "pipe_writer Stdout log = logStdout log"
| "pipe_writer Stderr log = logStderr log"

fun set_writer :: "pipe \<Rightarrow> lineWriter \<Rightarrow> MountLog \<Rightarrow> MountLog" where
  "set_writer Stdout w log = log\<lparr>logStdout := w\<rparr>"
| "set_writer Stderr w log = log\<lparr>logStderr := w\<rparr>"

definition writePipe :: "marshal \<Rightarrow> pipe \<Rightarrow> string \<Rightarrow> MountLog \<Rightarrow> MountLog" where
  "writePipe marshal p data log =
     (let (w, log', n) = lineWriter_Write marshal (pipe_writer p log) data log
      in set_writer p w log')"

definition flushPipe :: "marshal \<Rightarrow> pipe \<Rightarrow> MountLog \<Rightarrow> MountLog" where
  "flushPipe marshal p log =
     (let (w, log') = flushLine marshal (pipe_writer p log) log in set_writer p w log')"

text \<open>\<open>closed\<close> is what closing the underlying file returns.\<close>

definition CloseLog :: "marshal \<Rightarrow> gerror option \<Rightarrow> MountLog \<Rightarrow> gerror option \<times> MountLog" where
  "CloseLog marshal closed log = (closed, flushPipe marshal Stderr (flushPipe marshal Stdout log))"

section \<open>Querying\<close>

text \<open>A zero \<open>time.Time\<close> is \<open>None\<close>.\<close>

record QueryOptions =
  Since :: "time option"
  Tail :: int
  Limit :: int

definition queryLines :: "unmarshal \<Rightarrow> QueryOptions \<Rightarrow> string list \<Rightarrow> Record list" where
  "queryLines unmarshal options ls =
     concat (map (\<lambda>line.
       if line = [] then []
       else case unmarshal line of
              None \<Rightarrow> []
            | Some r \<Rightarrow>
                (case Since options of
                   Some since \<Rightarrow> (if \<not> RecordTime r > since then [] else [r])
                 | None \<Rightarrow> [r])) ls)"

definition tailRecords :: "QueryOptions \<Rightarrow> Record list \<Rightarrow> Record list" where
  "tailRecords options records =
     (if Tail options > 0 \<and> int (length records) > Tail options
      then drop (length records - nat (Tail options)) records else records)"

definition limitRecords :: "QueryOptions \<Rightarrow> Record list \<Rightarrow> Record list" where
  "limitRecords options records =
     (if Limit options > 0 \<and> int (length records) > Limit options
      then take (nat (Limit options)) records else records)"

definition Query :: "unmarshal \<Rightarrow> (string \<Rightarrow> string result) \<Rightarrow> string \<Rightarrow> QueryOptions \<Rightarrow> Record list result" where
  "Query unmarshal read p options =
     (case read p of
        Inl err \<Rightarrow>
          (if errors_Is (Some err) NotExist then Inr []
           else Inl (errors_Wrapf err [Lit ''failed to read mount log '', Quoted p]))
      | Inr data \<Rightarrow>
          (let records = queryLines unmarshal options (split_on newline (TrimRight data newline))
           in Inr (limitRecords options (tailRecords options records))))"

section \<open>Lines of an output\<close>

text \<open>
  The reference: the lines of a whole output are its newline-separated parts; a last part
  without a newline counts when it is not empty.
\<close>

definition whole_lines :: "string \<Rightarrow> string list" where
  "whole_lines s = butlast (split_on newline s)"

definition rest_line :: "string \<Rightarrow> string" where
  "rest_line s = last (split_on newline s)"

definition output_lines :: "string \<Rightarrow> string list" where
  "output_lines s = whole_lines s @ (if rest_line s = [] then [] else [rest_line s])"

lemma lines_free:
  assumes "newline \<notin> set s"
  shows "whole_lines s = []" and "rest_line s = s"
  using assms by (simp_all add: whole_lines_def rest_line_def split_on_free)

lemma lines_cut:
  assumes "newline \<notin> set l"
  shows "whole_lines (l @ newline # s) = l # whole_lines s" and "rest_line (l @ newline # s) = rest_line s"
  using assms by (simp_all add: whole_lines_def rest_line_def split_on_append)

lemma lines_end:
  assumes "newline \<notin> set l"
  shows "whole_lines (l @ [newline]) = [l]" and "rest_line (l @ [newline]) = []"
  using lines_cut [OF assms, of "[]"] by (simp_all add: lines_free)

lemma rest_line_free: "newline \<notin> set (rest_line s)"
  unfolding rest_line_def by (rule split_on_no_sep [OF last_in_set]) simp

lemma split_output: "split_on newline s = whole_lines s @ [rest_line s]"
  by (simp add: whole_lines_def rest_line_def)

lemma lines_append:
  shows whole_lines_append: "whole_lines (s @ t) = whole_lines s @ whole_lines (rest_line s @ t)"
    and rest_line_append: "rest_line (s @ t) = rest_line (rest_line s @ t)"
proof -
  have "whole_lines (s @ t) = whole_lines s @ whole_lines (rest_line s @ t) \<and>
        rest_line (s @ t) = rest_line (rest_line s @ t)"
  proof (induction "length s" arbitrary: s rule: less_induct)
    case less
    show ?case
    proof (cases "newline \<in> set s")
      case False
      then show ?thesis by (simp add: lines_free)
    next
      case True
      then obtain l r where s: "s = l @ newline # r" and l: "newline \<notin> set l"
        by (meson split_list_first)
      with less [of r] show ?thesis by (simp add: lines_cut)
    qed
  qed
  then show "whole_lines (s @ t) = whole_lines s @ whole_lines (rest_line s @ t)"
    and "rest_line (s @ t) = rest_line (rest_line s @ t)" by auto
qed


section \<open>The effect of the writers\<close>

text \<open>\<open>writeLines\<close>: one \<open>writeLine\<close> per line of a list.\<close>

definition writeLines :: "marshal \<Rightarrow> string \<Rightarrow> string list \<Rightarrow> MountLog \<Rightarrow> MountLog" where
  "writeLines marshal stream ls log = foldl (\<lambda>lg l. writeLine marshal stream l lg) log ls"

lemma writeLines_simps [simp]:
  "writeLines marshal stream [] log = log"
  "writeLines marshal stream (l # ls) log = writeLines marshal stream ls (writeLine marshal stream l log)"
  "writeLines marshal stream (ls @ ms) log = writeLines marshal stream ms (writeLines marshal stream ls log)"
  by (simp_all add: writeLines_def)

lemma drainLines_eq:
  "drainLines marshal w log =
     (w\<lparr>lwBuf := rest_line (lwBuf w)\<rparr>, writeLines marshal (lwStream w) (whole_lines (lwBuf w)) log)"
proof (induction marshal w log rule: drainLines.induct)
  case (1 marshal w log)
  show ?case
  proof (cases "newline \<in> set (lwBuf w)")
    case False
    then show ?thesis
      by (subst drainLines.simps) (simp add: IndexByte_def lines_free)
  next
    case True
    then obtain l r where b: "lwBuf w = l @ newline # r" and l: "newline \<notin> set l"
      by (meson split_list_first)
    then have i: "IndexByte (lwBuf w) newline = Some (length l)"
      by (auto simp: IndexByte_def takeWhile_append)
    from 1 [OF i refl] show ?thesis
      by (subst drainLines.simps) (simp add: i [unfolded b] b l lines_cut)
  qed
qed

lemma writeLine_frame [simp]:
  "logStdout (writeLine marshal stream l log) = logStdout log"
  "logStderr (writeLine marshal stream l log) = logStderr log"
  "logSecrets (writeLine marshal stream l log) = logSecrets log"
  "logClock (writeLine marshal stream l log) = logClock log"
  by (simp_all add: writeLine_def Let_def split: option.splits)

lemma writeLines_frame [simp]:
  "logStdout (writeLines marshal stream ls log) = logStdout log"
  "logStderr (writeLines marshal stream ls log) = logStderr log"
  "logSecrets (writeLines marshal stream ls log) = logSecrets log"
  "logClock (writeLines marshal stream ls log) = logClock log"
  by (induction ls arbitrary: log) simp_all

lemma pipe_writer_set [simp]:
  "pipe_writer p (set_writer q w log) = (if p = q then w else pipe_writer p log)"
  "logSecrets (set_writer q w log) = logSecrets log"
  "logClock (set_writer q w log) = logClock log"
  "logCalls (set_writer q w log) = logCalls log"
  "logWritten (set_writer q w log) = logWritten log"
  by (cases p; cases q; simp)+

lemma pipe_writer_writeLines [simp]: "pipe_writer p (writeLines marshal stream ls log) = pipe_writer p log"
  by (cases p) simp_all

section \<open>The records of a log\<close>

definition json_record :: "marshal \<Rightarrow> unmarshal \<Rightarrow> (string \<Rightarrow> string) \<Rightarrow> (nat \<Rightarrow> time) \<Rightarrow> bool" where
  "json_record marshal unmarshal utf8 clock \<longleftrightarrow>
     (\<forall>r n. RecordTime r = clock n \<longrightarrow>
        (\<exists>d. marshal r = Some d \<and> d \<noteq> [] \<and> newline \<notin> set d \<and>
             unmarshal d = Some (r\<lparr>RecordMessage := utf8 (RecordMessage r)\<rparr>)))"

lemma json_recordD:
  assumes "json_record marshal unmarshal utf8 clock" and "RecordTime r = clock n"
  obtains d where "marshal r = Some d" "d \<noteq> []" "newline \<notin> set d"
    "unmarshal d = Some (r\<lparr>RecordMessage := utf8 (RecordMessage r)\<rparr>)"
  using assms unfolding json_record_def by blast

text \<open>
  \<open>logged marshal log rs\<close>: the chunks written so far are the encodings of the records \<open>rs\<close>.
\<close>

definition logged :: "marshal \<Rightarrow> MountLog \<Rightarrow> Record list \<Rightarrow> bool" where
  "logged marshal log rs \<longleftrightarrow>
     (\<forall>r\<in>set rs. RecordTime r \<in> range (logClock log)) \<and>
     logWritten log = map (\<lambda>r. the (marshal r) @ [newline]) rs"

definition stream_lines :: "string \<Rightarrow> Record list \<Rightarrow> string list" where
  "stream_lines stream rs = map RecordMessage (filter (\<lambda>r. RecordStream r = stream) rs)"

lemma stream_lines_simps [simp]:
  "stream_lines s [] = []"
  "stream_lines s (rs @ [r]) = stream_lines s rs @ (if RecordStream r = s then [RecordMessage r] else [])"
  by (simp_all add: stream_lines_def)

lemma logged_writeLine:
  assumes j: "json_record marshal unmarshal utf8 (logClock log)" and rs: "logged marshal log rs"
  obtains r where "logged marshal (writeLine marshal stream l log) (rs @ [r])"
    and "RecordStream r = stream" and "RecordMessage r = redactLine (logSecrets log) l"
proof -
  let ?r = "\<lparr>RecordTime = logClock log (logCalls log), RecordStream = stream,
             RecordMessage = redactLine (logSecrets log) l\<rparr>"
  from json_recordD [OF j, of ?r] obtain d where "marshal ?r = Some d" by auto
  then have "logged marshal (writeLine marshal stream l log) (rs @ [?r])"
    using rs by (auto simp: logged_def writeLine_def Let_def)
  then show ?thesis by (rule that) simp_all
qed

lemma logged_writeLines:
  assumes "json_record marshal unmarshal utf8 (logClock log)" and "logged marshal log rs"
  shows "\<exists>rs'. logged marshal (writeLines marshal stream ls log) rs' \<and>
           (\<forall>s. stream_lines s rs' =
                stream_lines s rs @ (if s = stream then map (redactLine (logSecrets log)) ls else []))"
  using assms
proof (induction ls arbitrary: log rs)
  case Nil
  then show ?case by auto
next
  case (Cons l ls)
  from Cons.prems obtain r where r: "logged marshal (writeLine marshal stream l log) (rs @ [r])"
    "RecordStream r = stream" "RecordMessage r = redactLine (logSecrets log) l"
    by (rule logged_writeLine)
  from Cons.IH [OF _ r(1)] Cons.prems(1) r(2,3) show ?case by auto
qed

text \<open>
  The invariant of a log whose pipes have received the texts \<open>sofar p\<close>: the buffers hold the
  unfinished lines and the file the finished ones, pipe by pipe and in order.
\<close>

fun pipe_name :: "pipe \<Rightarrow> string" where
  "pipe_name Stdout = ''stdout''"
| "pipe_name Stderr = ''stderr''"

lemma pipe_name_inj [simp]: "pipe_name p = pipe_name q \<longleftrightarrow> p = q"
  by (cases p; cases q) simp_all

definition log_inv :: "marshal \<Rightarrow> (pipe \<Rightarrow> string) \<Rightarrow> MountLog \<Rightarrow> bool" where
  "log_inv marshal sofar log \<longleftrightarrow>
     (\<forall>p. pipe_writer p log = \<lparr>lwStream = pipe_name p, lwBuf = rest_line (sofar p)\<rparr>) \<and>
     (\<exists>rs. logged marshal log rs \<and>
           (\<forall>p. stream_lines (pipe_name p) rs = map (redactLine (logSecrets log)) (whole_lines (sofar p))))"

lemma logged_set_writer [simp]: "logged marshal (set_writer p w log) rs = logged marshal log rs"
  by (cases p) (simp_all add: logged_def)

lemma log_inv_writePipe:
  assumes "json_record marshal unmarshal utf8 (logClock log)" and inv: "log_inv marshal sofar log"
  shows "log_inv marshal (sofar(p := sofar p @ data)) (writePipe marshal p data log)"
proof -
  let ?ls = "whole_lines (rest_line (sofar p) @ data)"
  from inv obtain rs where rs: "logged marshal log rs"
    "\<And>q. stream_lines (pipe_name q) rs = map (redactLine (logSecrets log)) (whole_lines (sofar q))"
    by (auto simp: log_inv_def)
  from logged_writeLines [OF assms(1) rs(1), of "pipe_name p" ?ls] obtain rs' where rs':
    "logged marshal (writeLines marshal (pipe_name p) ?ls log) rs'"
    "\<And>s. stream_lines s rs' =
       stream_lines s rs @ (if s = pipe_name p then map (redactLine (logSecrets log)) ?ls else [])"
    by blast
  have w: "pipe_writer q log = \<lparr>lwStream = pipe_name q, lwBuf = rest_line (sofar q)\<rparr>" for q
    using inv by (simp add: log_inv_def)
  have "writePipe marshal p data log =
      set_writer p \<lparr>lwStream = pipe_name p, lwBuf = rest_line (rest_line (sofar p) @ data)\<rparr>
        (writeLines marshal (pipe_name p) ?ls log)"
    by (simp add: writePipe_def lineWriter_Write_def drainLines_eq w)
  then show ?thesis
    using rs' rs(2) w
    by (auto simp: log_inv_def whole_lines_append [of "sofar p" data] rest_line_append [of "sofar p" data]
        intro!: exI [of _ rs'])
qed

definition closed_output :: "string \<Rightarrow> string" where
  "closed_output s = (if rest_line s = [] then s else s @ [newline])"

lemma log_inv_flushPipe:
  assumes "json_record marshal unmarshal utf8 (logClock log)" and inv: "log_inv marshal sofar log"
  shows "log_inv marshal (sofar(p := closed_output (sofar p)))
           (flushPipe marshal p log)"
proof (cases "rest_line (sofar p) = []")
  case True
  have w: "pipe_writer p log = \<lparr>lwStream = pipe_name p, lwBuf = []\<rparr>"
    using inv True by (simp add: log_inv_def)
  have "set_writer p (pipe_writer p log) log = log" by (cases p) simp_all
  with inv True show ?thesis by (simp add: flushPipe_def flushLine_def closed_output_def w)
next
  case False
  have w: "pipe_writer p log = \<lparr>lwStream = pipe_name p, lwBuf = rest_line (sofar p)\<rparr>"
    using inv by (simp add: log_inv_def)
  have "flushPipe marshal p log = writePipe marshal p [newline] log"
    using False
    by (simp add: flushPipe_def flushLine_def writePipe_def lineWriter_Write_def drainLines_eq w
        lines_end rest_line_free)
  with log_inv_writePipe [OF assms, of p "[newline]"] False show ?thesis by (simp add: closed_output_def)
qed

lemma whole_lines_closed: "whole_lines (closed_output s) = output_lines s"
  by (simp add: closed_output_def output_lines_def whole_lines_append [of s "[newline]"] lines_end rest_line_free)

text \<open>A run of the child: chunks read from the two pipes, in any interleaving.\<close>

definition run_child :: "marshal \<Rightarrow> (pipe \<times> string) list \<Rightarrow> MountLog \<Rightarrow> MountLog" where
  "run_child marshal chunks log = foldl (\<lambda>lg (p, data). writePipe marshal p data lg) log chunks"

definition pipe_text :: "(pipe \<times> string) list \<Rightarrow> pipe \<Rightarrow> string" where
  "pipe_text chunks p = concat (map snd (filter (\<lambda>c. fst c = p) chunks))"

lemma writePipe_frame [simp]:
  "logClock (writePipe marshal p data log) = logClock log"
  "logSecrets (writePipe marshal p data log) = logSecrets log"
  "logClock (flushPipe marshal p log) = logClock log"
  "logSecrets (flushPipe marshal p log) = logSecrets log"
  by (simp_all add: writePipe_def lineWriter_Write_def drainLines_eq flushPipe_def flushLine_def)

lemma run_child_frame [simp]:
  "logClock (run_child marshal chunks log) = logClock log"
  "logSecrets (run_child marshal chunks log) = logSecrets log"
  by (induction chunks arbitrary: log) (auto simp: run_child_def)

lemma log_inv_run_child:
  assumes "json_record marshal unmarshal utf8 (logClock log)" and "log_inv marshal sofar log"
  shows "log_inv marshal (\<lambda>p. sofar p @ pipe_text chunks p) (run_child marshal chunks log)"
  using assms
proof (induction chunks arbitrary: sofar log)
  case Nil
  then show ?case by (simp add: run_child_def pipe_text_def)
next
  case (Cons c chunks)
  obtain p data where c: "c = (p, data)" by (cases c)
  have "log_inv marshal (\<lambda>q. (sofar(p := sofar p @ data)) q @ pipe_text chunks q)
          (run_child marshal chunks (writePipe marshal p data log))"
    using Cons.prems by (intro Cons.IH log_inv_writePipe) simp_all
  moreover have "(\<lambda>q. (sofar(p := sofar p @ data)) q @ pipe_text chunks q) =
      (\<lambda>q. sofar q @ pipe_text (c # chunks) q)"
    by (auto simp: c pipe_text_def)
  ultimately show ?case by (simp add: c run_child_def)
qed

text \<open>A log from \<open>OpenLog\<close>, a run of the child and \<open>CloseLog\<close>.\<close>

definition child_log :: "marshal \<Rightarrow> (nat \<Rightarrow> time) \<Rightarrow> string \<Rightarrow> string list \<Rightarrow> (pipe \<times> string) list \<Rightarrow> MountLog result" where
  "child_log marshal clock p secrets chunks =
     map_sum id (\<lambda>log. snd (CloseLog marshal None (run_child marshal chunks log)))
       (OpenLog (\<lambda>dir. None) clock p secrets)"

lemma child_log_records:
  assumes j: "json_record marshal unmarshal utf8 clock"
    and log: "child_log marshal clock path secrets chunks = Inr log"
  shows "logClock log = clock \<and> (\<exists>rs. logged marshal log rs \<and>
           (\<forall>p. stream_lines (pipe_name p) rs =
                map (redactLine (filter (\<lambda>s. s \<noteq> []) secrets)) (output_lines (pipe_text chunks p))))"
proof -
  let ?log0 = "\<lparr>logFilename = path, logWritten = [], logSecrets = filter (\<lambda>secret. secret \<noteq> []) secrets,
     logClock = clock, logCalls = 0, logStdout = \<lparr>lwStream = ''stdout'', lwBuf = []\<rparr>,
     logStderr = \<lparr>lwStream = ''stderr'', lwBuf = []\<rparr>\<rparr>"
  let ?run = "run_child marshal chunks ?log0"
  let ?t = "\<lambda>p. closed_output (pipe_text chunks p)"
  have pw: "pipe_writer p ?log0 = \<lparr>lwStream = pipe_name p, lwBuf = []\<rparr>" for p
    by (cases p) simp_all
  have "log_inv marshal (\<lambda>p. []) ?log0"
    by (auto simp: log_inv_def pw lines_free logged_def intro!: exI [of _ "[]"])
  from log_inv_run_child [OF _ this, of unmarshal utf8 chunks] j
  have "log_inv marshal (pipe_text chunks) ?run" by simp
  from log_inv_flushPipe [OF _ log_inv_flushPipe [OF _ this, of unmarshal utf8 Stdout], of unmarshal utf8 Stderr] j
  have "log_inv marshal ((pipe_text chunks)(Stdout := ?t Stdout, Stderr := ?t Stderr))
         (flushPipe marshal Stderr (flushPipe marshal Stdout ?run))" by simp
  moreover have "(pipe_text chunks)(Stdout := ?t Stdout, Stderr := ?t Stderr) = ?t"
  proof
    fix p
    show "((pipe_text chunks)(Stdout := ?t Stdout, Stderr := ?t Stderr)) p = ?t p" by (cases p) simp_all
  qed
  moreover have l: "log = flushPipe marshal Stderr (flushPipe marshal Stdout ?run)"
    using log by (simp add: child_log_def OpenLog_def CloseLog_def)
  ultimately have "log_inv marshal ?t log" by simp
  moreover have "logClock log = clock" "logSecrets log = filter (\<lambda>secret. secret \<noteq> []) secrets"
    by (simp_all add: l)
  ultimately show ?thesis by (auto simp: log_inv_def whole_lines_closed)
qed

section \<open>Reading the records back\<close>

lemma concat_lines: "ds \<noteq> [] \<Longrightarrow> concat (map (\<lambda>d. d @ [c]) ds) = join_with c ds @ [c]"
  by (induction c ds rule: join_with.induct) auto

lemma last_join_with: "cs \<noteq> [] \<Longrightarrow> last cs \<noteq> [] \<Longrightarrow> last (join_with c cs) = last (last cs)"
proof (cases cs rule: rev_cases)
  case (snoc ds d)
  then show "last cs \<noteq> [] \<Longrightarrow> ?thesis" by (cases "ds = []") (simp_all add: join_with_append)
qed simp

lemma TrimRight_sep:
  assumes "s \<noteq> []" and "last s \<noteq> c"
  shows "TrimRight (s @ [c]) c = s"
  using assms by (cases s rule: rev_cases) (simp_all add: TrimRight_def)

lemma split_lines_file:
  assumes "\<And>d. d \<in> set ds \<Longrightarrow> d \<noteq> [] \<and> c \<notin> set d"
  shows "split_on c (TrimRight (concat (map (\<lambda>d. d @ [c]) ds)) c) = (if ds = [] then [[]] else ds)"
proof (cases "ds = []")
  case True
  then show ?thesis by (simp add: TrimRight_def)
next
  case False
  then have l: "last ds \<noteq> []" "c \<notin> set (last ds)" using assms by simp_all
  have "last (join_with c ds) \<noteq> c"
    using l last_in_set [of "last ds"] by (auto simp: last_join_with [OF False l(1)])
  moreover have "join_with c ds \<noteq> []"
    using assms False join_with_Nil_iff [of ds c] by blast
  ultimately show ?thesis
    using False assms by (simp add: concat_lines TrimRight_sep split_join)
qed

lemma queryLines_all:
  "queryLines unmarshal \<lparr>Since = None, Tail = t, Limit = l\<rparr> (map f rs) =
     map g rs" if "\<And>r. r \<in> set rs \<Longrightarrow> f r \<noteq> [] \<and> unmarshal (f r) = Some (g r)"
  using that by (induction rs) (auto simp: queryLines_def)

lemma query_logged:
  assumes j: "json_record marshal unmarshal utf8 (logClock log)" and rs: "logged marshal log rs"
    and read: "read path = Inr (concat (logWritten log))"
  shows "Query unmarshal read path \<lparr>Since = None, Tail = 0, Limit = 0\<rparr> =
     Inr (map (\<lambda>r. r\<lparr>RecordMessage := utf8 (RecordMessage r)\<rparr>) rs)"
proof -
  have enc: "the (marshal r) \<noteq> [] \<and> newline \<notin> set (the (marshal r)) \<and>
      unmarshal (the (marshal r)) = Some (r\<lparr>RecordMessage := utf8 (RecordMessage r)\<rparr>)"
    if "r \<in> set rs" for r
  proof -
    from rs that obtain n where "RecordTime r = logClock log n" by (auto simp: logged_def)
    with j show ?thesis by (rule json_recordD) simp
  qed
  let ?ds = "map (the \<circ> marshal) rs"
  have w: "concat (logWritten log) = concat (map (\<lambda>d. d @ [newline]) ?ds)"
    using rs by (simp add: logged_def comp_def)
  have "split_on newline (TrimRight (concat (logWritten log)) newline) = (if ?ds = [] then [[]] else ?ds)"
    unfolding w by (rule split_lines_file) (use enc in auto)
  moreover have "queryLines unmarshal \<lparr>Since = None, Tail = 0, Limit = 0\<rparr> (if ?ds = [] then [[]] else ?ds) =
      map (\<lambda>r. r\<lparr>RecordMessage := utf8 (RecordMessage r)\<rparr>) rs"
    using queryLines_all [of rs "the \<circ> marshal" unmarshal _ 0 0] enc
    by (cases rs) (simp_all add: queryLines_def)
  ultimately show ?thesis by (simp add: Query_def read tailRecords_def limitRecords_def)
qed

text \<open>
  C18: Whatever the sizes of the chunks in which a child's standard output and standard error
  arrive and however the two interleave, the log, once closed, reads back as exactly the lines
  of each stream: the newline-separated parts of the whole output of that stream, in order, with
  every configured secret replaced, an unfinished last line included. The file is the one the
  log wrote (no rotation took place); a message that is not valid UTF-8 comes back repaired.
\<close>

theorem log_query_roundtrip:
  assumes "json_record marshal unmarshal utf8 clock"
    and "child_log marshal clock path secrets chunks = Inr log"
    and "read path = Inr (concat (logWritten log))"
  shows "\<exists>records. Query unmarshal read path \<lparr>Since = None, Tail = 0, Limit = 0\<rparr> = Inr records \<and>
           (\<forall>p. stream_lines (pipe_name p) records =
              map (\<lambda>line. utf8 (redactLine (filter (\<lambda>s. s \<noteq> []) secrets) line))
                (output_lines (pipe_text chunks p)))"
proof -
  from child_log_records [OF assms(1,2)] obtain rs where rs: "logClock log = clock" "logged marshal log rs"
    "\<And>p. stream_lines (pipe_name p) rs =
       map (redactLine (filter (\<lambda>s. s \<noteq> []) secrets)) (output_lines (pipe_text chunks p))"
    by auto
  let ?u = "\<lambda>r. r\<lparr>RecordMessage := utf8 (RecordMessage r)\<rparr>"
  have "stream_lines s (map ?u rs) = map utf8 (stream_lines s rs)" for s
    by (simp add: stream_lines_def filter_map comp_def)
  with query_logged [OF _ rs(2), of unmarshal utf8 read path] assms(1,3) rs(1,3) show ?thesis by auto
qed

section \<open>Secrets in a line\<close>

lemma sublist_around:
  assumes "sublist q (u @ x # r)" and "x \<notin> set q"
  shows "sublist q u \<or> sublist q r"
  using assms
proof (induction u)
  case Nil
  then show ?case by (cases q) (auto simp: sublist_Cons_right)
next
  case (Cons a u)
  have "prefix q (a # u) \<or> sublist q (u @ x # r)"
    using Cons.prems by (auto simp: sublist_Cons_right prefix_append prefix_Cons)
  then show ?case using Cons by (auto simp: sublist_Cons_right)
qed

abbreviation marker :: string where "marker \<equiv> ''[REDACTED]''"

text \<open>A secret that the marker cannot rebuild: without brackets and not a part of its word.\<close>

definition marker_free :: "string \<Rightarrow> bool" where
  "marker_free q \<longleftrightarrow> CHR ''['' \<notin> set q \<and> CHR '']'' \<notin> set q \<and> \<not> sublist q ''REDACTED''"

lemma marker_split: "marker @ r = [] @ CHR ''['' # (''REDACTED'' @ CHR '']'' # r)"
  by simp

lemma sublist_marker:
  assumes "marker_free q" and "sublist q (marker @ r)"
  shows "sublist q r"
proof -
  have ne: "q \<noteq> []" using assms(1) by (auto simp: marker_free_def)
  have "sublist q [] \<or> sublist q (''REDACTED'' @ CHR '']'' # r)"
    by (rule sublist_around [where x = "CHR ''[''"]) (use assms in \<open>simp_all add: marker_free_def\<close>)
  then have "sublist q (''REDACTED'' @ CHR '']'' # r)" using ne by simp
  then have "sublist q ''REDACTED'' \<or> sublist q r"
    by (rule sublist_around) (use assms in \<open>simp add: marker_free_def\<close>)
  then show ?thesis using assms(1) by (simp add: marker_free_def)
qed

lemma prefix_ReplaceAll:
  "CHR ''['' \<notin> set q \<Longrightarrow> prefix q (ReplaceAll t old marker) \<Longrightarrow> prefix q t"
proof (induction t old marker arbitrary: q rule: ReplaceAll.induct)
  case (1 t old)
  show ?case
  proof (cases "old = [] \<or> t = [] \<or> prefix old t")
    case True
    then show ?thesis
      using 1(3,4) by (cases q) (auto simp: ReplaceAll.simps [of t old] split: list.splits if_splits)
  next
    case False
    then obtain c cs where t: "t = c # cs" by (cases t) auto
    show ?thesis
    proof (cases q)
      case (Cons a q')
      then show ?thesis
        using 1(3,4) False 1(2) [of c cs q'] by (simp add: t ReplaceAll_skip)
    qed simp
  qed
qed

lemma sublist_ReplaceAll:
  "marker_free q \<Longrightarrow> sublist q (ReplaceAll t old marker) \<Longrightarrow> sublist q t"
proof (induction t old marker rule: ReplaceAll.induct)
  case (1 t old)
  note match = 1(1) and skip = 1(2) and free = 1(3) and occ = 1(4)
  consider "old = [] \<or> t = []" | s where "old \<noteq> []" "t = old @ s"
    | c cs where "old \<noteq> []" "t = c # cs" "\<not> prefix old t"
    by (cases t) (auto simp: prefix_def)
  then show ?case
  proof cases
    case 1
    then show ?thesis using free occ by (auto simp: ReplaceAll.simps [of t "[]"])
  next
    case (2 s)
    then obtain c cs where t: "t = c # cs" by (cases old) auto
    from 2 occ have "sublist q (ReplaceAll s old marker)"
      by (simp add: ReplaceAll_match sublist_marker [OF free])
    then have "sublist q s"
      using match [OF 2(1) t] 2 free by simp
    then show ?thesis using 2 by (simp add: sublist_append)
  next
    case (3 c cs)
    from 3 free occ have "prefix q (ReplaceAll t old marker) \<or> sublist q (ReplaceAll cs old marker)"
      by (simp add: ReplaceAll_skip sublist_Cons_right)
    then show ?thesis
    proof
      assume "prefix q (ReplaceAll t old marker)"
      then show ?thesis
        using prefix_ReplaceAll free by (auto simp: marker_free_def)
    next
      assume "sublist q (ReplaceAll cs old marker)"
      then have "sublist q cs" using skip [OF 3(1,2,3)] free by simp
      then show ?thesis using 3 by (simp add: sublist_Cons_right)
    qed
  qed
qed

lemma ReplaceAll_free:
  "marker_free old \<Longrightarrow> \<not> sublist old (ReplaceAll t old marker)"
proof (induction t old marker rule: ReplaceAll.induct)
  case (1 t old)
  note match = 1(1) and skip = 1(2) and free = 1(3)
  have ne: "old \<noteq> []" using free by (auto simp: marker_free_def)
  consider "t = []" | s where "t = old @ s" | c cs where "t = c # cs" "\<not> prefix old t"
    by (cases t) (auto simp: prefix_def)
  then show ?case
  proof cases
    case 1
    then show ?thesis using ne by simp
  next
    case (2 s)
    then obtain c cs where t: "t = c # cs" using ne by (cases old) auto
    have "\<not> sublist old (ReplaceAll s old marker)" using match [OF ne t] 2 free by simp
    then show ?thesis using sublist_marker [OF free] 2 ne by (auto simp: ReplaceAll_match)
  next
    case (3 c cs)
    have "\<not> sublist old (ReplaceAll cs old marker)" using skip [OF ne 3] free by simp
    moreover have "\<not> prefix old (ReplaceAll t old marker)"
      using prefix_ReplaceAll [of old t old] 3 free by (auto simp: marker_free_def)
    ultimately show ?thesis using 3 ne by (simp add: ReplaceAll_skip sublist_Cons_right)
  qed
qed

text \<open>
  C19: A logged line contains none of the configured secrets, for every secret the marker
  \<open>[REDACTED]\<close> cannot itself rebuild (one without brackets that is not a part of the word
  \<open>REDACTED\<close>): replacing the later secrets never brings an earlier one back, and text next to an
  inserted marker never completes one.
\<close>

theorem log_line_secret_free:
  assumes "secret \<in> set secrets" and "marker_free secret"
  shows "\<not> Contains (redactLine secrets line) secret"
  using assms(1)
proof (induction secrets arbitrary: line)
  case (Cons s ss)
  show ?case
  proof (cases "secret \<in> set ss")
    case True
    then show ?thesis using Cons.IH by (simp add: redactLine_def)
  next
    case False
    have keep: "\<not> sublist secret l \<Longrightarrow> \<not> sublist secret (redactLine ts l)" for l ts
      by (induction ts arbitrary: l)
        (auto simp: redactLine_def dest: sublist_ReplaceAll [OF assms(2)])
    from False Cons.prems have "s = secret" by simp
    then show ?thesis
      using keep [OF ReplaceAll_free [OF assms(2), of line], of ss]
      by (simp add: redactLine_def Contains_def)
  qed
qed simp

text \<open>A codec that keeps the shape of a line, for the witness: newline, comma and backslash escaped.\<close>

fun esc :: "string \<Rightarrow> string" where
  "esc [] = []"
| "esc (c # cs) =
     (if c = newline then CHR 0x5C # CHR ''n'' # esc cs
      else if c = CHR '','' then CHR 0x5C # CHR ''c'' # esc cs
      else if c = CHR 0x5C then CHR 0x5C # CHR ''b'' # esc cs
      else c # esc cs)"

fun unesc :: "string \<Rightarrow> string" where
  "unesc (b # c # cs) =
     (if b = CHR 0x5C
      then (if c = CHR ''n'' then newline else if c = CHR ''c'' then CHR '','' else b) # unesc cs
      else b # unesc (c # cs))"
| "unesc cs = cs"

lemma unesc_plain: "b \<noteq> CHR 0x5C \<Longrightarrow> unesc (b # cs) = b # unesc cs"
  by (cases cs) simp_all

lemma unesc_esc [simp]: "unesc (esc s) = s"
  by (induction s) (simp_all add: unesc_plain)

lemma esc_free: "newline \<notin> set (esc s)" "CHR '','' \<notin> set (esc s)"
  by (induction s) auto

definition sample_marshal :: marshal where
  "sample_marshal r = Some (esc (RecordStream r) @ CHR '','' # esc (RecordMessage r))"

definition sample_unmarshal :: unmarshal where
  "sample_unmarshal d =
     (case split_on CHR '','' d of
        [s, m] \<Rightarrow> Some \<lparr>RecordTime = 0, RecordStream = unesc s, RecordMessage = unesc m\<rparr>
      | _ \<Rightarrow> None)"

lemma sample_json_record: "json_record sample_marshal sample_unmarshal (\<lambda>s. s) (\<lambda>n. 0)"
  by (auto simp: json_record_def sample_marshal_def sample_unmarshal_def split_on_append split_on_free esc_free)

definition sample_chunks :: "(pipe \<times> string) list" where
  "sample_chunks =
     [(Stdout, ''user ''), (Stderr, ''wa''), (Stdout, ''hunt'' @ ''er2'' @ [newline] @ ''rea''), (Stderr, ''rn'' @ [newline]),
      (Stdout, ''dy'')]"

theorem log_query_roundtrip_witness:
  "\<exists>records. Query sample_unmarshal
       (\<lambda>p. map_sum id (\<lambda>log. concat (logWritten log))
              (child_log sample_marshal (\<lambda>n. 0) p [''hunter2'', []] sample_chunks))
       ''/logs/m1'' \<lparr>Since = None, Tail = 0, Limit = 0\<rparr> = Inr records \<and>
     stream_lines ''stdout'' records = [''user [REDACTED]'', ''ready''] \<and>
     stream_lines ''stderr'' records = [''warn'']"
proof -
  have log: "\<exists>log. child_log sample_marshal (\<lambda>n. 0) ''/logs/m1'' [''hunter2'', []] sample_chunks = Inr log"
    by (simp add: child_log_def OpenLog_def)
  have out: "redactLine [''hunter2''] ''user hunter2'' = ''user [REDACTED]''"
    "redactLine [''hunter2''] ''ready'' = ''ready''" "redactLine [''hunter2''] ''warn'' = ''warn''"
    by code_simp+
  have lines: "output_lines (pipe_text sample_chunks Stdout) = [''user hunter2'', ''ready'']"
    "output_lines (pipe_text sample_chunks Stderr) = [''warn'']"
    by code_simp+
  from log obtain log where l: "child_log sample_marshal (\<lambda>n. 0) ''/logs/m1'' [''hunter2'', []] sample_chunks = Inr log"
    by blast
  from log_query_roundtrip [OF sample_json_record l,
      of "\<lambda>p. map_sum id (\<lambda>log. concat (logWritten log))
              (child_log sample_marshal (\<lambda>n. 0) p [''hunter2'', []] sample_chunks)"]
  obtain records where r: "Query sample_unmarshal
       (\<lambda>p. map_sum id (\<lambda>log. concat (logWritten log))
              (child_log sample_marshal (\<lambda>n. 0) p [''hunter2'', []] sample_chunks))
       ''/logs/m1'' \<lparr>Since = None, Tail = 0, Limit = 0\<rparr> = Inr records"
    "\<And>p. stream_lines (pipe_name p) records = map (redactLine [''hunter2'']) (output_lines (pipe_text sample_chunks p))"
    by (auto simp: l)
  from r(2) [of Stdout] r(2) [of Stderr] have
    "stream_lines ''stdout'' records = [''user [REDACTED]'', ''ready'']" "stream_lines ''stderr'' records = [''warn'']"
    by (simp_all add: lines out)
  with r(1) show ?thesis by blast
qed

theorem log_line_secret_free_witness:
  "\<not> Contains (redactLine [''token'', ''hunter2''] ''hunter2 and token'') ''hunter2''"
  by (rule log_line_secret_free) code_simp+

end
