(* ===== verification/FileSystem.thy ===== *)
theory FileSystem
  imports GoPath
begin

text \<open>
  What the program uses of package \<open>os\<close> to prepare its directories: \<open>Stat\<close>, \<open>MkdirAll\<close>,
  \<open>Remove\<close> and \<open>ReadFile\<close> on a tree of files without links. A file system is an association
  list from cleaned paths to nodes, the umask of the process, and the faults of the environment:
  an error that a call on a path returns without effect (a permission, an I/O error).
\<close>

record FileInfo =
  fiIsDir :: bool
  fiPerm :: nat
  fiData :: string

datatype fscall = CallStat | CallMkdir | CallRemove | CallRead

record files =
  fsNodes :: "(string \<times> FileInfo) list"
  fsUmask :: nat
  fsFault :: "fscall \<Rightarrow> string \<Rightarrow> gerror option"

definition fs_node :: "files \<Rightarrow> string \<Rightarrow> FileInfo option" where
  "fs_node fs p = map_of (fsNodes fs) (Clean p)"

abbreviation enoent :: gerror where
  "enoent \<equiv> errors_sentinel NotExist ''no such file or directory''"

definition os_Stat :: "files \<Rightarrow> string \<Rightarrow> FileInfo result" where
  "os_Stat fs p =
     (case fsFault fs CallStat p of
        Some err \<Rightarrow> Inl err
      | None \<Rightarrow> (case fs_node fs p of None \<Rightarrow> Inl enoent | Some fi \<Rightarrow> Inr fi))"

definition os_ReadFile :: "files \<Rightarrow> string \<Rightarrow> string result" where
  "os_ReadFile fs p =
     (case fsFault fs CallRead p of
        Some err \<Rightarrow> Inl err
      | None \<Rightarrow>
          (case fs_node fs p of
             None \<Rightarrow> Inl enoent
           | Some fi \<Rightarrow> if fiIsDir fi then Inl (errors_New ''is a directory'') else Inr (fiData fi)))"

text \<open>A path and its parents, the outermost first.\<close>

definition path_chain :: "string \<Rightarrow> string list" where
  "path_chain p = map (render (IsAbs p)) (prefixes (comps p))"

fun mkdirs :: "nat \<Rightarrow> string list \<Rightarrow> files \<Rightarrow> gerror option \<times> files" where
  "mkdirs perm [] fs = (None, fs)"
| "mkdirs perm (d # ds) fs =
     (case map_of (fsNodes fs) d of
        Some fi \<Rightarrow> if fiIsDir fi then mkdirs perm ds fs else (Some (errors_New ''not a directory''), fs)
      | None \<Rightarrow>
          (case fsFault fs CallMkdir d of
             Some err \<Rightarrow> (Some err, fs)
           | None \<Rightarrow>
               mkdirs perm ds
                 (fs\<lparr>fsNodes := AList.update d
                     \<lparr>fiIsDir = True, fiPerm = and perm (511 - and (fsUmask fs) 511), fiData = []\<rparr> (fsNodes fs)\<rparr>)))"

definition os_MkdirAll :: "string \<Rightarrow> nat \<Rightarrow> files \<Rightarrow> gerror option \<times> files" where
  "os_MkdirAll p perm fs = mkdirs perm (path_chain p) fs"

text \<open>\<open>os.Remove\<close> deletes a file or an empty directory.\<close>

definition os_Remove :: "string \<Rightarrow> files \<Rightarrow> gerror option \<times> files" where
  "os_Remove p fs =
     (case fsFault fs CallRemove p of
        Some err \<Rightarrow> (Some err, fs)
      | None \<Rightarrow>
          (if fs_node fs p = None then (Some enoent, fs)
           else if list_ex (\<lambda>(q, _). q \<noteq> Clean p \<and> Dir q = Clean p) (fsNodes fs)
           then (Some (errors_New ''directory not empty''), fs)
           else (None, fs\<lparr>fsNodes := AList.delete (Clean p) (fsNodes fs)\<rparr>)))"

section \<open>Effects on the nodes\<close>

definition is_dir :: "files \<Rightarrow> string \<Rightarrow> bool" where
  "is_dir fs p = (case fs_node fs p of Some fi \<Rightarrow> fiIsDir fi | None \<Rightarrow> False)"

lemma fs_node_Clean [simp]: "fs_node fs (Clean p) = fs_node fs p"
  by (simp add: fs_node_def)

lemma path_chain_last: "Clean p \<in> set (path_chain p)"
  by (simp add: path_chain_def Clean_def)

lemma mkdirs_keep:
  "mkdirs perm ds fs = (r, fs') \<Longrightarrow> map_of (fsNodes fs) d = Some fi \<Longrightarrow> map_of (fsNodes fs') d = Some fi"
proof (induction perm ds fs rule: mkdirs.induct)
  case (2 perm d' ds fs)
  then show ?case by (cases "d = d'") (auto simp: update_conv' split: option.splits if_splits)
qed simp

lemma mkdirs_dirs:
  "mkdirs perm ds fs = (None, fs') \<Longrightarrow> d \<in> set ds \<Longrightarrow> \<exists>fi. map_of (fsNodes fs') d = Some fi \<and> fiIsDir fi"
proof (induction perm ds fs rule: mkdirs.induct)
  case (2 perm d' ds fs)
  then show ?case
    by (auto simp: update_conv' split: option.splits if_splits dest: mkdirs_keep)
qed simp

lemma mkdirs_frame: "mkdirs perm ds fs = (r, fs') \<Longrightarrow> fsFault fs' = fsFault fs \<and> fsUmask fs' = fsUmask fs"
  by (induction perm ds fs rule: mkdirs.induct) (auto split: option.splits if_splits)

lemma MkdirAll_dir: "os_MkdirAll p perm fs = (None, fs') \<Longrightarrow> is_dir fs' p"
  using mkdirs_dirs [OF _ path_chain_last] by (fastforce simp: os_MkdirAll_def is_dir_def fs_node_def)

lemma MkdirAll_keep:
  assumes "os_MkdirAll p perm fs = (r, fs')"
  shows "is_dir fs q \<Longrightarrow> is_dir fs' q"
  using mkdirs_keep assms by (auto simp: os_MkdirAll_def is_dir_def fs_node_def split: option.splits)

lemma Remove_effect:
  assumes "os_Remove p fs = (None, fs')"
  shows "fs_node fs' q = (if Clean q = Clean p then None else fs_node fs q)"
  using assms
  by (auto simp: os_Remove_def fs_node_def delete_conv' split: option.splits if_splits)

lemma mkdirs_only: "mkdirs perm ds fs = (r, fs') \<Longrightarrow> d \<notin> set ds \<Longrightarrow> map_of (fsNodes fs') d = map_of (fsNodes fs) d"
  by (induction perm ds fs rule: mkdirs.induct) (auto simp: update_conv' split: option.splits if_splits)

lemma path_chain_shorter:
  assumes "d \<in> set (path_chain p)"
  shows "length (comps d) \<le> length (comps p)"
proof -
  from assms obtain cs where cs: "prefix cs (comps p)" "d = render (IsAbs p) cs"
    by (auto simp: path_chain_def)
  from cs(1) obtain es where es: "comps p = cs @ es" by (auto simp: prefix_def)
  have "normal (IsAbs p) (cs @ es)" using normal_comps [of p] by (simp add: es)
  then have "normal (IsAbs p) cs"
    by (auto simp: normal_def dotdots_first_def sorted_wrt_append split: if_splits)
  then show ?thesis using cs es by simp
qed

lemma MkdirAll_parent:
  assumes "os_MkdirAll (Dir (Clean p)) perm fs = (r, fs')" and "comps p \<noteq> []"
  shows "fs_node fs' p = fs_node fs p"
proof -
  have "Clean p \<notin> set (path_chain (Dir (Clean p)))"
    using path_chain_shorter [of "Clean p" "Dir (Clean p)"] assms(2)
    by (cases "comps p" rule: rev_cases) (auto simp: comps_Dir_Clean)
  then show ?thesis using assms(1) by (simp add: os_MkdirAll_def fs_node_def mkdirs_only)
qed

lemma MkdirAll_frame: "os_MkdirAll p perm fs = (r, fs') \<Longrightarrow> fsFault fs' = fsFault fs"
  by (simp add: os_MkdirAll_def mkdirs_frame)

lemma Remove_frame: "os_Remove p fs = (r, fs') \<Longrightarrow> fsFault fs' = fsFault fs"
  by (auto simp: os_Remove_def split: option.splits if_splits)

end
