(* ===== verification/ConfigFile.thy ===== *)
theory ConfigFile
  imports RetryPolicy Endpoint FileSystem
begin

text \<open>
  Loading, checking and preparing the daemon configuration (\<open>commons/config.go\<close>,
  \<open>commons/data_format.go\<close>): the readers of a configuration file, the recovery key,
  \<open>Validate\<close>, the work directories and the log writers. Unmarshalling into a configuration
  (\<open>gopkg.in/yaml.v3\<close>, \<open>encoding/json\<close>) is a parameter that maps the defaults and the bytes to a
  configuration; \<open>url.ParseRequestURI\<close> is the parameter \<open>parse\<close> of theory \<open>Endpoint\<close>; base64 is
  written out. A Go map is ranged over in an arbitrary order, so \<open>Validate\<close> takes the two orders
  as parameters. The lemmas show what a validated configuration guarantees, whatever the order.
\<close>

section \<open>Reading a configuration file\<close>

datatype DataFormat = FormatJSON | FormatYAML | FormatUnknown

datatype yaml_kind = DocumentNode | MappingNode | SequenceNode | ScalarNode | AliasNode

text \<open>A parsed YAML node: its kind and the kinds of its children.\<close>

type_synonym yaml_node = "yaml_kind \<times> yaml_kind list"

definition DetectFormat :: "(string \<Rightarrow> bool) \<Rightarrow> (string \<Rightarrow> yaml_node result) \<Rightarrow> string \<Rightarrow> DataFormat" where
  "DetectFormat json_Valid yaml_Node data =
     (let trimmed = TrimSpace data
      in if length trimmed = 0 then FormatUnknown
         else if json_Valid trimmed then FormatJSON
         else case yaml_Node trimmed of
                Inl _ \<Rightarrow> FormatUnknown
              | Inr (kind, content) \<Rightarrow>
                  (if kind = DocumentNode \<and> content \<noteq> [] \<and> hd content \<in> {MappingNode, SequenceNode}
                   then FormatYAML else FormatUnknown))"

text \<open>The zero value of the configuration struct.\<close>

definition zeroConfig :: Config where
  "zeroConfig =
     \<lparr>ServiceEndpoint = [], IRODSFSExecutablePath = [], MountExecutablePath = [], UnmountExecutablePath = [],
      DataRootPath = [], PIDFile = [], RecoveryEncryptionKey = [], AllowedMountRootPaths = [],
      AllowFuseAllowOther = False, AutoRemount = False, RestoreMountsOnRestart = False,
      Retry = \<lparr>MaxAttempts = 0, InitialDelay = 0, MaxDelay = 0, Multiplier = 0, Jitter = 0\<rparr>,
      MountTimeout = 0, UnmountTimeout = 0, DAVFSUnmountTimeout = 0, ReconcileInterval = 0,
      MaxConcurrentMounts = 0, ManagementServiceEndpoint = [], Debug = False, LogRootPath = [],
      MountRootPath = []\<rparr>"

type_synonym unmarshal_config = "string \<Rightarrow> Config \<Rightarrow> Config result"

definition baseConfig :: "Config option \<Rightarrow> Config" where
  "baseConfig config = (case config of None \<Rightarrow> zeroConfig | Some c \<Rightarrow> c)"

definition NewConfigFromYAML :: "unmarshal_config \<Rightarrow> Config option \<Rightarrow> string \<Rightarrow> Config result" where
  "NewConfigFromYAML yaml_Unmarshal config yamlBytes =
     (case yaml_Unmarshal yamlBytes (baseConfig config) of
        Inl err \<Rightarrow> Inl (errors_Wrapf err [Lit ''failed to unmarshal yaml into config''])
      | Inr cfg \<Rightarrow> Inr cfg)"

definition NewConfigFromJSON :: "unmarshal_config \<Rightarrow> Config option \<Rightarrow> string \<Rightarrow> Config result" where
  "NewConfigFromJSON json_Unmarshal config jsonBytes =
     (case json_Unmarshal jsonBytes (baseConfig config) of
        Inl err \<Rightarrow> Inl (errors_Wrapf err [Lit ''failed to unmarshal json into config''])
      | Inr cfg \<Rightarrow> Inr cfg)"

definition NewConfigFromYAMLFile :: "unmarshal_config \<Rightarrow> files \<Rightarrow> Config option \<Rightarrow> string \<Rightarrow> Config result" where
  "NewConfigFromYAMLFile yaml_Unmarshal fs config yamlPath =
     (case os_ReadFile fs yamlPath of
        Inl err \<Rightarrow> Inl (errors_Wrapf err [Lit ''failed to read YAML file '', Quoted yamlPath])
      | Inr yamlBytes \<Rightarrow>
          (case yaml_Unmarshal yamlBytes (baseConfig config) of
             Inl err \<Rightarrow>
               Inl (errors_Wrapf err [Lit ''failed to unmarshal YAML file '', Quoted yamlPath, Lit '' to config''])
           | Inr cfg \<Rightarrow> Inr cfg))"

definition NewConfigFromJSONFile :: "unmarshal_config \<Rightarrow> files \<Rightarrow> Config option \<Rightarrow> string \<Rightarrow> Config result" where
  "NewConfigFromJSONFile json_Unmarshal fs config jsonPath =
     (case os_ReadFile fs jsonPath of
        Inl err \<Rightarrow> Inl (errors_Wrapf err [Lit ''failed to read JSON file '', Quoted jsonPath])
      | Inr jsonBytes \<Rightarrow>
          (case json_Unmarshal jsonBytes (baseConfig config) of
             Inl err \<Rightarrow>
               Inl (errors_Wrapf err [Lit ''failed to unmarshal JSON file '', Quoted jsonPath, Lit '' to config''])
           | Inr cfg \<Rightarrow> Inr cfg))"

text \<open>The parsers a configuration file goes through.\<close>

record parsers =
  json_Valid :: "string \<Rightarrow> bool"
  yaml_Node :: "string \<Rightarrow> yaml_node result"
  json_Unmarshal :: unmarshal_config
  yaml_Unmarshal :: unmarshal_config

definition NewConfigFromFile :: "parsers \<Rightarrow> files \<Rightarrow> Config option \<Rightarrow> string \<Rightarrow> Config result" where
  "NewConfigFromFile ps fs config filePath =
     (case os_Stat fs filePath of
        Inl err \<Rightarrow>
          (if errors_Is (Some err) NotExist then Inl err
           else Inl (errors_Wrapf err [Lit ''failed to stat file '', Quoted filePath]))
      | Inr st \<Rightarrow>
          (if fiIsDir st then Inl (errors_Errorf [Lit ''configuration must be a file '', Quoted filePath])
           else case os_ReadFile fs filePath of
                  Inl err \<Rightarrow> Inl (errors_Wrapf err [Lit ''failed to read file '', Quoted filePath])
                | Inr dataBytes \<Rightarrow>
                    (case DetectFormat (json_Valid ps) (yaml_Node ps) dataBytes of
                       FormatJSON \<Rightarrow> NewConfigFromJSONFile (json_Unmarshal ps) fs config filePath
                     | FormatYAML \<Rightarrow> NewConfigFromYAMLFile (yaml_Unmarshal ps) fs config filePath
                     | FormatUnknown \<Rightarrow> Inl (errors_New ''unknown file format''))))"

section \<open>The recovery key\<close>

definition b64_alphabet :: string where
  "b64_alphabet = ''ABCDEFGHIJKLMNOPQRSTUVWXYZabcdefghijklmnopqrstuvwxyz0123456789+/''"

definition b64_value :: "char \<Rightarrow> nat option" where
  "b64_value c = IndexByte b64_alphabet c"

abbreviation pad :: char where "pad \<equiv> CHR ''=''"

text \<open>\<open>base64.StdEncoding.DecodeString\<close>: line ends are skipped, padding is required.\<close>

fun b64_quads :: "string \<Rightarrow> string option" where
  "b64_quads [] = Some []"
| "b64_quads (a # b # c # d # rest) =
     (case (b64_value a, b64_value b) of
        (Some x, Some y) \<Rightarrow>
          (if c = pad then
             (if d = pad \<and> rest = [] then Some [char_of (x * 4 + y div 16)] else None)
           else case b64_value c of
                  None \<Rightarrow> None
                | Some z \<Rightarrow>
                    (if d = pad then
                       (if rest = []
                        then Some [char_of (x * 4 + y div 16), char_of (y mod 16 * 16 + z div 4)] else None)
                     else case b64_value d of
                            None \<Rightarrow> None
                          | Some w \<Rightarrow>
                              (case b64_quads rest of
                                 None \<Rightarrow> None
                               | Some bs \<Rightarrow>
                                   Some (char_of (x * 4 + y div 16) # char_of (y mod 16 * 16 + z div 4) #
                                         char_of (z mod 4 * 64 + w) # bs))))
      | _ \<Rightarrow> None)"
| "b64_quads _ = None"

definition b64_DecodeString :: "string \<Rightarrow> string result" where
  "b64_DecodeString s =
     (case b64_quads (filter (\<lambda>c. c \<noteq> CHR 0x0A \<and> c \<noteq> CHR 0x0D) s) of
        None \<Rightarrow> Inl (errors_New ''illegal base64 data'')
      | Some bs \<Rightarrow> Inr bs)"

definition GetRecoveryEncryptionKey :: "Config \<Rightarrow> string result" where
  "GetRecoveryEncryptionKey config =
     (let encodedKey = TrimSpace (RecoveryEncryptionKey config)
      in if encodedKey = [] then Inl (errors_New ''recovery encryption key must be given'')
         else case b64_DecodeString encodedKey of
                Inl err \<Rightarrow> Inl (errors_Wrap err ''recovery encryption key must be valid base64'')
              | Inr key \<Rightarrow>
                  (if length key \<noteq> RecoveryEncryptionKeySizeDefault
                   then Inl (errors_Errorf
                          [Lit ''recovery encryption key must decode to exactly '',
                           Lit (show_nat RecoveryEncryptionKeySizeDefault), Lit '' bytes, got '', Lit (show_nat (length key))])
                   else Inr key))"

section \<open>Validation\<close>

fun firstRelative :: "(string \<times> string) list \<Rightarrow> gerror option" where
  "firstRelative [] = None"
| "firstRelative ((name, p) # ps) =
     (if \<not> IsAbs p then Some (errors_Errorf [Lit name, Lit '' '', Quoted p, Lit '' must be an absolute path''])
      else firstRelative ps)"

fun firstBadRoot :: "string list \<Rightarrow> gerror option" where
  "firstBadRoot [] = None"
| "firstBadRoot (r # rs) =
     (if \<not> IsAbs r
      then Some (errors_Errorf [Lit ''allowed mount root '', Quoted r, Lit '' must be an absolute path''])
      else if Clean r = ''/'' then Some (errors_New ''filesystem root cannot be an allowed mount root'')
      else firstBadRoot rs)"

fun firstNonPositive :: "(string \<times> duration) list \<Rightarrow> gerror option" where
  "firstNonPositive [] = None"
| "firstNonPositive ((name, d) # ds) =
     (if d \<le> 0 then Some (errors_Errorf [Lit name, Lit '' must be positive'']) else firstNonPositive ds)"

definition configPaths :: "Config \<Rightarrow> (string \<times> string) list" where
  "configPaths config =
     [(''irodsfs_executable_path'', IRODSFSExecutablePath config),
      (''mount_executable_path'', MountExecutablePath config),
      (''unmount_executable_path'', UnmountExecutablePath config),
      (''data_root_path'', DataRootPath config),
      (''pid_file'', PIDFile config),
      (''log_root_path'', GetLogRootPath config),
      (''mount_root_path'', GetMountRootPath config)]"

definition configDurations :: "Config \<Rightarrow> (string \<times> duration) list" where
  "configDurations config =
     [(''mount_timeout'', MountTimeout config),
      (''unmount_timeout'', UnmountTimeout config),
      (''davfs_unmount_timeout'', DAVFSUnmountTimeout config),
      (''reconcile_interval'', ReconcileInterval config)]"

text \<open>
  Each check returns its error or lets the next one run: \<open>orElse\<close> is the early return.
\<close>

fun orElse :: "gerror option \<Rightarrow> gerror option \<Rightarrow> gerror option" where
  "orElse (Some err) next = Some err"
| "orElse None next = next"

definition guard :: "bool \<Rightarrow> string \<Rightarrow> gerror option" where
  "guard bad msg = (if bad then Some (errors_New msg) else None)"

definition validateRetry :: "RetryConfig \<Rightarrow> gerror option" where
  "validateRetry retry =
     orElse (guard (MaxAttempts retry < 1) ''retry.max_attempts must be at least 1'')
     (orElse (guard (InitialDelay retry \<le> 0 \<or> MaxDelay retry \<le> 0) ''retry delays must be positive'')
     (orElse (guard (MaxDelay retry < InitialDelay retry)
               ''retry.max_delay must be greater than or equal to retry.initial_delay'')
     (orElse (guard (Multiplier retry < 1) ''retry.multiplier must be at least 1'')
             (guard (Jitter retry < 0 \<or> Jitter retry > 1) ''retry.jitter must be between 0 and 1''))))"

type_synonym 'a range_order = "(string \<times> 'a) list \<Rightarrow> (string \<times> 'a) list"

definition Validate ::
    "(string \<Rightarrow> URL result) \<Rightarrow> string range_order \<Rightarrow> duration range_order \<Rightarrow> Config \<Rightarrow> gerror option" where
  "Validate parse pathOrder durationOrder config =
     orElse (case ParseServiceEndpoint parse (GetServiceEndpoint config) of Inl err \<Rightarrow> Some err | Inr _ \<Rightarrow> None)
     (orElse (case ParseManagementServiceEndpoint parse (ManagementServiceEndpoint config) of
                Inl err \<Rightarrow> Some (errors_Wrap err ''invalid management_service_endpoint'')
              | Inr _ \<Rightarrow> None)
     (orElse (firstRelative (pathOrder (configPaths config)))
     (orElse (guard (length (DataRootPath config) = 0) ''data root dir must be given'')
     (orElse (guard (length (PIDFile config) = 0) ''pid file path must be given'')
     (orElse (case GetRecoveryEncryptionKey config of Inl err \<Rightarrow> Some err | Inr _ \<Rightarrow> None)
     (orElse (guard (length (AllowedMountRootPaths config) = 0)
                ''allowed_mount_root_paths must contain at least one path'')
     (orElse (firstBadRoot (AllowedMountRootPaths config))
     (orElse (validateRetry (Retry config))
     (orElse (firstNonPositive (durationOrder (configDurations config)))
             (guard (MaxConcurrentMounts config < 1) ''max_concurrent_mounts must be at least 1''))))))))))"

section \<open>Work directories\<close>

definition ownerWritable :: "FileInfo \<Rightarrow> bool" where
  "ownerWritable fi \<longleftrightarrow> and (fiPerm fi) 128 = 128"

definition makeDir :: "string \<Rightarrow> files \<Rightarrow> gerror option \<times> files" where
  "makeDir p fs =
     (if length p = 0 then (Some (errors_New ''failed to create a dir with empty path''), fs)
      else case os_Stat fs p of
             Inl err \<Rightarrow>
               (if errors_Is (Some err) NotExist then
                  (case os_MkdirAll p 509 fs of
                     (Some mkdirErr, fs') \<Rightarrow>
                       (Some (errors_Wrapf mkdirErr [Lit ''making a dir '', Quoted p, Lit '' error'']), fs')
                   | (None, fs') \<Rightarrow> (None, fs'))
                else (Some (errors_Wrapf err [Lit ''stating a dir '', Quoted p, Lit '' error'']), fs))
           | Inr dirInfo \<Rightarrow>
               (if \<not> fiIsDir dirInfo
                then (Some (errors_Errorf [Lit ''a file '', Quoted p, Lit '' exist, not a directory'']), fs)
                else if \<not> ownerWritable dirInfo
                then (Some (errors_Errorf
                       [Lit ''a dir '', Quoted p, Lit '' exist, but does not have the write permission'']), fs)
                else (None, fs)))"

definition makeUnixSocketDir :: "string \<Rightarrow> files \<Rightarrow> gerror option \<times> files" where
  "makeUnixSocketDir endpoint fs =
     (let removed =
        (case os_Stat fs endpoint of
           Inl err \<Rightarrow>
             (if \<not> errors_Is (Some err) NotExist
              then (Some (errors_Wrapf err [Lit ''service unix socket file '', Quoted endpoint, Lit '' error'']), fs)
              else (None, fs))
         | Inr _ \<Rightarrow>
             (case os_Remove endpoint fs of
                (Some err2, fs') \<Rightarrow>
                  (Some (errors_Wrapf err2 [Lit ''failed to remove the existing unix socket file '', Quoted endpoint]), fs')
              | (None, fs') \<Rightarrow> (None, fs')))
      in case removed of
           (Some err, fs') \<Rightarrow> (Some err, fs')
         | (None, fs') \<Rightarrow>
             (let parentDir = Dir endpoint
              in case os_Stat fs' parentDir of
                   Inl err \<Rightarrow>
                     (if errors_Is (Some err) NotExist then
                        (case os_MkdirAll parentDir 511 fs' of
                           (Some err2, fs'') \<Rightarrow>
                             (Some (errors_Wrapf err2
                                [Lit ''failed to make a directory for unix socket '', Quoted parentDir]), fs'')
                         | (None, fs'') \<Rightarrow> (None, fs''))
                      else (Some (errors_Wrapf err [Lit ''unix socket directory '', Quoted parentDir, Lit '' error'']), fs'))
                 | Inr info \<Rightarrow>
                     (if \<not> ownerWritable info
                      then (Some (errors_Errorf
                             [Lit ''unix socket directory '', Quoted parentDir, Lit '' must have write permission'']), fs')
                      else (None, fs'))))"

definition MakeWorkDirs :: "(string \<Rightarrow> URL result) \<Rightarrow> Config \<Rightarrow> files \<Rightarrow> gerror option \<times> files" where
  "MakeWorkDirs parse config fs =
     (case makeDir (GetDataRootPath config) fs of
        (Some err, fs1) \<Rightarrow> (Some err, fs1)
      | (None, fs1) \<Rightarrow>
          (case makeDir (GetMountRootPath config) fs1 of
             (Some err, fs2) \<Rightarrow> (Some err, fs2)
           | (None, fs2) \<Rightarrow>
               (case ParseServiceEndpoint parse (GetServiceEndpoint config) of
                  Inl err \<Rightarrow> (Some err, fs2)
                | Inr (scheme, endpoint) \<Rightarrow>
                    (if scheme = ''unix'' then makeUnixSocketDir endpoint fs2 else (None, fs2)))))"

definition MakeLogDir :: "Config \<Rightarrow> files \<Rightarrow> gerror option \<times> files" where
  "MakeLogDir config fs = makeDir (GetLogRootPath config) fs"

section \<open>Log writers\<close>

text \<open>A rotated file of package lumberjack: its name, megabytes, backups, days and compression.\<close>

record Logger =
  lgFilename :: string
  lgMaxSize :: nat
  lgMaxBackups :: nat
  lgMaxAge :: nat
  lgCompress :: bool

datatype log_writer =
    OsStderr
  | RotatedFile Logger
  | nonClosingWriter log_writer
  | MultiWriteCloser "log_writer list"

definition getLogWriterForForegroundProcess :: "string \<Rightarrow> log_writer" where
  "getLogWriterForForegroundProcess logPath =
     RotatedFile \<lparr>lgFilename = logPath @ ''.fg'', lgMaxSize = 50, lgMaxBackups = 5, lgMaxAge = 30, lgCompress = False\<rparr>"

definition getLogWriterForDaemonProcess :: "string \<Rightarrow> log_writer" where
  "getLogWriterForDaemonProcess logPath =
     RotatedFile \<lparr>lgFilename = logPath, lgMaxSize = 50, lgMaxBackups = 10, lgMaxAge = 365, lgCompress = False\<rparr>"

definition NewMultiWriteCloser :: "log_writer list \<Rightarrow> log_writer" where
  "NewMultiWriteCloser writers = MultiWriteCloser writers"

text \<open>
  Writing and closing: \<open>write\<close> and \<open>close\<close> give the outcome of the call on a stream or a file,
  which the last component records. A \<open>nonClosingWriter\<close> has no \<open>Close\<close> method.
\<close>

fun writeLog :: "(log_writer \<Rightarrow> string \<Rightarrow> nat \<times> gerror option) \<Rightarrow> log_writer \<Rightarrow> string \<Rightarrow>
    (nat \<times> gerror option) \<times> log_writer list"
  and writeAll :: "(log_writer \<Rightarrow> string \<Rightarrow> nat \<times> gerror option) \<Rightarrow> log_writer list \<Rightarrow> string \<Rightarrow>
    (nat \<times> gerror option) \<times> log_writer list" where
  "writeLog write (nonClosingWriter w) p = writeLog write w p"
| "writeLog write (MultiWriteCloser ws) p = writeAll write ws p"
| "writeLog write OsStderr p = (write OsStderr p, [OsStderr])"
| "writeLog write (RotatedFile l) p = (write (RotatedFile l) p, [RotatedFile l])"
| "writeAll write [] p = ((length p, None), [])"
| "writeAll write (w # ws) p =
     (case writeLog write w p of
        ((n, Some err), tr) \<Rightarrow> ((n, Some err), tr)
      | ((n, None), tr) \<Rightarrow> (case writeAll write ws p of (r, tr') \<Rightarrow> (r, tr @ tr')))"

fun isCloser :: "log_writer \<Rightarrow> bool" where
  "isCloser (nonClosingWriter w) = False"
| "isCloser _ = True"

fun closeLog :: "(log_writer \<Rightarrow> gerror option) \<Rightarrow> log_writer \<Rightarrow> gerror option \<times> log_writer list"
  and closeAll :: "(log_writer \<Rightarrow> gerror option) \<Rightarrow> gerror option \<Rightarrow> log_writer list \<Rightarrow>
    gerror option \<times> log_writer list" where
  "closeLog close (MultiWriteCloser ws) = closeAll close None ws"
| "closeLog close (nonClosingWriter w) = (None, [])"
| "closeLog close OsStderr = (close OsStderr, [OsStderr])"
| "closeLog close (RotatedFile l) = (close (RotatedFile l), [RotatedFile l])"
| "closeAll close firstErr [] = (firstErr, [])"
| "closeAll close firstErr (w # ws) =
     (if isCloser w then
        (case closeLog close w of
           (err, tr) \<Rightarrow>
             (case closeAll close (if err \<noteq> None \<and> firstErr = None then err else firstErr) ws of
                (r, tr') \<Rightarrow> (r, tr @ tr')))
      else closeAll close firstErr ws)"

definition GetLogWriter :: "Config \<Rightarrow> bool \<Rightarrow> files \<Rightarrow> log_writer result \<times> files" where
  "GetLogWriter config foregroundProcess fs =
     (let logFilePath = GetLogFilePath config
      in if logFilePath = ''-'' \<or> length logFilePath = 0 then (Inr OsStderr, fs)
         else case MakeLogDir config fs of
                (Some err, fs') \<Rightarrow> (Inl err, fs')
              | (None, fs') \<Rightarrow>
                  (if foregroundProcess
                   then (Inr (NewMultiWriteCloser
                          [nonClosingWriter OsStderr, getLogWriterForForegroundProcess logFilePath]), fs')
                   else (Inr (getLogWriterForDaemonProcess logFilePath), fs')))"

section \<open>What a validated configuration guarantees\<close>

definition valid_config :: "(string \<Rightarrow> URL result) \<Rightarrow> Config \<Rightarrow> bool" where
  "valid_config parse config \<longleftrightarrow>
     \<not> isl (ParseServiceEndpoint parse (GetServiceEndpoint config)) \<and>
     \<not> isl (ParseManagementServiceEndpoint parse (ManagementServiceEndpoint config)) \<and>
     list_all IsAbs
       [IRODSFSExecutablePath config, MountExecutablePath config, UnmountExecutablePath config,
        DataRootPath config, PIDFile config, GetLogRootPath config, GetMountRootPath config] \<and>
     \<not> isl (GetRecoveryEncryptionKey config) \<and>
     AllowedMountRootPaths config \<noteq> [] \<and>
     list_all (\<lambda>r. IsAbs r \<and> Clean r \<noteq> ''/'') (AllowedMountRootPaths config) \<and>
     valid_retry (Retry config) \<and>
     0 < MountTimeout config \<and> 0 < UnmountTimeout config \<and> 0 < DAVFSUnmountTimeout config \<and>
     0 < ReconcileInterval config \<and> 1 \<le> MaxConcurrentMounts config"

lemma orElse_None [simp]: "orElse a b = None \<longleftrightarrow> a = None \<and> b = None"
  by (cases a) simp_all

lemma guard_None [simp]: "guard bad msg = None \<longleftrightarrow> \<not> bad"
  by (simp add: guard_def)

lemma firstRelative_None: "firstRelative ps = None \<longleftrightarrow> (\<forall>x\<in>set ps. IsAbs (snd x))"
  by (induction ps rule: firstRelative.induct) simp_all

lemma firstBadRoot_None: "firstBadRoot rs = None \<longleftrightarrow> list_all (\<lambda>r. IsAbs r \<and> Clean r \<noteq> ''/'') rs"
  by (induction rs) simp_all

lemma firstNonPositive_None: "firstNonPositive ds = None \<longleftrightarrow> (\<forall>x\<in>set ds. 0 < snd x)"
  by (induction ds rule: firstNonPositive.induct) auto

lemma validateRetry_None: "validateRetry retry = None \<longleftrightarrow> valid_retry retry"
  by (auto simp: validateRetry_def valid_retry_def)

lemma sum_error_None: "(case r of Inl err \<Rightarrow> Some (f err) | Inr _ \<Rightarrow> None) = None \<longleftrightarrow> \<not> isl r"
  by (cases r) simp_all

lemma Validate_None:
  assumes "set (pathOrder (configPaths config)) = set (configPaths config)"
    and "set (durationOrder (configDurations config)) = set (configDurations config)"
  shows "Validate parse pathOrder durationOrder config = None \<longleftrightarrow> valid_config parse config"
proof -
  have p: "firstRelative (pathOrder (configPaths config)) = None \<longleftrightarrow>
      list_all IsAbs
       [IRODSFSExecutablePath config, MountExecutablePath config, UnmountExecutablePath config,
        DataRootPath config, PIDFile config, GetLogRootPath config, GetMountRootPath config]"
    unfolding firstRelative_None assms(1) by (simp add: configPaths_def)
  have d: "firstNonPositive (durationOrder (configDurations config)) = None \<longleftrightarrow>
      0 < MountTimeout config \<and> 0 < UnmountTimeout config \<and> 0 < DAVFSUnmountTimeout config \<and>
      0 < ReconcileInterval config"
    unfolding firstNonPositive_None assms(2) by (simp add: configDurations_def)
  have e: "IsAbs q \<Longrightarrow> q \<noteq> []" for q by (cases q) simp_all
  show ?thesis
    unfolding Validate_def valid_config_def orElse_None p d validateRetry_None firstBadRoot_None guard_None
      sum_error_None sum_error_None [of "\<lambda>e. e"]
    by (auto dest: e)
qed


section \<open>The recovery key is read back\<close>

definition b64_char :: "nat \<Rightarrow> char" where
  "b64_char n = b64_alphabet ! n"

fun b64_encode :: "string \<Rightarrow> string" where
  "b64_encode [] = []"
| "b64_encode [a] =
     (let x = of_char a :: nat in [b64_char (x div 4), b64_char (x mod 4 * 16), pad, pad])"
| "b64_encode [a, b] =
     (let x = of_char a :: nat; y = of_char b :: nat
      in [b64_char (x div 4), b64_char (x mod 4 * 16 + y div 16), b64_char (y mod 16 * 4), pad])"
| "b64_encode (a # b # c # rest) =
     (let x = of_char a :: nat; y = of_char b :: nat; z = of_char c :: nat
      in b64_char (x div 4) # b64_char (x mod 4 * 16 + y div 16) # b64_char (y mod 16 * 4 + z div 64) #
         b64_char (z mod 64) # b64_encode rest)"

lemma b64_table:
  "list_all (\<lambda>n. b64_value (b64_char n) = Some n \<and> b64_char n \<noteq> pad \<and> b64_char n \<noteq> CHR 0x0A \<and>
     b64_char n \<noteq> CHR 0x0D \<and> \<not> is_space (b64_char n)) [0..<64]"
  by code_simp

lemma b64_char [simp]:
  assumes "n < 64"
  shows "b64_value (b64_char n) = Some n" "b64_char n \<noteq> pad" "b64_char n \<noteq> CHR 0x0A" "b64_char n \<noteq> CHR 0x0D"
    "\<not> is_space (b64_char n)"
  using b64_table assms by (simp_all add: list_all_iff)

lemma of_char_bounds:
  "(of_char c :: nat) div 4 < 64" "(of_char c :: nat) div 16 < 16" "(of_char c :: nat) div 64 < 4"
proof -
  have "(of_char c :: nat) < 256" by (metis mod_less_divisor of_char_mod_256 zero_less_numeral)
  then show "(of_char c :: nat) div 4 < 64" "(of_char c :: nat) div 16 < 16" "(of_char c :: nat) div 64 < 4"
    by (simp_all add: div_less_iff_less_mult)
qed

lemma sextet_bounds:
  fixes x u v :: nat
  shows "x mod 4 * 16 < 64" "x mod 16 * 4 < 64" "u < 16 \<Longrightarrow> x mod 4 * 16 + u < 64" "v < 4 \<Longrightarrow> x mod 16 * 4 + v < 64"
proof -
  have m: "x mod 4 \<le> 3" "x mod 16 \<le> 15" using mod_less_divisor [of 4 x] mod_less_divisor [of 16 x] by linarith+
  then show "x mod 4 * 16 < 64" "x mod 16 * 4 < 64" "u < 16 \<Longrightarrow> x mod 4 * 16 + u < 64" "v < 4 \<Longrightarrow> x mod 16 * 4 + v < 64"
    by linarith+
qed

lemma b64_quads_encode: "b64_quads (b64_encode bs) = Some bs"
  by (induction bs rule: b64_encode.induct) (simp_all add: Let_def of_char_bounds sextet_bounds)

lemma b64_encode_chars: "c \<in> set (b64_encode bs) \<Longrightarrow> c \<noteq> CHR 0x0A \<and> c \<noteq> CHR 0x0D \<and> \<not> is_space c"
  by (induction bs rule: b64_encode.induct)
    (auto simp: Let_def of_char_bounds sextet_bounds is_space_def [of pad])

lemma b64_Decode_encode: "b64_DecodeString (b64_encode bs) = Inr bs"
proof -
  have "filter (\<lambda>c. c \<noteq> CHR 0x0A \<and> c \<noteq> CHR 0x0D) (b64_encode bs) = b64_encode bs"
    using b64_encode_chars by (simp add: filter_id_conv)
  then show ?thesis by (simp add: b64_DecodeString_def b64_quads_encode)
qed

lemma recovery_key_read:
  assumes "RecoveryEncryptionKey config = u @ b64_encode key @ v"
    and "list_all is_space u" and "list_all is_space v" and "key \<noteq> []"
  shows "GetRecoveryEncryptionKey config =
    (if length key = 32 then Inr key
     else Inl (errors_Errorf
            [Lit ''recovery encryption key must decode to exactly '', Lit (show_nat 32), Lit '' bytes, got '',
             Lit (show_nat (length key))]))"
proof -
  have "TrimSpace (RecoveryEncryptionKey config) = b64_encode key"
    unfolding assms(1) using assms(2,3) b64_encode_chars by (intro TrimSpace_pad) auto
  moreover have "b64_encode key \<noteq> []"
    using assms(4) by (cases key rule: b64_encode.cases) (simp_all add: Let_def)
  ultimately show ?thesis
    by (simp add: GetRecoveryEncryptionKey_def b64_Decode_encode RecoveryEncryptionKeySizeDefault_def)
qed

text \<open>
  A recovery key written in standard base64, with any white space around it, is read back
  unchanged when it has 32 bytes, and a non-empty key of any other length is refused.
\<close>

theorem recovery_key_roundtrip:
  assumes "RecoveryEncryptionKey config = u @ b64_encode key @ v"
    and "list_all is_space u" and "list_all is_space v" and "key \<noteq> []"
  shows "if length key = 32 then GetRecoveryEncryptionKey config = Inr key
         else isl (GetRecoveryEncryptionKey config)"
  using recovery_key_read [OF assms] by simp

definition sample_config :: Config where
  "sample_config = NewDefaultConfig\<lparr>RecoveryEncryptionKey := b64_encode (replicate 32 CHR ''k'') @ [CHR 0x0A]\<rparr>"

theorem recovery_key_roundtrip_witness:
  "GetRecoveryEncryptionKey sample_config = Inr (replicate 32 CHR ''k'')"
proof -
  have "RecoveryEncryptionKey sample_config = [] @ b64_encode (replicate 32 CHR ''k'') @ [CHR 0x0A]"
    by (simp add: sample_config_def)
  from recovery_key_roundtrip [OF this] show ?thesis by (simp add: is_space_def)
qed

lemmas default_config_simps =
  NewDefaultConfig_def IRODSFSExecutablePathDefault_def MountExecutablePathDefault_def
  UnmountExecutablePathDefault_def DataRootPathDefault_def PIDFilePathDefault_def
  AllowedMountRootPathDefault_def KubeletMountRootPathDefault_def RetryMaxAttemptsDefault_def
  RetryInitialDelayDefault_def RetryMaxDelayDefault_def RetryMultiplierDefault_def RetryJitterDefault_def
  MountTimeoutDefault_def UnmountTimeoutDefault_def DAVFSUnmountTimeoutDefault_def ReconcileIntervalDefault_def
  MaxConcurrentMountsDefault_def ManagementServiceEndpointDefault_def MountRootPathDefault_def

lemma sample_config_valid: "valid_config sample_parse sample_config"
proof -
  have key: "\<not> isl (GetRecoveryEncryptionKey sample_config)"
    using recovery_key_read [of sample_config "[]" "replicate 32 CHR ''k''" "[CHR 0x0A]"]
    by (simp add: sample_config_def is_space_def)
  have retry: "valid_retry (Retry sample_config)"
    by (simp add: sample_config_def default_config_simps valid_retry_def)
  have paths: "list_all IsAbs
       [IRODSFSExecutablePath sample_config, MountExecutablePath sample_config, UnmountExecutablePath sample_config,
        DataRootPath sample_config, PIDFile sample_config, GetLogRootPath sample_config, GetMountRootPath sample_config]"
    by (simp add: sample_config_def default_config_simps GetLogRootPath_def GetMountRootPath_def)
  have roots: "list_all (\<lambda>r. IsAbs r \<and> Clean r \<noteq> ''/'') [''/mnt/irods'', ''/var/lib/kubelet'']" by code_simp
  have ends: "\<not> isl (ParseServiceEndpoint sample_parse ''unix:///var/lib/irodsfsd/comm.sock'')"
    "\<not> isl (ParseManagementServiceEndpoint sample_parse ''http://0.0.0.0:13021'')"
    by (simp_all add: sample_service_endpoint sample_management_endpoint)
  show ?thesis
    unfolding valid_config_def using key retry paths roots ends
    by (simp add: sample_config_def default_config_simps GetServiceEndpoint_def)
qed

lemma sample_validate: "Validate sample_parse rev rev sample_config = None"
  using Validate_None [of rev sample_config rev sample_parse] sample_config_valid by simp


section \<open>What the work directories guarantee\<close>

lemma makeDir_cases:
  assumes "makeDir p fs = (None, fs')"
  shows "fs' = fs \<and> is_dir fs p \<or> os_MkdirAll p 509 fs = (None, fs')"
proof (cases "os_Stat fs p")
  case (Inl err)
  then show ?thesis using assms by (auto simp: makeDir_def split: if_splits prod.splits option.splits)
next
  case (Inr fi)
  then have "fs_node fs p = Some fi" by (auto simp: os_Stat_def split: option.splits)
  then show ?thesis using assms Inr by (auto simp: makeDir_def is_dir_def split: if_splits)
qed

lemma makeDir_ok: "makeDir p fs = (None, fs') \<Longrightarrow> is_dir fs' p \<and> fsFault fs' = fsFault fs"
  using makeDir_cases MkdirAll_dir MkdirAll_frame by blast

lemma makeDir_keep: "makeDir p fs = (None, fs') \<Longrightarrow> is_dir fs q \<Longrightarrow> is_dir fs' q"
  using makeDir_cases MkdirAll_keep by blast

lemma makeUnixSocketDir_ok:
  assumes ok: "makeUnixSocketDir endpoint fs = (None, fs')"
    and c: "Clean endpoint = endpoint" "comps endpoint \<noteq> []" and f: "fsFault fs CallStat endpoint = None"
  shows "fs_node fs' endpoint = None \<and> (\<forall>q. Clean q \<noteq> endpoint \<longrightarrow> is_dir fs q \<longrightarrow> is_dir fs' q)"
proof -
  obtain fs1 where fs1: "fs_node fs1 endpoint = None" "\<And>q. Clean q \<noteq> endpoint \<Longrightarrow> is_dir fs q \<Longrightarrow> is_dir fs1 q"
    and r: "fs' = fs1 \<or> os_MkdirAll (Dir endpoint) 511 fs1 = (None, fs')"
  proof (cases "fs_node fs endpoint")
    case None
    then show ?thesis
      using ok f by (intro that [of fs])
        (auto simp: makeUnixSocketDir_def os_Stat_def Let_def split: sum.splits option.splits if_splits prod.splits)
  next
    case (Some fi)
    with ok f obtain fs1 where "os_Remove endpoint fs = (None, fs1)"
      and "fs' = fs1 \<or> os_MkdirAll (Dir endpoint) 511 fs1 = (None, fs')"
      by (auto simp: makeUnixSocketDir_def os_Stat_def Let_def split: sum.splits option.splits if_splits prod.splits)
    then show ?thesis
      using Remove_effect [of endpoint fs fs1] c(1) by (intro that [of fs1]) (auto simp: is_dir_def)
  qed
  from r show ?thesis
  proof
    assume "fs' = fs1"
    then show ?thesis using fs1 by simp
  next
    assume m: "os_MkdirAll (Dir endpoint) 511 fs1 = (None, fs')"
    then have "fs_node fs' endpoint = None"
      using MkdirAll_parent [of endpoint 511 fs1 None fs'] c fs1(1) by simp
    then show ?thesis using fs1(2) MkdirAll_keep [OF m] by blast
  qed
qed

text \<open>
  When preparing the work directories succeeds for a Unix socket endpoint, the data root and
  the mount root exist as directories, and nothing is left at the socket's path, so that the
  service can listen there: provided the socket's path is neither of the two roots, and its
  status can be read.
\<close>

theorem work_dirs_ready:
  assumes "MakeWorkDirs parse config fs = (None, fs')"
    and "ParseServiceEndpoint parse (GetServiceEndpoint config) = Inr (''unix'', endpoint)"
    and "endpoint \<noteq> ''/''" and "fsFault fs CallStat endpoint = None"
    and "Clean (DataRootPath config) \<noteq> endpoint" and "Clean (GetMountRootPath config) \<noteq> endpoint"
  shows "is_dir fs' (DataRootPath config) \<and> is_dir fs' (GetMountRootPath config) \<and> fs_node fs' endpoint = None"
proof -
  have e: "IsAbs endpoint" "Clean endpoint = endpoint" using unix_endpoint_absolute [OF assms(2)] by simp_all
  then have c: "comps endpoint \<noteq> []" using Clean_root_iff [of endpoint] assms(3) by auto
  from assms(1,2) obtain fs1 fs2 where d: "makeDir (DataRootPath config) fs = (None, fs1)"
    "makeDir (GetMountRootPath config) fs1 = (None, fs2)" "makeUnixSocketDir endpoint fs2 = (None, fs')"
    by (auto simp: MakeWorkDirs_def GetDataRootPath_def split: prod.splits option.splits)
  have "fsFault fs2 CallStat endpoint = None"
    using makeDir_ok [OF d(1)] makeDir_ok [OF d(2)] assms(4) by simp
  from makeUnixSocketDir_ok [OF d(3) e(2) c this] show ?thesis
    using makeDir_ok [OF d(1)] makeDir_ok [OF d(2)] makeDir_keep [OF d(2)] assms(5,6) by blast
qed

definition empty_files :: files where
  "empty_files =
     \<lparr>fsNodes = [(''/'', \<lparr>fiIsDir = True, fiPerm = 493, fiData = []\<rparr>)], fsUmask = 18, fsFault = (\<lambda>c p. None)\<rparr>"

lemma sample_work_dirs: "fst (MakeWorkDirs sample_parse sample_config empty_files) = None"
  by code_simp

theorem work_dirs_ready_witness:
  "is_dir (snd (MakeWorkDirs sample_parse sample_config empty_files)) ''/var/lib/irodsfsd/mounts''"
proof -
  let ?fs = "snd (MakeWorkDirs sample_parse sample_config empty_files)"
  have "MakeWorkDirs sample_parse sample_config empty_files = (None, ?fs)"
    by (rule prod_eqI) (simp_all add: sample_work_dirs)
  moreover have "ParseServiceEndpoint sample_parse (GetServiceEndpoint sample_config) =
      Inr (''unix'', ''/var/lib/irodsfsd/comm.sock'')" by code_simp
  moreover have "Clean (DataRootPath sample_config) \<noteq> ''/var/lib/irodsfsd/comm.sock''"
    "Clean (GetMountRootPath sample_config) \<noteq> ''/var/lib/irodsfsd/comm.sock''" by code_simp+
  ultimately have "is_dir ?fs (GetMountRootPath sample_config)"
    using work_dirs_ready [of sample_parse sample_config empty_files ?fs "''/var/lib/irodsfsd/comm.sock''"]
    by (simp add: empty_files_def)
  moreover have "GetMountRootPath sample_config = ''/var/lib/irodsfsd/mounts''" by code_simp
  ultimately show ?thesis by simp
qed

section \<open>The foreground log writer\<close>

text \<open>A configuration always logs to a file, and closing the foreground writer closes the file only.\<close>

lemma foreground_close:
  assumes "GetLogWriter config True fs = (Inr w, fs')"
  shows "closeLog close w =
    (close (getLogWriterForForegroundProcess (GetLogFilePath config)),
     [getLogWriterForForegroundProcess (GetLogFilePath config)]) \<or> GetLogFilePath config = ''-''"
proof -
  have "GetLogFilePath config \<noteq> []" by (simp add: GetLogFilePath_def)
  then show ?thesis using assms
    by (auto simp: GetLogWriter_def Let_def NewMultiWriteCloser_def getLogWriterForForegroundProcess_def
        split: if_splits prod.splits option.splits)
qed

end
