(* ===== verification/Server.thy ===== *)
theory Server
  imports Guarantees
begin

text \<open>
  The gRPC service (\<open>service/server.go\<close>): it calls the mount manager through the interface
  \<open>mountOperations\<close>, writes an audit line for every mounting and unmounting request, and turns
  errors into gRPC status codes. The interface is a record of functions on a state; the contract
  the service relies on is the locale \<open>mount_operations\<close>, and the mount manager of theory
  \<open>Supervisor\<close> is its interpretation. \<open>errors.Is\<close> of \<open>cockroachdb/errors\<close> compares type and text,
  so the sentinels that the store and the manager both declare are one cause.
\<close>

section \<open>Status codes\<close>

datatype code =
    OK | Canceled | Unknown | InvalidArgument | DeadlineExceeded | NotFound | AlreadyExists
  | PermissionDenied | ResourceExhausted | FailedPrecondition | Aborted | OutOfRange | Unimplemented
  | Internal | Unavailable | DataLoss | Unauthenticated

text \<open>An error on its way to the client: a gRPC status, or another Go error.\<close>

datatype rpc_error = Status code message | Other gerror

fun status_Code :: "rpc_error \<Rightarrow> code" where
  "status_Code (Status c m) = c"
| "status_Code (Other err) = Unknown"

fun status_Message :: "rpc_error \<Rightarrow> message" where
  "status_Message (Status c m) = m"
| "status_Message (Other err) = errtext err"

definition mountStatusError :: "rpc_error \<Rightarrow> bool \<Rightarrow> rpc_error" where
  "mountStatusError e invalidWhenUnknown =
     (if status_Code e \<noteq> Unknown then e
      else case e of
             Status c m \<Rightarrow> Status (if invalidWhenUnknown then InvalidArgument else Internal) m
           | Other err \<Rightarrow>
               (let is = errors_Is (Some err)
                in if is ContextCanceled then Status Canceled (errtext err)
                   else if is ContextDeadlineExceeded \<or> is ErrDAVFSLazyUnmount then Status DeadlineExceeded (errtext err)
                   else if is ErrMountNotFound then Status NotFound (errtext err)
                   else if is ErrMountIDConflict \<or> is ErrMountPathConflict then Status AlreadyExists (errtext err)
                   else if is ErrMountLimitReached then Status ResourceExhausted (errtext err)
                   else if invalidWhenUnknown then Status InvalidArgument (errtext err)
                   else Status Internal (errtext err)))"

section \<open>Requests\<close>

text \<open>
  The context of a call: the address the REST handler attached and the peer gRPC attached.
\<close>

record call_context =
  ctxSourceAddress :: "string option"
  ctxPeer :: "string option"

definition withSourceAddress :: "call_context \<Rightarrow> string \<Rightarrow> call_context" where
  "withSourceAddress ctx address = ctx\<lparr>ctxSourceAddress := Some address\<rparr>"

definition sourceAddressFromContext :: "call_context \<Rightarrow> string" where
  "sourceAddressFromContext ctx =
     (case ctxSourceAddress ctx of
        Some address \<Rightarrow>
          if address \<noteq> [] then address else (case ctxPeer ctx of Some p \<Rightarrow> p | None \<Rightarrow> [])
      | None \<Rightarrow> (case ctxPeer ctx of Some p \<Rightarrow> p | None \<Rightarrow> []))"

record 's mountOperations =
  opMount :: "env \<Rightarrow> MountRequest option \<Rightarrow> 's \<Rightarrow> (MountInfo option \<times> gerror option) \<times> 's"
  opUnmount :: "env \<Rightarrow> UnmountRequest option \<Rightarrow> 's \<Rightarrow> (MountInfo option \<times> gerror option) \<times> 's"
  opListMounts :: "env \<Rightarrow> ListMountsRequest option \<Rightarrow> 's \<Rightarrow> MountInfo list result"
  opGetMount :: "env \<Rightarrow> string \<Rightarrow> 's \<Rightarrow> MountInfo result"
  opReady :: "env \<Rightarrow> 's \<Rightarrow> gerror option"

record audit =
  auditAction :: string
  auditMountID :: string
  auditMountPath :: string
  auditSource :: string
  auditError :: "gerror option"

definition auditMountEvent :: "call_context \<Rightarrow> string \<Rightarrow> string \<Rightarrow> string \<Rightarrow> gerror option \<Rightarrow> audit" where
  "auditMountEvent ctx action i path err =
     \<lparr>auditAction = action, auditMountID = i, auditMountPath = path,
      auditSource = sourceAddressFromContext ctx, auditError = err\<rparr>"

definition requestMountID :: "MountRequest option \<Rightarrow> string" where
  "requestMountID request = (case request of None \<Rightarrow> [] | Some r \<Rightarrow> GetString (ReqMountId r))"

definition requestMountPath :: "MountRequest option \<Rightarrow> string" where
  "requestMountPath request = (case request of None \<Rightarrow> [] | Some r \<Rightarrow> GetMountPath (ReqConfig r))"

type_synonym 'a response = "rpc_error + 'a"

definition newMountServer :: "'s mountOperations option \<Rightarrow> 's mountOperations result" where
  "newMountServer manager =
     (case manager of None \<Rightarrow> Inl (errors_New ''mount manager is required'') | Some m \<Rightarrow> Inr m)"

definition ServerMount ::
    "'s mountOperations \<Rightarrow> call_context \<Rightarrow> env \<Rightarrow> MountRequest option \<Rightarrow> 's \<Rightarrow>
     MountInfo option response \<times> audit list \<times> 's" where
  "ServerMount ops ctx ev request s =
     (let ((mount, err), s') = opMount ops ev request s;
          i = (case mount of Some m \<Rightarrow> MountId m | None \<Rightarrow> requestMountID request);
          a = auditMountEvent ctx ''mount'' i (requestMountPath request) err
      in case err of
           Some e \<Rightarrow> (Inl (mountStatusError (Other e) (mount = None)), [a], s')
         | None \<Rightarrow> (Inr mount, [a], s'))"

definition ServerUnmount ::
    "'s mountOperations \<Rightarrow> call_context \<Rightarrow> env \<Rightarrow> UnmountRequest option \<Rightarrow> 's \<Rightarrow>
     MountInfo option response \<times> audit list \<times> 's" where
  "ServerUnmount ops ctx ev request s =
     (case request of
        None \<Rightarrow> (Inl (Status InvalidArgument [Lit ''mount ID is required'']), [], s)
      | Some r \<Rightarrow>
          (if UnmountMountId r = [] then (Inl (Status InvalidArgument [Lit ''mount ID is required'']), [], s)
           else
             (let ((mount, err), s') = opUnmount ops ev (Some r) s;
                  path = (case mount of Some m \<Rightarrow> GetMountPath (InfoConfig m) | None \<Rightarrow> []);
                  a = auditMountEvent ctx ''unmount'' (UnmountMountId r) path err
              in case err of
                   Some e \<Rightarrow> (Inl (mountStatusError (Other e) False), [a], s')
                 | None \<Rightarrow> (Inr mount, [a], s'))))"

definition ServerListMounts ::
    "'s mountOperations \<Rightarrow> env \<Rightarrow> ListMountsRequest option \<Rightarrow> 's \<Rightarrow> MountInfo list response" where
  "ServerListMounts ops ev request s =
     (case opListMounts ops ev request s of
        Inl err \<Rightarrow> Inl (mountStatusError (Other err) False)
      | Inr mounts \<Rightarrow> Inr mounts)"

definition ServerReady :: "'s mountOperations \<Rightarrow> env \<Rightarrow> 's \<Rightarrow> rpc_error option" where
  "ServerReady ops ev s =
     (case opReady ops ev s of
        Some _ \<Rightarrow> Some (Status Unavailable [Lit ''irodsfsd is not ready''])
      | None \<Rightarrow> None)"

text \<open>\<open>request\<close> is the mount ID of a \<open>GetMountRequest\<close>, \<open>None\<close> for a nil message.\<close>

definition ServerGetMount :: "'s mountOperations \<Rightarrow> env \<Rightarrow> string option \<Rightarrow> 's \<Rightarrow> MountInfo response" where
  "ServerGetMount ops ev request s =
     (case request of
        None \<Rightarrow> Inl (Status InvalidArgument [Lit ''mount ID is required''])
      | Some i \<Rightarrow>
          (if i = [] then Inl (Status InvalidArgument [Lit ''mount ID is required''])
           else case opGetMount ops ev i s of
                  Inl err \<Rightarrow> Inl (mountStatusError (Other err) False)
                | Inr mount \<Rightarrow> Inr mount))"

section \<open>The event stream\<close>

text \<open>
  What can happen while \<open>WatchMountEvents\<close> waits: its stream ends, the manager publishes an event,
  or the select takes the next event of the channel.
\<close>

datatype watch_input = StreamDone gerror | Published MountEventType MountInfo | Receive

text \<open>
  The loop: the result is \<open>None\<close> while it still runs, and the value returned afterwards, when the
  deferred cancellation has run. An empty channel blocks the receive.
\<close>

fun watchLoop ::
    "(MountEvent \<Rightarrow> gerror option) \<Rightarrow> nat \<Rightarrow> watch_input list \<Rightarrow> MountEvent list \<Rightarrow> event_bus \<Rightarrow>
     gerror option option \<times> MountEvent list \<times> event_bus" where
  "watchLoop send sub [] sent b = (None, sent, b)"
| "watchLoop send sub (StreamDone err # ins) sent b =
     (Some (Some err), sent, fold (\<lambda>i c. case i of Published t m \<Rightarrow> publishMountEvent t m c | _ \<Rightarrow> c) ins
        (cancelSubscription sub b))"
| "watchLoop send sub (Published t m # ins) sent b = watchLoop send sub ins sent (publishMountEvent t m b)"
| "watchLoop send sub (Receive # ins) sent b =
     (case receiveEvent sub b of
        (None, b') \<Rightarrow> watchLoop send sub ins sent b'
      | (Some e, b') \<Rightarrow>
          (case send e of
             Some err \<Rightarrow>
               (Some (Some err), sent,
                fold (\<lambda>i c. case i of Published t m \<Rightarrow> publishMountEvent t m c | _ \<Rightarrow> c) ins
                  (cancelSubscription sub b'))
           | None \<Rightarrow> watchLoop send sub ins (sent @ [e]) b'))"

definition WatchMountEvents ::
    "(MountEvent \<Rightarrow> gerror option) \<Rightarrow> WatchMountEventsRequest option \<Rightarrow> MountInfo list \<Rightarrow> watch_input list \<Rightarrow> event_bus \<Rightarrow>
     (nat \<times> gerror option option \<times> MountEvent list \<times> event_bus) option" where
  "WatchMountEvents send request mounts ins b =
     (case SubscribeMountEvents request mounts b of
        None \<Rightarrow> None
      | Some (sub, b') \<Rightarrow> Some (sub, watchLoop send sub ins [] b'))"

section \<open>The contract of the mount manager\<close>

locale mount_operations =
  fixes ops :: "'s mountOperations" and inv :: "'s \<Rightarrow> bool"
  assumes mount_inv: "inv s \<Longrightarrow> inv (snd (opMount ops ev mreq s))"
    and unmount_inv: "inv s \<Longrightarrow> inv (snd (opUnmount ops ev ureq s))"
    and mount_redacted: "opMount ops ev mreq s = ((Some m, e), s') \<Longrightarrow> secret_free m"
    and unmount_redacted: "opUnmount ops ev ureq s = ((Some m, e), s') \<Longrightarrow> secret_free m"
    and list_redacted: "opListMounts ops ev lreq s = Inr ms \<Longrightarrow> list_all secret_free ms"
    and get_redacted: "opGetMount ops ev i s = Inr m \<Longrightarrow> secret_free m"
    and get_id: "inv s \<Longrightarrow> opGetMount ops ev i s = Inr m \<Longrightarrow> MountId m = i"
    and get_error: "opGetMount ops ev i s = Inl err \<Longrightarrow> ctxErr ev = None \<Longrightarrow> cause err = ErrMountNotFound"
    and unmount_missing: "opGetMount ops ev i s = Inl err \<Longrightarrow> ctxErr ev = None \<Longrightarrow> i \<noteq> [] \<Longrightarrow>
      \<exists>err'. fst (opUnmount ops ev (Some \<lparr>UnmountMountId = i\<rparr>) s) = (None, Some err') \<and> cause err' = ErrMountNotFound"
begin

lemma server_responses_redacted:
  "ServerMount ops ctx ev mreq s = (Inr (Some m), as, s') \<Longrightarrow> secret_free m"
  "ServerUnmount ops ctx ev ureq s = (Inr (Some m), as, s') \<Longrightarrow> secret_free m"
  "ServerGetMount ops ev greq s = Inr m \<Longrightarrow> secret_free m"
  "ServerListMounts ops ev lreq s = Inr ms \<Longrightarrow> list_all secret_free ms"
  by (auto simp: ServerMount_def ServerUnmount_def ServerGetMount_def ServerListMounts_def Let_def
      split: prod.splits option.splits sum.splits if_splits
      dest: mount_redacted unmount_redacted get_redacted list_redacted)

lemma server_inv:
  "inv s \<Longrightarrow> inv (snd (snd (ServerMount ops ctx ev mreq s)))"
  "inv s \<Longrightarrow> inv (snd (snd (ServerUnmount ops ctx ev ureq s)))"
proof -
  assume s: "inv s"
  show "inv (snd (snd (ServerMount ops ctx ev mreq s)))"
    using mount_inv [OF s, of ev mreq]
    by (auto simp: ServerMount_def Let_def split: prod.splits option.splits)
  show "inv (snd (snd (ServerUnmount ops ctx ev ureq s)))"
    using unmount_inv [OF s, of ev ureq] s
    by (auto simp: ServerUnmount_def Let_def split: prod.splits option.splits)
qed

lemma server_missing:
  assumes "opGetMount ops ev i s = Inl err" and "ctxErr ev = None" and "i \<noteq> []"
  shows "\<exists>m1 m2. ServerGetMount ops ev (Some i) s = Inl (Status NotFound m1) \<and>
           fst (ServerUnmount ops ctx ev (Some \<lparr>UnmountMountId = i\<rparr>) s) = Inl (Status NotFound m2)"
proof -
  from unmount_missing [OF assms] obtain err' where u:
    "fst (opUnmount ops ev (Some \<lparr>UnmountMountId = i\<rparr>) s) = (None, Some err')" "cause err' = ErrMountNotFound"
    by blast
  with get_error [OF assms(1,2)] assms show ?thesis
    by (cases "opUnmount ops ev (Some \<lparr>UnmountMountId = i\<rparr>) s")
      (auto simp: ServerGetMount_def ServerUnmount_def mountStatusError_def errors_Is_def Let_def)
qed

end

section \<open>The mount manager keeps the contract\<close>

definition manager_ops :: "'r repo \<Rightarrow> 'r manager mountOperations" where
  "manager_ops rp =
     \<lparr>opMount = Mount rp, opUnmount = Unmount rp, opListMounts = ListMounts, opGetMount = GetMount,
      opReady = Ready rp\<rparr>"

lemma manager_ops_simps [simp]:
  "opMount (manager_ops rp) = Mount rp" "opUnmount (manager_ops rp) = Unmount rp"
  "opListMounts (manager_ops rp) = ListMounts" "opGetMount (manager_ops rp) = GetMount"
  "opReady (manager_ops rp) = Ready rp"
  by (simp_all add: manager_ops_def)

lemma startMount_shown: "secret_free (fst (fst (startMount rp ev a gen d st)))"
  by (auto simp: startMount_def failMountBeforeStart_def Let_def split: option.splits prod.splits sum.splits)

lemma Mount_shown: "Mount rp ev req st = ((Some m, e), st') \<Longrightarrow> secret_free m"
  using startMount_shown [of rp ev]
  by (auto simp: Mount_def Mount_run_def Let_def split: option.splits prod.splits if_splits)
    (metis fst_conv)+

lemma performUnmountAttempt_shown:
  "fst (fst (performUnmountAttempt rp ev ctx a gen st)) = Some m \<Longrightarrow> secret_free m"
  by (auto simp: performUnmountAttempt_def unmount_failed_def finish_unmount_def Let_def
      split: option.splits prod.splits sum.splits if_splits exit_wait.splits)

lemma Unmount_shown: "Unmount rp ev req st = ((Some m, e), st') \<Longrightarrow> secret_free m"
  using performUnmountAttempt_shown [of rp ev]
  by (auto simp: Unmount_def Unmount_locked_def Let_def split: option.splits prod.splits if_splits)
    (metis fst_conv)+

lemma GetMount_Inl: "GetMount ev i st = Inl err \<Longrightarrow> ctxErr ev = None \<Longrightarrow> err = mount_not_found i \<and> map_of (gMounts st) i = None"
  by (auto simp: GetMount_def split: option.splits)

lemma cause_not_found [simp]: "cause (mount_not_found i) = ErrMountNotFound"
  by (simp add: mount_not_found_def)

context store_laws
begin

lemma manager_contract:
  "mount_operations (manager_ops (NewMountRepository bd cd))
     (\<lambda>st. \<exists>n. reach (NewMountRepository bd cd) (\<lambda>d. store_inv cd (content d)) n st)"
proof
  let ?rp = "NewMountRepository bd cd"
  let ?inv = "\<lambda>st. \<exists>n. reach ?rp (\<lambda>d. store_inv cd (content d)) n st"
  show "?inv (snd (opMount (manager_ops ?rp) ev mreq s))" if "?inv s" for s ev mreq
    using that by (auto intro: reach.stepped step.mount)
  show "?inv (snd (opUnmount (manager_ops ?rp) ev ureq s))" if "?inv s" for s ev ureq
    using that by (auto intro: reach.stepped step.unmount)
  show "MountId m = i" if "?inv s" "opGetMount (manager_ops ?rp) ev i s = Inr m" for s ev i m
  proof -
    from that(1) have "mgr_inv None s" by (auto intro: repository.reach_mgr_inv [OF repository_contract])
    then show ?thesis
      using that(2) by (auto simp: mgr_inv_def reg_ok_def GetMount_def list_all_iff split: option.splits dest: map_of_in_set)
  qed
  show "list_all secret_free ms" if "opListMounts (manager_ops ?rp) ev lreq s = Inr ms" for ev lreq s ms
    using that secret_free_snapshots [of s] by (auto simp: ListMounts_def Let_def list_all_iff split: option.splits)
  show "\<exists>err'. fst (opUnmount (manager_ops ?rp) ev (Some \<lparr>UnmountMountId = i\<rparr>) s) = (None, Some err') \<and>
      cause err' = ErrMountNotFound"
    if "opGetMount (manager_ops ?rp) ev i s = Inl err" "ctxErr ev = None" "i \<noteq> []" for ev i s err
    using that by (auto simp: Unmount_def dest: GetMount_Inl)
qed (auto dest: Mount_shown Unmount_shown GetMount_Inl simp: GetMount_def split: option.splits)

end

sublocale store_laws \<subseteq> served: mount_operations
  "manager_ops (NewMountRepository bd cd)"
  "\<lambda>st. \<exists>n. reach (NewMountRepository bd cd) (\<lambda>d. store_inv cd (content d)) n st"
  by (rule manager_contract)

section \<open>A watcher leaves nothing behind\<close>

definition published :: "watch_input list \<Rightarrow> (MountEventType \<times> MountInfo) list" where
  "published ins = concat (map (\<lambda>i. case i of Published t m \<Rightarrow> [(t, m)] | _ \<Rightarrow> []) ins)"

lemma published_simps [simp]:
  "published [] = []" "published (Published t m # ins) = (t, m) # published ins"
  "published (Receive # ins) = published ins" "published (StreamDone e # ins) = published ins"
  by (simp_all add: published_def)

lemma after_watch:
  "fold (\<lambda>i c. case i of Published t m \<Rightarrow> publishMountEvent t m c | _ \<Rightarrow> c) ins b =
     fold (\<lambda>(t, m). publishMountEvent t m) (published ins) b"
  by (induction ins arbitrary: b) (auto split: watch_input.splits)

lemma cancel_subscriber:
  "map_of (eventSubscribers (cancelSubscription sub b)) i =
     (if i = sub then None else map_of (eventSubscribers b) i)"
  by (simp add: cancelSubscription_def delete_conv')

lemma receive_others:
  "receiveEvent sub b = (e, b') \<Longrightarrow> i \<noteq> sub \<Longrightarrow> map_of (eventSubscribers b') i = map_of (eventSubscribers b) i"
  by (auto simp: receiveEvent_def update_conv' split: option.splits list.splits)

lemma watchLoop_end:
  "watchLoop send sub ins sent b = (Some r, sent', b') \<Longrightarrow>
     map_of (eventSubscribers b') sub = None \<and>
     (i \<noteq> sub \<longrightarrow> map_of (eventSubscribers b') i =
        map_option (fold (\<lambda>(t, m). deliver t m) (published ins)) (map_of (eventSubscribers b) i))"
proof (induction send sub ins sent b rule: watchLoop.induct)
  case (2 send sub err ins sent b)
  then show ?case by (auto simp: after_watch publish_fold cancel_subscriber)
next
  case (3 send sub t m ins sent b)
  then show ?case by (auto simp: publish_subscriber option.map_comp comp_def)
next
  case (4 send sub ins sent b)
  obtain e b1 where r: "receiveEvent sub b = (e, b1)" by force
  show ?case
  proof (cases e)
    case None
    with 4 r show ?thesis by (auto simp: receive_others [OF r])
  next
    case (Some ev)
    with 4 r show ?thesis
      by (auto simp: receive_others [OF r] after_watch publish_fold cancel_subscriber split: option.splits)
  qed
qed simp

text \<open>
  C22: A watcher leaves nothing behind. When \<open>WatchMountEvents\<close> returns, because its stream ended or
  an event could not be sent, its subscription is gone, whatever was published, received and
  sent before; and every other subscriber has received exactly what it would have received
  without the watcher.
\<close>

theorem watch_leaves_nothing:
  assumes "WatchMountEvents send request mounts ins b = Some (sub, Some r, sent, b')" and "i \<noteq> sub"
  shows "map_of (eventSubscribers b') sub = None \<and>
    map_of (eventSubscribers b') i =
      map_option (fold (\<lambda>(t, m). deliver t m) (published ins)) (map_of (eventSubscribers b) i)"
proof -
  from assms(1) obtain b1 where b1: "SubscribeMountEvents request mounts b = Some (sub, b1)"
    and w: "watchLoop send sub ins [] b1 = (Some r, sent, b')"
    by (auto simp: WatchMountEvents_def split: option.splits prod.splits)
  from b1 assms(2) have "map_of (eventSubscribers b1) i = map_of (eventSubscribers b) i"
    by (auto simp: SubscribeMountEvents_def Let_def update_conv' split: option.splits if_splits)
  with watchLoop_end [OF w, of i] assms(2) show ?thesis by simp
qed

theorem watch_leaves_nothing_witness:
  "\<exists>sent b'. WatchMountEvents (\<lambda>e. None) None []
       [Published MOUNT_EVENT_TYPE_UPDATED (sample_info ''m1''), Receive, StreamDone (errors_New ''canceled'')] empty_bus =
     Some (1, Some (Some (errors_New ''canceled'')), sent, b') \<and> length sent = 1 \<and>
     map_of (eventSubscribers b') 1 = None"
proof -
  let ?ins = "[Published MOUNT_EVENT_TYPE_UPDATED (sample_info ''m1''), Receive, StreamDone (errors_New ''canceled'')]"
  obtain sent b' where w: "WatchMountEvents (\<lambda>e. None) None [] ?ins empty_bus =
      Some (1, Some (Some (errors_New ''canceled'')), sent, b')" and l: "length sent = 1"
    by (simp add: WatchMountEvents_def SubscribeMountEvents_def empty_bus_def Let_def receiveEvent_def
        publishMountEvent_def deliver_def matches_def event_buffer_def)
  from watch_leaves_nothing [OF w, of 2] w l show ?thesis by simp
qed

end
