(* ===== verification/Rest.thy ===== *)
theory Rest
  imports Server LogStore
begin

text \<open>
  The REST API (\<open>service/rest.go\<close>) over the gRPC service: routing, decoding of requests and query
  parameters, and the mapping of status codes to HTTP. \<open>protojson\<close> is a pair of parameters, as are
  \<open>time.Parse\<close> for RFC 3339 times, the reader of the log file and the decoder of its records.
  A request carries its decoded path segments, its query parameters in order, its body and the
  error with which reading the body ends. \<open>strings.ToUpper\<close> is modelled on ASCII letters.
\<close>

section \<open>Requests and responses\<close>

record http_request =
  rqMethod :: string
  rqPath :: "string list"
  rqQuery :: "(string \<times> string list) list"
  rqBody :: string
  rqReadError :: "gerror option"
  rqRemoteAddr :: string

datatype rest_body =
    ErrorBody string message
  | ProtoBody string
  | StatusBody "(string \<times> message) list"
  | LogsBody "Record list"
  | PageBody
  | MetricsBody

record http_response =
  rsStatus :: nat
  rsHeaders :: "(string \<times> string) list"
  rsBody :: rest_body

definition maxRESTRequestBodySize :: nat where "maxRESTRequestBodySize = 1024 * 1024"
definition defaultLogTail :: int where "defaultLogTail = 200"
definition maxLogLimit :: int where "maxLogLimit = 1000"

definition writeJSON :: "nat \<Rightarrow> rest_body \<Rightarrow> http_response" where
  "writeJSON statusCode value =
     \<lparr>rsStatus = statusCode, rsHeaders = [(''Content-Type'', ''application/json'')], rsBody = value\<rparr>"

definition ToUpper_char :: "char \<Rightarrow> char" where
  "ToUpper_char c =
     (let n = of_char c :: nat in if 97 \<le> n \<and> n \<le> 122 then char_of (n - 32) else c)"

definition ToUpper :: "string \<Rightarrow> string" where
  "ToUpper s = map ToUpper_char s"

fun code_String :: "code \<Rightarrow> string" where
  "code_String OK = ''OK''"
| "code_String Canceled = ''Canceled''"
| "code_String Unknown = ''Unknown''"
| "code_String InvalidArgument = ''InvalidArgument''"
| "code_String DeadlineExceeded = ''DeadlineExceeded''"
| "code_String NotFound = ''NotFound''"
| "code_String AlreadyExists = ''AlreadyExists''"
| "code_String PermissionDenied = ''PermissionDenied''"
| "code_String ResourceExhausted = ''ResourceExhausted''"
| "code_String FailedPrecondition = ''FailedPrecondition''"
| "code_String Aborted = ''Aborted''"
| "code_String OutOfRange = ''OutOfRange''"
| "code_String Unimplemented = ''Unimplemented''"
| "code_String Internal = ''Internal''"
| "code_String Unavailable = ''Unavailable''"
| "code_String DataLoss = ''DataLoss''"
| "code_String Unauthenticated = ''Unauthenticated''"

definition restCodeName :: "code \<Rightarrow> string" where
  "restCodeName c =
     (case c of
        InvalidArgument \<Rightarrow> ''INVALID_ARGUMENT''
      | NotFound \<Rightarrow> ''NOT_FOUND''
      | AlreadyExists \<Rightarrow> ''ALREADY_EXISTS''
      | FailedPrecondition \<Rightarrow> ''FAILED_PRECONDITION''
      | Aborted \<Rightarrow> ''ABORTED''
      | ResourceExhausted \<Rightarrow> ''RESOURCE_EXHAUSTED''
      | Canceled \<Rightarrow> ''CANCELED''
      | DeadlineExceeded \<Rightarrow> ''DEADLINE_EXCEEDED''
      | Unavailable \<Rightarrow> ''UNAVAILABLE''
      | Internal \<Rightarrow> ''INTERNAL''
      | _ \<Rightarrow> ToUpper (code_String c))"

definition restStatus :: "code \<Rightarrow> nat" where
  "restStatus c =
     (case c of
        InvalidArgument \<Rightarrow> 400
      | NotFound \<Rightarrow> 404
      | AlreadyExists \<Rightarrow> 409
      | FailedPrecondition \<Rightarrow> 409
      | Aborted \<Rightarrow> 409
      | ResourceExhausted \<Rightarrow> 429
      | Canceled \<Rightarrow> 408
      | DeadlineExceeded \<Rightarrow> 504
      | Unavailable \<Rightarrow> 503
      | _ \<Rightarrow> 500)"

definition writeRESTError :: "rpc_error \<Rightarrow> http_response" where
  "writeRESTError err =
     writeJSON (restStatus (status_Code err)) (ErrorBody (restCodeName (status_Code err)) (status_Message err))"

definition writeProtoJSON :: "('m \<Rightarrow> string result) \<Rightarrow> nat \<Rightarrow> 'm \<Rightarrow> http_response" where
  "writeProtoJSON marshal statusCode message =
     (case marshal message of
        Inl _ \<Rightarrow> writeRESTError (Status Internal [Lit ''failed to encode response''])
      | Inr data \<Rightarrow> writeJSON statusCode (ProtoBody (data @ [newline])))"

section \<open>Decoding a request\<close>

datatype decode_error = errRequestBodyTooLarge | DecodeError message

definition decodeProtoJSON :: "(string \<Rightarrow> 'm result) \<Rightarrow> http_request \<Rightarrow> decode_error + 'm" where
  "decodeProtoJSON unmarshal request =
     (if length (rqBody request) > maxRESTRequestBodySize then Inl errRequestBodyTooLarge
      else case rqReadError request of
             Some err \<Rightarrow> Inl (DecodeError ([Lit ''failed to read request body: ''] @ errtext err))
           | None \<Rightarrow>
               (if length (TrimSpace (rqBody request)) = 0 then Inl (DecodeError [Lit ''request body is required''])
                else case unmarshal (rqBody request) of
                       Inl err \<Rightarrow> Inl (DecodeError ([Lit ''invalid JSON request: ''] @ errtext err))
                     | Inr m \<Rightarrow> Inr m))"

text \<open>\<open>url.Values\<close>: all values of a key, and \<open>Get\<close>, the first one or the empty string.\<close>

definition query_values :: "http_request \<Rightarrow> string \<Rightarrow> string list option" where
  "query_values request key = map_of (rqQuery request) key"

definition query_Get :: "http_request \<Rightarrow> string \<Rightarrow> string" where
  "query_Get request key =
     (case query_values request key of Some (v # vs) \<Rightarrow> v | _ \<Rightarrow> [])"

fun MountState_name :: "MountState \<Rightarrow> string" where
  "MountState_name MOUNT_STATE_UNSPECIFIED = ''MOUNT_STATE_UNSPECIFIED''"
| "MountState_name MOUNT_STATE_PENDING_MOUNT = ''MOUNT_STATE_PENDING_MOUNT''"
| "MountState_name MOUNT_STATE_MOUNTING = ''MOUNT_STATE_MOUNTING''"
| "MountState_name MOUNT_STATE_MOUNTED = ''MOUNT_STATE_MOUNTED''"
| "MountState_name MOUNT_STATE_PENDING_UNMOUNT = ''MOUNT_STATE_PENDING_UNMOUNT''"
| "MountState_name MOUNT_STATE_UNMOUNTING = ''MOUNT_STATE_UNMOUNTING''"
| "MountState_name MOUNT_STATE_RETRY_WAIT = ''MOUNT_STATE_RETRY_WAIT''"
| "MountState_name MOUNT_STATE_FAILED = ''MOUNT_STATE_FAILED''"

text \<open>The states in the order of their numbers.\<close>

definition MountStates :: "MountState list" where
  "MountStates =
     [MOUNT_STATE_UNSPECIFIED, MOUNT_STATE_PENDING_MOUNT, MOUNT_STATE_MOUNTING, MOUNT_STATE_MOUNTED,
      MOUNT_STATE_PENDING_UNMOUNT, MOUNT_STATE_UNMOUNTING, MOUNT_STATE_RETRY_WAIT, MOUNT_STATE_FAILED]"

definition state_of_name :: "string \<Rightarrow> MountState result" where
  "state_of_name upperValue =
     (let name = (if \<not> HasPrefix upperValue ''MOUNT_STATE_'' then ''MOUNT_STATE_'' @ upperValue else upperValue)
      in case find (\<lambda>s. MountState_name s = name) MountStates of
           Some s \<Rightarrow> Inr s
         | None \<Rightarrow> Inl (errors_New ''unknown mount state''))"

definition parseMountState :: "string \<Rightarrow> MountState result" where
  "parseMountState value =
     (let upperValue = ToUpper value;
          unknown = errors_Errorf [Lit ''unknown mount state '', Quoted value];
          named = (case state_of_name upperValue of Inl _ \<Rightarrow> Inl unknown | Inr s \<Rightarrow> Inr s)
      in case ParseInt 32 upperValue of
           Some number \<Rightarrow>
             (if 0 \<le> number \<and> number < int (length MountStates) then Inr (MountStates ! nat number) else named)
         | None \<Rightarrow> named)"

fun parseStates :: "string list \<Rightarrow> MountState list result" where
  "parseStates [] = Inr []"
| "parseStates (v # vs) =
     (if TrimSpace v = [] then parseStates vs
      else case parseMountState (TrimSpace v) of
             Inl err \<Rightarrow> Inl err
           | Inr s \<Rightarrow> (case parseStates vs of Inl err \<Rightarrow> Inl err | Inr ss \<Rightarrow> Inr (s # ss)))"

definition last_value :: "string list option \<Rightarrow> string option" where
  "last_value values = map_option (\<lambda>vs. if vs = [] then [] else last vs) values"

definition listMountsRequestFromQuery :: "http_request \<Rightarrow> ListMountsRequest result" where
  "listMountsRequestFromQuery request =
     (let vals = (\<lambda>key. case query_values request key of Some vs \<Rightarrow> vs | None \<Rightarrow> []);
          stateValues = vals ''state'' @ vals ''states''
      in case parseStates (concat (map (split_on CHR '','') stateValues)) of
           Inl err \<Rightarrow> Inl err
         | Inr states \<Rightarrow>
             Inr \<lparr>ReqStates = states,
                  ReqMountPathPrefix = last_value (query_values request ''mount_path_prefix''),
                  ReqClientUser = last_value (query_values request ''client_user'')\<rparr>)"

text \<open>\<open>parseTime\<close> is \<open>time.Parse(time.RFC3339, value)\<close>; the zero time is \<open>Some None\<close>.\<close>

definition logQueryOptionsFromRequest :: "(string \<Rightarrow> time option option) \<Rightarrow> http_request \<Rightarrow> QueryOptions result" where
  "logQueryOptionsFromRequest parseTime request =
     (let options = \<lparr>Since = None, Tail = 0, Limit = maxLogLimit\<rparr>;
          since = query_Get request ''since'';
          step1 = (if since \<noteq> [] then
                     (case parseTime since of
                        None \<Rightarrow> Inl (errors_Errorf [Lit ''invalid since '', Quoted since, Lit '': must be RFC3339''])
                      | Some t \<Rightarrow> Inr (options\<lparr>Since := t\<rparr>))
                   else Inr (options\<lparr>Tail := defaultLogTail\<rparr>))
      in case step1 of
           Inl err \<Rightarrow> Inl err
         | Inr options \<Rightarrow>
             (let tail = query_Get request ''tail'';
                  step2 = (if tail \<noteq> [] then
                             (case Atoi tail of
                                None \<Rightarrow> Inl (errors_Errorf [Lit ''invalid tail '', Quoted tail, Lit '': must be a non-negative integer''])
                              | Some n \<Rightarrow>
                                  (if n < 0
                                   then Inl (errors_Errorf [Lit ''invalid tail '', Quoted tail, Lit '': must be a non-negative integer''])
                                   else Inr (options\<lparr>Tail := n\<rparr>)))
                           else Inr options)
              in case step2 of
                   Inl err \<Rightarrow> Inl err
                 | Inr options \<Rightarrow>
                     (let limit = query_Get request ''limit''
                      in if limit \<noteq> [] then
                           (case Atoi limit of
                              None \<Rightarrow> Inl (errors_Errorf [Lit ''invalid limit '', Quoted limit, Lit '': must be a non-negative integer''])
                            | Some n \<Rightarrow>
                                (if n < 0
                                 then Inl (errors_Errorf [Lit ''invalid limit '', Quoted limit, Lit '': must be a non-negative integer''])
                                 else if n > 0 \<and> n < maxLogLimit then Inr (options\<lparr>Limit := n\<rparr>) else Inr options))
                         else Inr options)))"

section \<open>Handlers\<close>

text \<open>
  What the handlers are built from: the service, the configuration, the encoders of the four
  response messages, the decoder of a mount request, the parser of times and the log file.
  \<open>hHasManager\<close> says that neither the server nor its manager is nil.
\<close>

record 's rest =
  hOps :: "'s mountOperations"
  hHasManager :: bool
  hConfig :: Config
  hMountJSON :: "MountInfo option \<Rightarrow> string result"
  hGetJSON :: "MountInfo \<Rightarrow> string result"
  hListJSON :: "MountInfo list \<Rightarrow> string result"
  hUnmarshal :: "string \<Rightarrow> MountRequest result"
  hParseTime :: "string \<Rightarrow> time option option"
  hReadFile :: "string \<Rightarrow> string result"
  hRecord :: unmarshal

definition request_context :: "http_request \<Rightarrow> call_context" where
  "request_context request = \<lparr>ctxSourceAddress = None, ctxPeer = None\<rparr>"

definition restMount :: "'s rest \<Rightarrow> env \<Rightarrow> http_request \<Rightarrow> 's \<Rightarrow> http_response \<times> audit list \<times> 's" where
  "restMount h ev request s =
     (case decodeProtoJSON (hUnmarshal h) request of
        Inl errRequestBodyTooLarge \<Rightarrow>
          (writeJSON 413 (ErrorBody ''REQUEST_ENTITY_TOO_LARGE'' [Lit ''request body exceeds the maximum allowed size'']), [], s)
      | Inl (DecodeError m) \<Rightarrow> (writeRESTError (Status InvalidArgument m), [], s)
      | Inr mountRequest \<Rightarrow>
          (let ctx = withSourceAddress (request_context request) (rqRemoteAddr request)
           in case ServerMount (hOps h) ctx ev (Some mountRequest) s of
                (Inl err, as, s') \<Rightarrow> (writeRESTError err, as, s')
              | (Inr mounted, as, s') \<Rightarrow>
                  (let r = writeProtoJSON (hMountJSON h) 202 mounted;
                       i = (case mounted of Some m \<Rightarrow> MountId m | None \<Rightarrow> [])
                   in (r\<lparr>rsHeaders := (''Location'', ''/api/v1/mounts/'' @ i) # rsHeaders r\<rparr>, as, s'))))"

definition restUnmount :: "'s rest \<Rightarrow> env \<Rightarrow> string \<Rightarrow> http_request \<Rightarrow> 's \<Rightarrow> http_response \<times> audit list \<times> 's" where
  "restUnmount h ev i request s =
     (let ctx = withSourceAddress (request_context request) (rqRemoteAddr request)
      in case ServerUnmount (hOps h) ctx ev (Some \<lparr>UnmountMountId = i\<rparr>) s of
           (Inl err, as, s') \<Rightarrow> (writeRESTError err, as, s')
         | (Inr unmounted, as, s') \<Rightarrow> (writeProtoJSON (hMountJSON h) 202 unmounted, as, s'))"

definition restLogs :: "'s rest \<Rightarrow> env \<Rightarrow> string \<Rightarrow> http_request \<Rightarrow> 's \<Rightarrow> http_response" where
  "restLogs h ev i request s =
     (case ServerGetMount (hOps h) ev (Some i) s of
        Inl err \<Rightarrow> writeRESTError err
      | Inr _ \<Rightarrow>
          (case logQueryOptionsFromRequest (hParseTime h) request of
             Inl err \<Rightarrow> writeRESTError (Status InvalidArgument (errtext err))
           | Inr options \<Rightarrow>
               (case Query (hRecord h) (hReadFile h) (GetMountLogPath (hConfig h) i) options of
                  Inl err \<Rightarrow> writeRESTError (Status Internal (errtext err))
                | Inr records \<Rightarrow> writeJSON 200 (LogsBody records))))"

definition restGetMount :: "'s rest \<Rightarrow> env \<Rightarrow> string \<Rightarrow> 's \<Rightarrow> http_response" where
  "restGetMount h ev i s =
     (case ServerGetMount (hOps h) ev (Some i) s of
        Inl err \<Rightarrow> writeRESTError err
      | Inr mount \<Rightarrow> writeProtoJSON (hGetJSON h) 200 mount)"

definition restListMounts :: "'s rest \<Rightarrow> env \<Rightarrow> http_request \<Rightarrow> 's \<Rightarrow> http_response" where
  "restListMounts h ev request s =
     (case listMountsRequestFromQuery request of
        Inl err \<Rightarrow> writeRESTError (Status InvalidArgument (errtext err))
      | Inr listRequest \<Rightarrow>
          (case ServerListMounts (hOps h) ev (Some listRequest) s of
             Inl err \<Rightarrow> writeRESTError err
           | Inr mounts \<Rightarrow> writeProtoJSON (hListJSON h) 200 mounts))"

definition restHealth :: http_response where
  "restHealth = writeJSON 200 (StatusBody [(''status'', [Lit ''ok''])])"

definition restReadiness :: "'s rest \<Rightarrow> env \<Rightarrow> 's \<Rightarrow> http_response" where
  "restReadiness h ev s =
     (if \<not> hHasManager h then writeJSON 503 (StatusBody [(''status'', [Lit ''not_ready''])])
      else case ServerReady (hOps h) ev s of
        Some err \<Rightarrow>
          writeJSON 503 (StatusBody [(''status'', [Lit ''not_ready'']),
            (''reason'', [Lit ''rpc error: code = '', Lit (code_String (status_Code err)), Lit '' desc = ''] @ status_Message err)])
      | None \<Rightarrow> writeJSON 200 (StatusBody [(''status'', [Lit ''ready''])]))"

text \<open>
  The routes of the management server, the web page (\<open>GET /\<close>) and the metrics included. A wildcard
  matches one segment that is not empty; the catch-all is the least specific pattern; a \<open>GET\<close>
  pattern also serves \<open>HEAD\<close>.
\<close>

datatype route =
    RouteMount | RouteList | RouteGet string | RouteUnmount string | RouteLogs string
  | RouteHealth | RouteReady | RouteMetrics | RoutePage | RouteNotAllowed

definition api_route :: "string \<Rightarrow> string list \<Rightarrow> route option" where
  "api_route verb path =
     (let get = (verb = ''GET'' \<or> verb = ''HEAD'')
      in case path of
           [a, b, c] \<Rightarrow>
             (if [a, b, c] = [''api'', ''v1'', ''mounts''] then
                (if verb = ''POST'' then Some RouteMount else if get then Some RouteList else None)
              else if [a, b, c] = [''api'', ''v1'', ''healthz''] \<and> get then Some RouteHealth
              else if [a, b, c] = [''api'', ''v1'', ''readyz''] \<and> get then Some RouteReady
              else None)
         | [a, b, c, i] \<Rightarrow>
             (if [a, b, c] = [''api'', ''v1'', ''mounts''] \<and> i \<noteq> [] then
                (if get then Some (RouteGet i) else if verb = ''DELETE'' then Some (RouteUnmount i) else None)
              else None)
         | [a, b, c, i, l] \<Rightarrow>
             (if [a, b, c] = [''api'', ''v1'', ''mounts''] \<and> i \<noteq> [] \<and> l = ''logs'' \<and> get then Some (RouteLogs i)
              else None)
         | [a] \<Rightarrow>
             (if a = ''healthz'' \<and> get then Some RouteHealth
              else if a = ''readyz'' \<and> get then Some RouteReady
              else if a = ''metrics'' \<and> get then Some RouteMetrics
              else None)
         | _ \<Rightarrow> None)"

definition mux_route :: "string \<Rightarrow> string list \<Rightarrow> route" where
  "mux_route verb path =
     (case api_route verb path of
        Some r \<Rightarrow> r
      | None \<Rightarrow> if verb = ''GET'' \<or> verb = ''HEAD'' then RoutePage else RouteNotAllowed)"

definition ServeHTTP :: "'s rest \<Rightarrow> env \<Rightarrow> http_request \<Rightarrow> 's \<Rightarrow> http_response \<times> audit list \<times> 's" where
  "ServeHTTP h ev request s =
     (case mux_route (rqMethod request) (rqPath request) of
        RouteMount \<Rightarrow> restMount h ev request s
      | RouteUnmount i \<Rightarrow> restUnmount h ev i request s
      | RouteList \<Rightarrow> (restListMounts h ev request s, [], s)
      | RouteGet i \<Rightarrow> (restGetMount h ev i s, [], s)
      | RouteLogs i \<Rightarrow> (restLogs h ev i request s, [], s)
      | RouteHealth \<Rightarrow> (restHealth, [], s)
      | RouteReady \<Rightarrow> (restReadiness h ev s, [], s)
      | RouteMetrics \<Rightarrow> (\<lparr>rsStatus = 200, rsHeaders = [], rsBody = MetricsBody\<rparr>, [], s)
      | RoutePage \<Rightarrow>
          (\<lparr>rsStatus = 200, rsHeaders = [(''Content-Type'', ''text/html; charset=utf-8'')], rsBody = PageBody\<rparr>, [], s)
      | RouteNotAllowed \<Rightarrow> (\<lparr>rsStatus = 405, rsHeaders = [], rsBody = StatusBody []\<rparr>, [], s))"

section \<open>Log queries are bounded\<close>

lemma log_options_bounds:
  assumes "logQueryOptionsFromRequest parseTime request = Inr options"
  shows "1 \<le> Limit options" "Limit options \<le> 1000"
  using assms
  by (auto simp: logQueryOptionsFromRequest_def Let_def maxLogLimit_def defaultLogTail_def
      split: if_splits option.splits sum.splits)

lemma query_length:
  assumes "Query unmarshal read path options = Inr records" and "1 \<le> Limit options"
  shows "length records \<le> nat (Limit options)"
  using assms by (auto simp: Query_def limitRecords_def Let_def split: sum.splits if_splits)

lemma query_tail_length:
  assumes "Query unmarshal read path options = Inr records" and "1 \<le> Tail options"
  shows "length records \<le> nat (Tail options)"
proof -
  have "length (tailRecords options rs) \<le> nat (Tail options)" for rs
    using assms(2) by (auto simp: tailRecords_def)
  then have "length (limitRecords options (tailRecords options rs)) \<le> nat (Tail options)" for rs
    by (metis (no_types, lifting) le_trans length_take limitRecords_def min.cobounded1)
  then show ?thesis using assms(1) by (auto simp: Query_def Let_def split: sum.splits if_splits)
qed

lemma log_options_tail:
  assumes "logQueryOptionsFromRequest parseTime request = Inr options"
    and "query_Get request ''since'' = []" and "query_Get request ''tail'' = []"
  shows "Tail options = 200"
  using assms
  by (auto simp: logQueryOptionsFromRequest_def Let_def defaultLogTail_def split: if_splits option.splits)

text \<open>
  C24: A log query answered by the REST API is bounded, whatever the query parameters and however
  large the log: at most 1000 records, and at most 200 when the caller gives neither \<open>since\<close> nor
  \<open>tail\<close>.
\<close>

theorem rest_logs_bounded:
  assumes "rsBody (restLogs h ev i request s) = LogsBody records"
  shows "length records \<le> 1000 \<and>
    (query_Get request ''since'' = [] \<longrightarrow> query_Get request ''tail'' = [] \<longrightarrow> length records \<le> 200)"
proof -
  from assms obtain options where o: "logQueryOptionsFromRequest (hParseTime h) request = Inr options"
    and q: "Query (hRecord h) (hReadFile h) (GetMountLogPath (hConfig h) i) options = Inr records"
    by (auto simp: restLogs_def writeRESTError_def writeJSON_def split: sum.splits)
  have "length records \<le> nat (Limit options)" using query_length [OF q] log_options_bounds [OF o] by simp
  also have "\<dots> \<le> 1000" using log_options_bounds [OF o] by simp
  finally show ?thesis using query_tail_length [OF q] log_options_tail [OF o] by auto
qed

definition sample_rest :: "memdb manager rest" where
  "sample_rest =
     \<lparr>hOps = manager_ops sample_repo, hHasManager = True, hConfig = NewDefaultConfig,
      hMountJSON = (\<lambda>m. Inr ''{}''), hGetJSON = (\<lambda>m. Inr ''{}''), hListJSON = (\<lambda>ms. Inr ''[]''),
      hUnmarshal = (\<lambda>b. Inr sample_request), hParseTime = (\<lambda>v. None), hReadFile = (\<lambda>p. Inr []),
      hRecord = sample_unmarshal\<rparr>"

definition sample_http :: "string \<Rightarrow> string list \<Rightarrow> http_request" where
  "sample_http verb path =
     \<lparr>rqMethod = verb, rqPath = path, rqQuery = [], rqBody = ''{}'', rqReadError = None, rqRemoteAddr = ''127.0.0.1:5000''\<rparr>"

theorem rest_logs_bounded_witness:
  "\<exists>records. rsBody (restLogs sample_rest quiet_env ''m1'' (sample_http ''GET'' []) sample_mounted) = LogsBody records \<and>
     length records \<le> 200"
proof -
  have g: "GetMount quiet_env ''m1'' sample_mounted = Inr (snapshot sample_mounted 0)"
    by (simp add: GetMount_def sample_mounted_state(1) quiet_env_def)
  have "rsBody (restLogs sample_rest quiet_env ''m1'' (sample_http ''GET'' []) sample_mounted) = LogsBody []"
    by (simp add: restLogs_def ServerGetMount_def sample_rest_def g logQueryOptionsFromRequest_def query_Get_def
        query_values_def sample_http_def Query_def TrimRight_def queryLines_def tailRecords_def limitRecords_def
        writeJSON_def)
  moreover from rest_logs_bounded [OF this] have "length ([] :: Record list) \<le> 200"
    by (simp add: query_Get_def query_values_def sample_http_def)
  ultimately show ?thesis by blast
qed

section \<open>Status codes of the manager's errors\<close>

definition cause_code :: "bool \<Rightarrow> cause \<Rightarrow> code" where
  "cause_code invalidWhenUnknown c =
     (case c of
        ContextCanceled \<Rightarrow> Canceled
      | ContextDeadlineExceeded \<Rightarrow> DeadlineExceeded
      | ErrDAVFSLazyUnmount \<Rightarrow> DeadlineExceeded
      | ErrMountNotFound \<Rightarrow> NotFound
      | ErrMountIDConflict \<Rightarrow> AlreadyExists
      | ErrMountPathConflict \<Rightarrow> AlreadyExists
      | ErrMountLimitReached \<Rightarrow> ResourceExhausted
      | _ \<Rightarrow> if invalidWhenUnknown then InvalidArgument else Internal)"

lemma mountStatusError_code [simp]:
  "mountStatusError (Other e) b = Status (cause_code b (cause e)) (errtext e)"
  by (cases "cause e") (simp_all add: mountStatusError_def errors_Is_def cause_code_def)

lemma rsStatus_error [simp]: "rsStatus (writeRESTError (Status c m)) = restStatus c"
  by (simp add: writeRESTError_def writeJSON_def)

text \<open>The checks of a mount request, in the order of \<open>Mount\<close>: the first error refuses it.\<close>

definition admission :: "env \<Rightarrow> MountRequest \<Rightarrow> 'r manager \<Rightarrow> gerror option" where
  "admission ev req st =
     (let requested = GetString (ReqMountId req);
          i = (if requested = [] then newMountID ev else requested)
      in case validateMountConfig ev (gConfig st) (ReqConfig req) of
           Some err \<Rightarrow> Some err
         | None \<Rightarrow>
             (case (if requested = [] then None else validateMountID requested) of
                Some err \<Rightarrow> Some err
              | None \<Rightarrow> registry_conflict i (Clean (MountPath (the (ReqConfig req)))) st))"

lemma Mount_refused:
  assumes "admission ev req st = Some err" and "ctxErr ev = None"
  shows "Mount rp ev (Some req) st = ((None, Some err), recordMountOperation ev ''mount'' (Some err) st)"
  using assms
  by (auto simp: admission_def Mount_def Mount_run_def Let_def split: option.splits if_splits)



section \<open>Unknown mounts\<close>

text \<open>
  A mount ID the daemon does not manage is answered with 404 on every route that names a mount,
  and the request to unmount it leaves the registry and every managed mount as they are.
\<close>

theorem rest_unknown_mount:
  assumes "store_laws bd content view cd" and "hOps h = manager_ops (NewMountRepository bd cd)"
    and "ctxErr ev = None" and "i \<noteq> []" and "map_of (gMounts st) i = None"
  shows "rsStatus (restGetMount h ev i st) = 404 \<and> rsStatus (restLogs h ev i request st) = 404 \<and>
    rsStatus (fst (restUnmount h ev i request st)) = 404 \<and>
    gMounts (snd (snd (restUnmount h ev i request st))) = gMounts st \<and>
    gHeap (snd (snd (restUnmount h ev i request st))) = gHeap st"
proof -
  let ?ops = "manager_ops (NewMountRepository bd cd)"
    and ?ctx = "withSourceAddress (request_context request) (rqRemoteAddr request)"
  have "opGetMount ?ops ev i st = Inl (mount_not_found i)" using assms(3,5) by (simp add: GetMount_def)
  from mount_operations.server_missing [OF store_laws.manager_contract [OF assms(1)] this assms(3,4), of ?ctx]
  obtain m1 m2 where m: "ServerGetMount ?ops ev (Some i) st = Inl (Status NotFound m1)"
    "fst (ServerUnmount ?ops ?ctx ev (Some \<lparr>UnmountMountId = i\<rparr>) st) = Inl (Status NotFound m2)"
    by blast
  have "snd (snd (ServerUnmount ?ops ?ctx ev (Some \<lparr>UnmountMountId = i\<rparr>) st)) =
      recordMountOperation ev ''unmount'' (Some (mount_not_found i)) st"
    using assms(3-5) by (simp add: ServerUnmount_def Unmount_def)
  with m show ?thesis
    by (cases "ServerUnmount ?ops ?ctx ev (Some \<lparr>UnmountMountId = i\<rparr>) st")
      (simp add: restGetMount_def restLogs_def restUnmount_def assms(2) restStatus_def)
qed

theorem rest_unknown_mount_witness:
  "rsStatus (restGetMount sample_rest quiet_env ''m2'' sample_mounted) = 404 \<and>
   gMounts (snd (snd (restUnmount sample_rest quiet_env ''m2'' (sample_http ''DELETE'' []) sample_mounted))) = [(''m1'', 0)]"
  using rest_unknown_mount [OF mem.store_laws_axioms [of sample_infos], of sample_rest quiet_env "''m2''"
      sample_mounted "sample_http ''DELETE'' []"]
  by (simp add: sample_rest_def sample_repo_def quiet_env_def sample_mounted_state(1))

section \<open>Names of states\<close>

lemma ToUpper_Nil [simp]: "ToUpper [] = []"
  by (simp add: ToUpper_def)

lemma state_names:
  "list_all (\<lambda>s. state_of_name (MountState_name s) = Inr s \<and> state_of_name (drop 12 (MountState_name s)) = Inr s \<and>
     ParseInt 32 (MountState_name s) = None \<and> ParseInt 32 (drop 12 (MountState_name s)) = None \<and>
     take 12 (MountState_name s) = ''MOUNT_STATE_'') MountStates"
  by code_simp

text \<open>
  Every mount state can be named in a query in the ways the API documents: by its protobuf
  name, with or without the prefix \<open>MOUNT_STATE_\<close>, in lower, upper or mixed case, and by its number.
\<close>

theorem mount_state_names:
  assumes "ToUpper v = MountState_name s \<or> ''MOUNT_STATE_'' @ ToUpper v = MountState_name s"
  shows "parseMountState v = Inr s"
proof -
  have "s \<in> set MountStates" by (cases s) (simp_all add: MountStates_def)
  with state_names have n: "state_of_name (MountState_name s) = Inr s" "state_of_name (drop 12 (MountState_name s)) = Inr s"
    "ParseInt 32 (MountState_name s) = None" "ParseInt 32 (drop 12 (MountState_name s)) = None"
    by (auto simp: list_all_iff)
  from assms have "ToUpper v = MountState_name s \<or> ToUpper v = drop 12 (MountState_name s)"
    by (auto dest: arg_cong [of _ _ "drop 12"])
  with n show ?thesis by (auto simp: parseMountState_def)
qed

theorem mount_state_names_witness: "parseMountState ''Retry_wait'' = Inr MOUNT_STATE_RETRY_WAIT"
proof (rule mount_state_names)
  show "ToUpper ''Retry_wait'' = MountState_name MOUNT_STATE_RETRY_WAIT \<or>
      ''MOUNT_STATE_'' @ ToUpper ''Retry_wait'' = MountState_name MOUNT_STATE_RETRY_WAIT"
    by code_simp
qed

end
