(* ===== verification/Service.thy ===== *)
theory Service
  imports Server StoreTheorems ConfigFile
begin

text \<open>
  The service (\<open>service/service.go\<close>) that owns the mount manager, the database and the two
  listeners: creation with the startup reconciliation, \<open>Start\<close>, \<open>Stop\<close>, \<open>Release\<close> and the periodic
  reconciliation. Listening and serving are effects recorded in \<open>svcTrace\<close>; \<open>listen\<close> and
  \<open>restListen\<close> give the outcome of opening a listener. The two servers are drained in parallel
  and both are drained before the next step, so their order in the trace does not matter. The
  lemmas show that the listeners balance and in which order a shutdown runs.
\<close>

section \<open>The service\<close>

datatype svc_effect =
    SvcListen string string
  | SvcListenREST string
  | SvcCloseListener
  | SvcServe
  | SvcServeREST
  | SvcStartLoop
  | SvcDrainREST
  | SvcDrain
  | SvcCancelLoop
  | SvcAwaitLoop
  | SvcManagerShutdown
  | SvcRemoveSocket string
  | SvcCloseStore

text \<open>
  \<open>svcManager\<close> is the manager's state, \<open>None\<close> for a service built around another implementation of
  the interface; \<open>svcCancel\<close> and \<open>svcReconcileDone\<close> say that the function and the channel are set.
\<close>

record 'r Service =
  svcConfig :: Config
  svcManager :: "'r manager option"
  svcDataStore :: bool
  svcListener :: "(string \<times> string) option"
  svcRestListener :: "string option"
  svcStarted :: bool
  svcCancel :: bool
  svcReconcileDone :: bool
  svcTrace :: "svc_effect list"

definition newService :: "Config option \<Rightarrow> 'r manager option \<Rightarrow> bool \<Rightarrow> 'r Service result" where
  "newService config manager hasOperations =
     (case config of
        None \<Rightarrow> Inl (errors_New ''config is required'')
      | Some cfg \<Rightarrow>
          (if \<not> hasOperations then Inl (errors_New ''mount manager is required'')
           else Inr \<lparr>svcConfig = cfg, svcManager = manager, svcDataStore = False, svcListener = None,
                     svcRestListener = None, svcStarted = False, svcCancel = False, svcReconcileDone = False,
                     svcTrace = []\<rparr>))"

definition NewMetrics :: Metrics where
  "NewMetrics = \<lparr>mountOperations = [], childCrashesTotal = 0, reconcileErrorsTotal = 0\<rparr>"

text \<open>
  \<open>ev\<close> is the environment in which the manager is created, \<open>evs\<close> that of the startup
  reconciliation. The second component says whether a database that was opened has been closed.
\<close>

definition NewService ::
    "('db, 'txn) badger \<Rightarrow> codec \<Rightarrow> (string \<Rightarrow> string \<Rightarrow> 'db result) \<Rightarrow> env \<Rightarrow> (string \<Rightarrow> env) \<Rightarrow> Config option \<Rightarrow>
     'db Service result \<times> bool" where
  "NewService bd cd badger_Open ev evs config =
     (case config of
        None \<Rightarrow> (Inl (errors_New ''config is required''), False)
      | Some cfg \<Rightarrow>
     (case GetRecoveryEncryptionKey cfg of
        Inl err \<Rightarrow> (Inl err, False)
      | Inr key \<Rightarrow>
     (case Open bd badger_Open (GetMountDatabasePath cfg) key of
        Inl err \<Rightarrow> (Inl (errors_Wrap err ''failed to open mount database''), False)
      | Inr dataStore \<Rightarrow>
     (let repository = NewMountRepository bd cd
      in case newMountManager ev (Some cfg) (Some dataStore) of
           Inl err \<Rightarrow> (Inl (errors_Wrap err ''failed to create mount manager''), True)
         | Inr manager \<Rightarrow>
     (case (if RestoreMountsOnRestart cfg then Reconcile repository None evs manager
            else ReconcileTombstones repository None evs manager) of
        (Some reconcileErr, manager) \<Rightarrow>
          (Inl (errors_Wrap reconcileErr ''failed to reconcile mount state at startup''), True)
      | (None, manager) \<Rightarrow>
          (case newService (Some cfg) (Some (manager\<lparr>gMetrics := Some NewMetrics\<rparr>)) True of
             Inl err \<Rightarrow> (Inl err, True)
           | Inr svc \<Rightarrow> (Inr (svc\<lparr>svcDataStore := True\<rparr>), False)))))))"

definition svc_emit :: "svc_effect list \<Rightarrow> 'r Service \<Rightarrow> 'r Service" where
  "svc_emit es svc = svc\<lparr>svcTrace := svcTrace svc @ es\<rparr>"

definition StartService ::
    "(string \<Rightarrow> URL result) \<Rightarrow> (string \<Rightarrow> string \<Rightarrow> gerror option) \<Rightarrow> (string \<Rightarrow> gerror option) \<Rightarrow> 'r Service \<Rightarrow>
     gerror option \<times> 'r Service" where
  "StartService parse listen restListen svc =
     (if svcStarted svc then (Some (errors_New ''service is already started''), svc)
      else
     (case ParseServiceEndpoint parse (GetServiceEndpoint (svcConfig svc)) of
        Inl err \<Rightarrow> (Some err, svc)
      | Inr (scheme, endpoint) \<Rightarrow>
     (case listen scheme endpoint of
        Some err \<Rightarrow>
          (Some (errors_Wrapf err [Lit ''failed to listen on '', Lit scheme, Lit '' endpoint '', Quoted endpoint]), svc)
      | None \<Rightarrow>
     (let svc = svc_emit [SvcListen scheme endpoint] svc
      in case ParseManagementServiceEndpoint parse (ManagementServiceEndpoint (svcConfig svc)) of
           Inl err \<Rightarrow> (Some err, svc_emit [SvcCloseListener] svc)
         | Inr restEndpoint \<Rightarrow>
     (case (if restEndpoint \<noteq> [] then restListen restEndpoint else None) of
        Some err \<Rightarrow>
          (Some (errors_Wrapf err [Lit ''failed to listen on REST endpoint '', Quoted restEndpoint]),
           svc_emit [SvcCloseListener] svc)
      | None \<Rightarrow>
          (let svc = (if restEndpoint \<noteq> []
                      then svc_emit [SvcListenREST restEndpoint] (svc\<lparr>svcRestListener := Some restEndpoint\<rparr>) else svc);
               svc = svc_emit [SvcServe] (svc\<lparr>svcListener := Some (scheme, endpoint), svcStarted := True\<rparr>);
               svc = (if restEndpoint \<noteq> [] then svc_emit [SvcServeREST] svc else svc);
               svc = (if svcManager svc \<noteq> None
                      then svc_emit [SvcStartLoop] (svc\<lparr>svcCancel := True, svcReconcileDone := True\<rparr>) else svc)
           in (None, svc)))))))"

definition removeUnixSocket :: "(string \<Rightarrow> URL result) \<Rightarrow> 'r Service \<Rightarrow> 'r Service" where
  "removeUnixSocket parse svc =
     (case ParseServiceEndpoint parse (GetServiceEndpoint (svcConfig svc)) of
        Inl _ \<Rightarrow> svc
      | Inr (scheme, endpoint) \<Rightarrow>
          (if scheme = ''unix'' then svc_emit [SvcRemoveSocket endpoint] svc else svc))"

definition StopService ::
    "'r repo \<Rightarrow> (nat \<Rightarrow> env) \<Rightarrow> (string \<Rightarrow> URL result) \<Rightarrow> 'r Service \<Rightarrow> 'r Service" where
  "StopService rp aevs parse svc =
     (if \<not> svcStarted svc then svc
      else
        (let svc = svc\<lparr>svcStarted := False\<rparr>;
             svc = svc_emit ((if svcRestListener svc \<noteq> None then [SvcDrainREST] else []) @ [SvcDrain]) svc;
             svc = (if svcCancel svc then svc_emit [SvcCancelLoop] svc else svc);
             svc = (if svcReconcileDone svc then svc_emit [SvcAwaitLoop] svc else svc);
             svc = (case svcManager svc of
                      None \<Rightarrow> svc
                    | Some manager \<Rightarrow>
                        svc_emit [SvcManagerShutdown] (svc\<lparr>svcManager := Some (Shutdown rp aevs manager)\<rparr>))
         in removeUnixSocket parse svc))"

definition ReleaseService ::
    "'r repo \<Rightarrow> (nat \<Rightarrow> env) \<Rightarrow> (string \<Rightarrow> URL result) \<Rightarrow> 'r Service \<Rightarrow> 'r Service" where
  "ReleaseService rp aevs parse svc =
     (let svc = removeUnixSocket parse (StopService rp aevs parse svc)
      in if svcDataStore svc then svc_emit [SvcCloseStore] svc else svc)"

text \<open>
  The periodic loop: each tick runs one pass, with the context's error and the environment of the
  pass; it ends with the list, when the context is cancelled. A failed pass is only logged.
\<close>

definition reconcileInterval :: "Config \<Rightarrow> duration" where
  "reconcileInterval config =
     (if ReconcileInterval config \<le> 0 then ReconcileIntervalDefault else ReconcileInterval config)"

definition runPeriodicReconcile ::
    "'r repo \<Rightarrow> (gerror option \<times> (string \<Rightarrow> env)) list \<Rightarrow> 'r manager \<Rightarrow> 'r manager" where
  "runPeriodicReconcile rp ticks manager =
     fold (\<lambda>(ctx, evs) st. snd (ReconcileTombstones rp ctx evs st)) ticks manager"

section \<open>A new service has a reachable manager\<close>

lemma newMountManager_reach:
  assumes "ok r" and "newMountManager ev (Some cfg) (Some r) = Inr st"
  shows "\<exists>n. reach rp ok n (snd (if restore then Reconcile rp ctx evs st else ReconcileTombstones rp ctx evs st))"
proof -
  have "reach rp ok 0 (snd (Reconcile rp ctx evs st))" using assms by (rule reach.restored)
  moreover have "reach rp ok 0 st" using assms by (rule reach.fresh)
  then have "reach rp ok (Suc 0) (snd (ReconcileTombstones rp ctx evs st))" by (rule reach.stepped) (rule step.reconcile)
  ultimately show ?thesis by auto
qed


lemma sample_open:
  "Open mem_badger (\<lambda>dir key. Inr []) dir (CHR ''k'' # ks) = Inr [(metaSchemaVersionKey, encodeUint64 1)]"
  by (simp add: Open_def ensureSchema_def db_Update_def ensure_txn_def readSchemaVersion_def mem_badger_def
      CurrentSchemaVersion_def errors_sentinel_def)

lemma sample_new_service:
  "\<exists>svc. NewService mem_badger (table_codec sample_infos) (\<lambda>dir key. Inr []) exec_env (\<lambda>i. quiet_env)
     (Some sample_config) = (Inr svc, False)"
proof -
  have k: "GetRecoveryEncryptionKey sample_config = Inr (replicate 32 CHR ''k'')"
    using recovery_key_read [of sample_config "[]" "replicate 32 CHR ''k''" "[CHR 0x0A]"]
    by (simp add: sample_config_def is_space_def)
  have r: "replicate 32 CHR ''k'' = CHR ''k'' # replicate 31 CHR ''k''" by (simp add: numeral_eq_Suc)
  have l: "repo_List (NewMountRepository mem_badger cd) None [(metaSchemaVersionKey, v)] = Inr []" for cd v
    by (simp add: NewMountRepository_def ListRecords_def mem_badger_def mountKeyPrefix_def metaSchemaVersionKey_def)
  obtain m where m: "newMountManager exec_env (Some sample_config) (Some [(metaSchemaVersionKey, encodeUint64 1)]) = Inr m"
      and g: "gRepository m = [(metaSchemaVersionKey, encodeUint64 1)]"
    by (simp add: newMountManager_def exec_env_def quiet_env_def sample_config_def
        resolveIRODSFSExecutablePath_def resolveExecutablePath_def isExecutableFile_def first_error_def
        validateExecutable_def NewDefaultConfig_def IRODSFSExecutablePathDefault_def
        MountExecutablePathDefault_def UnmountExecutablePathDefault_def)
  have n: "\<not> RestoreMountsOnRestart sample_config" by (simp add: sample_config_def NewDefaultConfig_def)
  show ?thesis
    by (simp add: NewService_def newService_def k r sample_open m n ReconcileTombstones_def g l)
qed


section \<open>Starting and stopping\<close>

text \<open>What is alive after a trace: the gRPC listener, the REST listener, the periodic loop.\<close>

fun alive1 :: "svc_effect \<Rightarrow> bool \<times> bool \<times> bool \<Rightarrow> bool \<times> bool \<times> bool" where
  "alive1 (SvcListen s e) (g, r, l) = (True, r, l)"
| "alive1 (SvcListenREST e) (g, r, l) = (g, True, l)"
| "alive1 SvcCloseListener (g, r, l) = (False, r, l)"
| "alive1 SvcStartLoop (g, r, l) = (g, r, True)"
| "alive1 SvcDrainREST (g, r, l) = (g, False, l)"
| "alive1 SvcDrain (g, r, l) = (False, r, l)"
| "alive1 SvcAwaitLoop (g, r, l) = (g, r, False)"
| "alive1 _ (g, r, l) = (g, r, l)"

definition alive :: "svc_effect list \<Rightarrow> bool \<times> bool \<times> bool" where
  "alive tr = fold alive1 tr (False, False, False)"

text \<open>
  A trace is orderly when no listener is opened and no loop started while one is alive, and the
  mounts are shut down and the database closed only when nothing is alive.
\<close>

fun fits :: "svc_effect \<Rightarrow> bool \<times> bool \<times> bool \<Rightarrow> bool" where
  "fits (SvcListen s e) (g, r, l) = (\<not> g)"
| "fits (SvcListenREST e) (g, r, l) = (\<not> r)"
| "fits SvcStartLoop (g, r, l) = (\<not> l)"
| "fits SvcManagerShutdown a = (a = (False, False, False))"
| "fits SvcCloseStore a = (a = (False, False, False))"
| "fits e a = True"

fun orderly_from :: "bool \<times> bool \<times> bool \<Rightarrow> svc_effect list \<Rightarrow> bool" where
  "orderly_from a [] = True"
| "orderly_from a (e # es) = (fits e a \<and> orderly_from (alive1 e a) es)"

definition orderly :: "svc_effect list \<Rightarrow> bool" where
  "orderly tr = orderly_from (False, False, False) tr"

lemma alive_append: "alive (tr @ es) = fold alive1 es (alive tr)"
  by (simp add: alive_def)

lemma orderly_append: "orderly (tr @ es) \<longleftrightarrow> orderly tr \<and> orderly_from (alive tr) es"
proof -
  have "orderly_from a (tr @ es) \<longleftrightarrow> orderly_from a tr \<and> orderly_from (fold alive1 tr a) es" for a
    by (induction tr arbitrary: a) auto
  then show ?thesis by (simp add: orderly_def alive_def)
qed

text \<open>The life of a service: any sequence of its three operations and periodic passes.\<close>

inductive svc_step :: "'r repo \<Rightarrow> (string \<Rightarrow> URL result) \<Rightarrow> 'r Service \<Rightarrow> 'r Service \<Rightarrow> bool"
  for rp :: "'r repo" and parse :: "string \<Rightarrow> URL result" where
  start: "svc_step rp parse svc (snd (StartService parse listen restListen svc))"
| stop: "svc_step rp parse svc (StopService rp aevs parse svc)"
| release: "svc_step rp parse svc (ReleaseService rp aevs parse svc)"
| reconciled: "svcStarted svc \<Longrightarrow> svc_step rp parse svc
    (svc\<lparr>svcManager := map_option (runPeriodicReconcile rp ticks) (svcManager svc)\<rparr>)"

definition svc_inv :: "(string \<Rightarrow> URL result) \<Rightarrow> 'r Service \<Rightarrow> bool" where
  "svc_inv parse svc \<longleftrightarrow>
     orderly (svcTrace svc) \<and>
     alive (svcTrace svc) =
       (svcStarted svc, svcStarted svc \<and> svcRestListener svc \<noteq> None, svcStarted svc \<and> svcManager svc \<noteq> None) \<and>
     (svcReconcileDone svc \<longrightarrow> svcManager svc \<noteq> None) \<and>
     (svcStarted svc \<and> svcManager svc \<noteq> None \<longrightarrow> svcReconcileDone svc) \<and>
     (svcRestListener svc \<noteq> None \<longrightarrow>
        ParseManagementServiceEndpoint parse (ManagementServiceEndpoint (svcConfig svc)) \<noteq> Inr [])"

lemma svc_emit_simps [simp]:
  "svcTrace (svc_emit es svc) = svcTrace svc @ es" "svcConfig (svc_emit es svc) = svcConfig svc"
  "svcManager (svc_emit es svc) = svcManager svc" "svcDataStore (svc_emit es svc) = svcDataStore svc"
  "svcRestListener (svc_emit es svc) = svcRestListener svc" "svcStarted (svc_emit es svc) = svcStarted svc"
  "svcReconcileDone (svc_emit es svc) = svcReconcileDone svc" "svcCancel (svc_emit es svc) = svcCancel svc"
  by (simp_all add: svc_emit_def)

lemma StartService_cases:
  assumes "\<not> svcStarted svc"
  obtains (failed) err es where "StartService parse listen restListen svc = (Some err, svc_emit es svc)"
      "es = [] \<or> (\<exists>s e. es = [SvcListen s e, SvcCloseListener])"
    | (started) s e r where
      "ParseManagementServiceEndpoint parse (ManagementServiceEndpoint (svcConfig svc)) = Inr r"
      "StartService parse listen restListen svc =
         (None, svc_emit ([SvcListen s e] @ (if r \<noteq> [] then [SvcListenREST r] else []) @ [SvcServe] @
                          (if r \<noteq> [] then [SvcServeREST] else []) @
                          (if svcManager svc \<noteq> None then [SvcStartLoop] else []))
            (svc\<lparr>svcRestListener := (if r \<noteq> [] then Some r else svcRestListener svc),
                 svcListener := Some (s, e), svcStarted := True,
                 svcCancel := (svcCancel svc \<or> svcManager svc \<noteq> None),
                 svcReconcileDone := (svcReconcileDone svc \<or> svcManager svc \<noteq> None)\<rparr>))"
proof (cases "ParseServiceEndpoint parse (GetServiceEndpoint (svcConfig svc))")
  case (Inl err)
  then show thesis using assms by (intro failed [of err "[]"]) (simp_all add: StartService_def svc_emit_def)
next
  case (Inr se)
  obtain s e where se: "se = (s, e)" by force
  show thesis
  proof (cases "listen s e")
    case (Some err)
    then show thesis using assms Inr se
      by (intro failed [of _ "[]"]) (simp_all add: StartService_def svc_emit_def)
  next
    case None
    note listened = None
    show thesis
    proof (cases "ParseManagementServiceEndpoint parse (ManagementServiceEndpoint (svcConfig svc))")
      case (Inl err)
      then show thesis using assms Inr se listened
        by (intro failed [of err "[SvcListen s e, SvcCloseListener]"]) (simp_all add: StartService_def svc_emit_def)
    next
      case (Inr r)
      note rest = Inr
      show thesis
      proof (cases "if r \<noteq> [] then restListen r else None")
        case (Some err)
        then show thesis using assms \<open>ParseServiceEndpoint parse _ = Inr se\<close> se listened rest
          by (intro failed [of _ "[SvcListen s e, SvcCloseListener]"]) (simp_all add: StartService_def svc_emit_def)
      next
        case None
        then show thesis using assms \<open>ParseServiceEndpoint parse _ = Inr se\<close> se listened rest
          by (intro started [of r s e]) (simp_all add: StartService_def svc_emit_def)
      qed
    qed
  qed
qed

lemma svc_inv_emit:
  "svc_inv parse svc \<Longrightarrow> orderly_from (alive (svcTrace svc)) es \<Longrightarrow>
     fold alive1 es (alive (svcTrace svc)) = alive (svcTrace svc) \<Longrightarrow> svc_inv parse (svc_emit es svc)"
  by (simp add: svc_inv_def alive_append orderly_append)

lemma svc_inv_start:
  assumes inv: "svc_inv parse svc"
  shows "svc_inv parse (snd (StartService parse listen restListen svc))"
proof (cases "svcStarted svc")
  case True
  then show ?thesis using inv by (simp add: StartService_def)
next
  case False
  have a: "alive (svcTrace svc) = (False, False, False)" using inv False by (simp add: svc_inv_def)
  from False show ?thesis
  proof (cases rule: StartService_cases [of svc parse listen restListen])
    case (failed err es)
    then show ?thesis using inv a by (auto intro!: svc_inv_emit)
  next
    case (started s e r)
    have n: "svcRestListener svc = None" if "r = []" using inv started(1) that by (simp add: svc_inv_def)
    show ?thesis
      unfolding started(2) using inv started(1) a n
      by (cases "r = []"; cases "svcManager svc = None") (simp_all add: svc_inv_def alive_append orderly_append)
  qed
qed

lemma removeUnixSocket_emit:
  obtains es where "removeUnixSocket parse svc = svc_emit es svc" "es = [] \<or> (\<exists>e. es = [SvcRemoveSocket e])"
proof (cases "ParseServiceEndpoint parse (GetServiceEndpoint (svcConfig svc))")
  case (Inl err)
  then show thesis using that [of "[]"] by (simp add: removeUnixSocket_def svc_emit_def)
next
  case (Inr se)
  obtain scheme e where se: "se = (scheme, e)" by force
  show thesis
  proof (cases "scheme = ''unix''")
    case True
    show thesis by (rule that [of "[SvcRemoveSocket e]"]) (simp_all add: removeUnixSocket_def Inr se True)
  next
    case False
    show thesis by (rule that [of "[]"]) (simp_all add: removeUnixSocket_def svc_emit_def Inr se False)
  qed
qed

lemma svc_inv_removeUnixSocket:
  assumes "svc_inv parse svc"
  shows "svc_inv parse (removeUnixSocket parse svc)"
proof -
  obtain es where "removeUnixSocket parse svc = svc_emit es svc" "es = [] \<or> (\<exists>e. es = [SvcRemoveSocket e])"
    by (rule removeUnixSocket_emit)
  with assms show ?thesis by (cases "alive (svcTrace svc)") (auto intro!: svc_inv_emit)
qed

lemma StopService_eq:
  assumes "svcStarted svc"
  shows "StopService rp aevs parse svc = removeUnixSocket parse
    (svc_emit ((if svcRestListener svc \<noteq> None then [SvcDrainREST] else []) @ [SvcDrain] @
               (if svcCancel svc then [SvcCancelLoop] else []) @
               (if svcReconcileDone svc then [SvcAwaitLoop] else []) @
               (if svcManager svc \<noteq> None then [SvcManagerShutdown] else []))
      (svc\<lparr>svcStarted := False, svcManager := map_option (Shutdown rp aevs) (svcManager svc)\<rparr>))"
  using assms
  by (cases svc; cases "svcManager svc"; cases "svcRestListener svc"; cases "svcCancel svc"; cases "svcReconcileDone svc")
    (simp_all add: StopService_def svc_emit_def Let_def)

lemma svc_inv_stop:
  assumes inv: "svc_inv parse svc"
  shows "svc_inv parse (StopService rp aevs parse svc)"
proof (cases "svcStarted svc")
  case True
  show ?thesis
    unfolding StopService_eq [OF True]
    using inv True
    by (intro svc_inv_removeUnixSocket, cases "svcManager svc = None"; cases "svcRestListener svc = None"; cases "svcCancel svc")
      (simp_all add: svc_inv_def alive_append orderly_append)
qed (use inv in \<open>simp add: StopService_def\<close>)

lemma removeUnixSocket_started [simp]: "svcStarted (removeUnixSocket parse svc) = svcStarted svc"
  by (rule removeUnixSocket_emit [of parse svc]) simp

lemma stop_stopped: "\<not> svcStarted (StopService rp aevs parse svc)"
  by (cases "svcStarted svc") (simp_all add: StopService_eq, simp add: StopService_def)

lemma svc_inv_release:
  assumes "svc_inv parse svc"
  shows "svc_inv parse (ReleaseService rp aevs parse svc)"
proof -
  let ?s = "removeUnixSocket parse (StopService rp aevs parse svc)"
  have i: "svc_inv parse ?s" using assms by (intro svc_inv_removeUnixSocket svc_inv_stop)
  moreover have "alive (svcTrace ?s) = (False, False, False)"
    using i stop_stopped [of rp aevs parse svc] by (simp add: svc_inv_def)
  ultimately have "svc_inv parse (svc_emit [SvcCloseStore] ?s)" by (intro svc_inv_emit) simp_all
  with i show ?thesis by (simp add: ReleaseService_def Let_def)
qed

lemma svc_inv_step: "svc_step rp parse svc svc' \<Longrightarrow> svc_inv parse svc \<Longrightarrow> svc_inv parse svc'"
proof (induction rule: svc_step.induct)
  case (reconciled svc ticks)
  then show ?case by (simp add: svc_inv_def)
qed (simp_all add: svc_inv_start svc_inv_stop svc_inv_release)

lemma svc_inv_new: "newService config manager has = Inr svc \<Longrightarrow> svc_inv parse svc"
  by (auto simp: newService_def svc_inv_def orderly_def alive_def split: option.splits if_splits)

text \<open>
  C14: The listeners balance and a shutdown runs in order. For a service that goes through any
  sequence of starts, failed ones included, stops, releases and periodic passes: a listener or
  the periodic loop is never opened twice; the mounts are shut down and the database is closed
  only after the gRPC and REST servers have drained and the periodic loop has ended; and at any
  time exactly the listeners of a started service are open.
\<close>

theorem service_shutdown_order:
  assumes "newService config manager has = Inr svc0" and "(svc_step rp parse)\<^sup>*\<^sup>* svc0 svc"
  shows "orderly (svcTrace svc) \<and>
    alive (svcTrace svc) =
      (svcStarted svc, svcStarted svc \<and> svcRestListener svc \<noteq> None, svcStarted svc \<and> svcManager svc \<noteq> None)"
proof -
  have "svc_inv parse svc"
    using assms(2) svc_inv_new [OF assms(1)] by (induction rule: rtranclp_induct) (auto intro: svc_inv_step)
  then show ?thesis by (simp add: svc_inv_def)
qed

definition sample_service :: "memdb Service" where
  "sample_service = (case newService (Some NewDefaultConfig) (Some sample_start) True of Inr svc \<Rightarrow> svc | Inl _ \<Rightarrow> undefined)"

lemma sample_service_new: "newService (Some NewDefaultConfig) (Some sample_start) True = Inr sample_service"
  by (simp add: newService_def sample_service_def)

theorem service_shutdown_order_witness:
  "orderly (svcTrace (StopService sample_repo (\<lambda>a. quiet_env) sample_parse
     (snd (StartService sample_parse (\<lambda>s e. None) (\<lambda>e. None) sample_service))))"
proof -
  let ?s1 = "snd (StartService sample_parse (\<lambda>s e. None) (\<lambda>e. None) sample_service)"
  have "svc_step sample_repo sample_parse sample_service ?s1" by (rule svc_step.start)
  then have "(svc_step sample_repo sample_parse)\<^sup>*\<^sup>* sample_service ?s1" by (rule r_into_rtranclp)
  moreover have "svc_step sample_repo sample_parse ?s1 (StopService sample_repo (\<lambda>a. quiet_env) sample_parse ?s1)"
    by (rule svc_step.stop)
  ultimately have "(svc_step sample_repo sample_parse)\<^sup>*\<^sup>* sample_service
      (StopService sample_repo (\<lambda>a. quiet_env) sample_parse ?s1)" by (rule rtranclp.rtrancl_into_rtrancl)
  with service_shutdown_order [OF sample_service_new] show ?thesis by blast
qed

section \<open>A failed start\<close>

text \<open>
  C39: Releasing a service whose start failed closes the database without shutting the mounts down:
  the manager is left exactly as the startup reconciliation left it, so mounts it restored keep
  their client processes and their last stored state.
\<close>

theorem release_after_failed_start:
  assumes "\<not> svcStarted svc" and "StartService parse listen restListen svc = (Some err, svc')"
  shows "svcManager (ReleaseService rp aevs parse svc') = svcManager svc \<and>
    (\<exists>es. svcTrace (ReleaseService rp aevs parse svc') = svcTrace svc @ es \<and> SvcManagerShutdown \<notin> set es \<and>
       (svcDataStore svc \<longrightarrow> SvcCloseStore \<in> set es))"
proof -
  from assms obtain es where s: "svc' = svc_emit es svc" "es = [] \<or> (\<exists>s e. es = [SvcListen s e, SvcCloseListener])"
    by (cases rule: StartService_cases [of svc parse listen restListen]) auto
  then have stop: "StopService rp aevs parse svc' = svc'" using assms(1) by (simp add: StopService_def)
  obtain es' where r: "removeUnixSocket parse svc' = svc_emit es' svc'" "es' = [] \<or> (\<exists>e. es' = [SvcRemoveSocket e])"
    by (rule removeUnixSocket_emit)
  have "ReleaseService rp aevs parse svc' =
      svc_emit (es @ es' @ (if svcDataStore svc then [SvcCloseStore] else [])) svc"
    by (simp add: ReleaseService_def stop r(1)) (simp add: s(1) svc_emit_def)
  then show ?thesis using s(2) r(2) by auto
qed

theorem release_after_failed_start_witness:
  "svcManager (ReleaseService sample_repo (\<lambda>a. quiet_env) sample_parse
     (snd (StartService sample_parse (\<lambda>s e. Some (errors_New ''address already in use'')) (\<lambda>e. None) sample_service))) =
   svcManager sample_service"
proof -
  have n: "\<not> svcStarted sample_service" by (simp add: sample_service_def newService_def)
  have e: "GetServiceEndpoint (svcConfig sample_service) = ''unix:///var/lib/irodsfsd/comm.sock''"
    by (simp add: sample_service_def newService_def GetServiceEndpoint_def NewDefaultConfig_def DataRootPathDefault_def)
  have "\<exists>err svc'. StartService sample_parse (\<lambda>s e. Some (errors_New ''address already in use'')) (\<lambda>e. None) sample_service =
      (Some err, svc')"
    by (simp add: StartService_def n e sample_service_endpoint)
  then obtain err svc' where "StartService sample_parse (\<lambda>s e. Some (errors_New ''address already in use'')) (\<lambda>e. None) sample_service =
      (Some err, svc')" by blast
  with release_after_failed_start [OF n this, of sample_repo "\<lambda>a. quiet_env"] show ?thesis by simp
qed

end
