(* ===== verification/Client.thy ===== *)
theory Client
  imports Server "HOL-Library.Word" "HOL-Library.Multiset"
begin

text \<open>
  The Go client of the service (\<open>client/client.go\<close>): connecting, requests that reconnect once when
  the transport fails, and the background reconnection. A connection and a context are numbers;
  \<open>clClosed\<close> and \<open>clCancelled\<close> list the closed connections and the cancelled contexts. The atomic
  sections of the code are definitions of their own. The request functions compose them for one
  caller; the relation \<open>client_step\<close> interleaves them for any number of callers, background
  goroutines and calls of \<open>Disconnect\<close>. \<open>url.ParseRequestURI\<close> is the parameter \<open>parse\<close>,
  \<open>grpc.NewClient\<close> the parameter \<open>dial\<close>.
\<close>

section \<open>The client and its connection\<close>

definition reconnectInitialInterval :: duration where "reconnectInitialInterval = 1 * second"
definition reconnectMaxInterval :: duration where "reconnectMaxInterval = 1 * minute"
definition reconnectTimeout :: duration where "reconnectTimeout = 60 * minute"

record MountServiceClient =
  clAddress :: string
  clOperationTimeout :: duration
  clConnection :: "nat option"
  clApiClient :: "nat option"
  clConnected :: bool
  clAutoReconnect :: bool
  clReconnecting :: bool
  clSequence :: "64 word"
  clBgCancel :: "nat option"
  clNextConnection :: nat
  clNextContext :: nat
  clClosed :: "nat list"
  clCancelled :: "nat list"

definition NewMountServiceClient :: "string \<Rightarrow> duration \<Rightarrow> bool \<Rightarrow> MountServiceClient" where
  "NewMountServiceClient address operationTimeout autoReconnect =
     \<lparr>clAddress = address, clOperationTimeout = operationTimeout, clConnection = None, clApiClient = None,
      clConnected = False, clAutoReconnect = autoReconnect, clReconnecting = False, clSequence = 0,
      clBgCancel = None, clNextConnection = 0, clNextContext = 0, clClosed = [], clCancelled = []\<rparr>"

definition isTransportError :: "rpc_error \<Rightarrow> bool" where
  "isTransportError err = (case err of Status c m \<Rightarrow> c = Unavailable | Other _ \<Rightarrow> False)"

text \<open>
  \<open>waitForReady\<close> on the states the connection goes through; with each, whether waiting for a
  change ended with one (and not with the context). \<open>None\<close>: still waiting.
\<close>

datatype connectivity = Idle | Connecting | ConnReady | TransientFailure | ConnShutdown

fun waitForReady :: "(connectivity \<times> bool) list \<Rightarrow> bool option" where
  "waitForReady [] = None"
| "waitForReady ((st, changed) # rest) =
     (if st = ConnReady then Some True
      else if st = ConnShutdown then Some False
      else if \<not> changed then Some False
      else waitForReady rest)"

definition newConnection ::
    "(string \<Rightarrow> URL result) \<Rightarrow> (string \<Rightarrow> string \<Rightarrow> gerror option) \<Rightarrow> MountServiceClient \<Rightarrow>
     (nat \<times> string) result \<times> MountServiceClient" where
  "newConnection parse dial client =
     (case ParseServiceEndpoint parse (clAddress client) of
        Inl err \<Rightarrow> (Inl err, client)
      | Inr (scheme, endpoint) \<Rightarrow>
          (if scheme \<noteq> ''unix'' \<and> scheme \<noteq> ''tcp''
           then (Inl (errors_Errorf [Lit ''unknown protocol '', Quoted scheme]), client)
           else case dial scheme endpoint of
                  Some err \<Rightarrow>
                    (Inl (errors_Wrapf err [Lit ''failed to create gRPC client for '', Quoted (clAddress client)]), client)
                | None \<Rightarrow>
                    (Inr (clNextConnection client, scheme @ ''://'' @ endpoint),
                     client\<lparr>clNextConnection := clNextConnection client + 1\<rparr>)))"

definition close_connection :: "nat option \<Rightarrow> MountServiceClient \<Rightarrow> MountServiceClient" where
  "close_connection c client =
     (case c of None \<Rightarrow> client | Some n \<Rightarrow> client\<lparr>clClosed := clClosed client @ [n]\<rparr>)"

definition ConnectClient ::
    "(string \<Rightarrow> URL result) \<Rightarrow> (string \<Rightarrow> string \<Rightarrow> gerror option) \<Rightarrow> MountServiceClient \<Rightarrow>
     gerror option \<times> MountServiceClient" where
  "ConnectClient parse dial client =
     (case newConnection parse dial client of
        (Inl err, client) \<Rightarrow> (Some err, client)
      | (Inr (connection, _), client) \<Rightarrow>
          (if clConnected client
           then (Some (errors_Errorf [Lit ''already connected to '', Quoted (clAddress client)]),
                 close_connection (Some connection) client)
           else (None, client\<lparr>clConnection := Some connection, clApiClient := Some connection, clConnected := True\<rparr>)))"

definition disconnectConn :: "MountServiceClient \<Rightarrow> MountServiceClient" where
  "disconnectConn client =
     close_connection (clConnection client)
       (client\<lparr>clApiClient := None, clConnection := None, clConnected := False\<rparr>)"

text \<open>The atomic sections of \<open>Disconnect\<close>.\<close>

definition bumpSequence :: "MountServiceClient \<Rightarrow> MountServiceClient" where
  "bumpSequence client = client\<lparr>clSequence := clSequence client + 1\<rparr>"

definition cancelBackground :: "MountServiceClient \<Rightarrow> MountServiceClient" where
  "cancelBackground client =
     (case clBgCancel client of
        None \<Rightarrow> client
      | Some ctx \<Rightarrow> client\<lparr>clCancelled := clCancelled client @ [ctx], clBgCancel := None\<rparr>)"

definition clearReconnecting :: "MountServiceClient \<Rightarrow> MountServiceClient" where
  "clearReconnecting client = client\<lparr>clReconnecting := False\<rparr>"

definition DisconnectClient :: "MountServiceClient \<Rightarrow> MountServiceClient" where
  "DisconnectClient client = disconnectConn (clearReconnecting (cancelBackground (bumpSequence client)))"

definition getAPIClient :: "MountServiceClient \<Rightarrow> rpc_error + nat" where
  "getAPIClient client =
     (if clReconnecting client
      then Inl (Status Unavailable [Lit ''irodsfsd reconnect in progress; retry later''])
      else if \<not> clConnected client then Inl (Other (errors_New ''client is not connected''))
      else case clApiClient client of
             None \<Rightarrow> Inl (Other (errors_New ''client is not connected''))
           | Some c \<Rightarrow> Inr c)"

definition getContextWithDeadline :: "MountServiceClient \<Rightarrow> duration option" where
  "getContextWithDeadline client =
     (if clOperationTimeout client > 0 then Some (clOperationTimeout client) else None)"

section \<open>Reconnecting\<close>

text \<open>Installing a connection that is ready and closing the one it replaces.\<close>

definition installConnection :: "nat \<Rightarrow> MountServiceClient \<Rightarrow> MountServiceClient" where
  "installConnection connection client =
     close_connection (clConnection client)
       (client\<lparr>clConnection := Some connection, clApiClient := Some connection\<rparr>)"

text \<open>
  The two atomic sections of \<open>startBackgroundReconnect\<close>: drawing the sequence number, and storing
  the cancel function under the lock. The goroutine's context is a new number.
\<close>

definition storeCancel :: "MountServiceClient \<Rightarrow> nat \<times> MountServiceClient" where
  "storeCancel client =
     (let ctx = clNextContext client;
          client = (case clBgCancel client of
                      None \<Rightarrow> client
                    | Some old \<Rightarrow> client\<lparr>clCancelled := clCancelled client @ [old]\<rparr>)
      in (ctx, client\<lparr>clBgCancel := Some ctx, clNextContext := ctx + 1\<rparr>))"

definition startBackgroundReconnect :: "MountServiceClient \<Rightarrow> 64 word \<times> nat \<times> MountServiceClient" where
  "startBackgroundReconnect client =
     (let client = bumpSequence client;
          sequence = clSequence client;
          (ctx, client) = storeCancel client
      in (sequence, ctx, client))"

text \<open>The deferred end of \<open>backgroundReconnect\<close>, and the next interval of its loop.\<close>

definition clearBackground :: "MountServiceClient \<Rightarrow> MountServiceClient" where
  "clearBackground client = client\<lparr>clReconnecting := False, clBgCancel := None\<rparr>"

definition finishBackground :: "64 word \<Rightarrow> MountServiceClient \<Rightarrow> MountServiceClient" where
  "finishBackground sequence client =
     (if clSequence client = sequence then clearBackground client else client)"

definition nextInterval :: "duration \<Rightarrow> duration" where
  "nextInterval interval =
     (if interval < reconnectMaxInterval
      then (if interval * 2 > reconnectMaxInterval then reconnectMaxInterval else interval * 2)
      else interval)"

text \<open>
  One round of the background loop: whether the context has an error when the loop looks, the
  outcome of dialling, whether the connection becomes ready within the interval, and whether the
  context has an error when the result is installed and after the attempt or the timer.
\<close>

record bg_round =
  rdContextErr :: bool
  rdDial :: "string \<Rightarrow> string \<Rightarrow> gerror option"
  rdReady :: bool
  rdErrAtInstall :: bool
  rdErrAfter :: bool

datatype bg_result = Reconnected | BgStopped | StillTrying

definition bgAttempt ::
    "(string \<Rightarrow> URL result) \<Rightarrow> bg_round \<Rightarrow> MountServiceClient \<Rightarrow> bg_result \<times> MountServiceClient" where
  "bgAttempt parse rd client =
     (case newConnection parse (rdDial rd) client of
        (Inl err, client) \<Rightarrow> (if rdErrAfter rd then BgStopped else StillTrying, client)
      | (Inr (connection, _), client) \<Rightarrow>
          (if \<not> rdReady rd
           then (if rdErrAfter rd then BgStopped else StillTrying, close_connection (Some connection) client)
           else if \<not> clConnected client \<or> rdErrAtInstall rd
           then (BgStopped, close_connection (Some connection) client)
           else (Reconnected, installConnection connection client)))"

text \<open>The loop, with the list of the intervals it has used.\<close>

fun bgLoop ::
    "(string \<Rightarrow> URL result) \<Rightarrow> duration \<Rightarrow> bg_round list \<Rightarrow> MountServiceClient \<Rightarrow>
     bg_result \<times> duration list \<times> MountServiceClient" where
  "bgLoop parse interval [] client = (StillTrying, [], client)"
| "bgLoop parse interval (rd # rds) client =
     (if rdContextErr rd \<or> \<not> clConnected client then (BgStopped, [], client)
      else case bgAttempt parse rd client of
             (StillTrying, client) \<Rightarrow>
               (case bgLoop parse (nextInterval interval) rds client of
                  (r, is, client) \<Rightarrow> (r, interval # is, client))
           | (r, client) \<Rightarrow> (r, [interval], client))"

definition backgroundReconnect ::
    "(string \<Rightarrow> URL result) \<Rightarrow> 64 word \<Rightarrow> bg_round list \<Rightarrow> MountServiceClient \<Rightarrow>
     bg_result \<times> duration list \<times> MountServiceClient" where
  "backgroundReconnect parse sequence rds client =
     (case bgLoop parse reconnectInitialInterval rds client of
        (StillTrying, is, client) \<Rightarrow> (StillTrying, is, client)
      | (r, is, client) \<Rightarrow> (r, is, finishBackground sequence client))"

text \<open>
  \<open>doWithReconnect\<close> for one caller: \<open>f n\<close> is the outcome of the n-th call of the request function,
  \<open>ready\<close> whether the new connection becomes ready in time. The last component counts the calls.
\<close>

definition doWithReconnect ::
    "(string \<Rightarrow> URL result) \<Rightarrow> (string \<Rightarrow> string \<Rightarrow> gerror option) \<Rightarrow> bool \<Rightarrow>
     (nat \<Rightarrow> MountServiceClient \<Rightarrow> 'a response) \<Rightarrow> MountServiceClient \<Rightarrow> 'a response \<times> MountServiceClient \<times> nat" where
  "doWithReconnect parse dial ready f client =
     (if clReconnecting client
      then (Inl (Status Unavailable [Lit ''irodsfsd reconnect in progress; please retry later'']), client, 0)
      else case f 0 client of
             Inr res \<Rightarrow> (Inr res, client, 1)
           | Inl err \<Rightarrow>
               (if \<not> clAutoReconnect client \<or> \<not> isTransportError err \<or> \<not> clConnected client then (Inl err, client, 1)
                else
                  (let client = client\<lparr>clReconnecting := True\<rparr>;
                       fallback = (\<lambda>client.
                         if clConnected client
                         then (case startBackgroundReconnect client of (sequence, ctx, client) \<Rightarrow> (Inl err, client, 1))
                         else (Inl err, clearReconnecting client, 1))
                   in case newConnection parse dial client of
                        (Inl reconnectErr, client) \<Rightarrow> fallback client
                      | (Inr (connection, _), client) \<Rightarrow>
                          (if ready \<and> clConnected client
                           then (let client = clearReconnecting (installConnection connection client)
                                 in (f 1 client, client, 2))
                           else fallback (close_connection (Some connection) client)))))"

section \<open>Requests\<close>

text \<open>A request function: it fetches the API client and calls it; \<open>call n\<close> is the n-th call.\<close>

definition through_api :: "(nat \<Rightarrow> nat \<Rightarrow> 'a response) \<Rightarrow> nat \<Rightarrow> MountServiceClient \<Rightarrow> 'a response" where
  "through_api call n client =
     (case getAPIClient client of Inl err \<Rightarrow> Inl err | Inr apiClient \<Rightarrow> call n apiClient)"

text \<open>
  The event stream as the client receives it: errors of \<open>Recv\<close>, or an event with its type and its
  mount, which may be nil. \<open>None\<close>: the stream has not delivered enough yet.
\<close>

type_synonym recv = "gerror + (MountEventType \<times> MountInfo option)"

fun awaitEvents :: "string \<Rightarrow> recv list \<Rightarrow> (rpc_error + MountInfo) option" where
  "awaitEvents i [] = None"
| "awaitEvents i (Inl err # es) =
     Some (Inl (Other (errors_Wrapf err [Lit ''failed while waiting for mount '', Quoted i])))"
| "awaitEvents i (Inr (t, None) # es) = awaitEvents i es"
| "awaitEvents i (Inr (t, Some m) # es) =
     (if MountId m \<noteq> i then awaitEvents i es
      else if State m = MOUNT_STATE_MOUNTED \<or> State m = MOUNT_STATE_FAILED then Some (Inr m)
      else if t = MOUNT_EVENT_TYPE_REMOVED
      then Some (Inl (Other (errors_Errorf [Lit ''mount '', Quoted i, Lit '' was removed while waiting''])))
      else awaitEvents i es)"

text \<open>\<open>stream\<close> is what opening the stream over an API client returns.\<close>

definition WatchMountEventsClient ::
    "(nat \<Rightarrow> WatchMountEventsRequest \<Rightarrow> recv list response) \<Rightarrow> WatchMountEventsRequest option \<Rightarrow> MountServiceClient \<Rightarrow>
     recv list response" where
  "WatchMountEventsClient stream request client =
     (let request = (case request of None \<Rightarrow> \<lparr>WatchMountIds = [], IncludeCurrent = False\<rparr> | Some r \<Rightarrow> r)
      in case getAPIClient client of Inl err \<Rightarrow> Inl err | Inr apiClient \<Rightarrow> stream apiClient request)"

definition waitForMountClient ::
    "(nat \<Rightarrow> WatchMountEventsRequest \<Rightarrow> recv list response) \<Rightarrow> string \<Rightarrow> MountServiceClient \<Rightarrow>
     (rpc_error + MountInfo) option" where
  "waitForMountClient stream i client =
     (if i = [] then Some (Inl (Other (errors_New ''mount ID is required'')))
      else case WatchMountEventsClient stream (Some \<lparr>WatchMountIds = [i], IncludeCurrent = True\<rparr>) client of
             Inl err \<Rightarrow> Some (Inl err)
           | Inr events \<Rightarrow> awaitEvents i events)"

text \<open>The outcome is \<open>None\<close> while the wait goes on.\<close>

definition MountWithID ::
    "(string \<Rightarrow> URL result) \<Rightarrow> (string \<Rightarrow> string \<Rightarrow> gerror option) \<Rightarrow> bool \<Rightarrow>
     (MountRequest \<Rightarrow> nat \<Rightarrow> nat \<Rightarrow> MountInfo option response) \<Rightarrow>
     (nat \<Rightarrow> WatchMountEventsRequest \<Rightarrow> recv list response) \<Rightarrow>
     string \<Rightarrow> MountConfig option \<Rightarrow> bool \<Rightarrow> MountServiceClient \<Rightarrow>
     (rpc_error + MountInfo option) option \<times> MountServiceClient" where
  "MountWithID parse dial ready call stream i config wait client =
     (if config = None then (Some (Inl (Other (errors_New ''mount config is required''))), client)
      else
        (let request = \<lparr>ReqMountId = (if i \<noteq> [] then Some i else None), ReqConfig = config\<rparr>
         in case doWithReconnect parse dial ready (through_api (call request)) client of
              (Inl err, client, _) \<Rightarrow> (Some (Inl err), client)
            | (Inr mount, client, _) \<Rightarrow>
                (if \<not> wait then (Some (Inr mount), client)
                 else
                   (let j = (case mount of None \<Rightarrow> [] | Some m \<Rightarrow> MountId m)
                    in (map_option (map_sum id Some) (waitForMountClient stream j client), client)))))"

definition MountClient where
  "MountClient parse dial ready call stream config wait client =
     MountWithID parse dial ready call stream [] config wait client"

definition ReadyClient ::
    "(string \<Rightarrow> URL result) \<Rightarrow> (string \<Rightarrow> string \<Rightarrow> gerror option) \<Rightarrow> bool \<Rightarrow>
     (nat \<Rightarrow> nat \<Rightarrow> unit response) \<Rightarrow> MountServiceClient \<Rightarrow> rpc_error option \<times> MountServiceClient" where
  "ReadyClient parse dial ready call client =
     (case doWithReconnect parse dial ready (through_api call) client of
        (Inl err, client, _) \<Rightarrow> (Some err, client)
      | (Inr _, client, _) \<Rightarrow> (None, client))"

definition UnmountClient ::
    "(string \<Rightarrow> URL result) \<Rightarrow> (string \<Rightarrow> string \<Rightarrow> gerror option) \<Rightarrow> bool \<Rightarrow>
     (UnmountRequest \<Rightarrow> nat \<Rightarrow> nat \<Rightarrow> MountInfo option response) \<Rightarrow> string \<Rightarrow> MountServiceClient \<Rightarrow>
     MountInfo option response \<times> MountServiceClient" where
  "UnmountClient parse dial ready call i client =
     (if i = [] then (Inl (Other (errors_New ''mount ID is required'')), client)
      else case doWithReconnect parse dial ready (through_api (call \<lparr>UnmountMountId = i\<rparr>)) client of
             (r, client, _) \<Rightarrow> (r, client))"

text \<open>A nil filter is \<open>None\<close>; \<open>ListMountsFilter\<close> has the fields of the request.\<close>

definition ListMountsClient ::
    "(string \<Rightarrow> URL result) \<Rightarrow> (string \<Rightarrow> string \<Rightarrow> gerror option) \<Rightarrow> bool \<Rightarrow>
     (ListMountsRequest \<Rightarrow> nat \<Rightarrow> nat \<Rightarrow> MountInfo list response) \<Rightarrow> ListMountsRequest option \<Rightarrow> MountServiceClient \<Rightarrow>
     MountInfo list response \<times> MountServiceClient" where
  "ListMountsClient parse dial ready call mfilter client =
     (let request = (case mfilter of
                       None \<Rightarrow> \<lparr>ReqStates = [], ReqMountPathPrefix = None, ReqClientUser = None\<rparr>
                     | Some f \<Rightarrow> \<lparr>ReqStates = ReqStates f, ReqMountPathPrefix = ReqMountPathPrefix f,
                                  ReqClientUser = ReqClientUser f\<rparr>)
      in case doWithReconnect parse dial ready (through_api (call request)) client of
           (r, client, _) \<Rightarrow> (r, client))"

definition GetMountClient ::
    "(string \<Rightarrow> URL result) \<Rightarrow> (string \<Rightarrow> string \<Rightarrow> gerror option) \<Rightarrow> bool \<Rightarrow>
     (string \<Rightarrow> nat \<Rightarrow> nat \<Rightarrow> MountInfo option response) \<Rightarrow> string \<Rightarrow> MountServiceClient \<Rightarrow>
     MountInfo option response \<times> MountServiceClient" where
  "GetMountClient parse dial ready call i client =
     (if i = [] then (Inl (Other (errors_New ''mount ID is required'')), client)
      else case doWithReconnect parse dial ready (through_api (call i)) client of
             (r, client, _) \<Rightarrow> (r, client))"

section \<open>One caller\<close>

text \<open>
  C21: A request is repeated at most once, and only after the server was unreachable. The request
  function runs zero times while a reconnection is under way, which is reported as unavailable;
  otherwise once, and a second time exactly when automatic reconnection is on, the client is
  connected, the first call failed with \<open>Unavailable\<close> and a new connection became ready; any other
  outcome of the first call is returned as it is.
\<close>

theorem request_retried_once:
  assumes "doWithReconnect parse dial ready f client = (r, client', n)"
  shows "n \<le> 2 \<and> (n = 0 \<longleftrightarrow> clReconnecting client) \<and>
    (n = 0 \<longrightarrow> (\<exists>m. r = Inl (Status Unavailable m)) \<and> client' = client) \<and>
    (n = 1 \<longrightarrow> r = f 0 client) \<and>
    (n = 2 \<longrightarrow> r = f 1 client' \<and> clAutoReconnect client \<and> clConnected client \<and> ready \<and>
       (\<exists>m. f 0 client = Inl (Status Unavailable m)) \<and>
       clConnection client' = Some (clNextConnection client) \<and> \<not> clReconnecting client')"
proof (cases "clReconnecting client")
  case True
  then show ?thesis using assms by (auto simp: doWithReconnect_def)
next
  case False
  show ?thesis
  proof (cases "f 0 client")
    case (Inr res)
    then show ?thesis using assms False by (auto simp: doWithReconnect_def)
  next
    case (Inl err)
    show ?thesis
    proof (cases "\<not> clAutoReconnect client \<or> \<not> isTransportError err \<or> \<not> clConnected client")
      case True
      then show ?thesis using assms False Inl by (auto simp: doWithReconnect_def)
    next
      case nxt: False
      then obtain m where m: "err = Status Unavailable m"
        by (cases err) (auto simp: isTransportError_def)
      let ?c = "client\<lparr>clReconnecting := True\<rparr>"
      obtain c client1 where nc: "newConnection parse dial ?c = (c, client1)" by force
      have c1: "clConnected client1 = clConnected client" "clConnection client1 = clConnection client"
        and conn: "\<And>k e. c = Inr (k, e) \<Longrightarrow> k = clNextConnection client"
        using nc by (auto simp: newConnection_def split: sum.splits if_splits option.splits)
      show ?thesis
        using assms False Inl nxt m nc c1 conn
        by (cases c) (auto simp: doWithReconnect_def Let_def close_connection_def installConnection_def
            clearReconnecting_def split: if_splits prod.splits option.splits)
    qed
  qed
qed

definition sample_client :: MountServiceClient where
  "sample_client = (NewMountServiceClient ''unix:///var/lib/irodsfsd/comm.sock'' (5 * second) True)
     \<lparr>clConnection := Some 0, clApiClient := Some 0, clConnected := True, clNextConnection := 1\<rparr>"

definition flaky_call :: "nat \<Rightarrow> nat \<Rightarrow> unit response" where
  "flaky_call n c = (if n = 0 then Inl (Status Unavailable [Lit ''connection refused'']) else Inr ())"

theorem request_retried_once_witness:
  "\<exists>client'. doWithReconnect sample_parse (\<lambda>s e. None) True (through_api flaky_call) sample_client = (Inr (), client', 2) \<and>
     clConnection client' = Some 1"
proof -
  obtain client' where d: "doWithReconnect sample_parse (\<lambda>s e. None) True (through_api flaky_call) sample_client =
      (Inr (), client', 2)"
    by (simp add: doWithReconnect_def through_api_def getAPIClient_def flaky_call_def sample_client_def
        NewMountServiceClient_def isTransportError_def newConnection_def sample_service_endpoint
        installConnection_def close_connection_def clearReconnecting_def)
  with request_retried_once [OF d] show ?thesis
    by (simp add: sample_client_def NewMountServiceClient_def)
qed

section \<open>Waiting for a mount\<close>

lemma awaitEvents_Inr:
  "awaitEvents i es = Some (Inr m) \<Longrightarrow>
     MountId m = i \<and> State m \<in> {MOUNT_STATE_MOUNTED, MOUNT_STATE_FAILED} \<and> (\<exists>t. Inr (t, Some m) \<in> set es)"
  by (induction i es rule: awaitEvents.induct) (auto split: if_splits)

section \<open>Many callers\<close>

text \<open>
  Where a caller is in the reconnecting part of \<open>doWithReconnect\<close>, a background goroutine in
  \<open>backgroundReconnect\<close>, and a caller of \<open>Disconnect\<close>.
\<close>

datatype handler = Trying | Installed | Failed | GivingUp | Starting | Numbered "64 word"
datatype background = Running "64 word" nat | Leaving "64 word" | Clearing
datatype disconnector = Bumped | BgCancelled | Cleared

record client_world =
  wClient :: MountServiceClient
  wHandlers :: "handler multiset"
  wBackground :: "background multiset"
  wDisconnect :: "disconnector multiset"

definition move_handler :: "handler \<Rightarrow> handler option \<Rightarrow> client_world \<Rightarrow> client_world" where
  "move_handler h h' w =
     w\<lparr>wHandlers := wHandlers w - {#h#} + (case h' of None \<Rightarrow> {#} | Some k \<Rightarrow> {#k#})\<rparr>"

definition move_background :: "background \<Rightarrow> background option \<Rightarrow> client_world \<Rightarrow> client_world" where
  "move_background b b' w =
     w\<lparr>wBackground := wBackground w - {#b#} + (case b' of None \<Rightarrow> {#} | Some k \<Rightarrow> {#k#})\<rparr>"

definition move_disconnect :: "disconnector \<Rightarrow> disconnector option \<Rightarrow> client_world \<Rightarrow> client_world" where
  "move_disconnect d d' w =
     w\<lparr>wDisconnect := wDisconnect w - {#d#} + (case d' of None \<Rightarrow> {#} | Some k \<Rightarrow> {#k#})\<rparr>"

definition on_client_state :: "(MountServiceClient \<Rightarrow> MountServiceClient) \<Rightarrow> client_world \<Rightarrow> client_world" where
  "on_client_state f w = w\<lparr>wClient := f (wClient w)\<rparr>"

inductive client_step :: "(string \<Rightarrow> URL result) \<Rightarrow> client_world \<Rightarrow> client_world \<Rightarrow> bool"
  for parse :: "string \<Rightarrow> URL result" where
  connect: "client_step parse w (on_client_state (\<lambda>c. snd (ConnectClient parse dial c)) w)"
| swap_flag: "\<not> clReconnecting (wClient w) \<Longrightarrow> clAutoReconnect (wClient w) \<Longrightarrow>
    client_step parse w (on_client_state (\<lambda>c. c\<lparr>clReconnecting := True\<rparr>) (w\<lparr>wHandlers := wHandlers w + {#Trying#}\<rparr>))"
| install: "Trying \<in># wHandlers w \<Longrightarrow> newConnection parse dial (wClient w) = (Inr (k, e), c) \<Longrightarrow> clConnected c \<Longrightarrow>
    client_step parse w (move_handler Trying (Some Installed) (w\<lparr>wClient := installConnection k c\<rparr>))"
| no_connection: "Trying \<in># wHandlers w \<Longrightarrow> newConnection parse dial (wClient w) = (Inl err, c) \<Longrightarrow>
    client_step parse w (move_handler Trying (Some Failed) (w\<lparr>wClient := c\<rparr>))"
| not_ready: "Trying \<in># wHandlers w \<Longrightarrow> newConnection parse dial (wClient w) = (Inr (k, e), c) \<Longrightarrow>
    client_step parse w (move_handler Trying (Some Failed) (w\<lparr>wClient := close_connection (Some k) c\<rparr>))"
| installed: "Installed \<in># wHandlers w \<Longrightarrow>
    client_step parse w (move_handler Installed None (on_client_state clearReconnecting w))"
| give_up: "Failed \<in># wHandlers w \<Longrightarrow> \<not> clConnected (wClient w) \<Longrightarrow>
    client_step parse w (move_handler Failed (Some GivingUp) w)"
| gave_up: "GivingUp \<in># wHandlers w \<Longrightarrow>
    client_step parse w (move_handler GivingUp None (on_client_state clearReconnecting w))"
| still_connected: "Failed \<in># wHandlers w \<Longrightarrow> clConnected (wClient w) \<Longrightarrow>
    client_step parse w (move_handler Failed (Some Starting) w)"
| draw_number: "Starting \<in># wHandlers w \<Longrightarrow>
    client_step parse w (move_handler Starting (Some (Numbered (clSequence (bumpSequence (wClient w)))))
      (on_client_state bumpSequence w))"
| store_cancel: "Numbered n \<in># wHandlers w \<Longrightarrow> storeCancel (wClient w) = (ctx, c) \<Longrightarrow>
    client_step parse w (move_handler (Numbered n) None
      (w\<lparr>wClient := c, wBackground := wBackground w + {#Running n ctx#}\<rparr>))"
| bg_install: "Running n ctx \<in># wBackground w \<Longrightarrow> newConnection parse dial (wClient w) = (Inr (k, e), c) \<Longrightarrow>
    clConnected c \<Longrightarrow> ctx \<notin> set (clCancelled c) \<Longrightarrow>
    client_step parse w (move_background (Running n ctx) (Some (Leaving n)) (w\<lparr>wClient := installConnection k c\<rparr>))"
| bg_round: "Running n ctx \<in># wBackground w \<Longrightarrow> newConnection parse dial (wClient w) = (Inr (k, e), c) \<Longrightarrow>
    client_step parse w (w\<lparr>wClient := close_connection (Some k) c\<rparr>)"
| bg_leave: "Running n ctx \<in># wBackground w \<Longrightarrow> client_step parse w (move_background (Running n ctx) (Some (Leaving n)) w)"
| bg_match: "Leaving n \<in># wBackground w \<Longrightarrow> clSequence (wClient w) = n \<Longrightarrow>
    client_step parse w (move_background (Leaving n) (Some Clearing) w)"
| bg_stale: "Leaving n \<in># wBackground w \<Longrightarrow> clSequence (wClient w) \<noteq> n \<Longrightarrow>
    client_step parse w (move_background (Leaving n) None w)"
| bg_clear: "Clearing \<in># wBackground w \<Longrightarrow>
    client_step parse w (move_background Clearing None (on_client_state clearBackground w))"
| disconnect: "client_step parse w (on_client_state bumpSequence (w\<lparr>wDisconnect := wDisconnect w + {#Bumped#}\<rparr>))"
| disconnect_cancel: "Bumped \<in># wDisconnect w \<Longrightarrow>
    client_step parse w (move_disconnect Bumped (Some BgCancelled) (on_client_state cancelBackground w))"
| disconnect_clear: "BgCancelled \<in># wDisconnect w \<Longrightarrow>
    client_step parse w (move_disconnect BgCancelled (Some Cleared) (on_client_state clearReconnecting w))"
| disconnect_close: "Cleared \<in># wDisconnect w \<Longrightarrow>
    client_step parse w (move_disconnect Cleared None (on_client_state disconnectConn w))"

text \<open>
  Someone is going to clear the flag: a caller that has not drawn its number, the holder of the
  current number, a background goroutine about to clear it, or a disconnection before its store.
\<close>

definition responsible :: "client_world \<Rightarrow> bool" where
  "responsible w \<longleftrightarrow>
     Trying \<in># wHandlers w \<or> Installed \<in># wHandlers w \<or> Failed \<in># wHandlers w \<or> GivingUp \<in># wHandlers w \<or>
     Starting \<in># wHandlers w \<or> Numbered (clSequence (wClient w)) \<in># wHandlers w \<or>
     Clearing \<in># wBackground w \<or> Leaving (clSequence (wClient w)) \<in># wBackground w \<or>
     (\<exists>ctx. Running (clSequence (wClient w)) ctx \<in># wBackground w) \<or>
     Bumped \<in># wDisconnect w \<or> BgCancelled \<in># wDisconnect w"

definition wedge_inv :: "client_world \<Rightarrow> bool" where
  "wedge_inv w \<longleftrightarrow> (clReconnecting (wClient w) \<longrightarrow> responsible w)"

lemma newConnection_frame:
  "newConnection parse dial client = (r, c) \<Longrightarrow>
     clSequence c = clSequence client \<and> clReconnecting c = clReconnecting client"
  by (auto simp: newConnection_def split: sum.splits if_splits option.splits)

lemma client_frames [simp]:
  "clSequence (close_connection k c) = clSequence c" "clReconnecting (close_connection k c) = clReconnecting c"
  "clSequence (installConnection j c) = clSequence c" "clReconnecting (installConnection j c) = clReconnecting c"
  "clSequence (cancelBackground c) = clSequence c" "clReconnecting (cancelBackground c) = clReconnecting c"
  "clSequence (disconnectConn c) = clSequence c" "clReconnecting (disconnectConn c) = clReconnecting c"
  "clSequence (clearReconnecting c) = clSequence c" "\<not> clReconnecting (clearReconnecting c)"
  "clReconnecting (bumpSequence c) = clReconnecting c"
  "clSequence (clearBackground c) = clSequence c" "\<not> clReconnecting (clearBackground c)"
  by (simp_all add: clearBackground_def close_connection_def installConnection_def cancelBackground_def disconnectConn_def
      clearReconnecting_def bumpSequence_def split: option.split)

lemma ConnectClient_frame [simp]:
  "clSequence (snd (ConnectClient parse dial c)) = clSequence c"
  "clReconnecting (snd (ConnectClient parse dial c)) = clReconnecting c"
  using newConnection_frame [of parse dial c]
  by (auto simp: ConnectClient_def split: sum.splits prod.splits)

lemma storeCancel_frame:
  "storeCancel c = (ctx, c') \<Longrightarrow> clSequence c' = clSequence c \<and> clReconnecting c' = clReconnecting c"
  by (auto simp: storeCancel_def Let_def split: option.splits)

lemmas move_defs = move_handler_def move_background_def move_disconnect_def on_client_state_def

lemma in_removed: "x \<noteq> h \<Longrightarrow> x \<in># M - {#h#} \<longleftrightarrow> x \<in># M"
  by (simp add: in_diff_count)

lemma wedge_inv_step: "client_step parse w w' \<Longrightarrow> wedge_inv w \<Longrightarrow> wedge_inv w'"
proof (induction rule: client_step.induct)
  case (store_cancel n w ctx c)
  then show ?case using storeCancel_frame [of "wClient w" ctx c]
    by (cases "n = clSequence (wClient w)")
      (auto simp: wedge_inv_def responsible_def move_defs in_removed)
next
  case (bg_leave n ctx w)
  then show ?case
    by (cases "n = clSequence (wClient w)")
      (auto simp: wedge_inv_def responsible_def move_defs in_removed)
next
  case (bg_install n ctx w dial k e c)
  then show ?case using newConnection_frame [of parse dial "wClient w" "Inr (k, e)" c]
    by (cases "n = clSequence (wClient w)")
      (auto simp: wedge_inv_def responsible_def move_defs in_removed)
qed (auto simp: wedge_inv_def responsible_def move_defs in_removed dest: newConnection_frame)

text \<open>
  The operations for one caller are runs of the machine: each is composed of its sections, in the
  order of the code, with nothing in between.
\<close>

lemma run_step: "client_step parse w w' \<Longrightarrow> (client_step parse)\<^sup>*\<^sup>* w' w'' \<Longrightarrow> (client_step parse)\<^sup>*\<^sup>* w w''"
  by (rule converse_rtranclp_into_rtranclp)

lemma move_handler_simps [simp]:
  "wClient (move_handler h h' w) = wClient w" "wBackground (move_handler h h' w) = wBackground w"
  "wDisconnect (move_handler h h' w) = wDisconnect w"
  by (simp_all add: move_handler_def)

abbreviation handling :: "client_world \<Rightarrow> MountServiceClient \<Rightarrow> handler \<Rightarrow> client_world" where
  "handling w c h \<equiv> w\<lparr>wClient := c, wHandlers := wHandlers w + {#h#}\<rparr>"

lemma world_updates:
  "w\<lparr>wHandlers := hs, wClient := c\<rparr> = w\<lparr>wClient := c, wHandlers := hs\<rparr>"
  "w\<lparr>wDisconnect := ds, wClient := c\<rparr> = w\<lparr>wClient := c, wDisconnect := ds\<rparr>"
  by simp_all

lemma gave_up_run:
  assumes "\<not> clConnected c"
  shows "(client_step parse)\<^sup>*\<^sup>* (handling w c Failed) (w\<lparr>wClient := clearReconnecting c\<rparr>)"
proof -
  have "client_step parse (handling w c Failed) (handling w c GivingUp)"
    using client_step.give_up [of "handling w c Failed" parse] assms by (simp add: move_handler_def)
  moreover have "client_step parse (handling w c GivingUp) (w\<lparr>wClient := clearReconnecting c\<rparr>)"
    using client_step.gave_up [of "handling w c GivingUp" parse] by (simp add: move_handler_def on_client_state_def)
  ultimately show ?thesis by simp
qed

lemma background_run:
  assumes "clConnected c" and "startBackgroundReconnect c = (n, ctx, c')"
  shows "(client_step parse)\<^sup>*\<^sup>* (handling w c Failed)
    (w\<lparr>wClient := c', wBackground := wBackground w + {#Running n ctx#}\<rparr>)"
proof -
  have n: "n = clSequence (bumpSequence c)" and sc: "storeCancel (bumpSequence c) = (ctx, c')"
    using assms(2) by (auto simp: startBackgroundReconnect_def Let_def split: prod.splits)
  have "client_step parse (handling w c Failed) (handling w c Starting)"
    using client_step.still_connected [of "handling w c Failed" parse] assms(1) by (simp add: move_handler_def)
  moreover have "client_step parse (handling w c Starting) (handling w (bumpSequence c) (Numbered n))"
    using client_step.draw_number [of "handling w c Starting" parse] by (simp add: n move_handler_def on_client_state_def)
  moreover have "client_step parse (handling w (bumpSequence c) (Numbered n))
      (w\<lparr>wClient := c', wBackground := wBackground w + {#Running n ctx#}\<rparr>)"
    using client_step.store_cancel [of n "handling w (bumpSequence c) (Numbered n)" ctx c' parse] sc
    by (simp add: move_handler_def)
  ultimately show ?thesis by (meson run_step rtranclp.rtrancl_refl)
qed

lemma failed_run:
  "\<exists>bs. (client_step parse)\<^sup>*\<^sup>* (handling w c Failed)
     (w\<lparr>wClient := (if clConnected c then snd (snd (startBackgroundReconnect c)) else clearReconnecting c),
        wBackground := wBackground w + bs\<rparr>)"
proof (cases "clConnected c")
  case True
  obtain n ctx c' where "startBackgroundReconnect c = (n, ctx, c')" by (rule prod_cases3)
  with background_run [OF True this, of parse w] True show ?thesis by (intro exI [of _ "{#Running n ctx#}"]) simp
next
  case False
  then show ?thesis using gave_up_run [of c parse w] by (intro exI [of _ "{#}"]) simp
qed

lemma installed_run:
  "(client_step parse)\<^sup>*\<^sup>* (handling w c Installed) (w\<lparr>wClient := clearReconnecting c\<rparr>)"
  using client_step.installed [of "handling w c Installed" parse]
  by (simp add: move_handler_def on_client_state_def r_into_rtranclp)

lemma doWithReconnect_cases:
  assumes "doWithReconnect parse dial ready f client = (r, c', n)"
  obtains (same) "c' = client"
    | (installed) k e c1 where "\<not> clReconnecting client" "clAutoReconnect client"
        "newConnection parse dial (client\<lparr>clReconnecting := True\<rparr>) = (Inr (k, e), c1)" "clConnected c1"
        "c' = clearReconnecting (installConnection k c1)"
    | (failed) q c1 c2 where "\<not> clReconnecting client" "clAutoReconnect client"
        "newConnection parse dial (client\<lparr>clReconnecting := True\<rparr>) = (q, c1)"
        "c2 = (case q of Inl _ \<Rightarrow> c1 | Inr (k, e) \<Rightarrow> close_connection (Some k) c1)"
        "c' = (if clConnected c2 then snd (snd (startBackgroundReconnect c2)) else clearReconnecting c2)"
proof (cases "clReconnecting client \<or> \<not> isl (f 0 client) \<or> \<not> clAutoReconnect client \<or>
    \<not> isTransportError (projl (f 0 client)) \<or> \<not> clConnected client")
  case True
  then have "c' = client" using assms by (cases "f 0 client") (auto simp: doWithReconnect_def split: if_splits)
  then show thesis by (rule same)
next
  case False
  then obtain err where f: "f 0 client = Inl err" by (cases "f 0 client") auto
  obtain q c1 where q: "newConnection parse dial (client\<lparr>clReconnecting := True\<rparr>) = (q, c1)" by force
  note eq = assms [unfolded doWithReconnect_def Let_def f q]
  show thesis
  proof (cases q)
    case (Inl e)
    have "c' = (if clConnected c1 then snd (snd (startBackgroundReconnect c1)) else clearReconnecting c1)"
      using eq False f by (auto simp: Inl split: if_splits prod.splits)
    with False q Inl show thesis by (intro failed [of q c1 c1]) simp_all
  next
    case (Inr ke)
    obtain k e where ke: "ke = (k, e)" by force
    show thesis
    proof (cases "ready \<and> clConnected c1")
      case True
      with eq False f show thesis by (intro installed [of k e c1]) (auto simp: Inr ke q)
    next
      case notready: False
      let ?c2 = "close_connection (Some k) c1"
      have "c' = (if clConnected ?c2 then snd (snd (startBackgroundReconnect ?c2)) else clearReconnecting ?c2)"
        using eq False f notready by (auto simp: Inr ke split: if_splits prod.splits)
      with False q show thesis by (intro failed [of q c1 ?c2]) (simp_all add: Inr ke)
    qed
  qed
qed

lemma request_is_run:
  assumes "doWithReconnect parse dial ready f (wClient w) = (r, c', n)"
  shows "\<exists>bs. (client_step parse)\<^sup>*\<^sup>* w (w\<lparr>wClient := c', wBackground := wBackground w + bs\<rparr>)"
  using assms
proof (cases rule: doWithReconnect_cases)
  case same
  then show ?thesis by (intro exI [of _ "{#}"]) simp
next
  case (installed k e c1)
  let ?c = "(wClient w)\<lparr>clReconnecting := True\<rparr>"
  have "client_step parse w (handling w ?c Trying)"
    using client_step.swap_flag [OF installed(1,2), of parse] by (simp add: on_client_state_def world_updates)
  moreover have "client_step parse (handling w ?c Trying) (handling w (installConnection k c1) Installed)"
    using client_step.install [of "handling w ?c Trying" parse dial k e c1] installed(3,4) by (simp add: move_handler_def)
  ultimately have "(client_step parse)\<^sup>*\<^sup>* w (w\<lparr>wClient := c'\<rparr>)"
    using installed_run [of parse w "installConnection k c1"] unfolding installed(5) by (meson run_step)
  then show ?thesis by (intro exI [of _ "{#}"]) simp
next
  case (failed q c1 c2)
  let ?c = "(wClient w)\<lparr>clReconnecting := True\<rparr>"
  have "client_step parse w (handling w ?c Trying)"
    using client_step.swap_flag [OF failed(1,2), of parse] by (simp add: on_client_state_def world_updates)
  moreover have "client_step parse (handling w ?c Trying) (handling w c2 Failed)"
  proof (cases q)
    case (Inl err)
    then show ?thesis
      using client_step.no_connection [of "handling w ?c Trying" parse dial err c1] failed(3,4) by (simp add: move_handler_def)
  next
    case (Inr ke)
    then show ?thesis
      using client_step.not_ready [of "handling w ?c Trying" parse dial "fst ke" "snd ke" c1] failed(3,4)
      by (simp add: move_handler_def case_prod_beta)
  qed
  ultimately show ?thesis using failed_run [of parse w c2] unfolding failed(5) by (meson run_step)
qed

lemma disconnect_is_run: "(client_step parse)\<^sup>*\<^sup>* w (w\<lparr>wClient := DisconnectClient (wClient w)\<rparr>)"
proof -
  let ?at = "\<lambda>c d. w\<lparr>wClient := c, wDisconnect := wDisconnect w + {#d#}\<rparr>"
  let ?c1 = "bumpSequence (wClient w)"
  let ?c2 = "cancelBackground ?c1"
  have "client_step parse w (?at ?c1 Bumped)"
    using client_step.disconnect [of parse w] by (simp add: on_client_state_def world_updates)
  moreover have "client_step parse (?at ?c1 Bumped) (?at ?c2 BgCancelled)"
    using client_step.disconnect_cancel [of "?at ?c1 Bumped" parse] by (simp add: move_disconnect_def on_client_state_def)
  moreover have "client_step parse (?at ?c2 BgCancelled) (?at (clearReconnecting ?c2) Cleared)"
    using client_step.disconnect_clear [of "?at ?c2 BgCancelled" parse] by (simp add: move_disconnect_def on_client_state_def)
  moreover have "client_step parse (?at (clearReconnecting ?c2) Cleared) (w\<lparr>wClient := DisconnectClient (wClient w)\<rparr>)"
    using client_step.disconnect_close [of "?at (clearReconnecting ?c2) Cleared" parse]
    by (simp add: move_disconnect_def on_client_state_def DisconnectClient_def)
  ultimately show ?thesis by (meson run_step rtranclp.rtrancl_refl)
qed

lemma finish_is_run:
  assumes "Leaving n \<in># wBackground w"
  shows "(client_step parse)\<^sup>*\<^sup>* w
    (w\<lparr>wClient := finishBackground n (wClient w), wBackground := wBackground w - {#Leaving n#}\<rparr>)"
proof (cases "clSequence (wClient w) = n")
  case True
  let ?v = "w\<lparr>wBackground := wBackground w - {#Leaving n#} + {#Clearing#}\<rparr>"
  have "client_step parse w ?v" using client_step.bg_match [OF assms True, of parse] by (simp add: move_background_def)
  moreover have "client_step parse ?v (w\<lparr>wClient := finishBackground n (wClient w), wBackground := wBackground w - {#Leaving n#}\<rparr>)"
    using client_step.bg_clear [of ?v parse] True by (simp add: move_background_def on_client_state_def finishBackground_def)
  ultimately show ?thesis by (meson run_step rtranclp.rtrancl_refl)
next
  case False
  then show ?thesis
    using client_step.bg_stale [OF assms False, of parse] by (simp add: move_background_def finishBackground_def r_into_rtranclp)
qed

definition new_world :: "MountServiceClient \<Rightarrow> client_world" where
  "new_world client = \<lparr>wClient = client, wHandlers = {#}, wBackground = {#}, wDisconnect = {#}\<rparr>"

text \<open>
  C12: The client never wedges. However requests of any number of callers, background goroutines,
  connections and disconnections interleave, the flag that makes every request fail while a
  reconnection is under way is set only as long as somebody is going to clear it; so when no
  reconnection and no disconnection is in progress, requests go through again.
\<close>

theorem client_never_wedged:
  assumes "(client_step parse)\<^sup>*\<^sup>* (new_world (NewMountServiceClient address timeout auto)) w"
  shows "(clReconnecting (wClient w) \<longrightarrow> responsible w) \<and>
    (wHandlers w = {#} \<and> wBackground w = {#} \<and> wDisconnect w = {#} \<longrightarrow> \<not> clReconnecting (wClient w))"
proof -
  have "wedge_inv (new_world (NewMountServiceClient address timeout auto))"
    by (simp add: wedge_inv_def new_world_def NewMountServiceClient_def)
  with assms have "wedge_inv w" by (induction rule: rtranclp_induct) (auto intro: wedge_inv_step)
  then show ?thesis by (auto simp: wedge_inv_def responsible_def)
qed

theorem client_never_wedged_witness:
  "\<exists>w. (client_step sample_parse)\<^sup>*\<^sup>* (new_world (NewMountServiceClient ''unix:///run/s'' 0 True)) w \<and>
     clReconnecting (wClient w) \<and> responsible w"
proof -
  let ?v = "new_world (NewMountServiceClient ''unix:///run/s'' 0 True)"
  let ?w = "on_client_state (\<lambda>c. c\<lparr>clReconnecting := True\<rparr>) (?v\<lparr>wHandlers := wHandlers ?v + {#Trying#}\<rparr>)"
  have "client_step sample_parse ?v ?w"
    by (rule client_step.swap_flag) (simp_all add: new_world_def NewMountServiceClient_def)
  then have r: "(client_step sample_parse)\<^sup>*\<^sup>* ?v ?w" by (rule r_into_rtranclp)
  moreover have "clReconnecting (wClient ?w)" by (simp add: on_client_state_def)
  ultimately show ?thesis using client_never_wedged [OF r] by blast
qed

section \<open>The intervals of the background reconnection\<close>

lemma nextInterval_power: "(nextInterval ^^ k) reconnectInitialInterval = min (2 ^ k * second) minute"
proof (induction k)
  case 0
  then show ?case by (simp add: reconnectInitialInterval_def)
next
  case (Suc k)
  then show ?case by (simp add: nextInterval_def reconnectMaxInterval_def min_def)
qed

lemma bgLoop_intervals:
  "bgLoop parse interval rds client = (r, is, client') \<Longrightarrow>
     is = map (\<lambda>k. (nextInterval ^^ k) interval) [0..<length is] \<and> length is \<le> length rds"
proof (induction parse interval rds client arbitrary: r "is" client' rule: bgLoop.induct)
  case (2 parse interval rd rds client)
  have step: "interval # js = map (\<lambda>k. (nextInterval ^^ k) interval) [0..<Suc (length js)]"
    if "js = map (\<lambda>k. (nextInterval ^^ k) (nextInterval interval)) [0..<length js]" for js
  proof -
    have "map (\<lambda>k. (nextInterval ^^ k) interval) [0..<Suc (length js)] =
        interval # map (\<lambda>k. (nextInterval ^^ Suc k) interval) [0..<length js]"
      by (simp add: upt_conv_Cons map_Suc_upt [symmetric] comp_def del: upt_Suc funpow.simps)
    then show ?thesis using that by (simp add: funpow_swap1)
  qed
  show ?case
  proof (cases "rdContextErr rd \<or> \<not> clConnected client")
    case False
    obtain a c where a: "bgAttempt parse rd client = (a, c)" by force
    show ?thesis
    proof (cases "a = StillTrying")
      case True
      obtain r1 js c1 where l: "bgLoop parse (nextInterval interval) rds c = (r1, js, c1)" by (metis prod_cases3)
      have "is = interval # js" using "2.prems" False a True l by simp
      then show ?thesis using "2.IH" [OF False a [symmetric] True l] step [of js] by simp
    next
      case a': False
      then have "is = [interval]" using "2.prems" False a by (cases a) simp_all
      then show ?thesis by simp
    qed
  qed (use "2.prems" in simp)
qed simp

text \<open>
  The background reconnection backs off exponentially and never waits longer than a minute for
  one attempt: the k-th attempt (from 0) waits \<open>2\<^sup>k\<close> seconds, at most sixty, whatever the outcomes
  of the attempts.
\<close>

theorem reconnect_backoff:
  assumes "backgroundReconnect parse sequence rds client = (r, is, client')" and "k < length is"
  shows "is ! k = min (2 ^ k * second) minute"
proof -
  obtain r1 c1 where b: "bgLoop parse reconnectInitialInterval rds client = (r1, is, c1)"
    using assms(1) by (auto simp: backgroundReconnect_def split: prod.splits bg_result.splits)
  have "is ! k = map (\<lambda>k. (nextInterval ^^ k) reconnectInitialInterval) [0..<length is] ! k"
    using bgLoop_intervals [OF b] by simp
  also have "\<dots> = min (2 ^ k * second) minute" using assms(2) by (simp add: nextInterval_power)
  finally show ?thesis .
qed

definition failing_round :: bg_round where
  "failing_round = \<lparr>rdContextErr = False, rdDial = (\<lambda>s e. Some (errors_New ''refused'')), rdReady = False,
     rdErrAtInstall = False, rdErrAfter = False\<rparr>"

theorem reconnect_backoff_witness:
  "\<exists>is client'. backgroundReconnect sample_parse 1 (replicate 3 failing_round) sample_client = (StillTrying, is, client') \<and>
     length is = 3 \<and> is ! 2 = 4 * second"
proof -
  have n: "newConnection sample_parse (rdDial failing_round) sample_client =
      (Inl (errors_Wrapf (errors_New ''refused'') [Lit ''failed to create gRPC client for '', Quoted (clAddress sample_client)]),
       sample_client)"
    by (simp add: newConnection_def sample_client_def NewMountServiceClient_def sample_service_endpoint failing_round_def)
  have a: "bgAttempt sample_parse failing_round sample_client = (StillTrying, sample_client)"
    by (simp add: bgAttempt_def n) (simp add: failing_round_def)
  have "clConnected sample_client" "\<not> rdContextErr failing_round"
    by (simp_all add: sample_client_def failing_round_def)
  then obtain "is" client' where b: "backgroundReconnect sample_parse 1 (replicate 3 failing_round) sample_client =
      (StillTrying, is, client')" and l: "length is = 3"
    by (simp add: backgroundReconnect_def numeral_3_eq_3 a)
  from reconnect_backoff [OF b, of 2] l have "is ! 2 = 4 * second" by simp
  with b l show ?thesis by blast
qed

end
