(* ===== verification/Durations.thy ===== *)
theory Durations
  imports RetryPolicy GoStrings
begin

text \<open>
  The durations of the configuration (\<open>commons/duration.go\<close>): decoding from JSON and YAML and
  encoding to JSON, with what they use of package time: \<open>ParseDuration\<close> and \<open>Duration.String\<close>.
  \<open>uint64\<close> values are \<open>nat\<close> with the one sum that can wrap written \<open>mod 2 ^ 64\<close>; a fraction is
  multiplied in \<open>float64\<close>. Reading a JSON text is a parameter. The lemmas show that every duration
  that is written is read back, in JSON and in YAML.
\<close>

section \<open>Parsing\<close>

definition is_digit :: "char \<Rightarrow> bool" where
  "is_digit c \<longleftrightarrow> 48 \<le> (of_char c :: nat) \<and> (of_char c :: nat) \<le> 57"

definition digit_val :: "char \<Rightarrow> nat" where
  "digit_val c = of_char c - 48"

text \<open>\<open>None\<close>: the number overflows.\<close>

fun leadingInt :: "nat \<Rightarrow> string \<Rightarrow> (nat \<times> string) option" where
  "leadingInt x [] = Some (x, [])"
| "leadingInt x (c # s) =
     (if \<not> is_digit c then Some (x, c # s)
      else if x > 2 ^ 63 div 10 then None
      else (let x' = x * 10 + digit_val c in if x' > 2 ^ 63 then None else leadingInt x' s))"

text \<open>
  The digits after the point: their value and the power of ten they are scaled by, which is exact
  in \<open>float64\<close> since at most nineteen digits count.
\<close>

fun leadingFraction :: "nat \<Rightarrow> nat \<Rightarrow> bool \<Rightarrow> string \<Rightarrow> nat \<times> nat \<times> string" where
  "leadingFraction x scale overflow [] = (x, scale, [])"
| "leadingFraction x scale overflow (c # s) =
     (if \<not> is_digit c then (x, scale, c # s)
      else if overflow \<or> x > (2 ^ 63 - 1) div 10 then leadingFraction x scale True s
      else (let y = x * 10 + digit_val c
            in if y > 2 ^ 63 then leadingFraction x scale True s
               else leadingFraction y (scale * 10) False s))"

definition unitMap :: "(string \<times> nat) list" where
  "unitMap =
     [(''ns'', 1),
      (''us'', 1000),
      ([CHR 0xC2, CHR 0xB5, CHR ''s''], 1000),
      ([CHR 0xCE, CHR 0xBC, CHR ''s''], 1000),
      (''ms'', 1000000),
      (''s'', 1000000000),
      (''m'', 60 * 1000000000),
      (''h'', 60 * 60 * 1000000000)]"

definition invalid_duration :: "string \<Rightarrow> gerror" where
  "invalid_duration orig = errors_Errorf [Lit ''time: invalid duration '', Quoted orig]"

text \<open>One number with its unit, and the rest of the text.\<close>

definition parseUnit :: "string \<Rightarrow> string \<Rightarrow> (nat \<times> string) result" where
  "parseUnit orig s =
     (if \<not> (hd s = CHR ''.'' \<or> is_digit (hd s)) then Inl (invalid_duration orig)
      else case leadingInt 0 s of
        None \<Rightarrow> Inl (invalid_duration orig)
      | Some (v, s1) \<Rightarrow>
          (let pre = (length s1 \<noteq> length s);
               (f, scale, s2) = (if s1 \<noteq> [] \<and> hd s1 = CHR ''.'' then leadingFraction 0 1 False (tl s1) else (0, 1, s1));
               post = (s1 \<noteq> [] \<and> hd s1 = CHR ''.'' \<and> length s2 \<noteq> length (tl s1));
               u = takeWhile (\<lambda>c. \<not> (c = CHR ''.'' \<or> is_digit c)) s2;
               s3 = drop (length u) s2
           in if \<not> pre \<and> \<not> post then Inl (invalid_duration orig)
              else if u = [] then Inl (errors_Errorf [Lit ''time: missing unit in duration '', Quoted orig])
              else case map_of unitMap u of
                None \<Rightarrow> Inl (errors_Errorf [Lit ''time: unknown unit '', Quoted u, Lit '' in duration '', Quoted orig])
              | Some unit \<Rightarrow>
                  (if v > 2 ^ 63 div unit then Inl (invalid_duration orig)
                   else
                     (let w = v * unit +
                        (if f > 0 then nat \<lfloor>rnd64 (rnd64 (real f) * rnd64 (rnd64 (real unit) / real scale))\<rfloor> else 0)
                      in if w > 2 ^ 63 then Inl (invalid_duration orig) else Inr (w, s3)))))"

lemma leadingInt_shorter: "leadingInt x s = Some (v, s') \<Longrightarrow> length s' \<le> length s"
  by (induction x s rule: leadingInt.induct) (auto simp: Let_def split: if_splits)

lemma leadingFraction_shorter: "leadingFraction x k b s = (f, k', s') \<Longrightarrow> length s' \<le> length s"
  by (induction x k b s rule: leadingFraction.induct) (auto simp: Let_def split: if_splits)

lemma parseUnit_shorter:
  assumes "parseUnit orig s = Inr (w, s')"
  shows "length s' < length s"
proof -
  from assms obtain v s1 f k s2 u where l: "leadingInt 0 s = Some (v, s1)"
    and f: "(if s1 \<noteq> [] \<and> hd s1 = CHR ''.'' then leadingFraction 0 1 False (tl s1) else (0, 1, s1)) = (f, k, s2)"
    and u: "u = takeWhile (\<lambda>c. \<not> (c = CHR ''.'' \<or> is_digit c)) s2" "u \<noteq> []" "s' = drop (length u) s2"
    by (auto simp: parseUnit_def Let_def split: if_splits option.splits prod.splits)
  have "length s2 \<le> length s1"
    using f leadingFraction_shorter [of 0 1 False "tl s1" f k s2] by (cases s1) (auto split: if_splits)
  moreover have "length s' < length s2" using u by (cases s2) (auto split: if_splits)
  ultimately show ?thesis using leadingInt_shorter [OF l] by simp
qed

function parseUnits :: "string \<Rightarrow> nat \<Rightarrow> string \<Rightarrow> nat result" where
  "parseUnits orig d s =
     (if s = [] then Inr d
      else case parseUnit orig s of
             Inl err \<Rightarrow> Inl err
           | Inr (v, s') \<Rightarrow>
               (let d' = (d + v) mod 2 ^ 64
                in if d' > 2 ^ 63 then Inl (invalid_duration orig) else parseUnits orig d' s'))"
  by pat_completeness auto
termination
  by (relation "measure (\<lambda>(orig, d, s). length s)") (auto dest: parseUnit_shorter)

declare parseUnits.simps [simp del]

definition ParseDuration :: "string \<Rightarrow> duration result" where
  "ParseDuration s =
     (let neg = (s \<noteq> [] \<and> hd s = CHR ''-'');
          t = (if s \<noteq> [] \<and> (hd s = CHR ''-'' \<or> hd s = CHR ''+'') then tl s else s)
      in if t = ''0'' then Inr 0
         else if t = [] then Inl (invalid_duration s)
         else case parseUnits s 0 t of
                Inl err \<Rightarrow> Inl err
              | Inr d \<Rightarrow>
                  (if neg then Inr (- int d)
                   else if d > 2 ^ 63 - 1 then Inl (invalid_duration s)
                   else Inr (int d)))"

section \<open>Printing\<close>

text \<open>The fraction without trailing zeros, and the whole part.\<close>

fun fmtFrac :: "nat \<Rightarrow> nat \<Rightarrow> bool \<Rightarrow> string \<Rightarrow> string \<times> nat" where
  "fmtFrac 0 v print acc = ((if print then CHR ''.'' # acc else acc), v)"
| "fmtFrac (Suc i) v print acc =
     (let digit = v mod 10; print' = (print \<or> digit \<noteq> 0)
      in fmtFrac i (v div 10) print' (if print' then digit_char digit # acc else acc))"

definition duration_body :: "nat \<Rightarrow> string" where
  "duration_body u =
     (if u < 1000000000 then
        (if u = 0 then ''0s''
         else
           (let (prec, unit) = (if u < 1000 then (0, ''ns'')
                                else if u < 1000000 then (3, [CHR 0xC2, CHR 0xB5, CHR ''s''])
                                else (6, ''ms''));
                (frac, v) = fmtFrac prec u False []
            in show_nat v @ frac @ unit))
      else
        (let (frac, v) = fmtFrac 9 u False [];
             seconds = show_nat (v mod 60) @ frac @ ''s'';
             v = v div 60
         in if v > 0
            then (let minutes = show_nat (v mod 60) @ ''m'' @ seconds; v = v div 60
                  in if v > 0 then show_nat v @ ''h'' @ minutes else minutes)
            else seconds))"

definition duration_String :: "duration \<Rightarrow> string" where
  "duration_String d = (if d < 0 then CHR ''-'' # duration_body (nat (- d)) else duration_body (nat d))"

section \<open>Encoding and decoding\<close>

text \<open>No character of a printed duration is escaped in JSON.\<close>

definition Duration_MarshalJSON :: "duration \<Rightarrow> string" where
  "Duration_MarshalJSON d = [CHR 0x22] @ duration_String d @ [CHR 0x22]"

datatype json_value = JSONNumber real | JSONString string | JSONOther

text \<open>The conversion of a \<open>float64\<close> to \<open>int64\<close>; out of range it is what amd64 gives.\<close>

definition float_int64 :: "real \<Rightarrow> int" where
  "float_int64 x =
     (let i = (if x \<ge> 0 then \<lfloor>x\<rfloor> else \<lceil>x\<rceil>) in if - (2 ^ 63) \<le> i \<and> i < 2 ^ 63 then i else - (2 ^ 63))"

definition Duration_UnmarshalJSON :: "(string \<Rightarrow> json_value result) \<Rightarrow> string \<Rightarrow> duration result" where
  "Duration_UnmarshalJSON json b =
     (let failed = (\<lambda>err. Inl (errors_Wrapf err [Lit ''failed to parse '', Quoted b, Lit '' to time.Duration'']))
      in case json b of
           Inl err \<Rightarrow> failed err
         | Inr (JSONNumber value) \<Rightarrow> Inr (float_int64 value)
         | Inr (JSONString value) \<Rightarrow>
             (case ParseDuration value of Inl err \<Rightarrow> failed err | Inr tmp \<Rightarrow> Inr tmp)
         | Inr JSONOther \<Rightarrow> Inl (errors_Errorf [Lit ''failed to parse '', Quoted b, Lit '' to time.Duration'']))"

text \<open>
  \<open>scalar\<close> is what the YAML library delivers for the node. \<open>None\<close>: the method panics, since it looks
  at the last byte of an empty string.
\<close>

definition Duration_UnmarshalYAML :: "string result \<Rightarrow> duration result option" where
  "Duration_UnmarshalYAML scalar =
     (case scalar of
        Inl err \<Rightarrow> Some (Inl (errors_Wrapf err [Lit ''failed to parse '', Quoted [], Lit '' to time.Duration'']))
      | Inr tm \<Rightarrow>
          (if tm = [] then None
           else
             (let tm = (if is_digit (last tm) then tm @ ''ns'' else tm)
              in case ParseDuration tm of
                   Inl err \<Rightarrow> Some (Inl (errors_Wrapf err [Lit ''failed to parse '', Quoted tm, Lit '' to time.Duration'']))
                 | Inr td \<Rightarrow> Some (Inr td))))"

section \<open>Numbers\<close>

lemma decimal_Cons:
  "decimal x (c # ds) = (if is_digit c then decimal (x * 10 + digit_val c) ds else None)"
  by (simp add: is_digit_def digit_val_def Let_def)

lemma decimal_shift: "decimal x ds = map_option (\<lambda>a. x * 10 ^ length ds + a) (decimal 0 ds)"
proof (induction ds arbitrary: x)
  case (Cons c ds)
  show ?case
  proof (cases "is_digit c")
    case True
    then have "decimal x (c # ds) = map_option (\<lambda>a. (x * 10 + digit_val c) * 10 ^ length ds + a) (decimal 0 ds)"
      using Cons [of "x * 10 + digit_val c"] by (simp only: decimal_Cons if_True)
    moreover have "decimal 0 (c # ds) = map_option (\<lambda>a. digit_val c * 10 ^ length ds + a) (decimal 0 ds)"
      using True Cons [of "digit_val c"] by (simp add: decimal_Cons del: decimal.simps)
    ultimately show ?thesis by (simp add: option.map_comp comp_def algebra_simps del: decimal.simps)
  qed (simp add: decimal_Cons del: decimal.simps)
qed simp

lemma decimal_digits: "decimal x ds = Some n \<Longrightarrow> list_all is_digit ds"
  by (induction ds arbitrary: x) (auto simp: decimal_Cons simp del: decimal.simps(2) split: if_splits)

lemma decimal_ge: "decimal x ds = Some n \<Longrightarrow> x \<le> n"
  using decimal_shift [of x ds] by (auto intro: trans_le_add1)

definition stops :: "string \<Rightarrow> bool" where
  "stops t \<longleftrightarrow> t = [] \<or> \<not> is_digit (hd t)"

lemma leadingInt_decimal:
  "decimal x ds = Some n \<Longrightarrow> n \<le> 2 ^ 63 \<Longrightarrow> stops t \<Longrightarrow> leadingInt x (ds @ t) = Some (n, t)"
proof (induction ds arbitrary: x)
  case Nil
  then show ?case by (cases t) (auto simp: stops_def)
next
  case (Cons c ds)
  have c: "is_digit c" using decimal_digits [OF Cons.prems(1)] by simp
  let ?y = "x * 10 + digit_val c"
  have d: "decimal ?y ds = Some n" using Cons.prems(1) c by (simp only: decimal_Cons if_True)
  then have "?y \<le> 2 ^ 63" using decimal_ge Cons.prems(2) by (meson order_trans)
  moreover from this have "\<not> x > 2 ^ 63 div 10" by simp
  ultimately show ?case using c Cons.IH [OF d Cons.prems(2,3)] by (simp add: Let_def)
qed

lemma leadingFraction_decimal:
  "decimal x ds = Some n \<Longrightarrow> n < 2 ^ 63 div 10 \<Longrightarrow> stops t \<Longrightarrow>
     leadingFraction x k False (ds @ t) = (n, k * 10 ^ length ds, t)"
proof (induction ds arbitrary: x k)
  case Nil
  then show ?case by (cases t) (auto simp: stops_def)
next
  case (Cons c ds)
  have c: "is_digit c" using decimal_digits [OF Cons.prems(1)] by simp
  let ?y = "x * 10 + digit_val c"
  have d: "decimal ?y ds = Some n" using Cons.prems(1) c by (simp only: decimal_Cons if_True)
  then have "?y < 2 ^ 63 div 10" using decimal_ge Cons.prems(2) by (meson order_le_less_trans)
  then have n: "\<not> x > (2 ^ 63 - 1) div 10" "\<not> ?y > 2 ^ 63" by simp_all
  have "leadingFraction x k False ((c # ds) @ t) = leadingFraction ?y (k * 10) False (ds @ t)"
    using c n by (simp only: append_Cons leadingFraction.simps(2) Let_def simp_thms if_False if_True)
  also have "\<dots> = (n, k * 10 * 10 ^ length ds, t)" using Cons.prems(2,3) by (rule Cons.IH [OF d])
  finally show ?case by (simp add: mult.assoc)
qed

section \<open>The printed fraction\<close>

lemma mod_power_Suc: "(v::nat) mod 10 ^ Suc i = v div 10 mod 10 ^ i * 10 + v mod 10"
  using mod_mult2_eq [of v 10 "10 ^ i"] by (simp add: mult.commute)

lemma fmtFrac_printed:
  assumes "decimal 0 acc = Some a"
  shows "\<exists>fs. fmtFrac i v True acc = (CHR ''.'' # fs, v div 10 ^ i) \<and> length fs = i + length acc \<and>
    decimal 0 fs = Some (v mod 10 ^ i * 10 ^ length acc + a)"
  using assms
proof (induction i arbitrary: v acc a)
  case (Suc i)
  let ?acc = "digit_char (v mod 10) # acc"
  have "decimal 0 ?acc = Some (v mod 10 * 10 ^ length acc + a)"
    using decimal_shift [of "v mod 10" acc] Suc.prems by (simp only: decimal_digit mod_less_divisor) simp
  from Suc.IH [OF this, of "v div 10"] obtain fs where "fmtFrac i (v div 10) True ?acc = (CHR ''.'' # fs, v div 10 div 10 ^ i)"
    "length fs = i + length ?acc"
    "decimal 0 fs = Some (v div 10 mod 10 ^ i * 10 ^ length ?acc + (v mod 10 * 10 ^ length acc + a))" by blast
  moreover have "v div 10 ^ Suc i = v div 10 div 10 ^ i" by (simp add: div_mult2_eq)
  moreover have "v mod 10 ^ Suc i * 10 ^ length acc = v div 10 mod 10 ^ i * 10 ^ length ?acc + v mod 10 * 10 ^ length acc"
    unfolding mod_power_Suc by (simp add: algebra_simps)
  ultimately show ?case by (simp add: add.assoc del: power_Suc)
qed simp

lemma fmtFrac_cases:
  obtains (whole) "fmtFrac p u False [] = ([], u div 10 ^ p)" "u mod 10 ^ p = 0"
    | (fraction) fs f where "fmtFrac p u False [] = (CHR ''.'' # fs, u div 10 ^ p)" "decimal 0 fs = Some f"
        "fs \<noteq> []" "length fs \<le> p" "0 < f" "f * 10 ^ (p - length fs) = u mod 10 ^ p"
proof -
  have "(fmtFrac p u False [] = ([], u div 10 ^ p) \<and> u mod 10 ^ p = 0) \<or>
    (\<exists>fs f. fmtFrac p u False [] = (CHR ''.'' # fs, u div 10 ^ p) \<and> decimal 0 fs = Some f \<and> fs \<noteq> [] \<and>
       length fs \<le> p \<and> 0 < f \<and> f * 10 ^ (p - length fs) = u mod 10 ^ p)"
  proof (induction p arbitrary: u)
    case (Suc i)
    show ?case
    proof (cases "u mod 10 = 0")
      case True
      then have "fmtFrac (Suc i) u False [] = fmtFrac i (u div 10) False []" by simp
      moreover have "u mod 10 ^ Suc i = u div 10 mod 10 ^ i * 10" using True unfolding mod_power_Suc by simp
      moreover have "u div 10 div 10 ^ i = u div 10 ^ Suc i" by (simp add: div_mult2_eq)
      moreover have "f * 10 ^ (Suc i - j) = u div 10 mod 10 ^ i * 10"
        if "f * 10 ^ (i - j) = u div 10 mod 10 ^ i" "j \<le> i" for f j
        using that by (simp add: Suc_diff_le mult.assoc [symmetric])
      ultimately show ?thesis using Suc.IH [of "u div 10"] by (auto simp del: power_Suc fmtFrac.simps)
    next
      case False
      have "decimal 0 [digit_char (u mod 10)] = Some (u mod 10)" by (simp add: decimal_digit del: decimal.simps(2))
      from fmtFrac_printed [OF this, of i "u div 10"] obtain fs where fs:
        "fmtFrac i (u div 10) True [digit_char (u mod 10)] = (CHR ''.'' # fs, u div 10 div 10 ^ i)" "length fs = Suc i"
        "decimal 0 fs = Some (u mod 10 ^ Suc i)" by (auto simp: mod_power_Suc simp del: power_Suc)
      have "0 < u mod 10 ^ Suc i" using False unfolding mod_power_Suc by simp
      then show ?thesis using fs False
        by (intro disjI2 exI [of _ fs] exI [of _ "u mod 10 ^ Suc i"]) (auto simp: div_mult2_eq Let_def)
    qed
  qed simp
  then show thesis by (elim disjE exE conjE) (rule whole, assumption+, rule fraction, assumption+)
qed

section \<open>Reading one number with its unit\<close>

definition unit_name :: "string \<Rightarrow> bool" where
  "unit_name u \<longleftrightarrow> u \<noteq> [] \<and> list_all (\<lambda>c. \<not> (c = CHR ''.'' \<or> is_digit c)) u"

text \<open>What may follow a unit: nothing, or the next number.\<close>

definition next_number :: "string \<Rightarrow> bool" where
  "next_number t \<longleftrightarrow> t = [] \<or> is_digit (hd t)"

lemma unit_taken:
  assumes "unit_name u" and "next_number t"
  shows "takeWhile (\<lambda>c. \<not> (c = CHR ''.'' \<or> is_digit c)) (u @ t) = u"
proof -
  have "takeWhile (\<lambda>c. \<not> (c = CHR ''.'' \<or> is_digit c)) t = []"
    using assms(2) by (cases t) (auto simp: next_number_def)
  then show ?thesis using assms(1) by (subst takeWhile_append2) (auto simp: unit_name_def list_all_iff)
qed

lemma unit_stops: "unit_name u \<Longrightarrow> stops (u @ t)" "unit_name u \<Longrightarrow> hd (u @ t) \<noteq> CHR ''.''"
  by (cases u; auto simp: unit_name_def stops_def)+

lemma show_nat_hd: "is_digit (hd (show_nat n @ t))"
  using show_nat_digits [of "hd (show_nat n)" n] by (simp add: is_digit_def)

lemma parseUnit_whole:
  assumes "map_of unitMap u = Some m" and "unit_name u" and "next_number t" and "n * m \<le> 2 ^ 63" and "0 < m"
  shows "parseUnit orig (show_nat n @ u @ t) = Inr (n * m, t)"
proof -
  have n: "n \<le> 2 ^ 63 div m" using assms(4,5) by (simp add: less_eq_div_iff_mult_less_eq)
  have "n \<le> 2 ^ 63" using n by (rule order_trans) simp
  then have l: "leadingInt 0 (show_nat n @ u @ t) = Some (n, u @ t)"
    using unit_stops(1) [OF assms(2)] by (intro leadingInt_decimal) (simp_all add: decimal_show_nat)
  have "u \<noteq> []" using assms(2) by (simp add: unit_name_def)
  then show ?thesis
    unfolding parseUnit_def
    using show_nat_hd [of n "u @ t"] l unit_stops(2) [OF assms(2), of t] unit_taken [OF assms(2,3)] n assms(1,4)
    by (simp add: Let_def not_less)
qed

lemma rnd64_fraction:
  assumes "j \<le> p" and "p \<le> 9" and "f * 10 ^ (p - j) < 10 ^ p"
  shows "nat \<lfloor>rnd64 (rnd64 (real f) * rnd64 (rnd64 (real (10 ^ p)) / real (10 ^ j)))\<rfloor> = f * 10 ^ (p - j)"
proof -
  have exact: "rnd64 (real k) = real k" if "k \<le> 10 ^ 9" for k :: nat
    using rnd64_of_int [of "int k"] that by simp
  have p9: "(10::nat) ^ p \<le> 10 ^ 9" using assms(2) by (intro power_increasing) simp_all
  have small: "f * 10 ^ (p - j) \<le> 10 ^ 9" using assms(3) p9 by linarith
  have "f \<le> f * 10 ^ (p - j)" by simp
  then have f: "f \<le> 10 ^ 9" using small by linarith
  have q: "(10::nat) ^ (p - j) \<le> 10 ^ 9" using assms(2) by (intro power_increasing) simp_all
  have "real (10 ^ p) / real (10 ^ j) = real (10 ^ (p - j))" using assms(1) by (simp add: of_nat_power power_diff [symmetric])
  then have "rnd64 (real f) * rnd64 (rnd64 (real (10 ^ p)) / real (10 ^ j)) = real (f * 10 ^ (p - j))"
    using exact [OF p9] exact [OF q] exact [OF f] by (simp del: of_nat_power)
  then show ?thesis using exact [OF small] by (simp del: of_nat_power of_nat_mult)
qed

lemma parseUnit_fraction:
  assumes "map_of unitMap u = Some (10 ^ p)" and "unit_name u" and "next_number t" and "p \<le> 9"
    and "n * 10 ^ p + v mod 10 ^ p \<le> 2 ^ 63"
  shows "parseUnit orig (show_nat n @ fst (fmtFrac p v False []) @ u @ t) = Inr (n * 10 ^ p + v mod 10 ^ p, t)"
proof (cases rule: fmtFrac_cases [of p v])
  case whole
  then show ?thesis using parseUnit_whole [OF assms(1-3)] assms(5) by simp
next
  case (fraction fs f)
  let ?rest = "CHR ''.'' # fs @ u @ t"
  have n: "n \<le> 2 ^ 63 div 10 ^ p" using assms(5) by (simp add: less_eq_div_iff_mult_less_eq)
  have "n \<le> 2 ^ 63" using n by (rule order_trans) simp
  then have l: "leadingInt 0 (show_nat n @ ?rest) = Some (n, ?rest)"
    by (intro leadingInt_decimal) (simp_all add: decimal_show_nat stops_def is_digit_def)
  have "v mod 10 ^ p < 10 ^ p" by simp
  then have b: "f * 10 ^ (p - length fs) < 10 ^ p" using fraction(6) by simp
  have "f \<le> f * 10 ^ (p - length fs)" by simp
  also note b
  also have "(10::nat) ^ p \<le> 10 ^ 9" using assms(4) by (intro power_increasing) simp_all
  finally have "f < 2 ^ 63 div 10" by simp
  then have fr: "leadingFraction 0 1 False (fs @ u @ t) = (f, 10 ^ length fs, u @ t)"
    using leadingFraction_decimal [OF fraction(2) _ unit_stops(1) [OF assms(2), of t], of 1] by simp
  have r: "nat \<lfloor>rnd64 (rnd64 (real f) * rnd64 (rnd64 (real (10 ^ p)) / real (10 ^ length fs)))\<rfloor> = v mod 10 ^ p"
    using rnd64_fraction [OF fraction(4) assms(4) b] fraction(6) by simp
  have "u \<noteq> []" using assms(2) by (simp add: unit_name_def)
  then show ?thesis
    unfolding parseUnit_def fraction(1) fst_conv append_Cons
    using show_nat_hd [of n ?rest] l fr unit_taken [OF assms(2,3)] n assms(1,5) fraction(5) r
    by (simp add: Let_def not_less del: of_nat_power)
qed

section \<open>Every duration is read back\<close>

lemma parseUnits_step:
  assumes "parseUnit orig s = Inr (v, t)" and "s \<noteq> []" and "d + v \<le> 2 ^ 63"
  shows "parseUnits orig d s = parseUnits orig (d + v) t"
proof -
  have "(d + v) mod 2 ^ 64 = d + v" using assms(3) by simp
  then show ?thesis using assms by (subst parseUnits.simps) (simp add: Let_def not_less)
qed

lemma parseUnits_Nil [simp]: "parseUnits orig d [] = Inr d"
  by (simp add: parseUnits.simps)

lemma unit_names [simp]:
  "unit_name ''ns''" "unit_name [CHR 0xC2, CHR 0xB5, CHR ''s'']" "unit_name ''ms''" "unit_name ''s''"
  "unit_name ''m''" "unit_name ''h''"
  by (simp_all add: unit_name_def is_digit_def)

lemma unit_values [simp]:
  "map_of unitMap ''ns'' = Some 1" "map_of unitMap [CHR 0xC2, CHR 0xB5, CHR ''s''] = Some 1000"
  "map_of unitMap ''ms'' = Some 1000000" "map_of unitMap ''s'' = Some 1000000000"
  "map_of unitMap ''m'' = Some 60000000000" "map_of unitMap ''h'' = Some 3600000000000"
  by (simp_all add: unitMap_def)

lemma next_number_show [simp]: "next_number []" "next_number (show_nat n @ t)"
  using show_nat_hd by (simp_all add: next_number_def)

lemma fmtFrac_snd: "snd (fmtFrac p u False []) = u div 10 ^ p"
  by (cases rule: fmtFrac_cases [of p u]) simp_all

lemma parse_small:
  assumes "map_of unitMap name = Some (10 ^ p)" and "unit_name name" and "p \<le> 9" and "u < 10 ^ 9"
  shows "parseUnits orig 0 (show_nat (snd (fmtFrac p u False [])) @ fst (fmtFrac p u False []) @ name) = Inr u"
proof -
  have v: "u div 10 ^ p * 10 ^ p + u mod 10 ^ p = u" by (rule div_mult_mod_eq)
  have "parseUnit orig (show_nat (u div 10 ^ p) @ fst (fmtFrac p u False []) @ name @ []) = Inr (u, [])"
    using parseUnit_fraction [OF assms(1,2) _ assms(3), of "[]" "u div 10 ^ p" u orig] assms(4) unfolding v by simp
  from parseUnits_step [OF this, of 0] assms(4) show ?thesis by (simp add: fmtFrac_snd)
qed

lemma parse_seconds:
  assumes "d + (n * 1000000000 + u mod 1000000000) \<le> 2 ^ 63"
  shows "parseUnits orig d (show_nat n @ fst (fmtFrac 9 u False []) @ ''s'') =
    Inr (d + (n * 1000000000 + u mod 1000000000))"
proof -
  have "parseUnit orig (show_nat n @ fst (fmtFrac 9 u False []) @ ''s'' @ []) = Inr (n * 10 ^ 9 + u mod 10 ^ 9, [])"
    using assms by (intro parseUnit_fraction) (simp_all del: append_Nil2)
  from parseUnits_step [OF this, of d] assms show ?thesis by simp
qed

lemma parse_next:
  assumes "map_of unitMap name = Some m" and "unit_name name" and "0 < m" and "d + n * m \<le> 2 ^ 63"
  shows "parseUnits orig d (show_nat n @ name @ show_nat k @ t) = parseUnits orig (d + n * m) (show_nat k @ t)"
  using assms by (intro parseUnits_step parseUnit_whole) simp_all

lemma hours_minutes:
  "(u::nat) = v * 1000000000 + q \<Longrightarrow> v = w * 60 + r \<Longrightarrow> w = k * 60 + n \<Longrightarrow>
     k * 3600000000000 + n * 60000000000 + (r * 1000000000 + q) = u"
  by simp

lemma duration_body_parsed:
  assumes "u \<le> 2 ^ 63"
  shows "parseUnits orig 0 (duration_body u) = Inr u"
proof (cases "u < 1000000000")
  case True
  show ?thesis
  proof (cases "u = 0")
    case True
    have "show_nat 0 = ''0''" by code_simp
    then show ?thesis
      using parseUnits_step [OF parseUnit_whole [of "''s''" 1000000000 "[]" 0 orig], of 0] True
      by (simp add: duration_body_def)
  next
    case False
    with True show ?thesis
      using parse_small [of "''ns''" 0 u orig] parse_small [of "[CHR 0xC2, CHR 0xB5, CHR ''s'']" 3 u orig]
        parse_small [of "''ms''" 6 u orig]
      by (simp add: duration_body_def case_prod_beta)
  qed
next
  case False
  define v where "v = u div 1000000000"
  have snd: "snd (fmtFrac 9 u False []) = v" by (simp add: fmtFrac_snd v_def)
  have u: "u = v * 1000000000 + u mod 1000000000" by (simp add: v_def)
  let ?s = "fst (fmtFrac 9 u False []) @ ''s''"
  consider (s) "v div 60 = 0" | (m) "v div 60 > 0" "v div 60 div 60 = 0" | (h) "v div 60 div 60 > 0" by linarith
  then show ?thesis
  proof cases
    case s
    then have "v mod 60 = v" by simp
    then show ?thesis using False s parse_seconds [of 0 v u orig] u assms
      by (simp add: duration_body_def case_prod_beta snd)
  next
    case m
    define n where "n = v div 60"
    have n: "v = n * 60 + v mod 60" "n mod 60 = n" using m(2) by (simp_all add: n_def)
    have t: "n * 60000000000 + (v mod 60 * 1000000000 + u mod 1000000000) = u" using u n(1) by linarith
    have "duration_body u = show_nat n @ ''m'' @ show_nat (v mod 60) @ ?s"
      using False m n(2) by (simp add: duration_body_def case_prod_beta snd n_def [symmetric])
    then show ?thesis
      using parse_next [of "''m''" 60000000000 0 n orig "v mod 60" ?s] parse_seconds [of "n * 60000000000" "v mod 60" u orig] t assms
      by simp
  next
    case h
    define n where "n = v div 60 mod 60"
    define k where "k = v div 60 div 60"
    have "v = v div 60 * 60 + v mod 60" "v div 60 = k * 60 + n" by (simp_all only: n_def k_def div_mult_mod_eq)
    from hours_minutes [OF u this]
    have t: "k * 3600000000000 + n * 60000000000 + (v mod 60 * 1000000000 + u mod 1000000000) = u" .
    have "v div 60 > 0" using h by (cases "v div 60") simp_all
    then have "duration_body u = show_nat k @ ''h'' @ show_nat n @ ''m'' @ show_nat (v mod 60) @ ?s"
      using False h by (simp add: duration_body_def case_prod_beta snd Let_def n_def k_def)
    then show ?thesis
      using parse_next [of "''h''" 3600000000000 0 k orig n "''m'' @ show_nat (v mod 60) @ ?s"]
        parse_next [of "''m''" 60000000000 "k * 3600000000000" n orig "v mod 60" ?s]
        parse_seconds [of "k * 3600000000000 + n * 60000000000" "v mod 60" u orig] t assms
      by simp
  qed
qed

lemma duration_body_ends: "is_digit (hd (duration_body u))" "last (duration_body u) = CHR ''s''" "duration_body u \<noteq> []"
  "duration_body u \<noteq> ''0''"
proof -
  have "is_digit (hd (duration_body u)) \<and> last (duration_body u) = CHR ''s'' \<and> duration_body u \<noteq> []"
    using show_nat_hd by (auto simp: duration_body_def Let_def case_prod_beta is_digit_def last_append)
  then show "is_digit (hd (duration_body u))" "last (duration_body u) = CHR ''s''" "duration_body u \<noteq> []"
    "duration_body u \<noteq> ''0''" by auto
qed

lemma ParseDuration_String:
  assumes "- (2 ^ 63) \<le> d" and "d < 2 ^ 63"
  shows "ParseDuration (duration_String d) = Inr d"
proof (cases "d < 0")
  case True
  have "nat (- d) \<le> 2 ^ 63" using assms(1) by (simp add: nat_le_iff)
  from duration_body_parsed [OF this] show ?thesis
    using True duration_body_ends [of "nat (- d)"] by (simp add: ParseDuration_def duration_String_def Let_def)
next
  case False
  then have "nat d < 2 ^ 63" using assms(2) by (simp add: nat_less_iff)
  then have "nat d \<le> 2 ^ 63" "\<not> nat d > 2 ^ 63 - 1" by linarith+
  with duration_body_parsed [OF this(1)] show ?thesis
    using False duration_body_ends [of "nat d"]
    by (auto simp: ParseDuration_def duration_String_def Let_def is_digit_def)
qed

lemma duration_String_last: "duration_String d \<noteq> []" "\<not> is_digit (last (duration_String d))"
  using duration_body_ends by (simp_all add: duration_String_def is_digit_def)

text \<open>
  C37: Every duration survives being written and read. The text a duration is printed as, from
  nanoseconds to hours and negative ones included, is parsed to the same duration, so it comes back
  from the JSON it is encoded to, provided the JSON library reads back a plain string, and from YAML.
\<close>

theorem duration_roundtrip:
  assumes "- (2 ^ 63) \<le> d" and "d < 2 ^ 63"
    and "json ([CHR 0x22] @ duration_String d @ [CHR 0x22]) = Inr (JSONString (duration_String d))"
  shows "Duration_UnmarshalJSON json (Duration_MarshalJSON d) = Inr d \<and>
    Duration_UnmarshalYAML (Inr (duration_String d)) = Some (Inr d)"
  using ParseDuration_String [OF assms(1,2)] assms(3) duration_String_last [of d]
  by (simp add: Duration_UnmarshalJSON_def Duration_MarshalJSON_def Duration_UnmarshalYAML_def)

theorem duration_roundtrip_witness:
  "Duration_UnmarshalJSON (\<lambda>b. Inr (JSONString (butlast (tl b)))) ([CHR 0x22] @ ''-1.5ms'' @ [CHR 0x22]) = Inr (- 1500000)"
proof -
  have "digit_char 5 = CHR ''5''" by code_simp
  then have "fmtFrac (Suc (Suc (Suc (Suc (Suc (Suc 0)))))) 1500000 False [] = (''.5'', 1)" by (simp add: Let_def)
  moreover have "Suc (Suc (Suc (Suc (Suc (Suc 0))))) = 6" by simp
  ultimately have "fmtFrac 6 1500000 False [] = (''.5'', 1)" by (simp only:)
  moreover have "show_nat 1 = ''1''" by code_simp
  ultimately have s: "duration_String (- 1500000) = ''-1.5ms''"
    by (simp add: duration_String_def duration_body_def)
  from duration_roundtrip [of "- 1500000" "\<lambda>b. Inr (JSONString (butlast (tl b)))"] s
  show ?thesis by (simp add: Duration_MarshalJSON_def)
qed

text \<open>A number without a unit is a number of nanoseconds in YAML, and an empty string is a panic.\<close>

lemma yaml_bare_number:
  assumes "n < 2 ^ 63"
  shows "Duration_UnmarshalYAML (Inr (show_nat n)) = Some (Inr (int n))"
proof -
  have l: "is_digit (last (show_nat n))" using show_nat_digits [of "last (show_nat n)" n] by (simp add: is_digit_def)
  have "parseUnit orig (show_nat n @ ''ns'' @ []) = Inr (n * 1, [])" for orig
    using assms by (intro parseUnit_whole) simp_all
  from parseUnits_step [OF this, of 0] assms
  have p: "parseUnits orig 0 (show_nat n @ ''ns'') = Inr n" for orig by simp
  have h: "is_digit (hd (show_nat n))" using show_nat_hd [of n "[]"] by simp
  have "show_nat n @ ''ns'' \<noteq> ''0''" by (cases "show_nat n") simp_all
  then have "ParseDuration (show_nat n @ ''ns'') = Inr (int n)"
    using p assms h by (auto simp: ParseDuration_def Let_def is_digit_def)
  then show ?thesis using l by (simp add: Duration_UnmarshalYAML_def)
qed

lemma yaml_empty_panics: "Duration_UnmarshalYAML scalar = None \<longleftrightarrow> scalar = Inr []"
  by (auto simp: Duration_UnmarshalYAML_def Let_def split: sum.splits)

end
