(* ===== verification/Collector.thy ===== *)
theory Collector
  imports Rest "HOL-Library.Multiset"
begin

text \<open>
  The collector behind the gauge \<open>irodsfsd_mounts\<close> (\<open>service/metrics.go\<close>): on every scrape it counts
  the managed mounts by the name of their state. The counters of the same file are part of the
  manager's state (theory \<open>MountManager\<close>). \<open>order\<close> is the order in which the map is ranged over.
  The lemma shows that the gauge agrees with the registry.
\<close>

definition count_state :: "MountInfo \<Rightarrow> (string \<times> nat) list \<Rightarrow> (string \<times> nat) list" where
  "count_state mount counts =
     (let state = MountState_name (State mount)
      in AList.update state (Suc (case map_of counts state of None \<Rightarrow> 0 | Some n \<Rightarrow> n)) counts)"

definition CollectMounts ::
    "((string \<times> nat) list \<Rightarrow> (string \<times> nat) list) \<Rightarrow> env \<Rightarrow> 'r manager \<Rightarrow> (string \<times> nat) list" where
  "CollectMounts order ev st =
     (case ListMounts ev None st of
        Inl _ \<Rightarrow> []
      | Inr mounts \<Rightarrow> order (fold count_state mounts []))"

lemma MountState_name_inj: "MountState_name s = MountState_name t \<longleftrightarrow> s = t"
  by (cases s; cases t) simp_all

definition number :: "string \<Rightarrow> MountInfo list \<Rightarrow> nat" where
  "number name ms = length (filter (\<lambda>m. MountState_name (State m) = name) ms)"

lemma count_states:
  "map_of (fold count_state ms counts) name =
     (if number name ms = 0 then map_of counts name
      else Some (number name ms + (case map_of counts name of None \<Rightarrow> 0 | Some n \<Rightarrow> n)))"
  by (induction ms arbitrary: counts) (auto simp: number_def count_state_def Let_def split: option.splits)

lemma wf_count_states: "wf_alist counts \<Longrightarrow> wf_alist (fold count_state ms counts)"
  by (induction ms arbitrary: counts) (simp_all add: count_state_def Let_def)

lemma snapshot_State [simp]: "State (snapshot st a) = State (mInfo (entry st a))"
  by (simp add: snapshot_def redactMountInfo_def on_config_def)

lemma number_snapshots:
  "number (MountState_name s) (sort_key k (snapshotMounts st)) =
     length (filter (\<lambda>(i, a). State (mInfo (entry st a)) = s) (gMounts st))"
proof -
  have "number n (sort_key k xs) = number n xs" for n and xs :: "MountInfo list"
    unfolding number_def by (metis mset_filter mset_sort size_mset)
  then have "number (MountState_name s) (sort_key k (snapshotMounts st)) = number (MountState_name s) (snapshotMounts st)" .
  then show ?thesis
    unfolding number_def snapshotMounts_def by (simp add: filter_map comp_def MountState_name_inj case_prod_unfold)
qed

text \<open>
  C38: The gauge agrees with the registry: a scrape reports exactly the states some registered mount
  is in, each once and with the number of registered mounts in that state.
\<close>

theorem mounts_gauge_exact:
  assumes "ctxErr ev = None" and "\<And>cs. mset (order cs) = mset cs"
  shows "distinct (map fst (CollectMounts order ev st)) \<and>
    ((name, n) \<in> set (CollectMounts order ev st) \<longleftrightarrow>
      0 < n \<and> (\<exists>s. name = MountState_name s \<and>
        n = length (filter (\<lambda>(i, a). State (mInfo (entry st a)) = s) (gMounts st))))"
proof -
  let ?ms = "sort_key MountId (snapshotMounts st)"
  let ?cs = "fold count_state ?ms []"
  have c: "CollectMounts order ev st = order ?cs"
    using assms(1) by (simp add: CollectMounts_def ListMounts_def list_filter_def)
  have wf: "wf_alist ?cs" by (rule wf_count_states) simp
  have "mset (map fst (order ?cs)) = mset (map fst ?cs)" unfolding mset_map assms(2) ..
  then have d: "distinct (map fst (order ?cs))" using wf by (metis mset_eq_imp_distinct_iff)
  have "(name, n) \<in> set (order ?cs) \<longleftrightarrow> map_of ?cs name = Some n"
    using wf mset_eq_setD [OF assms(2), of ?cs] by simp
  also have "\<dots> \<longleftrightarrow> 0 < n \<and> n = number name ?ms" by (auto simp: count_states)
  also have "\<dots> \<longleftrightarrow> 0 < n \<and> (\<exists>s. name = MountState_name s \<and> n = number name ?ms)"
  proof -
    have "\<exists>s. name = MountState_name s" if "0 < number name ?ms"
      using that by (auto simp: number_def filter_empty_conv simp del: sort_key_simps)
    then show ?thesis by blast
  qed
  finally show ?thesis using d by (auto simp: c number_snapshots)
qed

theorem mounts_gauge_exact_witness:
  "(''MOUNT_STATE_MOUNTING'', 1) \<in> set (CollectMounts (\<lambda>cs. cs) quiet_env sample_mounted)"
proof -
  have c: "ctxErr quiet_env = None" by (simp add: quiet_env_def)
  have "State (mInfo (entry sample_mounted 0)) = MOUNT_STATE_MOUNTING"
    using sample_mounted_state(4) by (auto simp: entry_def)
  then have "(1::nat) = length (filter (\<lambda>(i, a). State (mInfo (entry sample_mounted a)) = MOUNT_STATE_MOUNTING) (gMounts sample_mounted))"
    by (simp add: sample_mounted_state(1))
  then show ?thesis
    using mounts_gauge_exact [OF c, where order = "\<lambda>cs. cs" and name = "''MOUNT_STATE_MOUNTING''" and n = 1 and st = sample_mounted]
    by (metis MountState_name.simps(3) less_one)
qed

end
