(* ===== verification/PidFile.thy ===== *)
theory PidFile
  imports FileSystem
begin

text \<open>
  The process ID file (\<open>cmd/commons/pid_file.go\<close>). What the code uses of the file system is a
  directory of names, the contents of the inodes behind them, the open file descriptions and the
  advisory locks: \<open>flock\<close> locks the inode for a description, not the name. An unlinked inode and
  its lock live on as long as a description refers to it. \<open>AcquirePIDFile\<close> and \<open>Close\<close> are
  composed of the system calls between which other processes run, and the step relation
  interleaves these. The lemmas show that the file is read back, that a lock has one owner, that
  a second daemon is refused while the file of the first is in place, and that two daemons can
  nevertheless run when one opens the file while another removes it.
\<close>

section \<open>Files, descriptions and locks\<close>

datatype pidcall =
  PidOpen | PidFlock | PidTruncate | PidSeek | PidWrite | PidSync | PidRead | PidRemove | PidUnlock | PidClose

text \<open>The error a system call returns without effect, if it does.\<close>

type_synonym pidfaults = "pidcall \<Rightarrow> gerror option"

record pidfs =
  pfFiles :: files
  pfEntry :: "(string \<times> nat) list"
  pfInodes :: "string list"
  pfOpen :: "nat list"
  pfLocks :: "(nat \<times> nat) list"

text \<open>\<open>pidFile\<close> is the open description, \<open>None\<close> once it has been closed.\<close>

record PIDFile =
  pidFile :: "nat option"
  pidPath :: string
  pidPid :: int

abbreviation inode_of :: "pidfs \<Rightarrow> nat \<Rightarrow> nat" where
  "inode_of fs h \<equiv> pfOpen fs ! h"

definition write_inode :: "nat \<Rightarrow> string \<Rightarrow> pidfs \<Rightarrow> pidfs" where
  "write_inode h d fs = fs\<lparr>pfInodes := (pfInodes fs)[inode_of fs h := d]\<rparr>"

text \<open>Unlocking or closing a description drops the lock it holds.\<close>

definition drop_lock :: "nat \<Rightarrow> pidfs \<Rightarrow> pidfs" where
  "drop_lock h fs =
     (if map_of (pfLocks fs) (inode_of fs h) = Some h
      then fs\<lparr>pfLocks := AList.delete (inode_of fs h) (pfLocks fs)\<rparr> else fs)"

definition read_pid_data :: "pidfaults \<Rightarrow> string \<Rightarrow> pidfs \<Rightarrow> string result" where
  "read_pid_data faults path fs =
     (case faults PidRead of
        Some err \<Rightarrow> Inl err
      | None \<Rightarrow>
          (case map_of (pfEntry fs) (Clean path) of
             None \<Rightarrow> Inl enoent
           | Some i \<Rightarrow> Inr (pfInodes fs ! i)))"

section \<open>Acquiring and closing\<close>

fun errors_Join :: "gerror option \<Rightarrow> gerror option \<Rightarrow> gerror option" where
  "errors_Join None e = e"
| "errors_Join e None = e"
| "errors_Join (Some a) (Some b) = Some (a\<lparr>errtext := errtext a @ [Lit [CHR 0x0A]] @ errtext b\<rparr>)"

definition releaseFile :: "pidfaults \<Rightarrow> nat \<Rightarrow> pidfs \<Rightarrow> gerror option \<times> pidfs" where
  "releaseFile faults h fs = (errors_Join (faults PidUnlock) (faults PidClose), drop_lock h fs)"

text \<open>
  The three parts of \<open>AcquirePIDFile\<close>: opening the file, locking it, writing the process ID.
  The mode 488 is octal 750. Truncating, seeking, writing and syncing are done by the owner of
  the lock, so they are one part.
\<close>

definition openPIDFile :: "pidfaults \<Rightarrow> string \<Rightarrow> pidfs \<Rightarrow> nat result \<times> pidfs" where
  "openPIDFile faults path fs =
     (if TrimSpace path = [] then (Inl (errors_New ''pid file path cannot be empty''), fs)
      else
     (case os_MkdirAll (Dir path) 488 (pfFiles fs) of
        (Some err, files) \<Rightarrow>
          (Inl (errors_Wrapf err [Lit ''create pid directory for '', Quoted path]), fs\<lparr>pfFiles := files\<rparr>)
      | (None, files) \<Rightarrow>
     (case faults PidOpen of
        Some err \<Rightarrow> (Inl (errors_Wrapf err [Lit ''open pid file '', Quoted path]), fs\<lparr>pfFiles := files\<rparr>)
      | None \<Rightarrow>
     (case map_of (pfEntry fs) (Clean path) of
        Some i \<Rightarrow> (Inr (length (pfOpen fs)), fs\<lparr>pfFiles := files, pfOpen := pfOpen fs @ [i]\<rparr>)
      | None \<Rightarrow>
          (Inr (length (pfOpen fs)),
           fs\<lparr>pfFiles := files, pfEntry := AList.update (Clean path) (length (pfInodes fs)) (pfEntry fs),
              pfInodes := pfInodes fs @ [[]], pfOpen := pfOpen fs @ [length (pfInodes fs)]\<rparr>)))))"

definition lockPIDFile :: "pidfaults \<Rightarrow> string \<Rightarrow> nat \<Rightarrow> pidfs \<Rightarrow> gerror option \<times> pidfs" where
  "lockPIDFile faults path h fs =
     (case faults PidFlock of
        Some err \<Rightarrow> (Some (errors_Wrapf err [Lit ''lock pid file '', Quoted path]), fs)
      | None \<Rightarrow>
          (if map_of (pfLocks fs) (inode_of fs h) \<in> {None, Some h}
           then (None, fs\<lparr>pfLocks := AList.update (inode_of fs h) h (pfLocks fs)\<rparr>)
           else (Some (errors_Errorf [Lit ''irodsfsd is already running (pid file: '', Lit path, Lit '')'']), fs)))"

definition fillPIDFile :: "pidfaults \<Rightarrow> int \<Rightarrow> string \<Rightarrow> nat \<Rightarrow> pidfs \<Rightarrow> PIDFile result \<times> pidfs" where
  "fillPIDFile faults pid path h fs =
     (case faults PidTruncate of
        Some err \<Rightarrow> (Inl (errors_Wrapf err [Lit ''truncate pid file '', Quoted path]), snd (releaseFile faults h fs))
      | None \<Rightarrow>
     (let fs = write_inode h [] fs
      in case faults PidSeek of
           Some err \<Rightarrow> (Inl (errors_Wrapf err [Lit ''seek pid file '', Quoted path]), snd (releaseFile faults h fs))
         | None \<Rightarrow>
     (case faults PidWrite of
        Some err \<Rightarrow> (Inl (errors_Wrapf err [Lit ''write pid file '', Quoted path]), snd (releaseFile faults h fs))
      | None \<Rightarrow>
     (let fs = write_inode h (show_int pid @ [CHR 0x0A]) fs
      in case faults PidSync of
           Some err \<Rightarrow> (Inl (errors_Wrapf err [Lit ''sync pid file '', Quoted path]), snd (releaseFile faults h fs))
         | None \<Rightarrow> (Inr \<lparr>pidFile = Some h, pidPath = path, pidPid = pid\<rparr>, fs)))))"

definition AcquirePIDFile :: "pidfaults \<Rightarrow> int \<Rightarrow> string \<Rightarrow> pidfs \<Rightarrow> PIDFile result \<times> pidfs" where
  "AcquirePIDFile faults pid path fs =
     (case openPIDFile faults path fs of
        (Inl err, fs) \<Rightarrow> (Inl err, fs)
      | (Inr h, fs) \<Rightarrow>
          (case lockPIDFile faults path h fs of
             (Some err, fs) \<Rightarrow> (Inl err, fs)
           | (None, fs) \<Rightarrow> fillPIDFile faults pid path h fs))"

text \<open>\<open>Close\<close> first removes the name when the file it denotes holds the ID of this process.\<close>

definition removeOwnPIDFile :: "pidfaults \<Rightarrow> PIDFile \<Rightarrow> pidfs \<Rightarrow> pidfs" where
  "removeOwnPIDFile faults p fs =
     (case read_pid_data faults (pidPath p) fs of
        Inl _ \<Rightarrow> fs
      | Inr d \<Rightarrow>
          (if Atoi (TrimSpace d) = Some (pidPid p) \<and> faults PidRemove = None
           then fs\<lparr>pfEntry := AList.delete (Clean (pidPath p)) (pfEntry fs)\<rparr> else fs))"

definition ClosePIDFile :: "pidfaults \<Rightarrow> PIDFile option \<Rightarrow> pidfs \<Rightarrow> gerror option \<times> PIDFile option \<times> pidfs" where
  "ClosePIDFile faults p fs =
     (case p of
        None \<Rightarrow> (None, p, fs)
      | Some pf \<Rightarrow>
          (case pidFile pf of
             None \<Rightarrow> (None, p, fs)
           | Some h \<Rightarrow>
               (case releaseFile faults h (removeOwnPIDFile faults pf fs) of
                  (err, fs) \<Rightarrow> (err, Some (pf\<lparr>pidFile := None\<rparr>), fs))))"

section \<open>Other processes\<close>

definition ReadPID :: "pidfaults \<Rightarrow> string \<Rightarrow> pidfs \<Rightarrow> int result" where
  "ReadPID faults path fs =
     (case read_pid_data faults path fs of
        Inl err \<Rightarrow>
          (if errors_Is (Some err) NotExist
           then Inl (errors_Errorf
                  [Lit ''irodsfsd is not running: pid file '', Quoted path, Lit '' does not exist''])
           else Inl (errors_Wrapf err [Lit ''read pid file '', Quoted path]))
      | Inr d \<Rightarrow>
          (case Atoi (TrimSpace d) of
             None \<Rightarrow> Inl (errors_Errorf [Lit ''pid file '', Quoted path, Lit '' contains an invalid pid''])
           | Some pid \<Rightarrow>
               (if pid \<le> 1
                then Inl (errors_Errorf [Lit ''pid file '', Quoted path, Lit '' contains an invalid pid''])
                else Inr pid)))"

text \<open>
  The outcome of \<open>Process.Signal\<close>: \<open>os.ErrProcessDone\<close>, the system errors the code distinguishes,
  or another error. \<open>os.FindProcess\<close> does not fail on Unix.
\<close>

datatype sig_error = ErrProcessDone | ESRCH | EPERM | SigOther gerror

fun sig_gerror :: "sig_error \<Rightarrow> gerror" where
  "sig_gerror ErrProcessDone = errors_New ''os: process already finished''"
| "sig_gerror ESRCH = errors_New ''no such process''"
| "sig_gerror EPERM = errors_New ''operation not permitted''"
| "sig_gerror (SigOther e) = e"

type_synonym signal_fn = "int \<Rightarrow> int \<Rightarrow> sig_error option"

definition ProcessRunning :: "signal_fn \<Rightarrow> int \<Rightarrow> bool" where
  "ProcessRunning kill pid = (kill pid 0 = None \<or> kill pid 0 = Some EPERM)"

definition SignalPID :: "signal_fn \<Rightarrow> int \<Rightarrow> int \<Rightarrow> gerror option" where
  "SignalPID kill pid signal =
     (case kill pid signal of
        None \<Rightarrow> None
      | Some err \<Rightarrow>
          (if err = ErrProcessDone \<or> err = ESRCH
           then Some (errors_Errorf [Lit ''irodsfsd is not running (stale pid '', Lit (show_int pid), Lit '')''])
           else Some (errors_Wrapf (sig_gerror err) [Lit ''signal process '', Lit (show_int pid)])))"

section \<open>Interleaved processes\<close>

text \<open>
  Where each process is: it has opened the file, locked it, holds it, or has removed the name but
  not yet released the lock. A process may die at any point, which closes its descriptions.
\<close>

datatype pidpc =
  PidOpened (pc_handle: nat) | PidLocked (pc_handle: nat) | PidHeld (pc_handle: nat) | PidClosing (pc_handle: nat)

definition owns_lock :: "pidpc \<Rightarrow> bool" where
  "owns_lock pc = (case pc of PidOpened _ \<Rightarrow> False | _ \<Rightarrow> True)"

definition has_written :: "pidpc \<Rightarrow> bool" where
  "has_written pc = (case pc of PidHeld _ \<Rightarrow> True | PidClosing _ \<Rightarrow> True | _ \<Rightarrow> False)"

definition held_file :: "string \<Rightarrow> int \<Rightarrow> nat \<Rightarrow> PIDFile" where
  "held_file path p h = \<lparr>pidFile = Some h, pidPath = path, pidPid = p\<rparr>"

record pidworld =
  pwFs :: pidfs
  pwProcs :: "int \<Rightarrow> pidpc option"

definition at :: "pidfs \<Rightarrow> int \<Rightarrow> pidpc option \<Rightarrow> pidworld \<Rightarrow> pidworld" where
  "at fs p pc w = w\<lparr>pwFs := fs, pwProcs := (pwProcs w)(p := pc)\<rparr>"

inductive pid_step :: "string \<Rightarrow> pidworld \<Rightarrow> pidworld \<Rightarrow> bool" for path :: string where
  opened: "pwProcs w p = None \<Longrightarrow> 1 < p \<Longrightarrow> p < 2 ^ 63 \<Longrightarrow>
    openPIDFile faults path (pwFs w) = (Inr h, fs) \<Longrightarrow> pid_step path w (at fs p (Some (PidOpened h)) w)"
| not_opened: "pwProcs w p = None \<Longrightarrow>
    openPIDFile faults path (pwFs w) = (Inl err, fs) \<Longrightarrow> pid_step path w (at fs p None w)"
| locked: "pwProcs w p = Some (PidOpened h) \<Longrightarrow>
    lockPIDFile faults path h (pwFs w) = (None, fs) \<Longrightarrow> pid_step path w (at fs p (Some (PidLocked h)) w)"
| not_locked: "pwProcs w p = Some (PidOpened h) \<Longrightarrow>
    lockPIDFile faults path h (pwFs w) = (Some err, fs) \<Longrightarrow> pid_step path w (at fs p None w)"
| filled: "pwProcs w p = Some (PidLocked h) \<Longrightarrow>
    fillPIDFile faults p path h (pwFs w) = (Inr pf, fs) \<Longrightarrow> pid_step path w (at fs p (Some (PidHeld h)) w)"
| not_filled: "pwProcs w p = Some (PidLocked h) \<Longrightarrow>
    fillPIDFile faults p path h (pwFs w) = (Inl err, fs) \<Longrightarrow> pid_step path w (at fs p None w)"
| removed: "pwProcs w p = Some (PidHeld h) \<Longrightarrow>
    pid_step path w (at (removeOwnPIDFile faults (held_file path p h) (pwFs w)) p (Some (PidClosing h)) w)"
| released: "pwProcs w p = Some (PidClosing h) \<Longrightarrow>
    pid_step path w (at (snd (releaseFile faults h (pwFs w))) p None w)"
| died: "pwProcs w p = Some pc \<Longrightarrow>
    pid_step path w (at (drop_lock (pc_handle pc) (pwFs w)) p None w)"

definition pid_start :: "files \<Rightarrow> pidworld" where
  "pid_start files =
     \<lparr>pwFs = \<lparr>pfFiles = files, pfEntry = [], pfInodes = [], pfOpen = [], pfLocks = []\<rparr>, pwProcs = (\<lambda>_. None)\<rparr>"

section \<open>The invariant\<close>

definition pid_text :: "int \<Rightarrow> string" where
  "pid_text p = show_int p @ [CHR 0x0A]"

definition pidfs_wf :: "pidfs \<Rightarrow> bool" where
  "pidfs_wf fs \<longleftrightarrow>
     (\<forall>name i. map_of (pfEntry fs) name = Some i \<longrightarrow> i < length (pfInodes fs)) \<and>
     (\<forall>h < length (pfOpen fs). inode_of fs h < length (pfInodes fs)) \<and>
     (\<forall>i h. map_of (pfLocks fs) i = Some h \<longrightarrow> h < length (pfOpen fs) \<and> inode_of fs h = i)"

definition proc_ok :: "pidfs \<Rightarrow> int \<Rightarrow> pidpc \<Rightarrow> bool" where
  "proc_ok fs p pc \<longleftrightarrow>
     pc_handle pc < length (pfOpen fs) \<and> 1 < p \<and> p < 2 ^ 63 \<and>
     (owns_lock pc \<longrightarrow> map_of (pfLocks fs) (inode_of fs (pc_handle pc)) = Some (pc_handle pc)) \<and>
     (has_written pc \<longrightarrow> pfInodes fs ! inode_of fs (pc_handle pc) = pid_text p)"

definition pid_inv :: "pidworld \<Rightarrow> bool" where
  "pid_inv w \<longleftrightarrow>
     pidfs_wf (pwFs w) \<and>
     (\<forall>p pc. pwProcs w p = Some pc \<longrightarrow> proc_ok (pwFs w) p pc) \<and>
     (\<forall>p q pc qc. pwProcs w p = Some pc \<longrightarrow> pwProcs w q = Some qc \<longrightarrow> p \<noteq> q \<longrightarrow> pc_handle pc \<noteq> pc_handle qc)"

lemma pid_text_read: "1 < p \<Longrightarrow> p < 2 ^ 63 \<Longrightarrow> Atoi (TrimSpace (pid_text p)) = Some p"
proof -
  assume p: "1 < p" "p < 2 ^ 63"
  have "TrimSpace ([] @ show_nat (nat p) @ [CHR 0x0A]) = show_nat (nat p)"
    by (rule TrimSpace_pad) (auto simp: is_space_def dest: show_nat_no_space)
  then show ?thesis using p by (simp add: pid_text_def show_int_def ParseInt_show_nat)
qed

text \<open>A step of one process keeps the invariant when it keeps the others' view of the files.\<close>

definition same_for :: "pidfs \<Rightarrow> pidfs \<Rightarrow> nat \<Rightarrow> bool" where
  "same_for fs fs' h \<longleftrightarrow>
     h < length (pfOpen fs') \<and> inode_of fs' h = inode_of fs h \<and>
     (map_of (pfLocks fs) (inode_of fs h) = Some h \<longrightarrow>
        map_of (pfLocks fs') (inode_of fs h) = Some h \<and> pfInodes fs' ! inode_of fs h = pfInodes fs ! inode_of fs h)"

lemma proc_ok_same: "proc_ok fs p pc \<Longrightarrow> same_for fs fs' (pc_handle pc) \<Longrightarrow> proc_ok fs' p pc"
  by (auto simp: proc_ok_def same_for_def has_written_def owns_lock_def split: pidpc.splits)

lemma pid_invD:
  assumes "pid_inv w"
  shows "pidfs_wf (pwFs w)" and "pwProcs w p = Some pc \<Longrightarrow> proc_ok (pwFs w) p pc"
    and "pwProcs w p = Some pc \<Longrightarrow> pc_handle pc < length (pfOpen (pwFs w))"
    and "pwProcs w p = Some pc \<Longrightarrow> pwProcs w q = Some qc \<Longrightarrow> q \<noteq> p \<Longrightarrow> pc_handle qc \<noteq> pc_handle pc"
  using assms unfolding pid_inv_def proc_ok_def by blast+

lemma pid_inv_at:
  assumes "pid_inv w" and "pidfs_wf fs"
    and "\<And>pc. pc' = Some pc \<Longrightarrow> proc_ok fs p pc"
    and "\<And>pc. pc' = Some pc \<Longrightarrow> (\<exists>oc. pwProcs w p = Some oc \<and> pc_handle oc = pc_handle pc) \<or>
           pc_handle pc = length (pfOpen (pwFs w))"
    and "\<And>q qc. q \<noteq> p \<Longrightarrow> pwProcs w q = Some qc \<Longrightarrow> same_for (pwFs w) fs (pc_handle qc)"
  shows "pid_inv (at fs p pc' w)"
proof -
  have ok: "proc_ok (pwFs w) q qc" if "pwProcs w q = Some qc" for q qc
    using assms(1) that by (simp add: pid_inv_def)
  have new: "pc_handle pc \<noteq> pc_handle qc" if "pc' = Some pc" "q \<noteq> p" "pwProcs w q = Some qc" for pc q qc
  proof -
    have "pc_handle qc < length (pfOpen (pwFs w))" using ok [OF that(3)] by (simp add: proc_ok_def)
    moreover have "pc_handle oc \<noteq> pc_handle qc" if "pwProcs w p = Some oc" for oc
      using assms(1) that \<open>q \<noteq> p\<close> \<open>pwProcs w q = Some qc\<close> unfolding pid_inv_def by blast
    ultimately show ?thesis using assms(4) [OF that(1)] by auto
  qed
  have old: "proc_ok fs q qc" if "q \<noteq> p" "pwProcs w q = Some qc" for q qc
    using proc_ok_same [OF ok [OF that(2)] assms(5) [OF that]] .
  have "proc_ok fs q qc" if "pwProcs (at fs p pc' w) q = Some qc" for q qc
    using that assms(3) old by (cases "q = p") (simp_all add: at_def)
  moreover have "pc_handle ac \<noteq> pc_handle bc"
    if "pwProcs (at fs p pc' w) a = Some ac" "pwProcs (at fs p pc' w) b = Some bc" "a \<noteq> b" for a b ac bc
  proof (cases "a = p \<or> b = p")
    case True
    then show ?thesis
    proof
      assume "a = p"
      then show ?thesis using that new [of ac b bc] by (simp add: at_def)
    next
      assume "b = p"
      then show ?thesis using that new [of bc a ac] by (simp add: at_def eq_commute)
    qed
  next
    case False
    then show ?thesis
      using that pid_invD(4) [OF assms(1), where p = b and pc = bc and q = a and qc = ac] by (simp add: at_def)
  qed
  ultimately show ?thesis using assms(2) unfolding pid_inv_def by (simp add: at_def)
qed

lemma pidfs_wfI:
  assumes "\<And>name i. map_of (pfEntry fs) name = Some i \<Longrightarrow> i < length (pfInodes fs)"
    and "\<And>h. h < length (pfOpen fs) \<Longrightarrow> inode_of fs h < length (pfInodes fs)"
    and "\<And>i h. map_of (pfLocks fs) i = Some h \<Longrightarrow> h < length (pfOpen fs) \<and> inode_of fs h = i"
  shows "pidfs_wf fs"
  unfolding pidfs_wf_def using assms by blast

lemma pidfs_wfD:
  assumes "pidfs_wf fs"
  shows "map_of (pfEntry fs) name = Some i \<Longrightarrow> i < length (pfInodes fs)"
    and "h < length (pfOpen fs) \<Longrightarrow> inode_of fs h < length (pfInodes fs)"
    and "map_of (pfLocks fs) j = Some k \<Longrightarrow> k < length (pfOpen fs)"
    and "map_of (pfLocks fs) j = Some k \<Longrightarrow> inode_of fs k = j"
  using assms unfolding pidfs_wf_def by blast+

lemma openPIDFile_Inr_cases:
  assumes "openPIDFile faults path fs = (Inr h, fs')"
  obtains (existing) files i where "h = length (pfOpen fs)" "map_of (pfEntry fs) (Clean path) = Some i"
      "fs' = fs\<lparr>pfFiles := files, pfOpen := pfOpen fs @ [i]\<rparr>"
    | (created) files where "h = length (pfOpen fs)" "map_of (pfEntry fs) (Clean path) = None"
      "fs' = fs\<lparr>pfFiles := files, pfEntry := AList.update (Clean path) (length (pfInodes fs)) (pfEntry fs),
              pfInodes := pfInodes fs @ [[]], pfOpen := pfOpen fs @ [length (pfInodes fs)]\<rparr>"
  using assms unfolding openPIDFile_def by (fastforce split: if_splits prod.splits option.splits)

lemma openPIDFile_Inr:
  assumes "openPIDFile faults path fs = (Inr h, fs')"
  shows "h = length (pfOpen fs)" and "length (pfOpen fs') = Suc h" and "pfLocks fs' = pfLocks fs"
    and "map_of (pfEntry fs') (Clean path) = Some (inode_of fs' h)"
    and "h' < h \<Longrightarrow> inode_of fs' h' = inode_of fs h'"
    and "i < length (pfInodes fs) \<Longrightarrow> pfInodes fs' ! i = pfInodes fs ! i"
  by (rule openPIDFile_Inr_cases [OF assms]; simp add: nth_append)+

lemma openPIDFile_wf:
  assumes "openPIDFile faults path fs = (Inr h, fs')" and "pidfs_wf fs"
  shows "pidfs_wf fs'"
proof (rule pidfs_wfI)
  note d = pidfs_wfD [OF assms(2)]
  show "map_of (pfEntry fs') name = Some i \<Longrightarrow> i < length (pfInodes fs')" for name i
    by (rule openPIDFile_Inr_cases [OF assms(1)]) (auto split: if_splits dest: d(1))
  show "k < length (pfOpen fs') \<Longrightarrow> inode_of fs' k < length (pfInodes fs')" for k
    by (rule openPIDFile_Inr_cases [OF assms(1)])
      (auto simp: nth_append less_Suc_eq dest: d(1,2))
  show "map_of (pfLocks fs') i = Some k \<Longrightarrow> k < length (pfOpen fs') \<and> inode_of fs' k = i" for i k
    using openPIDFile_Inr(1-3,5) [OF assms(1)] d(3,4) [of i k] by simp
qed

lemma openPIDFile_same:
  assumes "openPIDFile faults path fs = (Inr h, fs')" and "pidfs_wf fs" and "h' < length (pfOpen fs)"
  shows "same_for fs fs' h'"
  using openPIDFile_Inr(1-3) [OF assms(1)] openPIDFile_Inr(5) [OF assms(1), of h']
    openPIDFile_Inr(6) [OF assms(1), of "inode_of fs h'"] pidfs_wfD(2) [OF assms(2,3)] assms(3)
  by (simp add: same_for_def)

lemma openPIDFile_Inl:
  assumes "openPIDFile faults path fs = (Inl err, fs')"
  obtains files where "fs' = fs\<lparr>pfFiles := files\<rparr>"
proof -
  have "fs = fs\<lparr>pfFiles := pfFiles fs\<rparr>" by simp
  moreover have "fs' = fs \<or> (\<exists>files. fs' = fs\<lparr>pfFiles := files\<rparr>)"
    using assms by (auto simp: openPIDFile_def split: if_splits prod.splits option.splits)
  ultimately show thesis using that by metis
qed

lemma lockPIDFile_None:
  assumes "lockPIDFile faults path h fs = (None, fs')"
  shows "fs' = fs\<lparr>pfLocks := AList.update (inode_of fs h) h (pfLocks fs)\<rparr>"
    and "map_of (pfLocks fs) (inode_of fs h) = None \<or> map_of (pfLocks fs) (inode_of fs h) = Some h"
  using assms by (auto simp: lockPIDFile_def split: if_splits option.splits)

lemma lockPIDFile_wf:
  assumes "lockPIDFile faults path h fs = (None, fs')" and "pidfs_wf fs" and "h < length (pfOpen fs)"
  shows "pidfs_wf fs'"
  unfolding lockPIDFile_None(1) [OF assms(1)]
  by (rule pidfs_wfI) (use pidfs_wfD [OF assms(2)] assms(3) in \<open>auto split: if_splits\<close>)

lemma lockPIDFile_same:
  assumes "lockPIDFile faults path h fs = (None, fs')" and "h' \<noteq> h" and "h' < length (pfOpen fs)"
  shows "same_for fs fs' h'"
  using lockPIDFile_None [OF assms(1)] assms(2,3) by (auto simp: same_for_def)

lemma lockPIDFile_Some: "lockPIDFile faults path h fs = (Some err, fs') \<Longrightarrow> fs' = fs"
  by (auto simp: lockPIDFile_def split: if_splits option.splits)

lemma drop_lock_wf: "pidfs_wf fs \<Longrightarrow> pidfs_wf (drop_lock h fs)"
  by (rule pidfs_wfI) (auto simp: drop_lock_def dest: pidfs_wfD split: if_splits)

lemma drop_lock_same: "h' \<noteq> h \<Longrightarrow> h' < length (pfOpen fs) \<Longrightarrow> same_for fs (drop_lock h fs) h'"
  by (auto simp: drop_lock_def same_for_def)

lemma write_inode_wf: "pidfs_wf fs \<Longrightarrow> pidfs_wf (write_inode h d fs)"
  by (rule pidfs_wfI) (auto simp: write_inode_def dest: pidfs_wfD)

lemma write_inode_same:
  assumes "map_of (pfLocks fs) (inode_of fs h) = Some h" and "h' \<noteq> h" and "h' < length (pfOpen fs)"
  shows "same_for fs (write_inode h d fs) h'"
proof -
  have "inode_of fs h' \<noteq> inode_of fs h" if "map_of (pfLocks fs) (inode_of fs h') = Some h'"
    using that assms(1,2) by auto
  then show ?thesis using assms(3) by (auto simp: write_inode_def same_for_def)
qed

lemma same_for_trans: "same_for fs fs' h \<Longrightarrow> same_for fs' fs'' h \<Longrightarrow> same_for fs fs'' h"
  by (auto simp: same_for_def)

lemma write_inode_simps [simp]:
  "pfOpen (write_inode h d fs) = pfOpen fs" "pfLocks (write_inode h d fs) = pfLocks fs"
  "pfEntry (write_inode h d fs) = pfEntry fs"
  "write_inode h d (write_inode h c fs) = write_inode h d fs"
  by (simp_all add: write_inode_def)

lemma fillPIDFile_Inr:
  assumes "fillPIDFile faults pid path h fs = (Inr pf, fs')"
  shows "fs' = write_inode h (pid_text pid) fs" and "pf = held_file path pid h"
  using assms by (auto simp: fillPIDFile_def Let_def pid_text_def held_file_def split: option.splits)

lemma fillPIDFile_Inl:
  assumes "fillPIDFile faults pid path h fs = (Inl err, fs')"
  obtains fs1 where "fs1 = fs \<or> (\<exists>d. fs1 = write_inode h d fs)" "fs' = drop_lock h fs1"
proof -
  have "\<exists>fs1. (fs1 = fs \<or> (\<exists>d. fs1 = write_inode h d fs)) \<and> fs' = drop_lock h fs1"
    using assms by (auto simp: fillPIDFile_def Let_def releaseFile_def split: option.splits)
  then show thesis using that by blast
qed

lemma removeOwnPIDFile_effect:
  "pidfs_wf fs \<Longrightarrow> pidfs_wf (removeOwnPIDFile faults pf fs)"
  "pfOpen (removeOwnPIDFile faults pf fs) = pfOpen fs" "pfLocks (removeOwnPIDFile faults pf fs) = pfLocks fs"
  "pfInodes (removeOwnPIDFile faults pf fs) = pfInodes fs"
  by (auto simp: removeOwnPIDFile_def split: sum.splits if_splits intro!: pidfs_wfI dest: pidfs_wfD)

lemma pid_inv_drop:
  assumes inv: "pid_inv w" and p: "pwProcs w p = Some pc" and "pidfs_wf fs"
    and "\<And>h. h \<noteq> pc_handle pc \<Longrightarrow> h < length (pfOpen (pwFs w)) \<Longrightarrow> same_for (pwFs w) fs h"
  shows "pid_inv (at (drop_lock (pc_handle pc) fs) p None w)"
proof (rule pid_inv_at [OF inv])
  fix q qc
  assume "q \<noteq> p" "pwProcs w q = Some qc"
  then have n: "pc_handle qc \<noteq> pc_handle pc" "pc_handle qc < length (pfOpen (pwFs w))"
    using pid_invD(3,4) [OF inv] p by blast+
  from assms(4) [OF this] have "same_for (pwFs w) fs (pc_handle qc)" .
  moreover from this have "same_for fs (drop_lock (pc_handle pc) fs) (pc_handle qc)"
    using n by (intro drop_lock_same) (simp_all add: same_for_def)
  ultimately show "same_for (pwFs w) (drop_lock (pc_handle pc) fs) (pc_handle qc)" by (rule same_for_trans)
qed (use assms(3) in \<open>simp_all add: drop_lock_wf\<close>)

lemma same_for_refl: "h < length (pfOpen fs) \<Longrightarrow> same_for fs fs h"
  by (simp add: same_for_def)

lemma pid_inv_step: "pid_step path w w' \<Longrightarrow> pid_inv w \<Longrightarrow> pid_inv w'"
proof (induction rule: pid_step.induct)
  case (opened w p faults h fs)
  note d = pid_invD [OF opened.prems] and o = openPIDFile_Inr [OF opened(4)]
  show ?case
  proof (rule pid_inv_at [OF opened.prems])
    show "pidfs_wf fs" using openPIDFile_wf [OF opened(4) d(1)] .
    show "proc_ok fs p pc" if "Some (PidOpened h) = Some pc" for pc
      using that opened(2,3) o(1,2) by (auto simp: proc_ok_def owns_lock_def has_written_def)
    show "same_for (pwFs w) fs (pc_handle qc)" if "q \<noteq> p" "pwProcs w q = Some qc" for q qc
      using openPIDFile_same [OF opened(4) d(1) d(3) [OF that(2)]] .
  qed (use o(1) in auto)
next
  case (not_opened w p faults err fs)
  note d = pid_invD [OF not_opened.prems]
  from openPIDFile_Inl [OF not_opened(2)] obtain files where f: "fs = pwFs w\<lparr>pfFiles := files\<rparr>" .
  show ?case
  proof (rule pid_inv_at [OF not_opened.prems])
    show "pidfs_wf fs" using d(1) by (simp add: f pidfs_wf_def)
    show "same_for (pwFs w) fs (pc_handle qc)" if "q \<noteq> p" "pwProcs w q = Some qc" for q qc
      using d(3) [OF that(2)] by (simp add: f same_for_def)
  qed simp_all
next
  case (locked w p h faults fs)
  note d = pid_invD [OF locked.prems] and l = lockPIDFile_None(1) [OF locked(2)]
  have h: "h < length (pfOpen (pwFs w))" using d(3) [OF locked(1)] by simp
  show ?case
  proof (rule pid_inv_at [OF locked.prems])
    show "pidfs_wf fs" using lockPIDFile_wf [OF locked(2) d(1) h] .
    show "proc_ok fs p pc" if "Some (PidLocked h) = Some pc" for pc
      using that d(2) [OF locked(1)] by (auto simp: l proc_ok_def has_written_def)
    show "same_for (pwFs w) fs (pc_handle qc)" if "q \<noteq> p" "pwProcs w q = Some qc" for q qc
      using lockPIDFile_same [OF locked(2)] d(3) [OF that(2)] d(4) [OF locked(1) that(2,1)] by simp
  qed (use locked(1) in auto)
next
  case (not_locked w p h faults err fs)
  note d = pid_invD [OF not_locked.prems]
  show ?case
    unfolding lockPIDFile_Some [OF not_locked(2)]
    by (rule pid_inv_at [OF not_locked.prems]) (use d in \<open>auto simp: same_for_def\<close>)
next
  case (filled w p h faults pf fs)
  note d = pid_invD [OF filled.prems] and f = fillPIDFile_Inr(1) [OF filled(2)]
  have ok: "proc_ok (pwFs w) p (PidLocked h)" by (rule d(2)) (rule filled(1))
  show ?case
  proof (rule pid_inv_at [OF filled.prems])
    show "proc_ok fs p pc" if "Some (PidHeld h) = Some pc" for pc
      using that ok pidfs_wfD(2) [OF d(1), of h] by (auto simp: f proc_ok_def owns_lock_def write_inode_def)
    show "same_for (pwFs w) fs (pc_handle qc)" if "q \<noteq> p" "pwProcs w q = Some qc" for q qc
      unfolding f
      using ok d(3) [OF that(2)] d(4) [OF filled(1) that(2,1)]
      by (intro write_inode_same) (simp_all add: proc_ok_def owns_lock_def)
  qed (use filled(1) d(1) in \<open>auto simp: f write_inode_wf\<close>)
next
  case (not_filled w p h faults err fs)
  note d = pid_invD [OF not_filled.prems]
  from not_filled(2) obtain fs1 where f: "fs1 = pwFs w \<or> (\<exists>c. fs1 = write_inode h c (pwFs w))" "fs = drop_lock h fs1"
    by (rule fillPIDFile_Inl)
  have "map_of (pfLocks (pwFs w)) (inode_of (pwFs w) h) = Some h"
    using d(2) [OF not_filled(1)] by (simp add: proc_ok_def owns_lock_def)
  then have "same_for (pwFs w) fs1 h'" if "h' \<noteq> h" "h' < length (pfOpen (pwFs w))" for h'
    using f(1) that by (auto intro: same_for_refl write_inode_same)
  then show ?case
    using pid_inv_drop [OF not_filled.prems not_filled(1), of fs1] f d(1) by (auto intro: write_inode_wf)
next
  case (removed w p h faults)
  note d = pid_invD [OF removed.prems] and r = removeOwnPIDFile_effect [where fs = "pwFs w"]
  show ?case
  proof (rule pid_inv_at [OF removed.prems])
    show "proc_ok (removeOwnPIDFile faults (held_file path p h) (pwFs w)) p pc" if "Some (PidClosing h) = Some pc" for pc
      using that d(2) [OF removed(1)] by (auto simp: r proc_ok_def owns_lock_def has_written_def)
    show "same_for (pwFs w) (removeOwnPIDFile faults (held_file path p h) (pwFs w)) (pc_handle qc)"
      if "q \<noteq> p" "pwProcs w q = Some qc" for q qc
      using d(3) [OF that(2)] by (simp add: same_for_def r)
  qed (use removed(1) d(1) in \<open>auto simp: r\<close>)
next
  case (released w p h faults)
  then show ?case
    using pid_inv_drop [OF released.prems released(1) pid_invD(1) [OF released.prems]] same_for_refl
    by (simp add: releaseFile_def)
next
  case (died w p pc)
  then show ?case
    using pid_inv_drop [OF died.prems died(1) pid_invD(1) [OF died.prems]] same_for_refl by simp
qed

lemma pid_inv_reach: "(pid_step path)\<^sup>*\<^sup>* (pid_start files) w \<Longrightarrow> pid_inv w"
proof (induction rule: rtranclp_induct)
  case base
  show ?case by (simp add: pid_start_def pid_inv_def pidfs_wf_def)
qed (rule pid_inv_step)

section \<open>One lock, one owner\<close>

lemma pid_lock_exclusive:
  assumes "pid_inv w" and "pwProcs w p = Some pc" and "pwProcs w q = Some qc" and "p \<noteq> q"
    and "owns_lock pc" and "owns_lock qc"
  shows "inode_of (pwFs w) (pc_handle pc) \<noteq> inode_of (pwFs w) (pc_handle qc)"
  using pid_invD(2) [OF assms(1,2)] pid_invD(2) [OF assms(1,3)]
    pid_invD(4) [OF assms(1,3,2) assms(4)] assms(5,6)
  by (auto simp: proc_ok_def)

lemma ReadPID_text:
  assumes "map_of (pfEntry fs) (Clean path) = Some i" and "pfInodes fs ! i = pid_text p" and "1 < p" and "p < 2 ^ 63"
  shows "ReadPID (\<lambda>_. None) path fs = Inr p"
  using assms pid_text_read [of p] by (simp add: ReadPID_def read_pid_data_def)

text \<open>
  C15: While a daemon holds the process ID file and its name still denotes the file it locked, no
  other process acquires it: the attempt fails whatever the system calls do, changes no lock, and
  the file still names the first daemon. This holds in every interleaving of any number of daemons
  that start, stop and die.
\<close>

theorem second_daemon_refused:
  assumes "(pid_step path)\<^sup>*\<^sup>* (pid_start files) w" and "pwProcs w p = Some (PidHeld h)"
    and "map_of (pfEntry (pwFs w)) (Clean path) = Some (inode_of (pwFs w) h)"
  shows "\<exists>err fs. AcquirePIDFile faults q path (pwFs w) = (Inl err, fs) \<and>
    pfLocks fs = pfLocks (pwFs w) \<and> ReadPID (\<lambda>_. None) path fs = Inr p"
proof -
  have inv: "pid_inv w" using assms(1) by (rule pid_inv_reach)
  note d = pid_invD [OF inv]
  from d(2) [OF assms(2)] have ok: "map_of (pfLocks (pwFs w)) (inode_of (pwFs w) h) = Some h"
    "pfInodes (pwFs w) ! inode_of (pwFs w) h = pid_text p" "1 < p" "p < 2 ^ 63" "h < length (pfOpen (pwFs w))"
    by (simp_all add: proc_ok_def owns_lock_def has_written_def)
  show ?thesis
  proof (cases "openPIDFile faults path (pwFs w)")
    case (Pair r fs)
    show ?thesis
    proof (cases r)
      case (Inl err)
      from openPIDFile_Inl [OF Pair [unfolded Inl]] obtain files' where "fs = pwFs w\<lparr>pfFiles := files'\<rparr>" .
      then show ?thesis
        using Pair Inl ReadPID_text [of fs path "inode_of (pwFs w) h" p] assms(3) ok by (simp add: AcquirePIDFile_def)
    next
      case (Inr k)
      note o = openPIDFile_Inr [OF Pair [unfolded Inr]]
      have "inode_of fs k = inode_of (pwFs w) h \<and> map_of (pfEntry fs) (Clean path) = Some (inode_of (pwFs w) h)"
        by (rule openPIDFile_Inr_cases [OF Pair [unfolded Inr]])
          (use assms(3) in simp_all)
      moreover have "k \<noteq> h" using o(1) ok(5) by simp
      ultimately have "\<exists>err. lockPIDFile faults path k fs = (Some err, fs)"
        using o(3) ok(1) by (auto simp: lockPIDFile_def split: option.splits)
      moreover have "pfInodes fs ! inode_of (pwFs w) h = pid_text p"
        using o(6) pidfs_wfD(2) [OF d(1) ok(5)] ok(2) by simp
      ultimately show ?thesis
        using Pair Inr o(3) ok(3,4) ReadPID_text [of fs path "inode_of (pwFs w) h" p]
          \<open>_ \<and> map_of (pfEntry fs) (Clean path) = _\<close>
        by (auto simp: AcquirePIDFile_def)
    qed
  qed
qed

text \<open>
  A process ID that is written is read back, and closing undoes acquiring: after
  \<open>AcquirePIDFile\<close> the file names the process and is locked, and \<open>Close\<close> removes the name,
  releases the lock and leaves nothing for a second \<open>Close\<close> to do.
\<close>

theorem pid_file_roundtrip:
  assumes "pidfs_wf fs" and "1 < pid" and "pid < 2 ^ 63"
    and "AcquirePIDFile (\<lambda>_. None) pid path fs = (Inr pf, fs')"
    and "ClosePIDFile (\<lambda>_. None) (Some pf) fs' = (err, pf', fs'')"
  shows "ReadPID (\<lambda>_. None) path fs' = Inr pid \<and> err = None \<and>
    map_of (pfEntry fs'') (Clean path) = None \<and>
    (\<exists>h. pidFile pf = Some h \<and> map_of (pfLocks fs') (inode_of fs' h) = Some h \<and>
       map_of (pfLocks fs'') (inode_of fs' h) = None) \<and>
    ClosePIDFile (\<lambda>_. None) pf' fs'' = (None, pf', fs'')"
proof -
  from assms(4) obtain h fs1 fs2 where o: "openPIDFile (\<lambda>_. None) path fs = (Inr h, fs1)"
    and l: "lockPIDFile (\<lambda>_. None) path h fs1 = (None, fs2)"
    and f: "fillPIDFile (\<lambda>_. None) pid path h fs2 = (Inr pf, fs')"
    by (auto simp: AcquirePIDFile_def split: prod.splits sum.splits option.splits)
  note oo = openPIDFile_Inr [OF o] and ll = lockPIDFile_None(1) [OF l] and ff = fillPIDFile_Inr [OF f]
  have h: "inode_of fs' h < length (pfInodes fs2)"
    using pidfs_wfD(2) [OF openPIDFile_wf [OF o assms(1)], of h] oo(1,2) by (simp add: ff ll)
  have e: "map_of (pfEntry fs') (Clean path) = Some (inode_of fs' h)" "pfInodes fs' ! inode_of fs' h = pid_text pid"
    "map_of (pfLocks fs') (inode_of fs' h) = Some h"
    using oo(4) h by (simp_all add: ff ll) (simp add: write_inode_def)
  have r: "removeOwnPIDFile (\<lambda>_. None) (held_file path pid h) fs' = fs'\<lparr>pfEntry := AList.delete (Clean path) (pfEntry fs')\<rparr>"
    using e pid_text_read [OF assms(2,3)] by (simp add: removeOwnPIDFile_def held_file_def read_pid_data_def)
  have "err = None" "pf' = Some (pf\<lparr>pidFile := None\<rparr>)" "pidFile pf = Some h"
    "fs'' = drop_lock h (fs'\<lparr>pfEntry := AList.delete (Clean path) (pfEntry fs')\<rparr>)"
    using assms(5) r by (simp_all add: ff(2) ClosePIDFile_def held_file_def releaseFile_def)
  then show ?thesis using e ReadPID_text [OF e(1,2) assms(2,3)] by (simp add: drop_lock_def ClosePIDFile_def)
qed

section \<open>Sample runs\<close>

abbreviation (input) no_faults :: pidfaults where "no_faults \<equiv> \<lambda>_. None"

definition run_pid :: string where
  "run_pid = ''/run/irodsfsd.pid''"

definition run_files :: files where
  "run_files =
     \<lparr>fsNodes = [(''/'', \<lparr>fiIsDir = True, fiPerm = 493, fiData = []\<rparr>),
                 (''/run'', \<lparr>fiIsDir = True, fiPerm = 493, fiData = []\<rparr>)],
      fsUmask = 18, fsFault = \<lambda>_ _. None\<rparr>"

lemma run_pid_simps [simp]:
  "TrimSpace run_pid \<noteq> []" "os_MkdirAll (Dir run_pid) 488 run_files = (None, run_files)"
proof -
  show "TrimSpace run_pid \<noteq> []" by (simp add: run_pid_def TrimSpace_def is_space_def)
  have "path_chain (Dir run_pid) = [''/'', ''/run'']" unfolding run_pid_def by code_simp
  then show "os_MkdirAll (Dir run_pid) 488 run_files = (None, run_files)"
    by (simp add: os_MkdirAll_def run_files_def)
qed

lemma at_simps [simp]: "pwFs (at fs p pc w) = fs" "pwProcs (at fs p pc w) = (pwProcs w)(p := pc)"
  by (simp_all add: at_def)

abbreviation (input) world :: "pidfs \<Rightarrow> (int \<Rightarrow> pidpc option) \<Rightarrow> pidworld" where
  "world fs pr \<equiv> \<lparr>pwFs = fs, pwProcs = pr\<rparr>"

lemma at_world [simp]: "at fs p pc (world fs0 pr) = world fs (pr(p := pc))"
  by (simp add: at_def)

lemma pid_run_lock:
  assumes "pr p = Some (PidOpened h)" and "lockPIDFile no_faults path h fs = (None, fs1)"
  shows "(pid_step path)\<^sup>*\<^sup>* (world fs pr) (world (write_inode h (pid_text p) fs1) (pr(p := Some (PidHeld h))))"
proof -
  have "pid_step path (world fs pr) (at fs1 p (Some (PidLocked h)) (world fs pr))"
    by (rule pid_step.locked [of _ _ _ no_faults]) (use assms in simp_all)
  moreover have "pid_step path (world fs1 (pr(p := Some (PidLocked h))))
      (at (write_inode h (pid_text p) fs1) p (Some (PidHeld h)) (world fs1 (pr(p := Some (PidLocked h)))))"
    by (rule pid_step.filled [of _ _ _ no_faults]) (simp_all add: fillPIDFile_def pid_text_def)
  ultimately show ?thesis by simp
qed

lemma pid_run_open:
  assumes "pr p = None" "1 < p" "p < 2 ^ 63" and "openPIDFile no_faults path fs = (Inr h, fs1)"
  shows "(pid_step path)\<^sup>*\<^sup>* (world fs pr) (world fs1 (pr(p := Some (PidOpened h))))"
  using pid_step.opened [of "world fs pr" p no_faults path h fs1] assms by auto

text \<open>The files after one daemon has acquired the process ID file.\<close>

definition first_fs :: pidfs where
  "first_fs =
     \<lparr>pfFiles = run_files, pfEntry = [(Clean run_pid, 0)], pfInodes = [pid_text 100], pfOpen = [0], pfLocks = [(0, 0)]\<rparr>"

abbreviation (input) first_procs :: "int \<Rightarrow> pidpc option" where
  "first_procs \<equiv> (\<lambda>_. None)(100 := Some (PidHeld 0))"

lemmas pid_run_simps = openPIDFile_def lockPIDFile_def write_inode_def

lemma first_daemon: "(pid_step run_pid)\<^sup>*\<^sup>* (pid_start run_files) (world first_fs first_procs)"
proof -
  let ?fs = "\<lparr>pfFiles = run_files, pfEntry = [(Clean run_pid, 0)], pfInodes = [[]], pfOpen = [0], pfLocks = []\<rparr>"
  have "(pid_step run_pid)\<^sup>*\<^sup>* (pid_start run_files) (world ?fs ((\<lambda>_. None)(100 := Some (PidOpened 0))))"
    unfolding pid_start_def by (rule pid_run_open) (simp_all add: pid_run_simps)
  moreover have "lockPIDFile no_faults run_pid 0 ?fs = (None, ?fs\<lparr>pfLocks := [(0, 0)]\<rparr>)" by (simp add: pid_run_simps)
  from pid_run_lock [OF _ this, of "(\<lambda>_. None)(100 := Some (PidOpened 0))" 100]
  have "(pid_step run_pid)\<^sup>*\<^sup>* (world ?fs ((\<lambda>_. None)(100 := Some (PidOpened 0)))) (world first_fs first_procs)"
    by (simp add: first_fs_def write_inode_def)
  ultimately show ?thesis by (rule rtranclp_trans)
qed

theorem second_daemon_refused_witness:
  "\<exists>w err fs. (pid_step run_pid)\<^sup>*\<^sup>* (pid_start run_files) w \<and> pwProcs w 100 = Some (PidHeld 0) \<and>
     AcquirePIDFile no_faults 200 run_pid (pwFs w) = (Inl err, fs) \<and> ReadPID no_faults run_pid fs = Inr 100"
proof -
  have "pwProcs (world first_fs first_procs) 100 = Some (PidHeld 0)"
    "map_of (pfEntry (pwFs (world first_fs first_procs))) (Clean run_pid) = Some (inode_of (pwFs (world first_fs first_procs)) 0)"
    by (simp_all add: first_fs_def)
  from second_daemon_refused [OF first_daemon this, of no_faults 200] first_daemon this(1) show ?thesis by blast
qed

text \<open>
  C40: Two daemons can hold the process ID file at the same time. One that opens the file before
  another removes it and locks it after that one has released it holds the unlinked file; the next
  daemon creates a new file under the same name and locks that.
\<close>

theorem two_daemons_reachable:
  "\<exists>w h k. (pid_step run_pid)\<^sup>*\<^sup>* (pid_start run_files) w \<and>
     pwProcs w 200 = Some (PidHeld h) \<and> pwProcs w 300 = Some (PidHeld k)"
proof -
  let ?step = "(pid_step run_pid)\<^sup>*\<^sup>*"
  let ?fs1 = "first_fs\<lparr>pfOpen := [0, 0]\<rparr>" and ?pr1 = "first_procs(200 := Some (PidOpened 1))"
  let ?fs2 = "?fs1\<lparr>pfEntry := []\<rparr>" and ?pr2 = "?pr1(100 := Some (PidClosing 0))"
  let ?fs3 = "?fs2\<lparr>pfLocks := []\<rparr>" and ?pr3 = "?pr2(100 := None)"
  let ?fs4 = "?fs3\<lparr>pfLocks := [(0, 1)], pfInodes := [pid_text 200]\<rparr>" and ?pr4 = "?pr3(200 := Some (PidHeld 1))"
  let ?fs5 = "?fs4\<lparr>pfEntry := [(Clean run_pid, 1)], pfInodes := [pid_text 200, []], pfOpen := [0, 0, 1]\<rparr>"
  let ?pr5 = "?pr4(300 := Some (PidOpened 2))"
  have s1: "?step (pid_start run_files) (world first_fs first_procs)" by (rule first_daemon)
  have s2: "?step (world first_fs first_procs) (world ?fs1 ?pr1)"
    by (rule pid_run_open) (simp_all add: pid_run_simps first_fs_def)
  have s3: "?step (world ?fs1 ?pr1) (world ?fs2 ?pr2)"
    using pid_step.removed [of "world ?fs1 ?pr1" 100 0 run_pid no_faults] pid_text_read [of 100]
    by (auto simp: removeOwnPIDFile_def held_file_def read_pid_data_def first_fs_def)
  have s4: "?step (world ?fs2 ?pr2) (world ?fs3 ?pr3)"
    using pid_step.released [of "world ?fs2 ?pr2" 100 0 run_pid no_faults]
    by (auto simp: releaseFile_def drop_lock_def first_fs_def)
  have s5: "?step (world ?fs3 ?pr3) (world ?fs4 ?pr4)"
    using pid_run_lock [of ?pr3 200 1 run_pid ?fs3 "?fs3\<lparr>pfLocks := [(0, 1)]\<rparr>"]
    by (simp add: pid_run_simps first_fs_def)
  have s6: "?step (world ?fs4 ?pr4) (world ?fs5 ?pr5)"
    by (rule pid_run_open) (simp_all add: pid_run_simps first_fs_def)
  have s7: "?step (world ?fs5 ?pr5) (world (write_inode 2 (pid_text 300) (?fs5\<lparr>pfLocks := [(0, 1), (1, 2)]\<rparr>))
      (?pr5(300 := Some (PidHeld 2))))"
    by (rule pid_run_lock) (simp_all add: pid_run_simps first_fs_def)
  from rtranclp_trans [OF s1 rtranclp_trans [OF s2 rtranclp_trans [OF s3 rtranclp_trans [OF s4
    rtranclp_trans [OF s5 rtranclp_trans [OF s6 s7]]]]]]
  show ?thesis by (intro exI conjI) (assumption, simp_all)
qed

theorem pid_file_roundtrip_witness:
  "ReadPID no_faults run_pid first_fs = Inr 100 \<and>
   (\<exists>pf fs. ClosePIDFile no_faults (Some (held_file run_pid 100 0)) first_fs = (None, pf, fs) \<and>
      map_of (pfEntry fs) (Clean run_pid) = None)"
proof -
  let ?fs = "pwFs (pid_start run_files)"
  have wf: "pidfs_wf ?fs" by (simp add: pid_start_def pidfs_wf_def)
  have a: "AcquirePIDFile no_faults 100 run_pid ?fs = (Inr (held_file run_pid 100 0), first_fs)"
    by (simp add: AcquirePIDFile_def fillPIDFile_def pid_run_simps pid_start_def first_fs_def held_file_def pid_text_def)
  obtain err pf fs where c: "ClosePIDFile no_faults (Some (held_file run_pid 100 0)) first_fs = (err, pf, fs)"
    by (cases "ClosePIDFile no_faults (Some (held_file run_pid 100 0)) first_fs") auto
  from pid_file_roundtrip [OF wf _ _ a c] c show ?thesis by auto
qed

end
