(* ===== verification/Daemon.thy ===== *)
theory Daemon
  imports Service PidFile
begin

text \<open>
  The commands of the daemon (\<open>cmd/main.go\<close>, \<open>cmd/commons/args.go\<close>): \<open>start\<close> in the parent and in
  the daemonized child, \<open>run\<close> in the foreground, \<open>stop\<close> and \<open>status\<close>, composed of the
  configuration, the process ID file and the service. The parsing of the command line by cobra
  and the forking by go-daemonizer are parameters: the values of the flags, the outcome of
  \<open>Daemonize\<close> and what \<open>WaitForParent\<close> delivers. What the commands do to the outside is a trace.
  The lemmas show that the child answers its parent exactly once and leaves nothing behind, and
  that \<open>stop\<close> returns.
\<close>

section \<open>Flags and configuration\<close>

record flags =
  flagDebug :: bool
  flagConfig :: string

text \<open>
  What surrounds a daemon process: parsers, the database library, the environments of the
  manager's operations, the listeners, its process ID and working directory. \<open>suRequests\<close> is what
  requests and the periodic reconciliation do to the manager while the daemon waits for a signal.
\<close>

record ('db, 'txn) surroundings =
  suParsers :: parsers
  suParse :: "string \<Rightarrow> URL result"
  suPathOrder :: "string range_order"
  suDurationOrder :: "duration range_order"
  suBadger :: "('db, 'txn) badger"
  suCodec :: codec
  suOpen :: "string \<Rightarrow> string \<Rightarrow> 'db result"
  suEnv :: env
  suEvs :: "string \<Rightarrow> env"
  suAevs :: "nat \<Rightarrow> env"
  suListen :: "string \<Rightarrow> string \<Rightarrow> gerror option"
  suRestListen :: "string \<Rightarrow> gerror option"
  suRequests :: "'db manager \<Rightarrow> 'db manager"
  suPid :: int
  suPidFaults :: pidfaults
  suGetwd :: "string result"
  suSignal :: signal_fn

definition ProcessCommonFlags :: "('db, 'txn) surroundings \<Rightarrow> flags \<Rightarrow> files \<Rightarrow> Config result" where
  "ProcessCommonFlags su fl fs =
     (case (if length (flagConfig fl) > 0
            then NewConfigFromFile (suParsers su) fs (Some NewDefaultConfig) (flagConfig fl)
            else Inr NewDefaultConfig) of
        Inl err \<Rightarrow> Inl err
      | Inr config \<Rightarrow>
          (let config = (if flagDebug fl then config\<lparr>Debug := True\<rparr> else config)
           in case Validate (suParse su) (suPathOrder su) (suDurationOrder su) config of
                Some err \<Rightarrow> Inl err
              | None \<Rightarrow> Inr config))"

definition configureForegroundPaths :: "string result \<Rightarrow> Config \<Rightarrow> Config result" where
  "configureForegroundPaths getwd config =
     (case getwd of
        Inl err \<Rightarrow> Inl (errors_Wrap err ''get current working directory'')
      | Inr workingDirectory \<Rightarrow>
          (let oldDefaultMountRootPath = PathJoin [DataRootPath config, MountRootPathDefault];
               config = config\<lparr>DataRootPath := workingDirectory\<rparr>
           in if MountRootPath config = [] \<or> Clean (MountRootPath config) = Clean oldDefaultMountRootPath
              then Inr (config\<lparr>MountRootPath := PathJoin [workingDirectory, MountRootPathDefault]\<rparr>)
              else Inr config))"

section \<open>Running the service\<close>

datatype daemon_effect =
    SetLogOutput log_writer
  | CloseLogWriter log_writer
  | ReportReady "gerror option"
  | AwaitSignal
  | Daemonize Config
  | Print message

text \<open>
  \<open>run\<close> returns the error, and the service as it is then: the running one when there is no error,
  and one that has been released when its start failed.
\<close>

definition run :: "('db, 'txn) surroundings \<Rightarrow> Config \<Rightarrow> files \<Rightarrow> gerror option \<times> 'db Service option \<times> files" where
  "run su config fs =
     (case MakeWorkDirs (suParse su) config fs of
        (Some err, fs) \<Rightarrow> (Some (errors_Wrap err ''make work dir error''), None, fs)
      | (None, fs) \<Rightarrow>
     (case Validate (suParse su) (suPathOrder su) (suDurationOrder su) config of
        Some err \<Rightarrow> (Some (errors_Wrap err ''invalid configuration''), None, fs)
      | None \<Rightarrow>
     (case NewService (suBadger su) (suCodec su) (suOpen su) (suEnv su) (suEvs su) (Some config) of
        (Inl err, _) \<Rightarrow> (Some (errors_Wrap err ''failed to create the service''), None, fs)
      | (Inr svc, _) \<Rightarrow>
     (case StartService (suParse su) (suListen su) (suRestListen su) svc of
        (Some err, svc) \<Rightarrow>
          (Some (errors_Wrap err ''failed to start the service''),
           Some (ReleaseService (NewMountRepository (suBadger su) (suCodec su)) (suAevs su) (suParse su) svc), fs)
      | (None, svc) \<Rightarrow> (None, Some svc, fs)))))"

definition shutdownFn :: "('db, 'txn) surroundings \<Rightarrow> 'db Service \<Rightarrow> 'db Service" where
  "shutdownFn su svc =
     (let rp = NewMountRepository (suBadger su) (suCodec su)
      in ReleaseService rp (suAevs su) (suParse su) (StopService rp (suAevs su) (suParse su) svc))"

text \<open>A \<open>nil\<close> function \<open>ready\<close> is \<open>False\<close>.\<close>

definition reportReady :: "bool \<Rightarrow> gerror option \<Rightarrow> daemon_effect list" where
  "reportReady ready err = (if ready then [ReportReady err] else [])"

definition runUntilShutdown ::
    "('db, 'txn) surroundings \<Rightarrow> Config \<Rightarrow> bool \<Rightarrow> files \<Rightarrow>
     gerror option \<times> daemon_effect list \<times> 'db Service option \<times> files" where
  "runUntilShutdown su config ready fs =
     (case run su config fs of
        (Some runErr, svc, fs) \<Rightarrow> (Some runErr, reportReady ready (Some runErr), svc, fs)
      | (None, svc, fs) \<Rightarrow>
          (None, reportReady ready None @ [AwaitSignal],
           map_option (\<lambda>svc. shutdownFn su (svc\<lparr>svcManager := map_option (suRequests su) (svcManager svc)\<rparr>)) svc, fs))"

definition runForeground ::
    "('db, 'txn) surroundings \<Rightarrow> Config \<Rightarrow> files \<Rightarrow> gerror option \<times> daemon_effect list \<times> 'db Service option \<times> files" where
  "runForeground su config fs = runUntilShutdown su config False fs"

definition runDaemonManaged ::
    "('db, 'txn) surroundings \<Rightarrow> Config \<Rightarrow> bool \<Rightarrow> pidfs \<Rightarrow>
     gerror option \<times> daemon_effect list \<times> 'db Service option \<times> pidfs" where
  "runDaemonManaged su config ready pfs =
     (case AcquirePIDFile (suPidFaults su) (suPid su) (Config.PIDFile config) pfs of
        (Inl err, pfs) \<Rightarrow> (Some err, reportReady ready (Some err), None, pfs)
      | (Inr pf, pfs) \<Rightarrow>
          (case runUntilShutdown su config ready (pfFiles pfs) of
             (err, tr, svc, fs) \<Rightarrow>
               (case ClosePIDFile (suPidFaults su) (Some pf) (pfs\<lparr>pfFiles := fs\<rparr>) of
                  (_, _, pfs) \<Rightarrow> (err, tr, svc, pfs))))"

section \<open>The commands\<close>

text \<open>The child: \<open>received\<close> is what \<open>WaitForParent\<close> delivers.\<close>

definition runDaemonChild ::
    "('db, 'txn) surroundings \<Rightarrow> Config result \<Rightarrow> pidfs \<Rightarrow>
     gerror option \<times> daemon_effect list \<times> 'db Service option \<times> pidfs" where
  "runDaemonChild su received pfs =
     (case received of
        Inl err \<Rightarrow> (Some (errors_Wrap err ''receive daemon startup parameters''), [], None, pfs)
      | Inr config \<Rightarrow>
          (case GetLogWriter config False (pfFiles pfs) of
             (Inl err, fs) \<Rightarrow>
               (Some (errors_Wrap err ''get daemon log writer''), [ReportReady (Some err)], None, pfs\<lparr>pfFiles := fs\<rparr>)
           | (Inr logWriter, fs) \<Rightarrow>
               (case runDaemonManaged su config True (pfs\<lparr>pfFiles := fs\<rparr>) of
                  (err, tr, svc, pfs) \<Rightarrow>
                    (err, [SetLogOutput logWriter] @ tr @ [CloseLogWriter logWriter], svc, pfs))))"

text \<open>The parent: \<open>daemonized\<close> is the outcome of \<open>Daemonize\<close>, the error the child reported included.\<close>

definition startParent ::
    "('db, 'txn) surroundings \<Rightarrow> flags \<Rightarrow> (Config \<Rightarrow> gerror option) \<Rightarrow> files \<Rightarrow> gerror option \<times> daemon_effect list \<times> files" where
  "startParent su fl daemonized fs =
     (case ProcessCommonFlags su fl fs of
        Inl err \<Rightarrow> (Some (errors_Wrap err ''process command flags''), [], fs)
      | Inr config \<Rightarrow>
          (case GetLogWriter config True fs of
             (Inl err, fs) \<Rightarrow> (Some (errors_Wrap err ''get parent log writer''), [], fs)
           | (Inr logWriter, fs) \<Rightarrow>
               (case daemonized config of
                  Some err \<Rightarrow>
                    (Some (errors_Wrap err ''daemonize irodsfsd''),
                     [SetLogOutput logWriter, Daemonize config, CloseLogWriter logWriter], fs)
                | None \<Rightarrow>
                    (None,
                     [SetLogOutput logWriter, Daemonize config,
                      Print [Lit ''irodsfsd started (pid file: '', Lit (Config.PIDFile config), Lit '')''],
                      CloseLogWriter logWriter], fs))))"

definition startCommand ::
    "('db, 'txn) surroundings \<Rightarrow> bool \<Rightarrow> Config result \<Rightarrow> flags \<Rightarrow> (Config \<Rightarrow> gerror option) \<Rightarrow> pidfs \<Rightarrow>
     gerror option \<times> daemon_effect list \<times> 'db Service option \<times> pidfs" where
  "startCommand su isDaemon received fl daemonized pfs =
     (if isDaemon then runDaemonChild su received pfs
      else case startParent su fl daemonized (pfFiles pfs) of
             (err, tr, fs) \<Rightarrow> (err, tr, None, pfs\<lparr>pfFiles := fs\<rparr>))"

definition runCommand ::
    "('db, 'txn) surroundings \<Rightarrow> flags \<Rightarrow> files \<Rightarrow> gerror option \<times> daemon_effect list \<times> 'db Service option \<times> files" where
  "runCommand su fl fs =
     (case ProcessCommonFlags su fl fs of
        Inl err \<Rightarrow> (Some (errors_Wrap err ''process command flags''), [], None, fs)
      | Inr config \<Rightarrow>
     (case configureForegroundPaths (suGetwd su) config of
        Inl err \<Rightarrow> (Some (errors_Wrap err ''configure foreground paths''), [], None, fs)
      | Inr config \<Rightarrow>
     (case GetLogWriter config True fs of
        (Inl err, fs) \<Rightarrow> (Some (errors_Wrap err ''get foreground log writer''), [], None, fs)
      | (Inr logWriter, fs) \<Rightarrow>
          (case runForeground su config fs of
             (err, tr, svc, fs) \<Rightarrow> (err, [SetLogOutput logWriter] @ tr @ [CloseLogWriter logWriter], svc, fs)))))"

definition stalePID :: "int \<Rightarrow> gerror" where
  "stalePID pid = errors_Errorf [Lit ''irodsfsd is not running (stale pid '', Lit (show_int pid), Lit '')'']"

definition statusCommand :: "('db, 'txn) surroundings \<Rightarrow> flags \<Rightarrow> pidfs \<Rightarrow> message result" where
  "statusCommand su fl pfs =
     (case ProcessCommonFlags su fl (pfFiles pfs) of
        Inl err \<Rightarrow> Inl (errors_Wrap err ''process command flags'')
      | Inr config \<Rightarrow>
     (case ReadPID (suPidFaults su) (Config.PIDFile config) pfs of
        Inl err \<Rightarrow> Inl err
      | Inr pid \<Rightarrow>
          (if \<not> ProcessRunning (suSignal su) pid then Inl (stalePID pid)
           else Inr [Lit ''irodsfsd is running (pid '', Lit (show_int pid), Lit '')''])))"

section \<open>Stopping\<close>

text \<open>
  One round of the loop that waits for the process to end: whether it is still running, the time,
  and the error of the command's context if it has been cancelled by the next tick. \<open>None\<close>: still
  waiting after the given rounds.
\<close>

record poll =
  pollRunning :: bool
  pollNow :: duration
  pollDone :: "gerror option"

definition defaultStopWait :: duration where "defaultStopWait = 10 * second"

definition stopTick :: duration where "stopTick = 100000000"

fun stopLoop :: "duration \<Rightarrow> int \<Rightarrow> poll list \<Rightarrow> gerror option option" where
  "stopLoop deadline pid [] = None"
| "stopLoop deadline pid (p # ps) =
     (if \<not> pollRunning p then Some None
      else if pollNow p > deadline
      then Some (Some (errors_Errorf
             [Lit ''timed out waiting for irodsfsd process '', Lit (show_int pid), Lit '' to stop'']))
      else case pollDone p of
             Some err \<Rightarrow> Some (Some err)
           | None \<Rightarrow> stopLoop deadline pid ps)"

definition SIGTERM :: int where "SIGTERM = 15"

definition stopCommand ::
    "('db, 'txn) surroundings \<Rightarrow> flags \<Rightarrow> duration \<Rightarrow> duration \<Rightarrow> poll list \<Rightarrow> pidfs \<Rightarrow> message result option" where
  "stopCommand su fl wait asked polls pfs =
     (case ProcessCommonFlags su fl (pfFiles pfs) of
        Inl err \<Rightarrow> Some (Inl (errors_Wrap err ''process command flags''))
      | Inr config \<Rightarrow>
     (case ReadPID (suPidFaults su) (Config.PIDFile config) pfs of
        Inl err \<Rightarrow> Some (Inl err)
      | Inr pid \<Rightarrow>
     (if \<not> ProcessRunning (suSignal su) pid then Some (Inl (stalePID pid))
      else
     (case SignalPID (suSignal su) pid SIGTERM of
        Some err \<Rightarrow> Some (Inl err)
      | None \<Rightarrow>
          (case stopLoop (asked + wait) pid polls of
             None \<Rightarrow> None
           | Some (Some err) \<Rightarrow> Some (Inl err)
           | Some None \<Rightarrow> Some (Inr [Lit ''irodsfsd stopped (pid '', Lit (show_int pid), Lit '')'']))))))"

section \<open>The child and its parent\<close>

definition reports :: "daemon_effect list \<Rightarrow> gerror option list" where
  "reports tr = List.map_filter (\<lambda>e. case e of ReportReady err \<Rightarrow> Some err | _ \<Rightarrow> None) tr"

lemma reports_simps [simp]:
  "reports [] = []" "reports (ReportReady err # tr) = err # reports tr" "reports (AwaitSignal # tr) = reports tr"
  "reports (SetLogOutput l # tr) = reports tr" "reports (CloseLogWriter l # tr) = reports tr"
  "reports (tr @ tr') = reports tr @ reports tr'"
  by (simp_all add: reports_def List.map_filter_def)

lemma runUntilShutdown_reports:
  assumes "runUntilShutdown su config True fs = (r, tr, svc, fs')"
  shows "reports tr = [r] \<and> (AwaitSignal \<in> set tr \<longleftrightarrow> r = None)"
  using assms by (auto simp: runUntilShutdown_def reportReady_def split: prod.splits option.splits)

lemma runDaemonManaged_reports:
  assumes "runDaemonManaged su config True pfs = (r, tr, svc, pfs')"
  shows "reports tr = [r] \<and> (AwaitSignal \<in> set tr \<longleftrightarrow> r = None)"
  using assms runUntilShutdown_reports
  by (fastforce simp: runDaemonManaged_def reportReady_def split: prod.splits sum.splits)

text \<open>
  C17: A daemonized child answers its parent exactly once. Once it has its configuration, it reports
  one outcome whatever fails (the log, the process ID file, the directories, the configuration,
  the database, the startup reconciliation, a listener): success exactly when it goes on to wait
  for a signal, and then its own exit is a success too.
\<close>

theorem ready_reported_once:
  assumes "runDaemonChild su (Inr config) pfs = (r, tr, svc, pfs')"
  shows "\<exists>err. reports tr = [err] \<and> (err = None \<longleftrightarrow> AwaitSignal \<in> set tr) \<and> (err = None \<longleftrightarrow> r = None)"
  using assms runDaemonManaged_reports
  by (fastforce simp: runDaemonChild_def split: prod.splits sum.splits)

section \<open>What a daemon leaves behind\<close>

lemma svc_inv_requests:
  "svc_inv parse svc \<Longrightarrow> svc_inv parse (svc\<lparr>svcManager := map_option f (svcManager svc)\<rparr>)"
  by (simp add: svc_inv_def)

lemma NewService_ok:
  assumes "NewService bd cd op ev evs (Some config) = (Inr svc, c)"
  shows "svc_inv parse svc" and "svcDataStore svc" and "svcManager svc \<noteq> None" and "\<not> svcStarted svc"
  using assms
  by (auto simp: NewService_def newService_def svc_inv_def orderly_def alive_def Let_def
      split: option.splits sum.splits prod.splits)

lemma StopService_started:
  assumes "svcStarted svc" and "svcManager svc \<noteq> None"
  shows "SvcManagerShutdown \<in> set (svcTrace (StopService rp aevs parse svc))"
    and "svcDataStore (StopService rp aevs parse svc) = svcDataStore svc"
proof -
  obtain es where "StopService rp aevs parse svc = svc_emit es
      (svc_emit ((if svcRestListener svc \<noteq> None then [SvcDrainREST] else []) @ [SvcDrain] @
               (if svcCancel svc then [SvcCancelLoop] else []) @
               (if svcReconcileDone svc then [SvcAwaitLoop] else []) @
               (if svcManager svc \<noteq> None then [SvcManagerShutdown] else []))
      (svc\<lparr>svcStarted := False, svcManager := map_option (Shutdown rp aevs) (svcManager svc)\<rparr>))"
    unfolding StopService_eq [OF assms(1)] by (rule removeUnixSocket_emit)
  then show "SvcManagerShutdown \<in> set (svcTrace (StopService rp aevs parse svc))"
    "svcDataStore (StopService rp aevs parse svc) = svcDataStore svc"
    using assms(2) by (simp_all del: not_None_eq)
qed

lemma ReleaseService_trace:
  obtains es where "svcTrace (ReleaseService rp aevs parse svc) =
    svcTrace (StopService rp aevs parse svc) @ es @ (if svcDataStore (StopService rp aevs parse svc) then [SvcCloseStore] else [])"
    "SvcCloseStore \<notin> set es"
proof -
  obtain es where "removeUnixSocket parse (StopService rp aevs parse svc) = svc_emit es (StopService rp aevs parse svc)"
    "es = [] \<or> (\<exists>e. es = [SvcRemoveSocket e])" by (rule removeUnixSocket_emit)
  then show thesis by (intro that [of es]) (auto simp: ReleaseService_def)
qed

lemma run_started:
  assumes "run su config fs = (None, svc, fs')"
  obtains s where "svc = Some s" "svc_inv (suParse su) s" "svcStarted s" "svcManager s \<noteq> None" "svcDataStore s"
proof -
  from assms obtain s0 c s where n: "NewService (suBadger su) (suCodec su) (suOpen su) (suEnv su) (suEvs su) (Some config) = (Inr s0, c)"
    and st: "StartService (suParse su) (suListen su) (suRestListen su) s0 = (None, s)" and sv: "svc = Some s"
    by (auto simp: run_def split: prod.splits option.splits sum.splits)
  note ok = NewService_ok [OF n]
  have "svc_inv (suParse su) s" using svc_inv_start [OF ok(1), where parse = "suParse su" and listen = "suListen su" and restListen = "suRestListen su"] st by simp
  moreover have "svcStarted s \<and> svcManager s \<noteq> None \<and> svcDataStore s"
    using ok(4) by (cases rule: StartService_cases [of s0 "suParse su" "suListen su" "suRestListen su"])
      (use st ok(2,3) in auto)
  ultimately show thesis using that sv by blast
qed

text \<open>
  C16: A daemon that has run ends cleanly. After the signal the mounts are shut down and then the
  database is closed, as the last thing done to the service; by then the servers have drained, the
  periodic loop has ended and no listener is open, whatever requests came in meanwhile.
\<close>

theorem daemon_ends_cleanly:
  assumes "runUntilShutdown su config ready fs = (None, tr, svc, fs')"
  shows "\<exists>s. svc = Some s \<and> orderly (svcTrace s) \<and> alive (svcTrace s) = (False, False, False) \<and>
    SvcManagerShutdown \<in> set (svcTrace s) \<and> last (svcTrace s) = SvcCloseStore \<and> \<not> svcStarted s"
proof -
  let ?rp = "NewMountRepository (suBadger su) (suCodec su)"
  from assms obtain s0 where r: "run su config fs = (None, s0, fs')"
    and sv: "svc = map_option (\<lambda>svc. shutdownFn su (svc\<lparr>svcManager := map_option (suRequests su) (svcManager svc)\<rparr>)) s0"
    by (auto simp: runUntilShutdown_def split: prod.splits option.splits)
  from run_started [OF r] obtain s1 where s1: "s0 = Some s1" "svc_inv (suParse su) s1" "svcStarted s1"
    "svcManager s1 \<noteq> None" "svcDataStore s1" .
  define s2 where "s2 = s1\<lparr>svcManager := map_option (suRequests su) (svcManager s1)\<rparr>"
  define s3 where "s3 = StopService ?rp (suAevs su) (suParse su) s2"
  define s4 where "s4 = ReleaseService ?rp (suAevs su) (suParse su) s3"
  have inv: "svc_inv (suParse su) s4"
    unfolding s4_def s3_def s2_def using s1(2) by (intro svc_inv_release svc_inv_stop svc_inv_requests)
  have two: "svcStarted s2" "svcManager s2 \<noteq> None" "svcDataStore s2" using s1 by (simp_all add: s2_def)
  have stopped: "\<not> svcStarted s3" by (simp add: s3_def stop_stopped)
  then have again: "StopService ?rp (suAevs su) (suParse su) s3 = s3" by (simp add: StopService_def)
  have three: "SvcManagerShutdown \<in> set (svcTrace s3)" "svcDataStore s3"
    using StopService_started [OF two(1,2), of ?rp "suAevs su" "suParse su"] two(3) by (simp_all add: s3_def)
  obtain es where t: "svcTrace s4 = svcTrace s3 @ es @ [SvcCloseStore]"
    using ReleaseService_trace [of ?rp "suAevs su" "suParse su" s3] three(2) again by (auto simp: s4_def)
  have n: "\<not> svcStarted s4" using stopped again by (simp add: s4_def ReleaseService_def Let_def)
  have "svc = Some s4" by (simp add: sv s1(1) shutdownFn_def Let_def s4_def s3_def s2_def)
  moreover have "orderly (svcTrace s4) \<and> alive (svcTrace s4) = (False, False, False)"
    using inv n by (simp add: svc_inv_def)
  ultimately show ?thesis using t three(1) n by simp
qed

section \<open>Stopping ends\<close>

lemma stopLoop_late:
  assumes "p \<in> set polls" and "deadline < pollNow p"
  shows "stopLoop deadline pid polls \<noteq> None"
  using assms by (induction polls) (auto split: option.splits)

lemma stopLoop_stopped: "stopLoop deadline pid polls = Some None \<Longrightarrow> \<exists>p\<in>set polls. \<not> pollRunning p"
  by (induction polls) (auto split: if_splits option.splits)

text \<open>
  \<open>stop\<close> returns within the time it is told to wait, give or take two ticks: when the process is
  looked at every tenth of a second, the loop has ended by the time the looks cover more than the
  wait, whether or not the process ever ends; and it reports that the daemon stopped only when it
  saw the process gone.
\<close>

theorem stop_returns:
  assumes "\<And>k. k < length polls \<Longrightarrow> asked + stopTick * int k \<le> pollNow (polls ! k)"
    and "polls \<noteq> []" and "wait < stopTick * (int (length polls) - 1)"
  shows "\<exists>r. stopLoop (asked + wait) pid polls = Some r \<and> (r = None \<longrightarrow> (\<exists>p\<in>set polls. \<not> pollRunning p))"
proof -
  let ?k = "length polls - 1"
  have "asked + stopTick * int ?k \<le> pollNow (polls ! ?k)" using assms(2) by (intro assms(1)) simp
  moreover have "asked + wait < asked + stopTick * int ?k" using assms(2,3) by (simp add: of_nat_diff Suc_leI)
  ultimately have "stopLoop (asked + wait) pid polls \<noteq> None"
    using assms(2) by (intro stopLoop_late [of "polls ! ?k"]) simp_all
  then show ?thesis using stopLoop_stopped by fastforce
qed

section \<open>A sample daemon\<close>

definition sample_su :: "(memdb, memdb) surroundings" where
  "sample_su =
     \<lparr>suParsers = \<lparr>json_Valid = (\<lambda>_. False), yaml_Node = (\<lambda>_. Inl (errors_New ''not yaml'')),
                   json_Unmarshal = (\<lambda>_ c. Inr c), yaml_Unmarshal = (\<lambda>_ c. Inr c)\<rparr>,
      suParse = sample_parse, suPathOrder = rev, suDurationOrder = rev,
      suBadger = mem_badger, suCodec = table_codec sample_infos, suOpen = (\<lambda>dir key. Inr []),
      suEnv = exec_env, suEvs = (\<lambda>i. quiet_env), suAevs = (\<lambda>a. quiet_env),
      suListen = (\<lambda>s e. None), suRestListen = (\<lambda>e. None), suRequests = (\<lambda>m. m),
      suPid = 100, suPidFaults = (\<lambda>_. None), suGetwd = Inr ''/root'', suSignal = (\<lambda>pid s. None)\<rparr>"

lemma sample_endpoint: "GetServiceEndpoint sample_config = ''unix:///var/lib/irodsfsd/comm.sock''"
  by (simp add: sample_config_def GetServiceEndpoint_def NewDefaultConfig_def DataRootPathDefault_def)

lemma sample_run: "\<exists>svc fs. run sample_su sample_config empty_files = (None, Some svc, fs)"
proof -
  obtain fs where w: "MakeWorkDirs sample_parse sample_config empty_files = (None, fs)"
    using sample_work_dirs by (cases "MakeWorkDirs sample_parse sample_config empty_files") auto
  obtain svc where n: "NewService mem_badger (table_codec sample_infos) (\<lambda>dir key. Inr []) exec_env (\<lambda>i. quiet_env)
      (Some sample_config) = (Inr svc, False)" using sample_new_service by blast
  have ok: "\<not> svcStarted svc" "svcConfig svc = sample_config"
    using n by (auto simp: NewService_def newService_def Let_def split: option.splits sum.splits prod.splits)
  have m: "ManagementServiceEndpoint sample_config = ''http://0.0.0.0:13021''"
    by (simp add: sample_config_def NewDefaultConfig_def ManagementServiceEndpointDefault_def)
  obtain svc' where "StartService sample_parse (\<lambda>s e. None) (\<lambda>e. None) svc = (None, svc')"
    using ok by (simp add: StartService_def sample_endpoint sample_service_endpoint m sample_management_endpoint Let_def
        split del: if_split)
  then show ?thesis by (simp add: run_def sample_su_def w sample_validate n)
qed

theorem daemon_ends_cleanly_witness:
  "\<exists>tr s fs. runUntilShutdown sample_su sample_config True empty_files = (None, tr, Some s, fs) \<and>
     alive (svcTrace s) = (False, False, False) \<and> last (svcTrace s) = SvcCloseStore"
proof -
  obtain svc fs where "run sample_su sample_config empty_files = (None, Some svc, fs)" using sample_run by blast
  then obtain tr s where "runUntilShutdown sample_su sample_config True empty_files = (None, tr, s, fs)"
    by (auto simp: runUntilShutdown_def)
  with daemon_ends_cleanly [OF this] show ?thesis by auto
qed

text \<open>The same daemon in the background, on files that hold the process ID file of another.\<close>

theorem ready_reported_once_witness:
  "\<exists>r tr svc pfs err. runDaemonChild sample_su (Inr sample_config)
       (pwFs (world first_fs first_procs)) = (r, tr, svc, pfs) \<and> reports tr = [err]"
proof -
  obtain r tr svc pfs where "runDaemonChild sample_su (Inr sample_config) (pwFs (world first_fs first_procs)) = (r, tr, svc, pfs)"
    by (cases "runDaemonChild sample_su (Inr sample_config) (pwFs (world first_fs first_procs))") auto
  with ready_reported_once [OF this] show ?thesis by blast
qed

definition sample_polls :: "poll list" where
  "sample_polls = [\<lparr>pollRunning = True, pollNow = 0, pollDone = None\<rparr>,
                   \<lparr>pollRunning = True, pollNow = 100000000, pollDone = None\<rparr>,
                   \<lparr>pollRunning = True, pollNow = 200000000, pollDone = None\<rparr>]"

theorem stop_returns_witness:
  "\<exists>err. stopLoop 150000000 100 sample_polls = Some (Some err)"
proof -
  have "0 + stopTick * int k \<le> pollNow (sample_polls ! k)" if "k < length sample_polls" for k
    using that by (auto simp: sample_polls_def stopTick_def less_Suc_eq nth_Cons')
  moreover have "sample_polls \<noteq> []" "150000000 < stopTick * (int (length sample_polls) - 1)"
    by (simp_all add: sample_polls_def stopTick_def)
  ultimately have "\<exists>r. stopLoop (0 + 150000000) 100 sample_polls = Some r \<and> (r = None \<longrightarrow> (\<exists>p\<in>set sample_polls. \<not> pollRunning p))"
    by (rule stop_returns)
  then show ?thesis by (auto simp: sample_polls_def)
qed

end
