(* ===== verification/Spec2Isabelle.thy ===== *)
theory Spec2Isabelle
  imports MountWait StoreTheorems Endpoint MountInfoFile LogStore ConfigFile Rest Service Client
    Durations Collector Daemon
begin

text \<open>
  A verification of irodsfsd, a Linux daemon that manages iRODS mounts (irodsfs, DAVFS and NFS
  clients) on behalf of callers of a gRPC and a REST interface.

  \<^bold>\<open>The program.\<close> The command line (\<open>cmd/\<close>) reads a configuration, takes the process ID file and
  runs a service (\<open>service/service.go\<close>). The service opens the database of desired mounts
  (\<open>service/store/\<close>), creates the mount manager on it (\<open>service/mount_manager.go\<close>) and serves the
  manager's operations over gRPC (\<open>service/server.go\<close>) and REST (\<open>service/rest.go\<close>). The manager
  starts one client process per mount (\<open>service/mount_command.go\<close>, \<open>service/mount_config.go\<close>),
  writes its output to a log (\<open>service/logstore/\<close>), supervises it with goroutines and timers,
  publishes events, and records every intent in the database before acting on it. A Go client
  (\<open>client/\<close>) wraps the gRPC interface and reconnects by itself.

  \<^bold>\<open>Conventions.\<close> A struct is a \<open>record\<close>, an enumeration a \<open>datatype\<close>. A Go \<open>error\<close> is a
  \<open>gerror\<close> (theory \<open>Prelude\<close>): the sentinel \<open>errors.Is\<close> sees, and the text as a list of fragments.
  A function that returns a value or an error returns a sum, \<open>Inl\<close> the error; one that only returns
  an error returns an option. Durations and times are nanoseconds as \<open>int\<close>. Go maps that are ranged
  over are association lists with distinct keys; where Go's order is unspecified the order is a
  parameter. What the program asks of its surroundings in the course of an operation (time,
  randomness, outcomes of processes and of file operations) is the record \<open>env\<close>, and effects on the
  surroundings are a trace in the state. Library code the repository does not contain (badger,
  protojson, encoding/json, yaml, net/url, the irodsfs packages, gRPC) is a parameter; what is
  relied on is stated as the assumptions of a locale or of the theorem.

  \<^bold>\<open>Theories.\<close>
  \<^item> \<open>Prelude\<close>, \<open>GoStrings\<close>, \<open>GoPath\<close>, \<open>FileSystem\<close>: errors, fact collections, the parts of packages
    strings, strconv, path/filepath and os that the program uses, with their lemmas.
  \<^item> \<open>ApiTypes\<close>: the messages of \<open>service/api/daemon.proto\<close>. \<open>Redaction\<close>: what is hidden from callers.
  \<^item> \<open>Config\<close>, \<open>ConfigFile\<close>: \<open>commons/config.go\<close>, \<open>constant.go\<close> and \<open>data_format.go\<close>: data, defaults,
    derived paths; loading, validation, recovery key, work directories, log writers.
    \<open>Endpoint\<close>: \<open>commons/endpoint.go\<close>.
  \<^item> \<open>Store\<close>, \<open>StoreLaws\<close>, \<open>StoreTheorems\<close>: the repository of mount records over badger transactions.
    Locale \<open>badger_laws\<close> states what badger documents, \<open>codec_laws\<close> what the codec does, \<open>repository\<close>
    the contract the manager relies on; a sublocale proves that the operations of
    \<open>mount_repository.go\<close> keep the contract, and the interpretation \<open>mem\<close> discharges the laws for an
    in-memory database.
  \<^item> \<open>RetryPolicy\<close>, \<open>MountPolicy\<close>, \<open>EventBus\<close>, \<open>MountCommand\<close>, \<open>IrodsfsConfig\<close>, \<open>MountInfoFile\<close>: the
    parts of \<open>mount_manager.go\<close>, \<open>mount_command.go\<close> and \<open>mount_config.go\<close> with little state: delays,
    admission of requests and paths, event subscriptions, client commands and configurations, and
    the mount table.
  \<^item> \<open>MountManager\<close>, \<open>Supervisor\<close>: the state of the manager (a heap of entries, the registry, the
    repository, timers, tasks, metrics) and every operation on it: mounting, starting a client,
    waiting for a process, for a mount and for a timeout, retries, unmounting, reconciliation,
    shutdown, queries. A goroutine is a task and a timer a timer of the state; \<open>manager.mutex\<close>
    makes each critical section one step.
  \<^item> \<open>ManagerFacts\<close>, \<open>Invariants\<close>, \<open>Requests\<close>, \<open>Outcomes\<close>, \<open>Lifecycle\<close>, \<open>Guarantees\<close>, \<open>Scenarios\<close>: what
    the operations keep, the state machine \<open>step\<close> with its reachable states \<open>reach\<close>, invariants by
    rule induction, outcomes of requests, and sample runs in which all hypotheses hold.
    \<open>MountWait\<close>: the goroutine that waits for a mount, as one loop.
  \<^item> \<open>LogStore\<close>: \<open>service/logstore/\<close>. \<open>Server\<close>: \<open>service/server.go\<close>; the manager as the server sees it is
    the locale \<open>mount_operations\<close>, which a sublocale proves for the manager on a lawful store.
    \<open>Rest\<close>: \<open>service/rest.go\<close>. \<open>Service\<close>: \<open>service/service.go\<close>. \<open>Client\<close>: \<open>client/client.go\<close> with its
    goroutines as a step relation over multisets of pending work. \<open>PidFile\<close>: \<open>cmd/commons/pid_file.go\<close>
    over inodes and locks, with interleaved processes. \<open>Collector\<close>: \<open>service/metrics.go\<close>.
    \<open>Durations\<close>: \<open>commons/duration.go\<close> with the parsing and printing of package time.
    \<open>Daemon\<close>: \<open>cmd/main.go\<close> and \<open>cmd/commons/args.go\<close>, the composition of configuration, process ID file
    and service into the commands.

  \<^bold>\<open>What is shown.\<close>
  \<^item> Registry and lifecycle: mount IDs and paths are unique in every reachable state, exit channels
    are closed once and nobody waits for one that stays open; intents and tombstones are stored
    before the work; data directories are deleted only after an unmount; a shutdown keeps mounts;
    the manager of a new service is in a reachable state.
  \<^item> Persistence: the repository refines a map, opening keeps or upgrades the schema; records,
    process IDs and durations read back.
  \<^item> Confinement and secrecy: admitted mount paths lie below allowed roots and apart from reserved
    paths; secrets appear neither on command lines nor in messages, events or logs.
  \<^item> Interfaces: listing is exact, events arrive in order, streams leave no subscription behind,
    refusals over REST have the right status and no effect, log queries are bounded, a log reads
    back as the lines the client printed, the gauge of mounts agrees with the registry.
  \<^item> Liveness and bounds: symbolic links are resolved in finitely many steps, retry delays are
    bounded, the wait for a mount ends and ends decided, the client's reconnection flag never stays set, requests are repeated at most once,
    stopping returns in time, a child answers its parent exactly once.
  \<^item> Configuration and processes: validation is exact, listeners balance and a shutdown runs in
    order, a daemon ends with its database closed and nothing listening, a second daemon is refused
    while the process ID file is in place.
  \<^item> Errors the code has: a subscription can block for ever, a failed tombstone strands a mount, a
    failed creation keeps its registration, a failed start skips the shutdown of restored mounts,
    two daemons can run at once, an empty duration in YAML panics, a mount point with an unescaped
    white-space character is not recognised.

  \<^bold>\<open>Bounds and fuel.\<close> No definition uses fuel: every loop of the program is structural recursion or
  has a termination proof (path resolution by the length of the path, line splitting by the length
  of the buffer, durations by the length of the text). Loops that wait for the world (event
  streams, supervision, periodic reconciliation, background reconnection, stopping) take the list of what the world delivers, and end with
  it in a state that says so. The reconnection sequence numbers are 64-bit words and wrap around;
  ports are checked against 16 bits; numbers in queries and process IDs against their widths.
  Floating-point delays are reals with the rounding of the conversion to nanoseconds.

  \<^bold>\<open>Not modelled.\<close> The generated gRPC and protobuf code, the parsing of arguments by cobra, the
  forking by go-daemonizer, the Prometheus exposition format, the static web page, rotation of log
  files by lumberjack, stack traces in log lines (\<open>commons/stacktrace.go\<close>) and version information
  (\<open>commons/version.go\<close>): they are libraries, generated, or text without effect on the state. Log messages of the daemon
  itself are left out of the operations; the audit log is modelled.
\<close>

end
